(* ===== verification/IoMon_Prelude.thy ===== *)
theory IoMon_Prelude
  imports Main "HOL-Library.Word"
begin

unbundle bit_operations_syntax

text \<open>
  Shared vocabulary of the io-mon development: the machine types of the Nim and C sources
  (bytes, 16/32/64-bit unsigned integers), byte strings, results with an error branch, and the
  generic lemmas on lists and words that the component theories use.

  A Nim \<open>string\<close> and a \<open>seq[byte]\<close> are both byte sequences; the sources convert between
  them with bulk copies.  The model keeps the two types apart (\<^typ>\<open>string\<close> and
  \<open>bytes\<close>) and writes the conversions out as the sources do.
\<close>

type_synonym u8 = "8 word"
type_synonym u16 = "16 word"
type_synonym u32 = "32 word"
type_synonym u64 = "64 word"
type_synonym bytes = "8 word list"

text \<open>
  Collections: \<open>codec_simps\<close> holds the equations that unfold encoders and decoders into list
  operations, \<open>len_simps\<close> the lengths of everything an encoder emits.
\<close>

named_theorems codec_simps \<open>encoder and decoder equations\<close>
named_theorems len_simps \<open>lengths of encoded values\<close>
named_theorems os_simps \<open>equations of the operating system model\<close>

section \<open>Results with an error branch\<close>

text \<open>Sequencing of fallible steps: the first error wins, as a raised exception does.\<close>

fun res_bind :: "'e + 'a \<Rightarrow> ('a \<Rightarrow> 'e + 'b) \<Rightarrow> 'e + 'b" where
  "res_bind (Inl e) f = Inl e"
| "res_bind (Inr x) f = f x"

lemma res_bind_eq_Inr [simp]:
  "res_bind m f = Inr y \<longleftrightarrow> (\<exists>x. m = Inr x \<and> f x = Inr y)"
  by (cases m) auto

lemma res_bind_eq_Inl:
  "res_bind m f = Inl e \<longleftrightarrow> m = Inl e \<or> (\<exists>x. m = Inr x \<and> f x = Inl e)"
  by (cases m) auto

lemma res_bind_assoc: "res_bind (res_bind m f) g = res_bind m (\<lambda>x. res_bind (f x) g)"
  by (cases m) auto

lemma res_bind_cong [fundef_cong]:
  "m = m' \<Longrightarrow> (\<And>x. m' = Inr x \<Longrightarrow> f x = g x) \<Longrightarrow> res_bind m f = res_bind m' g"
  by (cases m') auto

section \<open>Bytes and characters\<close>

definition byte_of_char :: "char \<Rightarrow> u8" where
  "byte_of_char c = word_of_nat (of_char c)"

definition char_of_byte :: "u8 \<Rightarrow> char" where
  "char_of_byte b = char_of (unat b)"

lemma char_of_byte_of_char [simp]: "char_of_byte (byte_of_char c) = c"
proof -
  have "of_char c < (256::nat)" by (rule nat_of_char_less_256)
  then have "unat (word_of_nat (of_char c) :: u8) = of_char c"
    by (simp add: unat_of_nat)
  then show ?thesis by (simp add: char_of_byte_def byte_of_char_def)
qed

lemma byte_of_char_of_byte [simp]: "byte_of_char (char_of_byte b) = b"
proof -
  have "unat b < 256" using unsigned_less [of b, where ?'a = nat] by simp
  then show ?thesis by (simp add: char_of_byte_def byte_of_char_def)
qed

lemma byte_of_char_inject [simp]: "byte_of_char c = byte_of_char d \<longleftrightarrow> c = d"
  by (metis char_of_byte_of_char)

lemma char_of_byte_comp [simp]:
  "char_of_byte \<circ> byte_of_char = id" "byte_of_char \<circ> char_of_byte = id"
  by (simp_all add: fun_eq_iff)

section \<open>Slices\<close>

text \<open>
  \<open>slice xs a n\<close> is the view \<^verbatim>\<open>xs.toOpenArray(a, a + n - 1)\<close>: \<open>n\<close> elements from \<open>a\<close>.
\<close>

definition slice :: "'a list \<Rightarrow> nat \<Rightarrow> nat \<Rightarrow> 'a list" where
  "slice xs a n = take n (drop a xs)"

lemma length_slice [simp]: "a + n \<le> length xs \<Longrightarrow> length (slice xs a n) = n"
  by (simp add: slice_def)

lemma nth_slice: "a + n \<le> length xs \<Longrightarrow> i < n \<Longrightarrow> slice xs a n ! i = xs ! (a + i)"
  by (simp add: slice_def)

lemma slice_append_mid [simp]:
  "slice (xs @ ys @ zs) (length xs) (length ys) = ys"
  by (simp add: slice_def)

lemma slice_append_midI:
  "a = length xs \<Longrightarrow> n = length ys \<Longrightarrow> slice (xs @ ys @ zs) a n = ys"
  by simp

lemma slice_0_take: "slice xs 0 n = take n xs"
  by (simp add: slice_def)

lemma slice_append_shift: "slice (xs @ ys) (length xs + a) n = slice ys a n"
  by (simp add: slice_def)

lemma nth_append_shift: "(xs @ ys) ! (length xs + i) = ys ! i"
  by simp

lemma take_append_exact: "n = length xs \<Longrightarrow> take n (xs @ ys) = xs"
  by simp

lemma list_eq_take_drop:
  "a \<le> length xs \<Longrightarrow> \<exists>p s. xs = p @ s \<and> length p = a"
  by (intro exI [of _ "take a xs"] exI [of _ "drop a xs"]) simp

section \<open>Little-endian bytes of a word\<close>

text \<open>
  The sources encode a field byte by byte with shifts and masks and read it back with shifts
  and ors.  Bit by bit the two are inverse, for any width that is a whole number of bytes.
\<close>

lemma byte_mask_ucast: "(ucast (x AND 0xff) :: u8) = ucast (x :: 'a::len word)"
proof (rule bit_word_eqI)
  fix n assume n: "n < LENGTH(8)"
  then have "n < 8" by simp
  then have "n = 0 \<or> n = 1 \<or> n = 2 \<or> n = 3 \<or> n = 4 \<or> n = 5 \<or> n = 6 \<or> n = 7" by arith
  moreover have "bit (0xff :: 'a word) n \<longleftrightarrow> n < 8 \<and> n < LENGTH('a)"
  proof -
    have "(0xff :: 'a word) = mask 8" by (simp add: mask_eq_exp_minus_1)
    then show ?thesis by (simp only: bit_mask_iff) (auto simp: bit_simps min_def possible_bit_word)
  qed
  ultimately show "bit (ucast (x AND 0xff) :: u8) n = bit (ucast x :: u8) n"
    using \<open>n < 8\<close> by (auto simp: bit_simps dest: bit_imp_le_length)
qed

definition or_bytes :: "(nat \<Rightarrow> u8) \<Rightarrow> nat \<Rightarrow> 'a::len word" where
  "or_bytes b k = fold (\<lambda>i r. r OR push_bit (8 * i) (ucast (b i))) [0..<k] 0"

lemma or_bytes_Suc [simp]:
  "or_bytes b (Suc k) = or_bytes b k OR push_bit (8 * k) (ucast (b k))"
  by (simp add: or_bytes_def)

lemma or_bytes_0 [simp]: "or_bytes b 0 = 0"
  by (simp add: or_bytes_def)

lemma bit_or_bytes:
  "bit (or_bytes b k :: 'a::len word) n \<longleftrightarrow>
     n < LENGTH('a) \<and> n div 8 < k \<and> bit (b (n div 8)) (n mod 8)"
proof (induction k)
  case 0
  show ?case by simp
next
  case (Suc k)
  have step: "bit (push_bit (8 * k) (ucast (b k) :: 'a word)) n \<longleftrightarrow>
      n < LENGTH('a) \<and> n div 8 = k \<and> bit (b k) (n mod 8)"
  proof (cases "n div 8 = k")
    case True
    then have "8 * k \<le> n" "n - 8 * k = n mod 8" by (auto simp: minus_mult_div_eq_mod)
    then show ?thesis using True by (auto simp: bit_simps dest: bit_imp_le_length)
  next
    case False
    have "\<not> bit (b k) (n - 8 * k)" if "8 * k \<le> n"
    proof
      assume "bit (b k) (n - 8 * k)"
      then have "n - 8 * k < 8" using bit_imp_le_length by fastforce
      with that False show False by auto
    qed
    with False show ?thesis by (auto simp: bit_simps)
  qed
  show ?case unfolding or_bytes_Suc bit_or_iff Suc.IH step by (auto simp: less_Suc_eq)
qed

lemma or_bytes_of_word:
  assumes "8 * k = LENGTH('a::len)"
    and "\<And>i. i < k \<Longrightarrow> b i = ucast (drop_bit (8 * i) w)"
  shows "or_bytes b k = (w :: 'a word)"
proof (rule bit_word_eqI)
  fix n assume n: "n < LENGTH('a)"
  then have k: "n div 8 < k" using assms(1) by (simp add: div_less_iff_less_mult mult.commute)
  have "bit (b (n div 8)) (n mod 8) = bit w (8 * (n div 8) + n mod 8)"
    using assms(2) [OF k] by (simp add: bit_simps)
  then show "bit (or_bytes b k :: 'a word) n = bit w n"
    using n k by (simp add: bit_or_bytes)
qed

lemma or_bytes_cong:
  "(\<And>i. i < k \<Longrightarrow> b i = c i) \<Longrightarrow> or_bytes b k = or_bytes c k"
  by (induction k) auto

lemma byte_of_or_bytes:
  assumes "i < k" "8 * k \<le> LENGTH('a::len)"
  shows "ucast (drop_bit (8 * i) (or_bytes b k :: 'a word)) = b i"
proof (rule bit_word_eqI)
  fix n assume n: "n < LENGTH(8)"
  then have n8: "n < 8" by simp
  then have "(8 * i + n) div 8 = i" "(8 * i + n) mod 8 = n" "8 * i + n < LENGTH('a)"
    using assms by auto
  then show "bit (ucast (drop_bit (8 * i) (or_bytes b k :: 'a word)) :: u8) n = bit (b i) n"
    using n8 assms by (simp add: bit_simps bit_or_bytes)
qed

section \<open>Enumerations\<close>

text \<open>Position of a value in a list of pairwise distinct values, and back.\<close>

lemma distinct_map_nth_eq:
  "distinct xs \<Longrightarrow> i < length xs \<Longrightarrow> j < length xs \<Longrightarrow> xs ! i = xs ! j \<Longrightarrow> i = j"
  by (simp add: nth_eq_iff_index_eq)

section \<open>Decimal text\<close>

fun nat_text :: "nat \<Rightarrow> string" where
  "nat_text n = (if n < 10 then [char_of (48 + n)] else nat_text (n div 10) @ [char_of (48 + n mod 10)])"

declare nat_text.simps [simp del]

definition int_text :: "int \<Rightarrow> string" where
  "int_text i = (if i < 0 then CHR ''-'' # nat_text (nat (- i)) else nat_text (nat i))"

lemma nat_text_nonempty [simp]: "nat_text n \<noteq> []"
  by (subst nat_text.simps) simp

end
