(* ===== verification/Codec.thy ===== *)
theory Codec
  imports IoMon_Prelude
begin

text \<open>
  The little-endian byte codec of \<^verbatim>\<open>src/io_mon/codec.nim\<close>: the cursor codec that appends
  to and walks a byte sequence, the fixed-offset accessors used for the frame header, and the
  length-prefixed strings.  An encoder takes the output sequence and returns it extended; a
  decoder takes the bytes and a position and returns the value with the new position, or the
  raised \<open>EnvelopeError\<close>.

  Positions and lengths are natural numbers: a Nim \<open>int\<close> on the 64-bit hosts io-mon supports
  has 63 value bits, and a sequence in memory is never that long.
\<close>

unbundle bit_operations_syntax

section \<open>Errors\<close>

datatype EnvelopeErrorKind = eeMalformed | eeUnknownMagic | eeUnsupportedVersion | eeUnknownType

record EnvelopeError =
  ee_kind :: EnvelopeErrorKind
  ee_msg :: string

type_synonym 'a envelope = "EnvelopeError + 'a"

definition raiseEnvelopeError :: "EnvelopeErrorKind \<Rightarrow> string \<Rightarrow> 'a envelope" where
  "raiseEnvelopeError k m = Inl \<lparr>ee_kind = k, ee_msg = m\<rparr>"

lemma raiseEnvelopeError_neq [simp]:
  "raiseEnvelopeError k m \<noteq> Inr x" "Inr x \<noteq> raiseEnvelopeError k m"
  by (simp_all add: raiseEnvelopeError_def)

section \<open>The cursor codec\<close>

definition writeU16Le :: "bytes \<Rightarrow> u16 \<Rightarrow> bytes" where
  "writeU16Le outp value =
     outp @ [ucast (value AND 0xff), ucast (drop_bit 8 value AND 0xff)]"

definition writeU32Le :: "bytes \<Rightarrow> u32 \<Rightarrow> bytes" where
  "writeU32Le outp value =
     fold (\<lambda>shift acc. acc @ [ucast (drop_bit shift value AND 0xff)]) [0, 8, 16, 24] outp"

definition writeU64Le :: "bytes \<Rightarrow> u64 \<Rightarrow> bytes" where
  "writeU64Le outp value =
     fold (\<lambda>shift acc. acc @ [ucast (drop_bit shift value AND 0xff)])
       [0, 8, 16, 24, 32, 40, 48, 56] outp"

definition readU16Le :: "bytes \<Rightarrow> nat \<Rightarrow> (u16 \<times> nat) envelope" where
  "readU16Le bs pos =
     (if pos + 2 > length bs then raiseEnvelopeError eeMalformed ''truncated uint16''
      else Inr (ucast (bs ! pos) OR push_bit 8 (ucast (bs ! (pos + 1))), pos + 2))"

definition readU32Le :: "bytes \<Rightarrow> nat \<Rightarrow> (u32 \<times> nat) envelope" where
  "readU32Le bs pos =
     (if pos + 4 > length bs then raiseEnvelopeError eeMalformed ''truncated uint32''
      else Inr (fold (\<lambda>i r. r OR push_bit (8 * i) (ucast (bs ! (pos + i)))) [0..<4] 0, pos + 4))"

definition readU64Le :: "bytes \<Rightarrow> nat \<Rightarrow> (u64 \<times> nat) envelope" where
  "readU64Le bs pos =
     (if pos + 8 > length bs then raiseEnvelopeError eeMalformed ''truncated uint64''
      else Inr (fold (\<lambda>i r. r OR push_bit (8 * i) (ucast (bs ! (pos + i)))) [0..<8] 0, pos + 8))"

section \<open>Fixed-offset accessors\<close>

text \<open>
  On a little-endian host the source copies the scalar's bytes, on a big-endian host it stores
  and loads them by shifting; both are the same function, and the shifting branch is the one
  written out here.  The caller guarantees that the field lies inside the buffer.
\<close>

definition store_bytes :: "bytes \<Rightarrow> nat \<Rightarrow> nat \<Rightarrow> 'a::len word \<Rightarrow> bytes" where
  "store_bytes buf off n value =
     fold (\<lambda>i b. b[off + i := ucast (drop_bit (8 * i) value AND 0xff)]) [0..<n] buf"

definition load_bytes :: "bytes \<Rightarrow> nat \<Rightarrow> nat \<Rightarrow> 'a::len word" where
  "load_bytes bs off n =
     fold (\<lambda>i r. r OR push_bit (8 * i) (ucast (bs ! (off + i)))) [0..<n] 0"

definition storeU16Le :: "bytes \<Rightarrow> nat \<Rightarrow> u16 \<Rightarrow> bytes" where
  "storeU16Le buf off value = store_bytes buf off 2 value"

definition storeU32Le :: "bytes \<Rightarrow> nat \<Rightarrow> u32 \<Rightarrow> bytes" where
  "storeU32Le buf off value = store_bytes buf off 4 value"

definition storeU64Le :: "bytes \<Rightarrow> nat \<Rightarrow> u64 \<Rightarrow> bytes" where
  "storeU64Le buf off value = store_bytes buf off 8 value"

definition loadU16Le :: "bytes \<Rightarrow> nat \<Rightarrow> u16" where
  "loadU16Le bs off = load_bytes bs off 2"

definition loadU32Le :: "bytes \<Rightarrow> nat \<Rightarrow> u32" where
  "loadU32Le bs off = load_bytes bs off 4"

definition loadU64Le :: "bytes \<Rightarrow> nat \<Rightarrow> u64" where
  "loadU64Le bs off = load_bytes bs off 8"

section \<open>Strings\<close>

text \<open>
  \<open>writeString\<close> writes a 32-bit length and the bytes; the conversion of the length to 32 bits
  wraps, as a Nim conversion to an unsigned type does.
\<close>

definition toBytes :: "string \<Rightarrow> bytes" where
  "toBytes text = map byte_of_char text"

definition fromBytes :: "bytes \<Rightarrow> string" where
  "fromBytes bs = map char_of_byte bs"

definition writeString :: "bytes \<Rightarrow> string \<Rightarrow> bytes" where
  "writeString outp value =
     (let outp = writeU32Le outp (word_of_nat (length value))
      in if 0 < length value then outp @ toBytes value else outp)"

definition readString :: "bytes \<Rightarrow> nat \<Rightarrow> (string \<times> nat) envelope" where
  "readString bs pos =
     res_bind (readU32Le bs pos) (\<lambda>(len, pos).
       let n = unat len
       in if pos + n > length bs then raiseEnvelopeError eeMalformed ''truncated string''
          else Inr (if 0 < n then fromBytes (slice bs pos n) else [], pos + n))"

definition hexDigit :: "nat \<Rightarrow> char" where
  "hexDigit n = ''0123456789abcdef'' ! n"

definition hexBytes :: "bytes \<Rightarrow> string" where
  "hexBytes bs = fold (\<lambda>b acc. acc @ [hexDigit (unat b div 16), hexDigit (unat b mod 16)]) bs []"

section \<open>The bytes of a word\<close>

text \<open>All the encoders emit \<open>le_bytes\<close>, all the decoders compute \<open>or_bytes\<close>.\<close>

definition le_bytes :: "nat \<Rightarrow> 'a::len word \<Rightarrow> bytes" where
  "le_bytes n w = map (\<lambda>i. ucast (drop_bit (8 * i) w)) [0..<n]"

lemma length_le_bytes [simp, len_simps]: "length (le_bytes n w) = n"
  by (simp add: le_bytes_def)

lemma nth_le_bytes [simp]: "i < n \<Longrightarrow> le_bytes n w ! i = ucast (drop_bit (8 * i) w)"
  by (simp add: le_bytes_def)

lemma writeU16Le_eq [codec_simps]: "writeU16Le outp v = outp @ le_bytes 2 v"
  by (simp add: writeU16Le_def le_bytes_def byte_mask_ucast upt_rec)

lemma writeU32Le_eq [codec_simps]: "writeU32Le outp v = outp @ le_bytes 4 v"
  by (simp add: writeU32Le_def le_bytes_def byte_mask_ucast upt_rec)

lemma writeU64Le_eq [codec_simps]: "writeU64Le outp v = outp @ le_bytes 8 v"
  by (simp add: writeU64Le_def le_bytes_def byte_mask_ucast upt_rec)

lemma load_bytes_eq: "load_bytes bs off n = or_bytes (\<lambda>i. bs ! (off + i)) n"
  by (simp add: load_bytes_def or_bytes_def)

lemma readU16Le_eq [codec_simps]:
  "readU16Le bs pos =
     (if pos + 2 > length bs then raiseEnvelopeError eeMalformed ''truncated uint16''
      else Inr (load_bytes bs pos 2, pos + 2))"
  by (simp add: readU16Le_def load_bytes_def numeral_2_eq_2)

lemma readU32Le_eq [codec_simps]:
  "readU32Le bs pos =
     (if pos + 4 > length bs then raiseEnvelopeError eeMalformed ''truncated uint32''
      else Inr (load_bytes bs pos 4, pos + 4))"
  by (simp add: readU32Le_def load_bytes_def)

lemma readU64Le_eq [codec_simps]:
  "readU64Le bs pos =
     (if pos + 8 > length bs then raiseEnvelopeError eeMalformed ''truncated uint64''
      else Inr (load_bytes bs pos 8, pos + 8))"
  by (simp add: readU64Le_def load_bytes_def)

lemma load_le_bytes:
  fixes w :: "'a::len word"
  assumes "8 * n = LENGTH('a)" "slice bs off n = le_bytes n w" "off + n \<le> length bs"
  shows "load_bytes bs off n = w"
proof -
  have "bs ! (off + i) = ucast (drop_bit (8 * i) w)" if "i < n" for i
    using nth_slice [OF assms(3) that] assms(2) that by simp
  then show ?thesis unfolding load_bytes_eq by (intro or_bytes_of_word assms(1))
qed

lemma load_bytes_append_mid:
  fixes w :: "'a::len word"
  assumes "8 * n = LENGTH('a)" "off = length xs"
  shows "load_bytes (xs @ le_bytes n w @ ys) off n = w"
  by (rule load_le_bytes) (use assms in \<open>simp_all add: slice_append_midI\<close>)

lemma le_bytes_load:
  assumes "8 * n \<le> LENGTH('a::len)" "off + n \<le> length bs"
  shows "le_bytes n (load_bytes bs off n :: 'a word) = slice bs off n"
proof (rule nth_equalityI)
  fix i assume "i < length (le_bytes n (load_bytes bs off n :: 'a word))"
  then have i: "i < n" by simp
  then show "le_bytes n (load_bytes bs off n :: 'a word) ! i = slice bs off n ! i"
    using assms by (simp add: load_bytes_eq byte_of_or_bytes nth_slice)
qed (use assms in simp)

lemma le_bytes_inject:
  fixes v w :: "'a::len word"
  assumes "8 * n = LENGTH('a)" "le_bytes n v = le_bytes n w"
  shows "v = w"
proof -
  have "load_bytes (le_bytes n v) 0 n = v" "load_bytes (le_bytes n w) 0 n = w"
    using load_bytes_append_mid [OF assms(1), of 0 "[]" v "[]"]
      load_bytes_append_mid [OF assms(1), of 0 "[]" w "[]"] by simp_all
  with assms(2) show ?thesis by metis
qed

subsection \<open>Storing at an offset\<close>

lemma store_bytes_eq:
  assumes "off + n \<le> length buf"
  shows "store_bytes buf off n w = take off buf @ le_bytes n w @ drop (off + n) buf"
  using assms
proof (induction n)
  case 0
  then show ?case by (simp add: store_bytes_def le_bytes_def)
next
  case (Suc n)
  then have IH: "store_bytes buf off n w = take off buf @ le_bytes n w @ drop (off + n) buf" by simp
  have dr: "drop (off + n) buf = buf ! (off + n) # drop (Suc (off + n)) buf"
    using Suc.prems by (simp add: Cons_nth_drop_Suc)
  have "store_bytes buf off (Suc n) w
      = (store_bytes buf off n w)[off + n := ucast (drop_bit (8 * n) w)]"
    by (simp add: store_bytes_def byte_mask_ucast)
  also have "\<dots> = take off buf @ le_bytes n w @ ucast (drop_bit (8 * n) w) # drop (Suc (off + n)) buf"
    unfolding IH dr using Suc.prems by (simp add: list_update_append)
  also have "\<dots> = take off buf @ le_bytes (Suc n) w @ drop (off + Suc n) buf"
    by (simp add: le_bytes_def)
  finally show ?case .
qed

lemma length_store_bytes [simp, len_simps]: "length (store_bytes buf off n w) = length buf"
proof -
  have "length (fold (\<lambda>i b. b[off + i := f i]) is buf) = length buf" for f :: "nat \<Rightarrow> u8" and "is"
    by (induction "is" arbitrary: buf) simp_all
  then show ?thesis by (simp add: store_bytes_def)
qed

lemmas store_defs = storeU16Le_def storeU32Le_def storeU64Le_def
lemmas load_defs = loadU16Le_def loadU32Le_def loadU64Le_def

subsection \<open>Strings on the wire\<close>

lemma length_toBytes [simp, len_simps]: "length (toBytes s) = length s"
  by (simp add: toBytes_def)

lemma length_fromBytes [simp, len_simps]: "length (fromBytes s) = length s"
  by (simp add: fromBytes_def)

lemma fromBytes_toBytes [simp]: "fromBytes (toBytes s) = s"
  by (simp add: fromBytes_def toBytes_def)

lemma toBytes_fromBytes [simp]: "toBytes (fromBytes bs) = bs"
  by (simp add: fromBytes_def toBytes_def)

lemma toBytes_inject [simp]: "toBytes s = toBytes t \<longleftrightarrow> s = t"
  by (metis fromBytes_toBytes)

definition string_bytes :: "string \<Rightarrow> bytes" where
  "string_bytes s = le_bytes 4 (word_of_nat (length s) :: u32) @ toBytes s"

lemma length_string_bytes [simp, len_simps]: "length (string_bytes s) = 4 + length s"
  by (simp add: string_bytes_def)

lemma writeString_eq [codec_simps]: "writeString outp s = outp @ string_bytes s"
  by (simp add: writeString_def Let_def writeU32Le_eq string_bytes_def toBytes_def)

lemma unat_length_u32: "length s < 2 ^ 32 \<Longrightarrow> unat (word_of_nat (length s) :: u32) = length s"
  by (simp add: unat_of_nat)

text \<open>The position-passing decoder undoes the encoder wherever the encoding stands.\<close>

lemma readString_append_mid:
  assumes "pos = length xs" "length s < 2 ^ 32"
  shows "readString (xs @ string_bytes s @ ys) pos = Inr (s, pos + 4 + length s)"
proof -
  let ?bs = "xs @ string_bytes s @ ys"
  have len: "load_bytes ?bs pos 4 = (word_of_nat (length s) :: u32)"
    using load_bytes_append_mid [of 4 pos xs "word_of_nat (length s) :: u32" "toBytes s @ ys"] assms(1)
    by (simp add: string_bytes_def)
  have "slice ((xs @ le_bytes 4 (word_of_nat (length s) :: u32)) @ toBytes s @ ys)
      (pos + 4) (length s) = toBytes s"
    by (rule slice_append_midI) (simp_all add: assms(1))
  then have sl: "slice ?bs (pos + 4) (length s) = toBytes s"
    by (simp only: string_bytes_def append_assoc)
  have bd: "pos + 4 \<le> length ?bs" "pos + 4 + length s \<le> length ?bs"
    using assms(1) by simp_all
  have rd: "readU32Le ?bs pos = Inr (word_of_nat (length s), pos + 4)"
    using bd(1) by (simp only: readU32Le_eq len) auto
  show ?thesis
    unfolding readString_def rd using bd sl unat_length_u32 [OF assms(2)] by (auto simp: Let_def)
qed

text \<open>Whatever the decoder accepts is the encoding of what it returns: no slack.\<close>

lemma readString_inverse:
  assumes "readString bs pos = Inr (s, pos')"
  shows "pos \<le> pos' \<and> pos' \<le> length bs \<and> pos' = pos + 4 + length s \<and>
    length s < 2 ^ 32 \<and> slice bs pos (4 + length s) = string_bytes s"
proof -
  let ?n = "unat (load_bytes bs pos 4 :: u32)"
  from assms have b: "pos + 4 \<le> length bs" "pos + 4 + ?n \<le> length bs"
    and s: "s = (if 0 < ?n then fromBytes (slice bs (pos + 4) ?n) else [])" "pos' = pos + 4 + ?n"
    by (auto simp: readString_def readU32Le_eq Let_def split: if_splits)
  have sb: "s = fromBytes (slice bs (pos + 4) ?n)"
    using s(1) by (auto simp: slice_def fromBytes_def)
  then have ls: "length s = ?n" using b(2) by simp
  have "?n < 2 ^ 32" using unsigned_less [of "load_bytes bs pos 4 :: u32", where ?'a = nat] by simp
  moreover have "le_bytes 4 (load_bytes bs pos 4 :: u32) = slice bs pos 4"
    by (rule le_bytes_load) (use b in simp_all)
  then have "string_bytes s = slice bs pos 4 @ slice bs (pos + 4) ?n"
    unfolding string_bytes_def ls using sb by simp
  then have "string_bytes s = slice bs pos (4 + length s)"
    unfolding ls slice_def by (simp add: take_add add.commute)
  ultimately show ?thesis using s(2) b ls by simp
qed

end
