(* ===== verification/Nim_Strings.thy ===== *)
theory Nim_Strings
  imports IoMon_Prelude
begin

text \<open>
  The operations of Nim's \<open>strutils\<close> that the sources use on token lists: \<open>strip\<close>,
  \<open>split\<close> on one character, \<open>split\<close> with at most one split, \<open>join\<close>, prefix test.
  Splitting a joined list gives the list back when no token holds the separator, which is what
  the wire vocabularies rest on.
\<close>

definition isWhitespace :: "char \<Rightarrow> bool" where
  "isWhitespace c \<longleftrightarrow> c \<in> {CHR '' '', CHR 0x09, CHR 0x0B, CHR 0x0D, CHR 0x0A, CHR 0x0C}"

definition strip :: "string \<Rightarrow> string" where
  "strip s = rev (dropWhile isWhitespace (rev (dropWhile isWhitespace s)))"

fun split_char :: "char \<Rightarrow> string \<Rightarrow> string list" where
  "split_char c [] = [[]]"
| "split_char c (x # xs) =
     (if x = c then [] # split_char c xs
      else (case split_char c xs of [] \<Rightarrow> [[x]] | p # ps \<Rightarrow> (x # p) # ps))"

text \<open>\<^verbatim>\<open>s.split("=", 1)\<close>: one piece when the separator does not occur, else two.\<close>

definition split_once :: "char \<Rightarrow> string \<Rightarrow> string list" where
  "split_once c s =
     (if c \<in> set s then [takeWhile (\<lambda>x. x \<noteq> c) s, tl (dropWhile (\<lambda>x. x \<noteq> c) s)] else [s])"

fun join_with :: "char \<Rightarrow> string list \<Rightarrow> string" where
  "join_with c [] = []"
| "join_with c [t] = t"
| "join_with c (t # u # ts) = t @ c # join_with c (u # ts)"

definition is_token :: "char \<Rightarrow> string \<Rightarrow> bool" where
  "is_token c t \<longleftrightarrow> t \<noteq> [] \<and> c \<notin> set t \<and> strip t = t"

lemma split_char_nonempty [simp]: "split_char c s \<noteq> []"
  by (cases s) (auto split: list.splits)

lemma split_char_no_sep: "c \<notin> set t \<Longrightarrow> split_char c t = [t]"
  by (induction t) auto

lemma split_char_append_sep:
  "c \<notin> set t \<Longrightarrow> split_char c (t @ c # s) = t # split_char c s"
  by (induction t) auto

lemma split_join:
  assumes "ts \<noteq> []" "\<forall>t \<in> set ts. c \<notin> set t"
  shows "split_char c (join_with c ts) = ts"
  using assms by (induction c ts rule: join_with.induct) (auto simp: split_char_no_sep split_char_append_sep)

lemma join_eq_Nil_iff:
  "\<forall>t \<in> set ts. t \<noteq> [] \<Longrightarrow> join_with c ts = [] \<longleftrightarrow> ts = []"
  by (induction c ts rule: join_with.induct) auto

lemma strip_fixed_iff:
  "s \<noteq> [] \<Longrightarrow> strip s = s \<longleftrightarrow> \<not> isWhitespace (hd s) \<and> \<not> isWhitespace (last s)"
proof -
  assume s: "s \<noteq> []"
  have "strip s = s" if "\<not> isWhitespace (hd s)" "\<not> isWhitespace (last s)"
  proof -
    have "dropWhile isWhitespace s = s" using that(1) s by (cases s) auto
    moreover have "dropWhile isWhitespace (rev s) = rev s"
      using that(2) s by (cases s rule: rev_cases) auto
    ultimately show ?thesis by (simp add: strip_def)
  qed
  moreover have "\<not> isWhitespace (hd s) \<and> \<not> isWhitespace (last s)" if e: "strip s = s"
  proof -
    let ?d = "dropWhile isWhitespace s"
    have "length (strip s) \<le> length ?d"
      by (simp add: strip_def length_dropWhile_le [THEN order_trans])
    then have "length s \<le> length ?d" using e by simp
    then have d: "?d = s"
      by (metis length_dropWhile_le le_antisym append_eq_conv_conj dropWhile_eq_drop
          takeWhile_dropWhile_id length_append add_cancel_right_left length_0_conv append_Nil)
    then have "rev (dropWhile isWhitespace (rev s)) = s" using e by (simp add: strip_def)
    then have r: "dropWhile isWhitespace (rev s) = rev s" by (metis rev_rev_ident)
    have "\<not> isWhitespace (hd s)" using hd_dropWhile [of isWhitespace s] d s by auto
    moreover have "\<not> isWhitespace (hd (rev s))"
      using hd_dropWhile [of isWhitespace "rev s"] r s by auto
    ultimately show ?thesis using s by (simp add: hd_rev)
  qed
  ultimately show ?thesis by blast
qed

lemma hd_join: "ts \<noteq> [] \<Longrightarrow> hd ts \<noteq> [] \<Longrightarrow> hd (join_with c ts) = hd (hd ts)"
  by (induction c ts rule: join_with.induct) auto

lemma last_join:
  "ts \<noteq> [] \<Longrightarrow> \<forall>t \<in> set ts. t \<noteq> [] \<Longrightarrow> last (join_with c ts) = last (last ts)"
proof (induction c ts rule: join_with.induct)
  case (3 c t u ts)
  then have "join_with c (u # ts) \<noteq> []" by (simp add: join_eq_Nil_iff)
  with 3 show ?case by simp
qed auto

text \<open>A joined list of tokens survives \<open>strip\<close> and \<open>split\<close>, token by token.\<close>

lemma strip_join:
  assumes "ts \<noteq> []" "\<forall>t \<in> set ts. is_token c t"
  shows "strip (join_with c ts) = join_with c ts"
proof -
  have ne: "\<forall>t \<in> set ts. t \<noteq> []" using assms(2) by (auto simp: is_token_def)
  then have j: "join_with c ts \<noteq> []" using assms(1) by (simp add: join_eq_Nil_iff)
  have "hd ts \<in> set ts" "last ts \<in> set ts" using assms(1) by auto
  then have "is_token c (hd ts)" "is_token c (last ts)" using assms(2) by auto
  then show ?thesis
    unfolding strip_fixed_iff [OF j] using assms(1) ne
    by (auto simp: hd_join last_join is_token_def strip_fixed_iff)
qed

lemma tokens_of_join:
  assumes "ts \<noteq> []" "\<forall>t \<in> set ts. is_token c t"
  shows "map strip (split_char c (strip (join_with c ts))) = ts"
proof -
  have "split_char c (strip (join_with c ts)) = ts"
    using assms by (simp add: strip_join split_join is_token_def)
  then show ?thesis using assms(2) by (simp add: is_token_def map_idI)
qed

end
