(* ===== verification/Interfaces.thy ===== *)
theory Interfaces
  imports IoMon_Prelude
begin

text \<open>
  The contracts the components share, stated once.  \<open>coverage\<close> is the contract of a capture
  scope (an event interest, an evidence scope): a scope that covers another keeps every record the
  other keeps.  \<open>exact_codec\<close> is the contract of a byte codec whose decoder accepts exactly the
  encodings of well-formed values.
\<close>

locale coverage =
  fixes covers :: "'s \<Rightarrow> 's \<Rightarrow> bool"
    and keeps :: "'s \<Rightarrow> 'r \<Rightarrow> bool"
  assumes covers_keeps: "covers s t \<Longrightarrow> keeps t r \<Longrightarrow> keeps s r"
    and covers_trans: "covers s t \<Longrightarrow> covers t u \<Longrightarrow> covers s u"
begin

text \<open>A capture under a covering scope, narrowed afterwards, is the narrow capture.\<close>

lemma narrow_capture:
  assumes "covers s t"
  shows "filter (keeps t) (filter (keeps s) rs) = filter (keeps t) rs"
  using covers_keeps [OF assms] by (auto simp: filter_filter intro: filter_cong)

lemma narrow_chain:
  assumes "covers s t" "covers t u"
  shows "filter (keeps u) (filter (keeps t) (filter (keeps s) rs)) = filter (keeps u) (filter (keeps s) rs)"
    and "filter (keeps u) (filter (keeps s) rs) = filter (keeps u) rs"
  by (simp_all only: narrow_capture [OF assms(2)] narrow_capture [OF covers_trans [OF assms]])

end

locale exact_codec =
  fixes enc :: "'a \<Rightarrow> bytes"
    and dec :: "bytes \<Rightarrow> 'e + 'a"
    and wf :: "'a \<Rightarrow> bool"
  assumes dec_enc: "wf x \<Longrightarrow> dec (enc x) = Inr x"
    and dec_sound: "dec p = Inr x \<Longrightarrow> wf x \<and> enc x = p"
begin

lemma dec_iff: "dec p = Inr x \<longleftrightarrow> wf x \<and> p = enc x"
  by (metis dec_enc dec_sound)

lemma enc_inject: "wf x \<Longrightarrow> wf y \<Longrightarrow> enc x = enc y \<longleftrightarrow> x = y"
  by (metis dec_enc sum.inject(2))

lemma dec_inject: "dec p = Inr x \<Longrightarrow> dec q = Inr x \<Longrightarrow> p = q"
  using dec_sound by blast

lemma dec_rejects: "(\<And>x. wf x \<Longrightarrow> p \<noteq> enc x) \<Longrightarrow> \<exists>e. dec p = Inl e"
  by (cases "dec p") (auto dest: dec_sound)

end

end
