(* ===== verification/Types.thy ===== *)
theory Types
  imports Nim_Strings Interfaces
begin

text \<open>
  The data model of \<^verbatim>\<open>src/io_mon/types.nim\<close>: the record kinds and records a monitor emits,
  the depfile, and the two narrowing axes a consumer may ask for, the event interest (a
  predicate on a record's kind) and the evidence scope (a predicate on a lookup's result),
  with their wire vocabularies.
\<close>

section \<open>Enumerations\<close>

datatype MonitorRecordKind =
    mrProcessStart | mrProcessExec | mrProcessSpawn | mrFileOpen | mrFileRead | mrPathProbe
  | mrFileWrite | mrEventLoss | mrDirectoryEnumerate | mrBackendProfile | mrCapabilityGap
  | mrIpcConnect | mrLibraryLoad | mrEnvRead | mrSysctlRead | mrNonDeterministic | mrTimeRead
  | mrExternalContent | mrPathMutation

datatype MonitorObservationKind =
    moProcessStart | moExecute | moFileOpen | moFileRead | moPathProbe | moFileWrite
  | moEventLoss | moDirectoryEnumerate | moBackendProfile | moCapabilityGap | moIpcConnect
  | moEnvRead | moSysctlRead | moNonDeterministic | moTimeRead | moExternalContent
  | moPathMutation

datatype EventCategory =
    ecFileReads | ecPathProbes | ecFileWrites | ecProcessTree | ecLibraryLoads | ecEnvReads
  | ecEntropy | ecAmbientReads

datatype LegacyEventCategory =
    lecFileDeps | lecProcessTree | lecLibraryLoads | lecNonDeterminism | lecIpc

datatype EvidenceScope = esFull | esReadsOnly | esUnrecognized

datatype ProbeResult =
    prUnknown | prAbsent | prExistingFile | prExistingDirectory | prExistingOther

datatype MonitorCompleteness = mcComplete | mcIncomplete

datatype MonitorBackendFamily =
    mbfMacosHooks | mbfMacosEndpointSecurity | mbfMacosHybrid | mbfLinuxPreloadHooks
  | mbfWindowsInterposeHooks | mbfUnknown

datatype MonitorCapability =
    mcapProcess | mcapFileRead | mcapFileWrite | mcapPathProbe | mcapDirectoryEnumerate
  | mcapEventLoss | mcapProcessTree | mcapProcessExec | mcapBackendProvenance | mcapFileCreate
  | mcapFileTruncate | mcapFileAppend | mcapEndpointSecurity | mcapHybrid | mcapRename
  | mcapSymlink | mcapLibraryLoad | mcapAuthorizationEnforcement | mcapPathMutation
  | mcapIpcConnect | mcapObservedEnv | mcapNonDeterminism | mcapExternalContent
  | mcapAdversarialRawSyscall | mcapExecutableMappingLifecycle | mcapPathIdentity
  | mcapObservationIdentityFold

datatype MonitorDiagnosticLevel = mdlInfo | mdlWarning | mdlError

text \<open>A Nim loop over an enumeration visits its members in declaration order: \<open>Enum.enum\<close>.\<close>

instantiation MonitorRecordKind :: enum
begin
definition "enum_MonitorRecordKind = [mrProcessStart, mrProcessExec, mrProcessSpawn, mrFileOpen,
  mrFileRead, mrPathProbe, mrFileWrite, mrEventLoss, mrDirectoryEnumerate, mrBackendProfile,
  mrCapabilityGap, mrIpcConnect, mrLibraryLoad, mrEnvRead, mrSysctlRead, mrNonDeterministic,
  mrTimeRead, mrExternalContent, mrPathMutation]"
definition "enum_all_MonitorRecordKind P =
  list_all (P :: MonitorRecordKind \<Rightarrow> bool) (Enum.enum :: MonitorRecordKind list)"
definition "enum_ex_MonitorRecordKind P =
  list_ex (P :: MonitorRecordKind \<Rightarrow> bool) (Enum.enum :: MonitorRecordKind list)"
instance
proof
  show U: "UNIV = set (Enum.enum :: MonitorRecordKind list)"
    unfolding enum_MonitorRecordKind_def by (auto intro: MonitorRecordKind.exhaust)
  show "distinct (Enum.enum :: MonitorRecordKind list)" by (simp add: enum_MonitorRecordKind_def)
  fix P :: "MonitorRecordKind \<Rightarrow> bool"
  show "enum_class.enum_all P \<longleftrightarrow> Ball UNIV P"
    unfolding U enum_all_MonitorRecordKind_def list_all_iff ..
  show "enum_class.enum_ex P \<longleftrightarrow> Bex UNIV P"
    unfolding U enum_ex_MonitorRecordKind_def list_ex_iff ..
qed
end

instantiation EventCategory :: enum
begin
definition "enum_EventCategory = [ecFileReads, ecPathProbes, ecFileWrites, ecProcessTree,
  ecLibraryLoads, ecEnvReads, ecEntropy, ecAmbientReads]"
definition "enum_all_EventCategory P =
  list_all (P :: EventCategory \<Rightarrow> bool) (Enum.enum :: EventCategory list)"
definition "enum_ex_EventCategory P =
  list_ex (P :: EventCategory \<Rightarrow> bool) (Enum.enum :: EventCategory list)"
instance
proof
  show U: "UNIV = set (Enum.enum :: EventCategory list)"
    unfolding enum_EventCategory_def by (auto intro: EventCategory.exhaust)
  show "distinct (Enum.enum :: EventCategory list)" by (simp add: enum_EventCategory_def)
  fix P :: "EventCategory \<Rightarrow> bool"
  show "enum_class.enum_all P \<longleftrightarrow> Ball UNIV P"
    unfolding U enum_all_EventCategory_def list_all_iff ..
  show "enum_class.enum_ex P \<longleftrightarrow> Bex UNIV P"
    unfolding U enum_ex_EventCategory_def list_ex_iff ..
qed
end

instantiation LegacyEventCategory :: enum
begin
definition "enum_LegacyEventCategory = [lecFileDeps, lecProcessTree, lecLibraryLoads,
  lecNonDeterminism, lecIpc]"
definition "enum_all_LegacyEventCategory P =
  list_all (P :: LegacyEventCategory \<Rightarrow> bool) (Enum.enum :: LegacyEventCategory list)"
definition "enum_ex_LegacyEventCategory P =
  list_ex (P :: LegacyEventCategory \<Rightarrow> bool) (Enum.enum :: LegacyEventCategory list)"
instance
proof
  show U: "UNIV = set (Enum.enum :: LegacyEventCategory list)"
    unfolding enum_LegacyEventCategory_def by (auto intro: LegacyEventCategory.exhaust)
  show "distinct (Enum.enum :: LegacyEventCategory list)"
    by (simp add: enum_LegacyEventCategory_def)
  fix P :: "LegacyEventCategory \<Rightarrow> bool"
  show "enum_class.enum_all P \<longleftrightarrow> Ball UNIV P"
    unfolding U enum_all_LegacyEventCategory_def list_all_iff ..
  show "enum_class.enum_ex P \<longleftrightarrow> Bex UNIV P"
    unfolding U enum_ex_LegacyEventCategory_def list_ex_iff ..
qed
end

instantiation EvidenceScope :: enum
begin
definition "enum_EvidenceScope = [esFull, esReadsOnly, esUnrecognized]"
definition "enum_all_EvidenceScope P =
  list_all (P :: EvidenceScope \<Rightarrow> bool) (Enum.enum :: EvidenceScope list)"
definition "enum_ex_EvidenceScope P =
  list_ex (P :: EvidenceScope \<Rightarrow> bool) (Enum.enum :: EvidenceScope list)"
instance
proof
  show U: "UNIV = set (Enum.enum :: EvidenceScope list)"
    unfolding enum_EvidenceScope_def by (auto intro: EvidenceScope.exhaust)
  show "distinct (Enum.enum :: EvidenceScope list)" by (simp add: enum_EvidenceScope_def)
  fix P :: "EvidenceScope \<Rightarrow> bool"
  show "enum_class.enum_all P \<longleftrightarrow> Ball UNIV P"
    unfolding U enum_all_EvidenceScope_def list_all_iff ..
  show "enum_class.enum_ex P \<longleftrightarrow> Bex UNIV P"
    unfolding U enum_ex_EvidenceScope_def list_ex_iff ..
qed
end

section \<open>Records and depfiles\<close>

record MonitorDiagnostic =
  diag_level :: MonitorDiagnosticLevel
  diag_message :: string

record MonitorCapabilityGap =
  gap_backendFamily :: MonitorBackendFamily
  gap_capability :: MonitorCapability
  gap_required :: bool
  gap_inputChannel :: bool
  gap_reason :: string

record MonitorBackendProfile =
  prof_profileName :: string
  prof_backendFamily :: MonitorBackendFamily
  prof_supportedCapabilities :: "MonitorCapability set"
  prof_requiredCapabilities :: "MonitorCapability set"
  prof_gaps :: "MonitorCapabilityGap list"
  prof_evidenceComplete :: bool
  prof_diagnostics :: "MonitorDiagnostic list"

record MonitorRecord =
  rec_kind :: MonitorRecordKind
  rec_observationKind :: MonitorObservationKind
  rec_seq :: u64
  rec_osPid :: u64
  rec_parentOsPid :: u64
  rec_threadId :: u64
  rec_childOsPid :: u64
  rec_result :: int
  rec_flags :: u32
  rec_probeResult :: ProbeResult
  rec_path :: string
  rec_detail :: string

text \<open>
  The result field is a Nim \<open>int64\<close>; the model keeps the integer and states its range where
  the codec depends on it.
\<close>

definition is_int64 :: "int \<Rightarrow> bool" where
  "is_int64 i \<longleftrightarrow> - (2 ^ 63) \<le> i \<and> i < 2 ^ 63"

record MonitorSummary =
  sum_recordCount :: u64
  sum_processCount :: u64
  sum_observationCount :: u64
  sum_eventLossCount :: u64

record MonitorDepFile =
  dep_version :: u16
  dep_producerVersion :: string
  dep_backendFamily :: MonitorBackendFamily
  dep_requiredFeatures :: "MonitorCapability set"
  dep_completeness :: MonitorCompleteness
  dep_profile :: MonitorBackendProfile
  dep_capabilityGaps :: "MonitorCapabilityGap list"
  dep_summary :: MonitorSummary
  dep_observedInterest :: "EventCategory set"
  dep_observedInterestStated :: bool
  dep_observedInterestTokens :: string
  dep_observedEvidenceScope :: EvidenceScope
  dep_observedEvidenceScopeStated :: bool
  dep_observedEvidenceScopeToken :: string
  dep_records :: "MonitorRecord list"

record MonitorDepFileReaderOptions =
  opt_allowUnknownOptionalRecords :: bool
  opt_requireTrailerChecksum :: bool
  opt_maxPathTableBytes :: u64
  opt_maxObservationCount :: u64
  opt_streamRecords :: bool

datatype MonitorDepFileReaderErrorKind =
    mrMissingFile | mrBadMagic | mrUnsupportedVersion | mrMissingRequiredFeature | mrTruncated
  | mrChecksumMismatch | mrRecordOrderInvalid | mrRecordLimitExceeded
  | mrSemanticValidationFailed

definition IomonVersion :: u16 where "IomonVersion = 1"
definition IomonMagic :: string where "IomonMagic = ''IOMN''"
definition IomonTrailerMagic :: string where "IomonTrailerMagic = ''IOMT''"
definition IoMonDepfileProducer :: string where "IoMonDepfileProducer = ''iomon_depfile_v1''"

definition defaultMonitorDepFileReaderOptions :: MonitorDepFileReaderOptions where
  "defaultMonitorDepFileReaderOptions =
     \<lparr>opt_allowUnknownOptionalRecords = False, opt_requireTrailerChecksum = True,
      opt_maxPathTableBytes = 64 * 1024 * 1024, opt_maxObservationCount = 1000 * 1000 * 1000,
      opt_streamRecords = False\<rparr>"

section \<open>Event interest\<close>

definition FullInterest :: "EventCategory set" where
  "FullInterest = UNIV"

fun categoryOf :: "MonitorRecordKind \<Rightarrow> EventCategory option" where
  "categoryOf mrFileOpen = Some ecFileReads"
| "categoryOf mrFileRead = Some ecFileReads"
| "categoryOf mrPathProbe = Some ecPathProbes"
| "categoryOf mrDirectoryEnumerate = Some ecPathProbes"
| "categoryOf mrFileWrite = Some ecFileWrites"
| "categoryOf mrPathMutation = Some ecFileWrites"
| "categoryOf mrProcessStart = Some ecProcessTree"
| "categoryOf mrProcessExec = Some ecProcessTree"
| "categoryOf mrProcessSpawn = Some ecProcessTree"
| "categoryOf mrLibraryLoad = Some ecLibraryLoads"
| "categoryOf mrEnvRead = Some ecEnvReads"
| "categoryOf mrNonDeterministic = Some ecEntropy"
| "categoryOf mrTimeRead = Some ecAmbientReads"
| "categoryOf mrSysctlRead = Some ecAmbientReads"
| "categoryOf mrIpcConnect = None"
| "categoryOf mrExternalContent = None"
| "categoryOf mrEventLoss = None"
| "categoryOf mrBackendProfile = None"
| "categoryOf mrCapabilityGap = None"

definition normalizeInterest :: "EventCategory set \<Rightarrow> EventCategory set" where
  "normalizeInterest interest = (if interest = {} then FullInterest else interest)"

definition recordWanted :: "EventCategory set \<Rightarrow> MonitorRecordKind \<Rightarrow> bool" where
  "recordWanted interest k =
     (case categoryOf k of None \<Rightarrow> True | Some c \<Rightarrow> c \<in> normalizeInterest interest)"

section \<open>Evidence scope\<close>

definition recordIsFailedExistenceLookup :: "MonitorRecord \<Rightarrow> bool" where
  "recordIsFailedExistenceLookup r =
     (if categoryOf (rec_kind r) = None then False
      else (case rec_kind r of
          mrPathProbe \<Rightarrow>
            rec_probeResult r = prAbsent \<or> (rec_probeResult r = prUnknown \<and> rec_result r < 0)
        | mrFileOpen \<Rightarrow> rec_result r < 0
        | mrDirectoryEnumerate \<Rightarrow> rec_result r < 0
        | _ \<Rightarrow> False))"

fun recordInEvidenceScope :: "EvidenceScope \<Rightarrow> MonitorRecord \<Rightarrow> bool" where
  "recordInEvidenceScope esFull r = True"
| "recordInEvidenceScope esUnrecognized r = True"
| "recordInEvidenceScope esReadsOnly r = (\<not> recordIsFailedExistenceLookup r)"

fun evidenceScopeToken :: "EvidenceScope \<Rightarrow> string" where
  "evidenceScopeToken esFull = ''full''"
| "evidenceScopeToken esReadsOnly = ''reads-only''"
| "evidenceScopeToken esUnrecognized = ''''"

definition parseEvidenceScopeToken :: "string \<Rightarrow> EvidenceScope" where
  "parseEvidenceScopeToken s =
     (let trimmed = strip s
      in if length trimmed = 0 then esFull
         else (case find (\<lambda>scope. evidenceScopeToken scope = trimmed) Enum.enum of
                 Some scope \<Rightarrow> scope
               | None \<Rightarrow> esUnrecognized))"

definition statesUnevaluableEvidenceScope :: "MonitorDepFile \<Rightarrow> bool" where
  "statesUnevaluableEvidenceScope dep \<longleftrightarrow>
     dep_observedEvidenceScopeStated dep \<and> dep_observedEvidenceScope dep = esUnrecognized"

definition effectiveObservedEvidenceScope :: "MonitorDepFile \<Rightarrow> EvidenceScope" where
  "effectiveObservedEvidenceScope dep =
     (if dep_observedEvidenceScopeStated dep then dep_observedEvidenceScope dep else esFull)"

fun evidenceScopeCovers :: "EvidenceScope \<Rightarrow> EvidenceScope \<Rightarrow> bool" where
  "evidenceScopeCovers esFull required = (required \<in> {esFull, esReadsOnly})"
| "evidenceScopeCovers esReadsOnly required = (required = esReadsOnly)"
| "evidenceScopeCovers esUnrecognized required = False"

definition observedEvidenceScopeCovers :: "MonitorDepFile \<Rightarrow> EvidenceScope \<Rightarrow> bool" where
  "observedEvidenceScopeCovers dep required =
     evidenceScopeCovers (effectiveObservedEvidenceScope dep) required"

section \<open>The interest vocabulary\<close>

fun interestToken :: "EventCategory \<Rightarrow> string" where
  "interestToken ecFileReads = ''file-reads''"
| "interestToken ecPathProbes = ''path-probes''"
| "interestToken ecFileWrites = ''file-writes''"
| "interestToken ecProcessTree = ''proc''"
| "interestToken ecLibraryLoads = ''lib''"
| "interestToken ecEnvReads = ''env''"
| "interestToken ecEntropy = ''entropy''"
| "interestToken ecAmbientReads = ''ambient''"

fun legacyInterestToken :: "LegacyEventCategory \<Rightarrow> string" where
  "legacyInterestToken lecFileDeps = ''file''"
| "legacyInterestToken lecProcessTree = ''proc''"
| "legacyInterestToken lecLibraryLoads = ''lib''"
| "legacyInterestToken lecNonDeterminism = ''nondet''"
| "legacyInterestToken lecIpc = ''ipc''"

fun legacyMemberKinds :: "LegacyEventCategory \<Rightarrow> MonitorRecordKind set" where
  "legacyMemberKinds lecFileDeps =
     {mrFileOpen, mrFileRead, mrFileWrite, mrPathProbe, mrDirectoryEnumerate, mrPathMutation}"
| "legacyMemberKinds lecProcessTree = {mrProcessStart, mrProcessExec, mrProcessSpawn}"
| "legacyMemberKinds lecLibraryLoads = {mrLibraryLoad}"
| "legacyMemberKinds lecNonDeterminism =
     {mrNonDeterministic, mrTimeRead, mrEnvRead, mrSysctlRead, mrExternalContent}"
| "legacyMemberKinds lecIpc = {mrIpcConnect}"

definition legacyInterestExpansion :: "LegacyEventCategory \<Rightarrow> EventCategory set" where
  "legacyInterestExpansion legacy =
     fold (\<lambda>k acc. if k \<in> legacyMemberKinds legacy
                   then (case categoryOf k of None \<Rightarrow> acc | Some c \<Rightarrow> insert c acc) else acc)
       Enum.enum {}"

definition LegacyPaddingToken :: string where
  "LegacyPaddingToken = ''legacy-padding''"

definition interestToTokens :: "EventCategory set \<Rightarrow> string" where
  "interestToTokens interest =
     (let normalized = normalizeInterest interest
      in join_with CHR '','' (map interestToken (filter (\<lambda>cat. cat \<in> normalized) Enum.enum)))"

definition shim_padding :: "EventCategory set \<Rightarrow> string list \<Rightarrow> string list" where
  "shim_padding normalized parts =
     (let wanted = fold (\<lambda>k acc. if recordWanted normalized k then insert k acc else acc)
            Enum.enum {}
      in fold (\<lambda>legacy padding.
           let tok = legacyInterestToken legacy
           in if tok \<notin> set parts \<and> tok \<notin> set padding \<and> legacyMemberKinds legacy \<inter> wanted \<noteq> {}
              then padding @ [tok] else padding) Enum.enum [])"

definition interestToShimTokens :: "EventCategory set \<Rightarrow> string" where
  "interestToShimTokens interest =
     (let normalized = normalizeInterest interest;
          parts = map interestToken (filter (\<lambda>cat. cat \<in> normalized) Enum.enum);
          padding = shim_padding normalized parts
      in join_with CHR '',''
           (if 0 < length padding then parts @ [LegacyPaddingToken] @ padding else parts))"

definition parseInterestTokens :: "string \<Rightarrow> EventCategory set" where
  "parseInterestTokens s =
     (let trimmed = strip s
      in if length trimmed = 0 then FullInterest
         else
           let raws = split_char CHR '','' trimmed;
               fenced = fold (\<lambda>raw f. if strip raw = LegacyPaddingToken then True else f) raws False
           in fold (\<lambda>raw result.
                let tok = strip raw;
                    result = fold (\<lambda>cat r. if tok = interestToken cat then insert cat r else r)
                               Enum.enum result
                in if \<not> fenced
                   then fold (\<lambda>legacy r. if tok = legacyInterestToken legacy
                                          then r \<union> legacyInterestExpansion legacy else r)
                          Enum.enum result
                   else result) raws {})"

definition shimInterestFromEnv :: "string \<Rightarrow> EventCategory set" where
  "shimInterestFromEnv value =
     (let result = parseInterestTokens value in if result = {} then FullInterest else result)"

definition statesUnevaluableInterest :: "MonitorDepFile \<Rightarrow> bool" where
  "statesUnevaluableInterest dep \<longleftrightarrow>
     dep_observedInterestStated dep \<and> dep_observedInterest dep = {}"

definition effectiveObservedInterest :: "MonitorDepFile \<Rightarrow> EventCategory set" where
  "effectiveObservedInterest dep =
     (if dep_observedInterestStated dep then dep_observedInterest dep else FullInterest)"

definition observedInterestCovers :: "MonitorDepFile \<Rightarrow> EventCategory set \<Rightarrow> bool" where
  "observedInterestCovers dep required \<longleftrightarrow> required \<subseteq> effectiveObservedInterest dep"

section \<open>Lemmas on the vocabularies\<close>

lemma fold_if_insert: "fold (\<lambda>x acc. if P x then insert (f x) acc else acc) xs A = f ` {x \<in> set xs. P x} \<union> A"
  by (induction xs arbitrary: A) auto

lemma fold_if_union:
  "fold (\<lambda>x acc. if P x then acc \<union> F x else acc) xs A = A \<union> (\<Union>x \<in> {x \<in> set xs. P x}. F x)"
  by (induction xs arbitrary: A) auto

lemma fold_union: "fold (\<lambda>x acc. acc \<union> G x) xs A = A \<union> (\<Union>x \<in> set xs. G x)"
  by (induction xs arbitrary: A) auto

lemma fold_if_True: "fold (\<lambda>x f. if P x then True else f) xs b \<longleftrightarrow> b \<or> (\<exists>x \<in> set xs. P x)"
  by (induction xs arbitrary: b) auto

lemma in_enum [simp]: "x \<in> set Enum.enum"
  by (simp add: UNIV_enum [symmetric])

lemma legacyInterestExpansion_eq:
  "legacyInterestExpansion l = {c. \<exists>k \<in> legacyMemberKinds l. categoryOf k = Some c}"
proof -
  have "fold (\<lambda>k acc. if k \<in> S then (case categoryOf k of None \<Rightarrow> acc | Some c \<Rightarrow> insert c acc) else acc)
      ks A = A \<union> {c. \<exists>k \<in> S \<inter> set ks. categoryOf k = Some c}" for S ks A
    by (induction ks arbitrary: A) (auto split: option.splits)
  from this [of "legacyMemberKinds l" Enum.enum "{}"] show ?thesis
    by (auto simp: legacyInterestExpansion_def)
qed

definition wire_tokens :: "string \<Rightarrow> string list" where
  "wire_tokens s = map strip (split_char CHR '','' (strip s))"

lemma parseInterestTokens_eq:
  assumes "strip s \<noteq> []"
  shows "parseInterestTokens s =
    {cat. interestToken cat \<in> set (wire_tokens s)} \<union>
    (if LegacyPaddingToken \<in> set (wire_tokens s) then {}
     else \<Union> (legacyInterestExpansion ` {l. legacyInterestToken l \<in> set (wire_tokens s)}))"
proof -
  let ?raws = "split_char CHR '','' (strip s)"
  have fenced: "fold (\<lambda>raw f. if strip raw = LegacyPaddingToken then True else f) ?raws False
      \<longleftrightarrow> LegacyPaddingToken \<in> set (wire_tokens s)"
    by (simp add: fold_if_True wire_tokens_def image_iff) metis
  let ?G = "\<lambda>fc tok. {cat. tok = interestToken cat} \<union>
      (if fc then {} else \<Union> (legacyInterestExpansion ` {l. tok = legacyInterestToken l}))"
  have body: "(\<lambda>raw result.
      let tok = strip raw;
          result = fold (\<lambda>cat r. if tok = interestToken cat then insert cat r else r) Enum.enum result
      in if \<not> fc then fold (\<lambda>legacy r. if tok = legacyInterestToken legacy
                then r \<union> legacyInterestExpansion legacy else r) Enum.enum result
         else result) = (\<lambda>raw result. result \<union> ?G fc (strip raw))" for fc
  proof (intro ext)
    fix raw result
    have ins: "fold (\<lambda>cat r. if strip raw = interestToken cat then insert cat r else r) Enum.enum result =
        {cat. strip raw = interestToken cat} \<union> result"
      using fold_if_insert [of "\<lambda>cat. strip raw = interestToken cat" "\<lambda>cat. cat" Enum.enum result] by simp
    show "(let tok = strip raw;
          result = fold (\<lambda>cat r. if tok = interestToken cat then insert cat r else r) Enum.enum result
      in if \<not> fc then fold (\<lambda>legacy r. if tok = legacyInterestToken legacy
                then r \<union> legacyInterestExpansion legacy else r) Enum.enum result
         else result) = result \<union> ?G fc (strip raw)"
      unfolding Let_def ins fold_if_union by auto
  qed
  have loop: "fold (\<lambda>raw result. result \<union> ?G fc (strip raw)) raws A =
     A \<union> {cat. interestToken cat \<in> set (map strip raws)} \<union>
     (if fc then {} else \<Union> (legacyInterestExpansion ` {l. legacyInterestToken l \<in> set (map strip raws)}))"
    for fc raws A
    unfolding fold_union by (cases fc) (force simp: image_iff)+
  show ?thesis
    using assms unfolding parseInterestTokens_def Let_def [of "strip s"]
      Let_def [of "split_char _ _"] Let_def [of "fold _ _ False"] fenced body loop
    by (simp add: wire_tokens_def)
qed

subsection \<open>Tokens are safe on the wire\<close>

lemma is_token_interestToken: "is_token CHR '','' (interestToken cat)"
  by (cases cat) (simp_all add: is_token_def strip_def isWhitespace_def)

lemma is_token_legacyInterestToken: "is_token CHR '','' (legacyInterestToken l)"
  by (cases l) (simp_all add: is_token_def strip_def isWhitespace_def)

lemma is_token_LegacyPadding: "is_token CHR '','' LegacyPaddingToken"
  by (simp add: is_token_def strip_def isWhitespace_def LegacyPaddingToken_def)

lemma interestToken_inject [simp]: "interestToken c = interestToken d \<longleftrightarrow> c = d"
  by (cases c; cases d) simp_all

lemma interestToken_neq_padding [simp]: "interestToken c \<noteq> LegacyPaddingToken"
  by (cases c) (simp_all add: LegacyPaddingToken_def)

lemma legacyInterestToken_neq_padding [simp]: "legacyInterestToken l \<noteq> LegacyPaddingToken"
  by (cases l) (simp_all add: LegacyPaddingToken_def)

text \<open>
  A legacy spelling that is also a current one names exactly the current category; the other
  three spellings are not current tokens.
\<close>

lemma legacy_current_agree:
  "legacyInterestToken l = interestToken c \<Longrightarrow> legacyInterestExpansion l = {c}"
  by (cases l; cases c) (auto simp: legacyInterestExpansion_eq)

lemma categoryOf_None_iff:
  "categoryOf k = None \<longleftrightarrow>
     k \<in> {mrEventLoss, mrBackendProfile, mrCapabilityGap, mrIpcConnect, mrExternalContent}"
  by (cases k) simp_all

lemma normalizeInterest_nonempty [simp]: "normalizeInterest I \<noteq> {}"
  by (auto simp: normalizeInterest_def FullInterest_def)

lemma normalizeInterest_idem [simp]: "normalizeInterest (normalizeInterest I) = normalizeInterest I"
  by (simp add: normalizeInterest_def)

definition canonical_parts :: "EventCategory set \<Rightarrow> string list" where
  "canonical_parts I = map interestToken (filter (\<lambda>cat. cat \<in> normalizeInterest I) Enum.enum)"

lemma set_canonical_parts: "set (canonical_parts I) = interestToken ` normalizeInterest I"
  by (auto simp: canonical_parts_def)

lemma canonical_parts_nonempty: "canonical_parts I \<noteq> []"
proof -
  have "set (canonical_parts I) \<noteq> {}" unfolding set_canonical_parts by simp
  then show ?thesis by auto
qed

lemma interestToTokens_alt: "interestToTokens I = join_with CHR '','' (canonical_parts I)"
  by (simp add: interestToTokens_def canonical_parts_def Let_def)

lemma wire_tokens_join:
  assumes "ts \<noteq> []" "\<forall>t \<in> set ts. is_token CHR '','' t"
  shows "wire_tokens (join_with CHR '','' ts) = ts" "strip (join_with CHR '','' ts) \<noteq> []"
proof -
  show "wire_tokens (join_with CHR '','' ts) = ts"
    unfolding wire_tokens_def by (rule tokens_of_join [OF assms])
  have "\<forall>t \<in> set ts. t \<noteq> []" using assms(2) by (auto simp: is_token_def)
  then show "strip (join_with CHR '','' ts) \<noteq> []"
    using assms by (simp add: strip_join join_eq_Nil_iff)
qed

lemma parse_join_unfenced:
  assumes "ts \<noteq> []" "set ts = interestToken ` I"
  shows "parseInterestTokens (join_with CHR '','' ts) = I"
proof -
  have tok: "\<forall>t \<in> set ts. is_token CHR '','' t" using assms(2) by (auto simp: is_token_interestToken)
  have "\<Union> (legacyInterestExpansion ` {l. legacyInterestToken l \<in> interestToken ` I}) \<subseteq> I"
    using legacy_current_agree by fastforce
  moreover have "LegacyPaddingToken \<notin> interestToken ` I" by (metis imageE interestToken_neq_padding)
  ultimately show ?thesis
    unfolding parseInterestTokens_eq [OF wire_tokens_join(2) [OF assms(1) tok]]
      wire_tokens_join(1) [OF assms(1) tok] assms(2) by auto
qed

lemma parse_join_fenced:
  assumes "LegacyPaddingToken \<in> set ts" "\<forall>t \<in> set ts. is_token CHR '','' t"
  shows "parseInterestTokens (join_with CHR '','' ts) = {c. interestToken c \<in> set ts}"
proof -
  have ne: "ts \<noteq> []" using assms(1) by auto
  show ?thesis
    unfolding parseInterestTokens_eq [OF wire_tokens_join(2) [OF ne assms(2)]]
      wire_tokens_join(1) [OF ne assms(2)] using assms(1) by auto
qed

subsection \<open>The padding for older shims\<close>

lemma wanted_fold:
  "fold (\<lambda>k acc. if recordWanted I k then insert k acc else acc) Enum.enum {} = {k. recordWanted I k}"
  using fold_if_insert [of "recordWanted I" "\<lambda>k. k" Enum.enum "{}"] by auto

lemma shim_padding_set:
  "set (shim_padding I parts) =
     {legacyInterestToken l | l. legacyInterestToken l \<notin> set parts \<and>
        legacyMemberKinds l \<inter> {k. recordWanted I k} \<noteq> {}}"
proof -
  have "set (fold (\<lambda>legacy padding.
           let tok = legacyInterestToken legacy
           in if tok \<notin> set parts \<and> tok \<notin> set padding \<and> legacyMemberKinds legacy \<inter> W \<noteq> {}
              then padding @ [tok] else padding) ls acc) =
      set acc \<union> {legacyInterestToken l | l. l \<in> set ls \<and> legacyInterestToken l \<notin> set parts \<and>
        legacyMemberKinds l \<inter> W \<noteq> {}}" for W ls acc
    by (induction ls arbitrary: acc) (auto simp: Let_def)
  then show ?thesis unfolding shim_padding_def Let_def wanted_fold by simp
qed

definition shim_parts :: "EventCategory set \<Rightarrow> string list" where
  "shim_parts I = (let padding = shim_padding (normalizeInterest I) (canonical_parts I)
     in if 0 < length padding then canonical_parts I @ [LegacyPaddingToken] @ padding
        else canonical_parts I)"

lemma interestToShimTokens_alt: "interestToShimTokens I = join_with CHR '','' (shim_parts I)"
  by (simp add: interestToShimTokens_def shim_parts_def canonical_parts_def Let_def)

lemma shim_padding_tokens: "\<forall>t \<in> set (shim_padding I parts). is_token CHR '','' t"
  by (auto simp: shim_padding_set is_token_legacyInterestToken)

lemma shim_parts_tokens: "\<forall>t \<in> set (shim_parts I). is_token CHR '','' t"
  using shim_padding_tokens [of "normalizeInterest I" "canonical_parts I"]
  by (auto simp: shim_parts_def Let_def set_canonical_parts is_token_interestToken is_token_LegacyPadding)

text \<open>A padding token is a legacy spelling that is not among the canonical parts.\<close>

lemma padding_not_current:
  assumes "interestToken c \<in> set (shim_padding (normalizeInterest I) (canonical_parts I))"
  shows "c \<in> normalizeInterest I"
proof -
  from assms obtain l where l: "interestToken c = legacyInterestToken l"
    "legacyMemberKinds l \<inter> {k. recordWanted (normalizeInterest I) k} \<noteq> {}"
    by (auto simp: shim_padding_set)
  then obtain k where k: "k \<in> legacyMemberKinds l" "recordWanted (normalizeInterest I) k" by auto
  have "l = lecProcessTree \<or> l = lecLibraryLoads" using l(1) by (cases l; cases c) auto
  then have "categoryOf k = Some c" using k(1) l(1) by (cases c) auto
  then show ?thesis using k(2) by (simp add: recordWanted_def)
qed

section \<open>Scopes are coverages\<close>

text \<open>
  A capture under an interest or an evidence scope that covers a consumer's serves the consumer.
\<close>

interpretation interest: coverage "\<lambda>E K. normalizeInterest K \<subseteq> normalizeInterest E"
    "\<lambda>I r. recordWanted I (rec_kind r)"
  by unfold_locales (auto simp: recordWanted_def split: option.splits)

lemma evidenceScopeCovers_cases:
  "evidenceScopeCovers s t \<longleftrightarrow> (s = esFull \<and> t \<noteq> esUnrecognized) \<or> (s = esReadsOnly \<and> t = esReadsOnly)"
  by (cases s; cases t) simp_all

interpretation evidence: coverage evidenceScopeCovers recordInEvidenceScope
  by unfold_locales (auto simp: evidenceScopeCovers_cases)

end
