(* ===== verification/Capabilities.thy ===== *)
theory Capabilities
  imports Types
begin

text \<open>
  Backend profiles and capability gaps, from \<^verbatim>\<open>src/io_mon/capabilities.nim\<close>: what each
  backend claims to observe, how the claim travels in a backend-profile record and in
  capability-gap records, and how a reader rebuilds the profile from the records of a depfile.

  The host platform, a compile-time choice of the source, is a parameter of the definitions that
  depend on it.  A \<open>ValueError\<close> of the source is the left branch of a sum.
\<close>

section \<open>Enumeration of capabilities and families\<close>

instantiation MonitorCapability :: enum
begin
definition "enum_MonitorCapability = [mcapProcess, mcapFileRead, mcapFileWrite, mcapPathProbe, mcapDirectoryEnumerate, mcapEventLoss, mcapProcessTree, mcapProcessExec, mcapBackendProvenance, mcapFileCreate, mcapFileTruncate, mcapFileAppend, mcapEndpointSecurity, mcapHybrid, mcapRename, mcapSymlink, mcapLibraryLoad, mcapAuthorizationEnforcement, mcapPathMutation, mcapIpcConnect, mcapObservedEnv, mcapNonDeterminism, mcapExternalContent, mcapAdversarialRawSyscall, mcapExecutableMappingLifecycle, mcapPathIdentity, mcapObservationIdentityFold]"
definition "enum_all_MonitorCapability P = list_all (P :: MonitorCapability \<Rightarrow> bool) (Enum.enum :: MonitorCapability list)"
definition "enum_ex_MonitorCapability P = list_ex (P :: MonitorCapability \<Rightarrow> bool) (Enum.enum :: MonitorCapability list)"
instance
proof
  show U: "UNIV = set (Enum.enum :: MonitorCapability list)"
    unfolding enum_MonitorCapability_def by (auto intro: MonitorCapability.exhaust)
  show "distinct (Enum.enum :: MonitorCapability list)" by (simp add: enum_MonitorCapability_def)
  fix P :: "MonitorCapability \<Rightarrow> bool"
  show "enum_class.enum_all P \<longleftrightarrow> Ball UNIV P" unfolding U enum_all_MonitorCapability_def list_all_iff ..
  show "enum_class.enum_ex P \<longleftrightarrow> Bex UNIV P" unfolding U enum_ex_MonitorCapability_def list_ex_iff ..
qed
end

instantiation MonitorBackendFamily :: enum
begin
definition "enum_MonitorBackendFamily = [mbfMacosHooks, mbfMacosEndpointSecurity, mbfMacosHybrid, mbfLinuxPreloadHooks, mbfWindowsInterposeHooks, mbfUnknown]"
definition "enum_all_MonitorBackendFamily P = list_all (P :: MonitorBackendFamily \<Rightarrow> bool) (Enum.enum :: MonitorBackendFamily list)"
definition "enum_ex_MonitorBackendFamily P = list_ex (P :: MonitorBackendFamily \<Rightarrow> bool) (Enum.enum :: MonitorBackendFamily list)"
instance
proof
  show U: "UNIV = set (Enum.enum :: MonitorBackendFamily list)"
    unfolding enum_MonitorBackendFamily_def by (auto intro: MonitorBackendFamily.exhaust)
  show "distinct (Enum.enum :: MonitorBackendFamily list)" by (simp add: enum_MonitorBackendFamily_def)
  fix P :: "MonitorBackendFamily \<Rightarrow> bool"
  show "enum_class.enum_all P \<longleftrightarrow> Ball UNIV P" unfolding U enum_all_MonitorBackendFamily_def list_all_iff ..
  show "enum_class.enum_ex P \<longleftrightarrow> Bex UNIV P" unfolding U enum_ex_MonitorBackendFamily_def list_ex_iff ..
qed
end

section \<open>The declared sets\<close>

definition MacosInterposeSupportedCapabilities :: "MonitorCapability set" where
  "MacosInterposeSupportedCapabilities =
     {mcapProcess, mcapFileRead, mcapFileWrite, mcapPathProbe,
      mcapDirectoryEnumerate, mcapEventLoss, mcapProcessTree, mcapProcessExec,
      mcapBackendProvenance, mcapFileCreate, mcapFileTruncate, mcapFileAppend,
      mcapRename, mcapSymlink, mcapIpcConnect, mcapLibraryLoad,
      mcapObservedEnv, mcapNonDeterminism, mcapExternalContent, mcapPathMutation,
      mcapObservationIdentityFold}"

definition MacosInterposeKnownUnsupportedCapabilities :: "MonitorCapability set" where
  "MacosInterposeKnownUnsupportedCapabilities =
     {mcapEndpointSecurity, mcapHybrid, mcapAuthorizationEnforcement}"

definition MacosMonitorShimTaxonomyCapabilities :: "MonitorCapability set" where
  "MacosMonitorShimTaxonomyCapabilities =
     {mcapProcess, mcapFileRead, mcapFileWrite, mcapPathProbe,
      mcapDirectoryEnumerate, mcapEventLoss, mcapProcessTree, mcapProcessExec,
      mcapBackendProvenance, mcapFileCreate, mcapFileTruncate, mcapFileAppend,
      mcapRename, mcapSymlink, mcapIpcConnect, mcapLibraryLoad,
      mcapObservedEnv, mcapNonDeterminism, mcapExternalContent, mcapPathMutation,
      mcapObservationIdentityFold}"

definition LinuxPreloadSupportedCapabilities :: "MonitorCapability set" where
  "LinuxPreloadSupportedCapabilities =
     {mcapObservationIdentityFold, mcapProcess, mcapFileRead, mcapFileWrite,
      mcapPathProbe, mcapDirectoryEnumerate, mcapEventLoss, mcapProcessTree,
      mcapProcessExec, mcapBackendProvenance, mcapFileCreate, mcapFileTruncate,
      mcapFileAppend, mcapRename, mcapIpcConnect, mcapLibraryLoad,
      mcapObservedEnv, mcapNonDeterminism}"

definition InputChannelCapabilities :: "MonitorCapability set" where
  "InputChannelCapabilities =
     {mcapFileRead, mcapPathProbe, mcapDirectoryEnumerate, mcapLibraryLoad,
      mcapObservedEnv, mcapIpcConnect, mcapExternalContent}"

definition InputEvidenceCapabilities :: "MonitorCapability set" where
  "InputEvidenceCapabilities =
     {mcapProcess, mcapProcessTree, mcapProcessExec, mcapFileRead,
      mcapFileWrite, mcapPathProbe, mcapDirectoryEnumerate, mcapEventLoss,
      mcapLibraryLoad}"

definition LinuxPreloadKnownUnsupportedCapabilities :: "MonitorCapability set" where
  "LinuxPreloadKnownUnsupportedCapabilities =
     {mcapEndpointSecurity, mcapHybrid, mcapSymlink, mcapAuthorizationEnforcement,
      mcapPathMutation, mcapAdversarialRawSyscall, mcapExecutableMappingLifecycle, mcapPathIdentity,
      mcapExternalContent}"

definition WindowsInterposeSupportedCapabilities :: "MonitorCapability set" where
  "WindowsInterposeSupportedCapabilities =
     {mcapProcess, mcapFileRead, mcapFileWrite, mcapPathProbe,
      mcapDirectoryEnumerate, mcapEventLoss, mcapProcessTree, mcapProcessExec,
      mcapBackendProvenance, mcapLibraryLoad, mcapIpcConnect, mcapNonDeterminism,
      mcapExternalContent, mcapObservedEnv, mcapObservationIdentityFold}"

definition WindowsInterposeKnownUnsupportedCapabilities :: "MonitorCapability set" where
  "WindowsInterposeKnownUnsupportedCapabilities =
     {mcapEndpointSecurity, mcapHybrid, mcapAuthorizationEnforcement, mcapFileCreate,
      mcapFileTruncate, mcapFileAppend, mcapRename, mcapSymlink,
      mcapPathMutation, mcapAdversarialRawSyscall, mcapExecutableMappingLifecycle, mcapPathIdentity}"

section \<open>Wire identifiers\<close>

fun backendFamilyId :: "MonitorBackendFamily \<Rightarrow> string" where
  "backendFamilyId mbfMacosHooks = ''macos-interpose-hooks''"
| "backendFamilyId mbfMacosEndpointSecurity = ''macos-endpoint-security''"
| "backendFamilyId mbfMacosHybrid = ''macos-hybrid''"
| "backendFamilyId mbfLinuxPreloadHooks = ''linux-preload-hooks''"
| "backendFamilyId mbfWindowsInterposeHooks = ''windows-interpose-hooks''"
| "backendFamilyId mbfUnknown = ''unknown''"

fun capabilityId :: "MonitorCapability \<Rightarrow> string" where
  "capabilityId mcapProcess = ''process''"
| "capabilityId mcapFileRead = ''file-read''"
| "capabilityId mcapFileWrite = ''file-write''"
| "capabilityId mcapPathProbe = ''path-probe''"
| "capabilityId mcapDirectoryEnumerate = ''directory-enumerate''"
| "capabilityId mcapEventLoss = ''event-loss''"
| "capabilityId mcapProcessTree = ''process-tree''"
| "capabilityId mcapProcessExec = ''process-exec''"
| "capabilityId mcapBackendProvenance = ''backend-provenance''"
| "capabilityId mcapFileCreate = ''file-create''"
| "capabilityId mcapFileTruncate = ''file-truncate''"
| "capabilityId mcapFileAppend = ''file-append''"
| "capabilityId mcapEndpointSecurity = ''endpoint-security''"
| "capabilityId mcapHybrid = ''hybrid''"
| "capabilityId mcapRename = ''rename''"
| "capabilityId mcapSymlink = ''symlink''"
| "capabilityId mcapLibraryLoad = ''library-load''"
| "capabilityId mcapAuthorizationEnforcement = ''authorization-enforcement''"
| "capabilityId mcapPathMutation = ''path-mutation''"
| "capabilityId mcapIpcConnect = ''ipc-connect''"
| "capabilityId mcapObservedEnv = ''observed-env''"
| "capabilityId mcapNonDeterminism = ''non-determinism''"
| "capabilityId mcapExternalContent = ''external-content''"
| "capabilityId mcapAdversarialRawSyscall = ''adversarial-raw-syscall''"
| "capabilityId mcapExecutableMappingLifecycle = ''executable-mapping-lifecycle''"
| "capabilityId mcapPathIdentity = ''path-identity''"
| "capabilityId mcapObservationIdentityFold = ''observation-identity-fold''"

definition tryCapabilityFromId :: "string \<Rightarrow> MonitorCapability option" where
  "tryCapabilityFromId value = find (\<lambda>c. capabilityId c = value) Enum.enum"

definition capabilityFromId :: "string \<Rightarrow> string + MonitorCapability" where
  "capabilityFromId value =
     (case tryCapabilityFromId value of
        None \<Rightarrow> Inl (''unknown monitor capability: '' @ value)
      | Some c \<Rightarrow> Inr c)"

definition backendFamilyFromId :: "string \<Rightarrow> MonitorBackendFamily" where
  "backendFamilyFromId value =
     (case find (\<lambda>f. backendFamilyId f = value) Enum.enum of None \<Rightarrow> mbfUnknown | Some f \<Rightarrow> f)"

definition parseCapabilityList ::
    "string \<Rightarrow> string list \<Rightarrow> MonitorCapability set \<times> string list" where
  "parseCapabilityList value unnamable =
     (if length value = 0 then ({}, unnamable)
      else fold (\<lambda>item (result, unnamable).
             if length item = 0 then (result, unnamable)
             else (case tryCapabilityFromId item of
                     Some c \<Rightarrow> (insert c result, unnamable)
                   | None \<Rightarrow> (result, if item \<notin> set unnamable then unnamable @ [item] else unnamable)))
           (split_char CHR '','' value) ({}, unnamable))"

section \<open>Why a capability is not supported\<close>

definition unsupportedReason :: "MonitorCapability \<Rightarrow> string" where
  "unsupportedReason c = (case c of
      mcapEndpointSecurity \<Rightarrow>
      ''EndpointSecurity backend is designed + skeletoned (T3c) but not yet shipped; production '' @
      ''client is gated on the Apple endpoint-security.client entitlement''
    | mcapHybrid \<Rightarrow>
      ''hybrid EndpointSecurity plus interpose profile is not implemented in M14''
    | mcapRename \<Rightarrow>
      ''rename/renameat are hooked on the macOS interpose+body-patch shim; this reason applies '' @
      ''only where rename is not yet advertised''
    | mcapSymlink \<Rightarrow>
      ''macOS interpose shim does not hook symlink/symlinkat/readlink yet''
    | mcapLibraryLoad \<Rightarrow>
      ''macOS interpose shim does not hook dlopen/library-load events yet''
    | mcapAuthorizationEnforcement \<Rightarrow>
      ''macOS interpose shim observes only and cannot authorize or deny operations''
    | mcapPathMutation \<Rightarrow>
      ''mkdir/rmdir/unlink/unlinkat/symlink are hooked on the macOS interpose+body-patch shim; '' @
      ''this reason applies only where path-mutation is not yet advertised''
    | mcapAdversarialRawSyscall \<Rightarrow>
      ''direct/raw syscall completeness requires a native kernel-sourced backend''
    | mcapExecutableMappingLifecycle \<Rightarrow>
      ''executable mapping lifecycle completeness requires a native mapping source''
    | mcapPathIdentity \<Rightarrow>
      ''path identity coverage for hardlink/inode aliases is not advertised by this profile''
    | mcapIpcConnect \<Rightarrow>
      ''connect(2) is hooked on the macOS interpose+body-patch shim; this reason applies only '' @
      ''where IPC-connect is not yet advertised''
    | mcapObservedEnv \<Rightarrow>
      ''getenv/sysctl/uname are hooked on the macOS interpose shim; this reason applies only '' @
      ''where observed-env recording is not yet advertised''
    | mcapNonDeterminism \<Rightarrow>
      ''entropy/time sources are hooked on the macOS interpose shim; this reason applies only '' @
      ''where non-determinism handling is not yet advertised''
    | _ \<Rightarrow>
      ''capability is not advertised by the selected macOS interpose profile'')"

definition windowsUnsupportedReason :: "MonitorCapability \<Rightarrow> string" where
  "windowsUnsupportedReason c = (case c of
      mcapEndpointSecurity \<Rightarrow>
      ''EndpointSecurity is a macOS kernel facility with no Windows analogue''
    | mcapHybrid \<Rightarrow>
      ''hybrid native plus interpose profile is macOS-specific''
    | mcapAuthorizationEnforcement \<Rightarrow>
      ''the Windows interpose shim observes only and cannot authorize or deny operations''
    | mcapFileCreate \<Rightarrow>
      ''CreateFileW/A is hooked, but the shim does not yet classify the creation disposition '' @
      ''into create/truncate/append observations -- the access is recorded as an open/read/write''
    | mcapFileTruncate \<Rightarrow>
      ''CreateFileW/A is hooked, but the shim does not yet classify the creation disposition '' @
      ''into create/truncate/append observations -- the access is recorded as an open/read/write''
    | mcapFileAppend \<Rightarrow>
      ''CreateFileW/A is hooked, but the shim does not yet classify the creation disposition '' @
      ''into create/truncate/append observations -- the access is recorded as an open/read/write''
    | mcapRename \<Rightarrow>
      ''MoveFileExW/A is hooked but no rename record kind is emitted''
    | mcapSymlink \<Rightarrow>
      ''CreateSymbolicLinkW is not hooked and no symlink resolution is performed''
    | mcapLibraryLoad \<Rightarrow>
      ''LoadLibrary is not hooked and the loaded-module set is not enumerated, so a DLL the '' @
      ''process maps is not recorded as a content dependency''
    | mcapPathMutation \<Rightarrow>
      ''SetCurrentDirectory/DeleteFile/CreateDirectory are hooked but no path-mutation record '' @
      ''kind is emitted''
    | mcapIpcConnect \<Rightarrow>
      ''connect/WSAConnect and named-pipe client opens are recorded by the Windows interpose '' @
      ''shim; this reason applies only where IPC-connect is not yet advertised''
    | mcapObservedEnv \<Rightarrow>
      ''environment reads are recorded as observed inputs by the Windows interpose shim '' @
      ''(kernel32's GetEnvironmentVariable/Strings plus the getenv families of both ucrtbase '' @
      ''and msvcrt); this reason applies only where observed-env recording is not yet advertised''
    | mcapNonDeterminism \<Rightarrow>
      ''entropy and clock sources are hooked on the Windows interpose shim; this reason applies '' @
      ''only where non-determinism handling is not yet advertised''
    | mcapExternalContent \<Rightarrow>
      ''file mappings, anonymous pipes and alternate data streams are recorded by the Windows '' @
      ''interpose shim; this reason applies only where external-content coverage is not yet '' @
      ''advertised''
    | mcapAdversarialRawSyscall \<Rightarrow>
      ''direct NTDLL syscall stubs bypass the IAT and the detoured entry points; no adversarial '' @
      ''completeness is claimed''
    | mcapExecutableMappingLifecycle \<Rightarrow>
      ''executable mapping lifecycle (VirtualAlloc/VirtualProtect of RX pages) is not tracked''
    | mcapPathIdentity \<Rightarrow>
      ''paths are recorded as the caller spelled them, without resolving to a canonical file '' @
      ''identity''
    | _ \<Rightarrow>
      ''not supported by the Windows interpose backend'')"

definition linuxUnsupportedReason :: "MonitorCapability \<Rightarrow> string" where
  "linuxUnsupportedReason c = (case c of
      mcapEndpointSecurity \<Rightarrow>
      ''EndpointSecurity is macOS-only; Linux native backend is future eBPF work''
    | mcapHybrid \<Rightarrow>
      ''hybrid native plus preload profile is not implemented''
    | mcapRename \<Rightarrow>
      ''Linux preload shim hooks libc-visible rename/renameat/renameat2; this reason applies '' @
      ''only where rename is not advertised''
    | mcapSymlink \<Rightarrow>
      ''Linux preload shim does not yet normalize symlink/readlink as path mutations''
    | mcapLibraryLoad \<Rightarrow>
      ''Linux preload shim observes the loader's link map (dl_iterate_phdr) and emits '' @
      ''library-load records; this reason applies only where library-load observation is not '' @
      ''advertised''
    | mcapAuthorizationEnforcement \<Rightarrow>
      ''Linux preload shim observes only and cannot authorize or deny operations''
    | mcapPathMutation \<Rightarrow>
      ''Linux preload shim records libc-visible link/linkat and rename/renameat/renameat2 path '' @
      ''mutations, but does not cover the full raw mutation surface yet''
    | mcapAdversarialRawSyscall \<Rightarrow>
      ''Linux LD_PRELOAD covers libc syscall(2), selected application inline syscall sites, and '' @
      ''tracked anonymous executable mappings, but does not claim adversarial/direct '' @
      ''raw-syscall completeness for excluded runtime-prefix DSOs, executable mappings outside '' @
      ''the preload mmap lifecycle, or unclassified syscall families''
    | mcapExecutableMappingLifecycle \<Rightarrow>
      ''Linux LD_PRELOAD scans executable mappings only when they are owned by the preload '' @
      ''mmap/mprotect/munmap/mremap lifecycle; mappings created outside that lifecycle are not '' @
      ''production-complete''
    | mcapPathIdentity \<Rightarrow>
      ''Linux preload shim records libc-visible hardlink creation source/alias and '' @
      ''rename-staging final paths, but does not yet provide full pre-existing hardlink/inode '' @
      ''alias or raw-mutation identity fidelity''
    | mcapIpcConnect \<Rightarrow>
      ''Linux preload shim hooks connect(2); this reason applies only where IPC-connect is not '' @
      ''advertised''
    | mcapObservedEnv \<Rightarrow>
      ''Linux preload shim records libc-visible getenv/uname/sysconf observed inputs; this '' @
      ''reason applies only where direct raw/vDSO or broader system-configuration coverage is '' @
      ''required''
    | mcapNonDeterminism \<Rightarrow>
      ''Linux preload shim records libc-visible clock_gettime/gettimeofday/time as time reads '' @
      ''and getrandom/getentropy/arc4random/arc4random_buf/arc4random_uniform as '' @
      ''non-determinism; this reason applies only where direct raw or broader entropy/time APIs '' @
      ''are required''
    | mcapExternalContent \<Rightarrow>
      ''Linux preload shim records libc-visible positioned/vector and zero-copy file movers, '' @
      ''but broader external content channels and direct raw zero-copy syscalls are not '' @
      ''advertised by this profile''
    | _ \<Rightarrow>
      ''capability is not advertised by the selected Linux preload profile'')"

section \<open>Gap records\<close>

definition bool_text :: "bool \<Rightarrow> string" where
  "bool_text b = (if b then ''true'' else ''false'')"

definition gapDetail :: "MonitorCapabilityGap \<Rightarrow> string" where
  "gapDetail gap =
     ''backend='' @ backendFamilyId (gap_backendFamily gap) @
     '';capability='' @ capabilityId (gap_capability gap) @
     '';required='' @ bool_text (gap_required gap) @
     '';input='' @ bool_text (gap_inputChannel gap) @
     '';reason='' @ gap_reason gap"

text \<open>One \<open>;\<close>-separated part of a gap detail; the flag records whether \<open>input=\<close> was seen.\<close>

definition parse_gap_part ::
    "string \<Rightarrow> MonitorCapabilityGap \<times> bool \<Rightarrow> string + MonitorCapabilityGap \<times> bool" where
  "parse_gap_part part st =
     (case st of (gap, sawInput) \<Rightarrow>
      (case split_once CHR ''='' part of
         [key, val] \<Rightarrow>
           if key = ''backend'' then Inr (gap\<lparr>gap_backendFamily := backendFamilyFromId val\<rparr>, sawInput)
           else if key = ''capability'' then
             res_bind (capabilityFromId val) (\<lambda>c. Inr (gap\<lparr>gap_capability := c\<rparr>, sawInput))
           else if key = ''required'' then Inr (gap\<lparr>gap_required := (val = ''true'')\<rparr>, sawInput)
           else if key = ''input'' then Inr (gap\<lparr>gap_inputChannel := (val = ''true'')\<rparr>, True)
           else if key = ''reason'' then Inr (gap\<lparr>gap_reason := val\<rparr>, sawInput)
           else Inr (gap, sawInput)
       | _ \<Rightarrow> Inr (gap, sawInput)))"

fun parse_gap_parts ::
    "string list \<Rightarrow> MonitorCapabilityGap \<times> bool \<Rightarrow> string + MonitorCapabilityGap \<times> bool" where
  "parse_gap_parts [] st = Inr st"
| "parse_gap_parts (part # parts) st = res_bind (parse_gap_part part st) (parse_gap_parts parts)"

definition parseGapDetail :: "string \<Rightarrow> string + MonitorCapabilityGap" where
  "parseGapDetail detail =
     res_bind
       (parse_gap_parts (split_char CHR '';'' detail)
          (\<lparr>gap_backendFamily = mbfUnknown, gap_capability = mcapProcess, gap_required = False,
            gap_inputChannel = False, gap_reason = []\<rparr>, False))
       (\<lambda>(gap, sawInput).
          Inr (if \<not> sawInput
               then gap\<lparr>gap_inputChannel := (gap_capability gap \<in> InputChannelCapabilities)\<rparr>
               else gap))"

definition meta_record ::
    "MonitorRecordKind \<Rightarrow> MonitorObservationKind \<Rightarrow> string \<Rightarrow> string \<Rightarrow> MonitorRecord" where
  "meta_record k obs path detail =
     \<lparr>rec_kind = k, rec_observationKind = obs, rec_seq = 0, rec_osPid = 0, rec_parentOsPid = 0,
      rec_threadId = 0, rec_childOsPid = 0, rec_result = 0, rec_flags = 0,
      rec_probeResult = prUnknown, rec_path = path, rec_detail = detail\<rparr>"

definition capabilityGapRecord :: "MonitorCapabilityGap \<Rightarrow> MonitorRecord" where
  "capabilityGapRecord gap =
     meta_record mrCapabilityGap moCapabilityGap (capabilityId (gap_capability gap)) (gapDetail gap)"

fun backendFoldsObservationIdentity :: "MonitorBackendFamily \<Rightarrow> bool" where
  "backendFoldsObservationIdentity mbfLinuxPreloadHooks = True"
| "backendFoldsObservationIdentity mbfMacosHooks = True"
| "backendFoldsObservationIdentity mbfMacosEndpointSecurity = True"
| "backendFoldsObservationIdentity mbfMacosHybrid = True"
| "backendFoldsObservationIdentity mbfWindowsInterposeHooks = True"
| "backendFoldsObservationIdentity mbfUnknown = False"

text \<open>Iterating a Nim set visits its members in ordinal order.\<close>

definition cap_list :: "MonitorCapability set \<Rightarrow> MonitorCapability list" where
  "cap_list S = filter (\<lambda>c. c \<in> S) Enum.enum"

definition backendProfileRecord :: "MonitorBackendProfile \<Rightarrow> MonitorRecord" where
  "backendProfileRecord profile =
     meta_record mrBackendProfile moBackendProfile (prof_profileName profile)
       (''backend='' @ backendFamilyId (prof_backendFamily profile) @
        '';supported='' @ join_with CHR '','' (map capabilityId (cap_list (prof_supportedCapabilities profile))) @
        '';required='' @ join_with CHR '','' (map capabilityId (cap_list (prof_requiredCapabilities profile))) @
        '';evidenceComplete='' @ bool_text (prof_evidenceComplete profile))"

section \<open>The three hook profiles\<close>

text \<open>
  The tail every profile shares: the known gaps extended by the required capabilities that are
  missing, one gap entry per capability in ordinal order, an error diagnostic for each required one.
\<close>

definition add_gap ::
    "(MonitorCapability \<Rightarrow> string) \<Rightarrow> MonitorCapability set \<Rightarrow> MonitorCapability \<Rightarrow>
     MonitorBackendProfile \<Rightarrow> MonitorBackendProfile" where
  "add_gap reason required c p =
     (let requiredGap = (c \<in> required \<and> c \<notin> prof_supportedCapabilities p);
          p = p\<lparr>prof_gaps := prof_gaps p @
                [\<lparr>gap_backendFamily = prof_backendFamily p, gap_capability = c,
                  gap_required = requiredGap, gap_inputChannel = (c \<in> InputChannelCapabilities),
                  gap_reason = reason c\<rparr>]\<rparr>
      in if requiredGap
         then p\<lparr>prof_diagnostics := prof_diagnostics p @
                [\<lparr>diag_level = mdlError, diag_message =
                   ''required monitor capability is unsupported by '' @
                   backendFamilyId (prof_backendFamily p) @ '': '' @ capabilityId c\<rparr>]\<rparr>
         else p)"

definition declare_gaps ::
    "MonitorCapability set \<Rightarrow> (MonitorCapability \<Rightarrow> string) \<Rightarrow> MonitorCapability set \<Rightarrow>
     MonitorBackendProfile \<Rightarrow> MonitorBackendProfile" where
  "declare_gaps known reason required p =
     (let (gapCapabilities, p) =
        fold (\<lambda>c (gapCapabilities, p).
          if c \<notin> prof_supportedCapabilities p
          then (insert c gapCapabilities, p\<lparr>prof_evidenceComplete := False\<rparr>)
          else (gapCapabilities, p)) (cap_list required) (known, p)
      in fold (add_gap reason required) (cap_list gapCapabilities) p)"

definition macosInterposeMonitorProfile :: "MonitorCapability set \<Rightarrow> MonitorBackendProfile" where
  "macosInterposeMonitorProfile required =
     declare_gaps MacosInterposeKnownUnsupportedCapabilities unsupportedReason required
      \<lparr>prof_profileName = ''macos-interpose-hooks-m14'',
       prof_backendFamily = mbfMacosHooks,
       prof_supportedCapabilities = MacosInterposeSupportedCapabilities,
       prof_requiredCapabilities = required,
       prof_gaps = [],
       prof_evidenceComplete = True,
       prof_diagnostics =
       [\<lparr>diag_level = mdlInfo, diag_message =
         ''selected macOS interpose/hooks backend; EndpointSecurity and hybrid backends are '' @
         ''unavailable in M14''\<rparr>]\<rparr>"

definition linuxPreloadMonitorProfile :: "MonitorCapability set \<Rightarrow> MonitorBackendProfile" where
  "linuxPreloadMonitorProfile required =
     declare_gaps LinuxPreloadKnownUnsupportedCapabilities linuxUnsupportedReason required
      \<lparr>prof_profileName = ''linux-preload-hooks-m14'',
       prof_backendFamily = mbfLinuxPreloadHooks,
       prof_supportedCapabilities = LinuxPreloadSupportedCapabilities,
       prof_requiredCapabilities = required,
       prof_gaps = [],
       prof_evidenceComplete = True,
       prof_diagnostics =
       [\<lparr>diag_level = mdlInfo, diag_message =
         ''selected Linux LD_PRELOAD/hooks backend; future native eBPF backend is unavailable in '' @
         ''M14''\<rparr>,
        \<lparr>diag_level = mdlInfo, diag_message =
         ''Linux raw syscall coverage is stackable-backed; io-mon classifies common file/probe '' @
         ''syscalls from libc, main-executable, startup non-system application-DSO, and late '' @
         ''dlopen/dlmopen application-DSO raw syscall sites, plus tracked anonymous/private '' @
         ''mmap/mprotect executable ranges with munmap/mremap lifecycle bookkeeping; libc-visible '' @
         ''pread/readv/preadv/sendfile/copy_file_range/splice content movers record source reads '' @
         ''and destination writes; libc-visible link/linkat and rename/renameat/renameat2 record '' @
         ''hardlink source/alias and final rename destinations; libc-visible getenv/uname/sysconf '' @
         ''are observed inputs, clock_gettime/gettimeofday/time are time-read evidence, and '' @
         ''getrandom/getentropy/arc4random/arc4random_buf/arc4random_uniform are entropy evidence '' @
         ''(deduped per process per source) left to caller invalidation policy; and io-mon fails '' @
         ''closed for unsupported raw syscall numbers, untracked or partially tracked anonymous '' @
         ''executable mprotect, partial-overlap mremap ownership escapes, or anonymous '' @
         ''writable+executable mappings''\<rparr>,
        \<lparr>diag_level = mdlWarning, diag_message =
         ''Linux LD_PRELOAD completeness excludes adversarial residuals unless they are '' @
         ''represented by event-loss at runtime: excluded-prefix startup DSOs, executable mappings '' @
         ''outside the preload mmap lifecycle, direct raw zero-copy/mutation syscalls, '' @
         ''pre-existing hardlink/inode aliases, direct raw/vDSO non-file determinism paths, and '' @
         ''broader Linux non-file APIs beyond '' @
         ''getenv/uname/sysconf/clock/gettimeofday/time/getrandom/getentropy/arc4random(_buf|_unifor'' @
         ''m). Consumers that require those threat models must request the corresponding '' @
         ''capability and treat the gap as incomplete.''\<rparr>]\<rparr>"

definition windowsInterposeMonitorProfile :: "MonitorCapability set \<Rightarrow> MonitorBackendProfile" where
  "windowsInterposeMonitorProfile required =
     declare_gaps WindowsInterposeKnownUnsupportedCapabilities windowsUnsupportedReason required
      \<lparr>prof_profileName = ''windows-interpose-hooks-m14'',
       prof_backendFamily = mbfWindowsInterposeHooks,
       prof_supportedCapabilities = WindowsInterposeSupportedCapabilities,
       prof_requiredCapabilities = required,
       prof_gaps = [],
       prof_evidenceComplete = True,
       prof_diagnostics =
       [\<lparr>diag_level = mdlInfo, diag_message =
         ''selected Windows interpose/hooks backend (inline detours with an IAT-patching fallback, '' @
         ''injected via CreateRemoteThread)''\<rparr>,
        \<lparr>diag_level = mdlInfo, diag_message =
         ''M5 coverage: connect/WSAConnect plus named-pipe client opens are recorded as '' @
         ''ipc-connect (the pipe peer carries its server pid from GetNamedPipeServerProcessId; a '' @
         ''socket peer is reported unknown and treated conservatively); named file mappings, '' @
         ''anonymous pipes and NTFS alternate data streams are recorded as external content, and a '' @
         ''mapped view of a file is recorded as a read of that file; entropy (BCryptGenRandom, '' @
         ''ProcessPrng, RtlGenRandom, CryptGenRandom) and clocks (QueryPerformanceCounter, '' @
         ''GetSystemTimeAsFileTime, GetTickCount64) are recorded as evidence that never downgrades''\<rparr>,
        \<lparr>diag_level = mdlWarning, diag_message =
         ''Windows non-determinism coverage is limited to calls through the exported entry points. '' @
         ''GetTickCount64 and GetSystemTimeAsFileTime are served from KUSER_SHARED_DATA, and a '' @
         ''program that reads that page directly -- or issues rdtsc -- performs NO call for a '' @
         ''detour to intercept, so such a read is neither observed nor detected. Entropy and clock '' @
         ''observations are recorded once per source per caller origin (program vs system image), '' @
         ''so they are evidence that a source was used, not a count of uses.''\<rparr>,
        \<lparr>diag_level = mdlInfo, diag_message =
         ''M10 coverage: environment reads are recorded as observed declared inputs (mrEnvRead, '' @
         ''the variable name, deduped case-insensitively per process, never downgrading). Windows '' @
         ''keeps two copies of the environment and a program reads exactly one, so both are '' @
         ''hooked: the PEB block through kernel32 GetEnvironmentVariableW/A and '' @
         ''GetEnvironmentStringsW/A/GetEnvironmentStrings, and each C runtime's own startup '' @
         ''snapshot through its getenv family -- ucrtbase (getenv, _wgetenv, getenv_s, _wgetenv_s, '' @
         ''_dupenv_s, _wdupenv_s) and msvcrt (the same minus _dupenv_s/_wdupenv_s, which it does '' @
         ''not export). A lookup that found nothing is recorded too: absence is a dependency. The '' @
         ''monitor's own per-run control variables (REPRO_MONITOR_*, IO_MON_*) are excluded, '' @
         ''because folding them into a consumer's cache key would change that key on every run.''\<rparr>,
        \<lparr>diag_level = mdlWarning, diag_message =
         ''Windows observed-env coverage is limited to reads that go through a CALL. A program '' @
         ''that walks the C runtime's environment ARRAY directly -- msvcrt's _environ, ucrtbase's '' @
         ''__p__environ / __p__wenviron -- performs no call for a detour to intercept, so such a '' @
         ''read is neither observed nor detected. This is the Windows counterpart of the POSIX '' @
         ''environ walk, which the macOS and Linux arms do not cover either. A whole-block read '' @
         ''(GetEnvironmentStrings*) is expanded into one record per variable only when the CALLER '' @
         ''is the monitored program's own image: every C runtime reads the block once at startup '' @
         ''in every process, and expanding that would make every action depend on its entire '' @
         ''environment. A program whose block read comes through a bundled DLL is attributed to '' @
         ''the system image and gets no expansion; its named reads are still recorded.''\<rparr>]\<rparr>"

datatype host = HostLinux | HostWindows | HostOther

fun defaultHooksMonitorProfile :: "host \<Rightarrow> MonitorCapability set \<Rightarrow> MonitorBackendProfile" where
  "defaultHooksMonitorProfile HostLinux required = linuxPreloadMonitorProfile required"
| "defaultHooksMonitorProfile HostWindows required = windowsInterposeMonitorProfile required"
| "defaultHooksMonitorProfile HostOther required = macosInterposeMonitorProfile required"

definition profileRecords :: "MonitorBackendProfile \<Rightarrow> MonitorRecord list" where
  "profileRecords profile = backendProfileRecord profile # map capabilityGapRecord (prof_gaps profile)"

section \<open>Rebuilding the profile from records\<close>

record profile_scan =
  ps_profile :: MonitorBackendProfile
  ps_sawProfile :: bool
  ps_gaps :: "MonitorCapabilityGap list"
  ps_unnamable :: "string list"

definition scan_profile_part :: "string \<Rightarrow> profile_scan \<Rightarrow> profile_scan" where
  "scan_profile_part part st =
     (case split_once CHR ''='' part of
        [key, val] \<Rightarrow>
          if key = ''backend'' then
            st\<lparr>ps_profile := (ps_profile st)\<lparr>prof_backendFamily := backendFamilyFromId val\<rparr>\<rparr>
          else if key = ''supported'' then
            (case parseCapabilityList val (ps_unnamable st) of (caps, un) \<Rightarrow>
               st\<lparr>ps_profile := (ps_profile st)\<lparr>prof_supportedCapabilities := caps\<rparr>, ps_unnamable := un\<rparr>)
          else if key = ''required'' then
            (case parseCapabilityList val (ps_unnamable st) of (caps, un) \<Rightarrow>
               st\<lparr>ps_profile := (ps_profile st)\<lparr>prof_requiredCapabilities := caps\<rparr>, ps_unnamable := un\<rparr>)
          else if key = ''evidenceComplete'' then
            st\<lparr>ps_profile := (ps_profile st)\<lparr>prof_evidenceComplete := (val = ''true'')\<rparr>\<rparr>
          else st
      | _ \<Rightarrow> st)"

definition scan_gap :: "MonitorCapability set \<Rightarrow> string \<Rightarrow> profile_scan \<Rightarrow> profile_scan" where
  "scan_gap required detail st =
     (case parseGapDetail detail of
        Inr gap \<Rightarrow>
          st\<lparr>ps_gaps := ps_gaps st @
             [if gap_capability gap \<in> required \<and>
                 gap_capability gap \<notin> prof_supportedCapabilities (ps_profile st)
              then gap\<lparr>gap_required := True\<rparr> else gap]\<rparr>
      | Inl _ \<Rightarrow>
          st\<lparr>ps_profile := (ps_profile st)\<lparr>prof_diagnostics := prof_diagnostics (ps_profile st) @
             [\<lparr>diag_level = mdlWarning, diag_message =
                ''malformed monitor capability gap record: '' @ detail\<rparr>]\<rparr>\<rparr>)"

definition scan_record :: "MonitorCapability set \<Rightarrow> MonitorRecord \<Rightarrow> profile_scan \<Rightarrow> profile_scan" where
  "scan_record required r st =
     (case rec_kind r of
        mrBackendProfile \<Rightarrow>
          fold scan_profile_part (split_char CHR '';'' (rec_detail r)) (st\<lparr>ps_sawProfile := True\<rparr>)
      | mrCapabilityGap \<Rightarrow> scan_gap required (rec_detail r) st
      | _ \<Rightarrow> st)"

definition unnamable_diagnostic :: "string \<Rightarrow> MonitorDiagnostic" where
  "unnamable_diagnostic ident =
     \<lparr>diag_level = mdlWarning, diag_message =
      ''monitor capability id declared by the producer that this io-mon build cannot name: '' @ ident @
      '' '' @
      [CHR 0xE2] @
      [CHR 0x80] @
      [CHR 0x94] @
      '' this capture was written by a newer io-mon; the id is reported rather than dropped, '' @
      ''and is counted as UNSUPPORTED here, which under-claims the backend rather than '' @
      ''over-claiming it''\<rparr>"

text \<open>The closing loop over the required capabilities.\<close>

definition close_required :: "MonitorCapability \<Rightarrow> MonitorBackendProfile \<Rightarrow> MonitorBackendProfile" where
  "close_required c p =
     (let p = p\<lparr>prof_requiredCapabilities := insert c (prof_requiredCapabilities p)\<rparr>
      in if c \<in> prof_supportedCapabilities p then p
         else
           let p = p\<lparr>prof_evidenceComplete := False\<rparr>;
               found = (\<exists>gap \<in> set (prof_gaps p). gap_capability gap = c);
               marked = map (\<lambda>gap. if gap_capability gap = c then gap\<lparr>gap_required := True\<rparr> else gap)
                          (prof_gaps p)
           in p\<lparr>prof_gaps :=
                if found then marked
                else marked @
                  [\<lparr>gap_backendFamily = prof_backendFamily p, gap_capability = c,
                    gap_required = True, gap_inputChannel = (c \<in> InputChannelCapabilities),
                    gap_reason = (if prof_backendFamily p = mbfLinuxPreloadHooks
                                  then linuxUnsupportedReason c else unsupportedReason c)\<rparr>]\<rparr>)"

definition profileFromRecords ::
    "host \<Rightarrow> MonitorRecord list \<Rightarrow> MonitorCapability set \<Rightarrow> MonitorBackendProfile" where
  "profileFromRecords host records required =
     (let st = fold (scan_record required) records
                 \<lparr>ps_profile = defaultHooksMonitorProfile host required, ps_sawProfile = False,
                  ps_gaps = [], ps_unnamable = []\<rparr>;
          p = (ps_profile st)\<lparr>prof_diagnostics :=
                 prof_diagnostics (ps_profile st) @ map unnamable_diagnostic (ps_unnamable st)\<rparr>;
          p = (if ps_sawProfile st \<and> 0 < length (ps_gaps st) then p\<lparr>prof_gaps := ps_gaps st\<rparr> else p)
      in fold close_required (cap_list required) p)"

definition evaluateMonitorEvidence ::
    "host \<Rightarrow> MonitorDepFile \<Rightarrow> MonitorCapability set \<Rightarrow> MonitorBackendProfile" where
  "evaluateMonitorEvidence host dep required =
     (let p = profileFromRecords host (dep_records dep) required
      in if sum_eventLossCount (dep_summary dep) \<noteq> 0
         then p\<lparr>prof_evidenceComplete := False, prof_diagnostics := prof_diagnostics p @
                [\<lparr>diag_level = mdlError, diag_message =
                   ''monitor evidence contains event-loss records''\<rparr>]\<rparr>
         else p)"

end
