(* ===== verification/Encode.thy ===== *)
theory Encode
  imports Codec Capabilities "HOL-Library.List_Lexorder" "HOL-Library.Product_Lexorder"
    "HOL-Library.Char_ord" "HOL-Library.Multiset"
begin

text \<open>
  The \<^verbatim>\<open>.iomon\<close> file codec of \<^verbatim>\<open>src/io_mon/encode.nim\<close>: record payloads, frames, the strict
  and the crash-tolerant frame decoder, the canonical order, the summary, the scope stamps, the
  depfile built from records, and the two writers of the envelope (one buffers the file, one
  streams it).
\<close>

unbundle bit_operations_syntax

section \<open>Checksum\<close>

definition CanonicalFileKind :: u16 where "CanonicalFileKind = 1"
definition FnvOffset :: u64 where "FnvOffset = 14695981039346656037"
definition FnvPrime :: u64 where "FnvPrime = 1099511628211"

definition checksumUpdate :: "u64 \<Rightarrow> bytes \<Rightarrow> u64" where
  "checksumUpdate seed bs = fold (\<lambda>b r. (r XOR ucast b) * FnvPrime) bs seed"

definition checksum :: "bytes \<Rightarrow> u64" where
  "checksum bs = checksumUpdate FnvOffset bs"

section \<open>Record payloads\<close>

fun ord_recordKind :: "MonitorRecordKind \<Rightarrow> nat" where
  "ord_recordKind mrProcessStart = 1"
| "ord_recordKind mrProcessExec = 2"
| "ord_recordKind mrProcessSpawn = 3"
| "ord_recordKind mrFileOpen = 4"
| "ord_recordKind mrFileRead = 5"
| "ord_recordKind mrPathProbe = 6"
| "ord_recordKind mrFileWrite = 7"
| "ord_recordKind mrEventLoss = 8"
| "ord_recordKind mrDirectoryEnumerate = 9"
| "ord_recordKind mrBackendProfile = 10"
| "ord_recordKind mrCapabilityGap = 11"
| "ord_recordKind mrIpcConnect = 12"
| "ord_recordKind mrLibraryLoad = 13"
| "ord_recordKind mrEnvRead = 14"
| "ord_recordKind mrSysctlRead = 15"
| "ord_recordKind mrNonDeterministic = 16"
| "ord_recordKind mrTimeRead = 17"
| "ord_recordKind mrExternalContent = 18"
| "ord_recordKind mrPathMutation = 19"

fun ord_observationKind :: "MonitorObservationKind \<Rightarrow> nat" where
  "ord_observationKind moProcessStart = 1"
| "ord_observationKind moExecute = 2"
| "ord_observationKind moFileOpen = 3"
| "ord_observationKind moFileRead = 4"
| "ord_observationKind moPathProbe = 5"
| "ord_observationKind moFileWrite = 6"
| "ord_observationKind moEventLoss = 7"
| "ord_observationKind moDirectoryEnumerate = 8"
| "ord_observationKind moBackendProfile = 9"
| "ord_observationKind moCapabilityGap = 10"
| "ord_observationKind moIpcConnect = 11"
| "ord_observationKind moEnvRead = 12"
| "ord_observationKind moSysctlRead = 13"
| "ord_observationKind moNonDeterministic = 14"
| "ord_observationKind moTimeRead = 15"
| "ord_observationKind moExternalContent = 16"
| "ord_observationKind moPathMutation = 17"

fun ord_probeResult :: "ProbeResult \<Rightarrow> nat" where
  "ord_probeResult prUnknown = 0"
| "ord_probeResult prAbsent = 1"
| "ord_probeResult prExistingFile = 2"
| "ord_probeResult prExistingDirectory = 3"
| "ord_probeResult prExistingOther = 4"

text \<open>The conversions \<^verbatim>\<open>MonitorRecordKind(n)\<close> etc., applied only to ordinals in range.\<close>

definition recordKind_of_ord :: "nat \<Rightarrow> MonitorRecordKind" where
  "recordKind_of_ord n = Enum.enum ! (n - 1)"

definition observationKinds :: "MonitorObservationKind list" where
  "observationKinds = [moProcessStart, moExecute, moFileOpen, moFileRead, moPathProbe, moFileWrite,
     moEventLoss, moDirectoryEnumerate, moBackendProfile, moCapabilityGap, moIpcConnect, moEnvRead,
     moSysctlRead, moNonDeterministic, moTimeRead, moExternalContent, moPathMutation]"

definition observationKind_of_ord :: "nat \<Rightarrow> MonitorObservationKind" where
  "observationKind_of_ord n = observationKinds ! (n - 1)"

definition probeResult_of_ord :: "nat \<Rightarrow> ProbeResult" where
  "probeResult_of_ord n =
     [prUnknown, prAbsent, prExistingFile, prExistingDirectory, prExistingOther] ! n"

definition RecordFixedHeaderLen :: nat where "RecordFixedHeaderLen = 60"
definition FrameFixedHeaderLen :: nat where "FrameFixedHeaderLen = 4 + RecordFixedHeaderLen"
definition OffKind :: nat where "OffKind = 0"
definition OffObservationKind :: nat where "OffObservationKind = 2"
definition OffSeq :: nat where "OffSeq = 4"
definition OffOsPid :: nat where "OffOsPid = 12"
definition OffParentOsPid :: nat where "OffParentOsPid = 20"
definition OffThreadId :: nat where "OffThreadId = 28"
definition OffChildOsPid :: nat where "OffChildOsPid = 36"
definition OffResult :: nat where "OffResult = 44"
definition OffFlags :: nat where "OffFlags = 52"
definition OffProbeResult :: nat where "OffProbeResult = 56"

lemmas off_defs = RecordFixedHeaderLen_def FrameFixedHeaderLen_def OffKind_def
  OffObservationKind_def OffSeq_def OffOsPid_def OffParentOsPid_def OffThreadId_def
  OffChildOsPid_def OffResult_def OffFlags_def OffProbeResult_def

definition storeRecordFixedHeader :: "bytes \<Rightarrow> nat \<Rightarrow> MonitorRecord \<Rightarrow> bytes" where
  "storeRecordFixedHeader buf base r =
    (let buf = storeU16Le buf (base + OffKind) (word_of_nat (ord_recordKind (rec_kind r)));
         buf = storeU16Le buf (base + OffObservationKind)
                 (word_of_nat (ord_observationKind (rec_observationKind r)));
         buf = storeU64Le buf (base + OffSeq) (rec_seq r);
         buf = storeU64Le buf (base + OffOsPid) (rec_osPid r);
         buf = storeU64Le buf (base + OffParentOsPid) (rec_parentOsPid r);
         buf = storeU64Le buf (base + OffThreadId) (rec_threadId r);
         buf = storeU64Le buf (base + OffChildOsPid) (rec_childOsPid r);
         buf = storeU64Le buf (base + OffResult) (word_of_int (rec_result r));
         buf = storeU32Le buf (base + OffFlags) (rec_flags r)
     in storeU32Le buf (base + OffProbeResult) (word_of_nat (ord_probeResult (rec_probeResult r))))"

definition encodeRecordPayload :: "MonitorRecord \<Rightarrow> bytes" where
  "encodeRecordPayload r =
    (let result = storeRecordFixedHeader (replicate RecordFixedHeaderLen 0) 0 r;
         result = writeString result (rec_path r)
     in writeString result (rec_detail r))"

definition decodeRecordPayload :: "bytes \<Rightarrow> MonitorRecord envelope" where
  "decodeRecordPayload payload =
    (if length payload < RecordFixedHeaderLen
     then raiseEnvelopeError eeMalformed ''truncated iomon record header''
     else
       let kindOrd = loadU16Le payload OffKind;
           obsOrd = loadU16Le payload OffObservationKind
       in if unat kindOrd < 1 \<or> unat kindOrd > 19
          then raiseEnvelopeError eeUnknownType ''unknown iomon record kind''
          else if unat obsOrd < 1 \<or> unat obsOrd > 17
          then raiseEnvelopeError eeUnknownType ''unknown iomon observation kind''
          else
            let probeOrd = loadU32Le payload OffProbeResult
            in if unat probeOrd > 4
               then raiseEnvelopeError eeUnknownType ''unknown iomon probe result''
               else
                 res_bind (readString payload RecordFixedHeaderLen) (\<lambda>(path, pos).
                 res_bind (readString payload pos) (\<lambda>(detail, pos).
                   if pos \<noteq> length payload
                   then raiseEnvelopeError eeMalformed ''iomon record has trailing bytes''
                   else Inr
                    \<lparr>rec_kind = recordKind_of_ord (unat kindOrd),
                     rec_observationKind = observationKind_of_ord (unat obsOrd),
                     rec_seq = loadU64Le payload OffSeq,
                     rec_osPid = loadU64Le payload OffOsPid,
                     rec_parentOsPid = loadU64Le payload OffParentOsPid,
                     rec_threadId = loadU64Le payload OffThreadId,
                     rec_childOsPid = loadU64Le payload OffChildOsPid,
                     rec_result = sint (loadU64Le payload OffResult),
                     rec_flags = loadU32Le payload OffFlags,
                     rec_probeResult = probeResult_of_ord (unat probeOrd),
                     rec_path = path, rec_detail = detail\<rparr>)))"

section \<open>Frames\<close>

definition encodeFrame :: "MonitorRecord \<Rightarrow> bytes" where
  "encodeFrame r =
    (let payloadLen = RecordFixedHeaderLen + 4 + length (rec_path r) + 4 + length (rec_detail r);
         result = replicate FrameFixedHeaderLen 0;
         result = storeU32Le result 0 (word_of_nat payloadLen);
         result = storeRecordFixedHeader result 4 r;
         result = writeString result (rec_path r)
     in writeString result (rec_detail r))"

function decode_frames_from :: "bytes \<Rightarrow> nat \<Rightarrow> MonitorRecord list envelope" where
  "decode_frames_from bs pos =
    (if pos < length bs
     then res_bind (readU32Le bs pos) (\<lambda>(len, p).
       if unat len \<le> 0 \<or> p + unat len > length bs
       then raiseEnvelopeError eeMalformed ''truncated iomon record frame''
       else res_bind (decodeRecordPayload (slice bs p (unat len))) (\<lambda>r.
            res_bind (decode_frames_from bs (p + unat len)) (\<lambda>rs. Inr (r # rs))))
     else Inr [])"
  by pat_completeness auto
termination
  by (relation "measure (\<lambda>(bs, pos). length bs - pos)")
    (auto simp: readU32Le_eq split: if_splits)

definition decodeFrames :: "bytes \<Rightarrow> MonitorRecord list envelope" where
  "decodeFrames bs = decode_frames_from bs 0"

text \<open>The crash-recovery decoder: the records ahead of the first bad frame, and \<open>cleanEof\<close>.\<close>

function tolerant_from :: "bytes \<Rightarrow> nat \<Rightarrow> MonitorRecord list \<times> bool" where
  "tolerant_from bs pos =
    (if pos < length bs
     then
       if pos + 4 > length bs then ([], False)
       else (case readU32Le bs pos of
               Inl _ \<Rightarrow> ([], False)
             | Inr (len, lengthCursor) \<Rightarrow>
                 if unat len \<le> 0 \<or> lengthCursor + unat len > length bs then ([], False)
                 else (case decodeRecordPayload (slice bs lengthCursor (unat len)) of
                         Inl _ \<Rightarrow> ([], False)
                       | Inr r \<Rightarrow>
                           (case tolerant_from bs (lengthCursor + unat len) of
                              (rs, clean) \<Rightarrow> (r # rs, clean))))
     else ([], True))"
  by pat_completeness auto
termination
  by (relation "measure (\<lambda>(bs, pos). length bs - pos)")
    (auto simp: readU32Le_eq split: if_splits)

definition decodeFramesTolerant :: "bytes \<Rightarrow> MonitorRecord list \<times> bool" where
  "decodeFramesTolerant bs = tolerant_from bs 0"

declare decode_frames_from.simps [simp del] tolerant_from.simps [simp del]

section \<open>Canonical order and summary\<close>

definition cmp :: "'a::linorder \<Rightarrow> 'a \<Rightarrow> int" where
  "cmp a b = (if a < b then -1 else if a = b then 0 else 1)"

definition canonicalOrder :: "MonitorRecord \<Rightarrow> MonitorRecord \<Rightarrow> int" where
  "canonicalOrder a b =
    (let result = cmp (rec_osPid a) (rec_osPid b) in if result \<noteq> 0 then result else
     let result = cmp (rec_threadId a) (rec_threadId b) in if result \<noteq> 0 then result else
     let result = cmp (rec_seq a) (rec_seq b) in if result \<noteq> 0 then result else
     let result = cmp (ord_recordKind (rec_kind a)) (ord_recordKind (rec_kind b))
     in if result \<noteq> 0 then result else cmp (rec_path a) (rec_path b))"

text \<open>Nim's \<open>sort\<close> is a stable merge sort; insertion from the right is the same function.\<close>

fun insert_by :: "('a \<Rightarrow> 'a \<Rightarrow> int) \<Rightarrow> 'a \<Rightarrow> 'a list \<Rightarrow> 'a list" where
  "insert_by c x [] = [x]"
| "insert_by c x (y # ys) = (if c x y \<le> 0 then x # y # ys else y # insert_by c x ys)"

definition sort_by :: "('a \<Rightarrow> 'a \<Rightarrow> int) \<Rightarrow> 'a list \<Rightarrow> 'a list" where
  "sort_by c xs = foldr (insert_by c) xs []"

definition is_loss :: "MonitorRecord \<Rightarrow> bool" where
  "is_loss r \<longleftrightarrow> rec_kind r = mrEventLoss \<or> rec_observationKind r = moEventLoss"

definition summarizeRecords :: "MonitorRecord list \<Rightarrow> MonitorSummary" where
  "summarizeRecords records =
    (let (pids, losses, observations) =
       fold (\<lambda>r (pids, losses, observations).
         (if rec_osPid r \<noteq> 0 then insert (rec_osPid r) pids else pids,
          if is_loss r then losses + 1 else losses,
          if is_loss r then observations else observations + 1)) records ({}, 0, 0)
     in \<lparr>sum_recordCount = word_of_nat (length records),
         sum_processCount = word_of_nat (card pids),
         sum_observationCount = observations, sum_eventLossCount = losses\<rparr>)"

section \<open>Scope stamps\<close>

text \<open>
  The first \<open>key=\<close> part of the first backend-profile record that has one; \<open>None\<close> where the
  source falls through its loops.
\<close>

definition stamp_in_detail :: "string \<Rightarrow> string \<Rightarrow> string option" where
  "stamp_in_detail key detail =
    map_option (\<lambda>part. split_once CHR ''='' part ! 1)
      (find (\<lambda>part. length (split_once CHR ''='' part) = 2 \<and> split_once CHR ''='' part ! 0 = key)
        (split_char CHR '';'' detail))"

fun stamp_from_records :: "string \<Rightarrow> MonitorRecord list \<Rightarrow> string option" where
  "stamp_from_records key [] = None"
| "stamp_from_records key (r # rs) =
    (if rec_kind r = mrBackendProfile
     then (case stamp_in_detail key (rec_detail r) of
             Some v \<Rightarrow> Some v
           | None \<Rightarrow> stamp_from_records key rs)
     else stamp_from_records key rs)"

definition observedInterestFromRecords ::
    "MonitorRecord list \<Rightarrow> bool \<times> string \<times> EventCategory set" where
  "observedInterestFromRecords records =
    (case stamp_from_records ''interest'' records of
       Some v \<Rightarrow> if length (strip v) = 0 then (True, v, {}) else (True, v, parseInterestTokens v)
     | None \<Rightarrow> (False, '''', {}))"

definition observedEvidenceScopeFromRecords ::
    "MonitorRecord list \<Rightarrow> bool \<times> string \<times> EvidenceScope" where
  "observedEvidenceScopeFromRecords records =
    (case stamp_from_records ''evidence'' records of
       Some v \<Rightarrow>
         if length (strip v) = 0 then (True, v, esUnrecognized)
         else (True, v, parseEvidenceScopeToken v)
     | None \<Rightarrow> (False, '''', esFull))"

definition depFileFromOwnedRecords :: "host \<Rightarrow> MonitorRecord list \<Rightarrow> MonitorDepFile" where
  "depFileFromOwnedRecords host records =
    (let summary = summarizeRecords records;
         (istated, itokens, icats) = observedInterestFromRecords records;
         (estated, etoken, escope) = observedEvidenceScopeFromRecords records;
         profile = profileFromRecords host records InputEvidenceCapabilities;
         profile = (if sum_eventLossCount summary \<noteq> 0
                    then profile\<lparr>prof_evidenceComplete := False\<rparr> else profile)
     in \<lparr>dep_version = IomonVersion, dep_producerVersion = IoMonDepfileProducer,
         dep_backendFamily = prof_backendFamily profile,
         dep_requiredFeatures = prof_requiredCapabilities profile,
         dep_completeness = (if prof_evidenceComplete profile \<and> sum_eventLossCount summary = 0
                             then mcComplete else mcIncomplete),
         dep_profile = profile, dep_capabilityGaps = prof_gaps profile, dep_summary = summary,
         dep_observedInterest = icats, dep_observedInterestStated = istated,
         dep_observedInterestTokens = itokens,
         dep_observedEvidenceScope = escope, dep_observedEvidenceScopeStated = estated,
         dep_observedEvidenceScopeToken = etoken,
         dep_records = records\<rparr>)"

section \<open>The envelope\<close>

definition renumber :: "MonitorRecord list \<Rightarrow> MonitorRecord list" where
  "renumber rs = map (\<lambda>i. (rs ! i)\<lparr>rec_seq := word_of_nat (i + 1)\<rparr>) [0..<length rs]"

definition encodeCanonical :: "MonitorRecord list \<Rightarrow> bytes" where
  "encodeCanonical records =
    (let ordered = renumber (sort_by canonicalOrder records);
         body = fold (\<lambda>r b. b @ encodeFrame r) ordered [];
         result = toBytes IomonMagic;
         result = writeU16Le result IomonVersion;
         result = writeU16Le result CanonicalFileKind;
         result = writeU64Le result (word_of_nat (length ordered));
         result = writeU64Le result (word_of_nat (length body));
         result = result @ body;
         result = result @ toBytes IomonTrailerMagic;
         result = writeU64Le result (word_of_nat (length ordered))
     in writeU64Le result (checksum body))"

text \<open>
  The streaming writer: one pass over the records for the body length and checksum, a second
  pass that writes header, frames and trailer.  The second component is the sequence of
  buffers handed to \<open>writeBytes\<close>; the file holds their concatenation.  A file that cannot be
  opened or a short write is the raised \<open>EnvelopeError\<close>: the argument says whether the open
  succeeds, and how many of the buffers can be written in full.
\<close>

definition canonical_chunks :: "MonitorRecord list \<Rightarrow> bytes list" where
  "canonical_chunks records =
    (let records = renumber (sort_by canonicalOrder records);
         (bodyLen, bodyChecksum) =
           fold (\<lambda>r (len, sum). let frame = encodeFrame r
                   in (len + word_of_nat (length frame), checksumUpdate sum frame))
             records (0 :: u64, FnvOffset);
         header = toBytes IomonMagic;
         header = writeU16Le header IomonVersion;
         header = writeU16Le header CanonicalFileKind;
         header = writeU64Le header (word_of_nat (length records));
         header = writeU64Le header bodyLen;
         trailer = toBytes IomonTrailerMagic;
         trailer = writeU64Le trailer (word_of_nat (length records));
         trailer = writeU64Le trailer bodyChecksum
     in [header] @ map encodeFrame records @ [trailer])"

fun write_chunks :: "bytes list \<Rightarrow> nat \<Rightarrow> bytes \<Rightarrow> EnvelopeError option \<times> bytes" where
  "write_chunks [] budget file = (None, file)"
| "write_chunks (c # cs) budget file =
    (if length c = 0 then write_chunks cs budget file
     else if length c \<le> budget then write_chunks cs (budget - length c) (file @ c)
     else (Some \<lparr>ee_kind = eeMalformed, ee_msg = ''short write to iomon depfile''\<rparr>,
           file @ take budget c))"

definition writeCanonicalInPlace ::
    "bool \<Rightarrow> nat \<Rightarrow> string \<Rightarrow> MonitorRecord list \<Rightarrow> EnvelopeError option \<times> bytes option" where
  "writeCanonicalInPlace can_open budget outputPath records =
    (if \<not> can_open
     then (Some \<lparr>ee_kind = eeMalformed,
                 ee_msg = ''cannot open iomon depfile for write: '' @ outputPath\<rparr>, None)
     else (case write_chunks (canonical_chunks records) budget [] of
             (err, file) \<Rightarrow> (err, Some file)))"

end
