(* ===== verification/Capability_Facts.thy ===== *)
theory Capability_Facts
  imports Capabilities
begin

text \<open>
  Facts on backend profiles: identifiers are injective and wire-safe, a gap detail parses back,
  and the profile a reader rebuilds never claims complete evidence while one of the capabilities
  the reader requires is missing.
\<close>

lemma capabilityId_inject [simp]: "capabilityId c = capabilityId d \<longleftrightarrow> c = d"
proof
  have "distinct (map capabilityId Enum.enum)"
    by (simp add: enum_MonitorCapability_def)
  then have "inj_on capabilityId (set Enum.enum)" by (simp add: distinct_map)
  then show "capabilityId c = capabilityId d \<Longrightarrow> c = d" by (simp add: inj_on_def)
qed simp

lemma backendFamilyId_inject [simp]: "backendFamilyId c = backendFamilyId d \<longleftrightarrow> c = d"
  by (cases c; cases d) simp_all

lemma find_unique:
  "(\<And>x. P x \<longleftrightarrow> x = a) \<Longrightarrow> a \<in> set xs \<Longrightarrow> find P xs = Some a"
  by (induction xs) auto

lemma tryCapabilityFromId_Id [simp]: "tryCapabilityFromId (capabilityId c) = Some c"
  unfolding tryCapabilityFromId_def by (rule find_unique) auto

lemma capabilityFromId_Id [simp]: "capabilityFromId (capabilityId c) = Inr c"
  by (simp add: capabilityFromId_def)

lemma backendFamilyFromId_Id [simp]: "backendFamilyFromId (backendFamilyId f) = f"
proof -
  have "find (\<lambda>g. backendFamilyId g = backendFamilyId f) Enum.enum = Some f"
    by (rule find_unique) auto
  then show ?thesis by (simp add: backendFamilyFromId_def)
qed

text \<open>No identifier holds a separator of the details it travels in.\<close>

definition no_sep :: "string \<Rightarrow> bool" where
  "no_sep t \<longleftrightarrow> CHR '';'' \<notin> set t \<and> CHR ''='' \<notin> set t \<and> CHR '','' \<notin> set t \<and> t \<noteq> []"

lemma no_sep_capabilityId: "no_sep (capabilityId c)"
  by (cases c) (simp_all add: no_sep_def)

lemma no_sep_backendFamilyId: "no_sep (backendFamilyId f)"
  by (cases f) (simp_all add: no_sep_def)

lemma no_sep_bool_text: "no_sep (bool_text b)"
  by (simp add: no_sep_def bool_text_def)

lemma bool_text_true [simp]: "bool_text b = ''true'' \<longleftrightarrow> b"
  by (simp add: bool_text_def)

lemma split_once_key:
  "c \<notin> set key \<Longrightarrow> split_once c (key @ c # val) = [key, val]"
  by (simp add: split_once_def takeWhile_append dropWhile_append)

lemma gapDetail_parts:
  assumes "CHR '';'' \<notin> set (gap_reason gap)"
  shows "split_char CHR '';'' (gapDetail gap) =
    [''backend'' @ CHR ''='' # backendFamilyId (gap_backendFamily gap),
     ''capability'' @ CHR ''='' # capabilityId (gap_capability gap),
     ''required'' @ CHR ''='' # bool_text (gap_required gap),
     ''input'' @ CHR ''='' # bool_text (gap_inputChannel gap),
     ''reason'' @ CHR ''='' # gap_reason gap]"
proof -
  have "gapDetail gap = join_with CHR '';''
    [''backend'' @ CHR ''='' # backendFamilyId (gap_backendFamily gap),
     ''capability'' @ CHR ''='' # capabilityId (gap_capability gap),
     ''required'' @ CHR ''='' # bool_text (gap_required gap),
     ''input'' @ CHR ''='' # bool_text (gap_inputChannel gap),
     ''reason'' @ CHR ''='' # gap_reason gap]"
    by (simp add: gapDetail_def)
  then show ?thesis
    using no_sep_capabilityId [of "gap_capability gap"] no_sep_backendFamilyId [of "gap_backendFamily gap"]
      no_sep_bool_text [of "gap_required gap"] no_sep_bool_text [of "gap_inputChannel gap"] assms
    by (simp only:) (rule split_join, simp_all add: no_sep_def)
qed

lemma parse_gapDetail:
  assumes "CHR '';'' \<notin> set (gap_reason gap)"
  shows "parseGapDetail (gapDetail gap) = Inr gap"
proof -
  have keys: "split_once CHR ''='' (''backend'' @ CHR ''='' # v) = [''backend'', v]"
    "split_once CHR ''='' (''capability'' @ CHR ''='' # v) = [''capability'', v]"
    "split_once CHR ''='' (''required'' @ CHR ''='' # v) = [''required'', v]"
    "split_once CHR ''='' (''input'' @ CHR ''='' # v) = [''input'', v]"
    "split_once CHR ''='' (''reason'' @ CHR ''='' # v) = [''reason'', v]" for v
    by (rule split_once_key; simp)+
  have "parse_gap_parts (split_char CHR '';'' (gapDetail gap)) (g, False) =
      Inr (g\<lparr>gap_backendFamily := gap_backendFamily gap, gap_capability := gap_capability gap,
        gap_required := gap_required gap, gap_inputChannel := gap_inputChannel gap,
        gap_reason := gap_reason gap\<rparr>, True)" for g
    unfolding gapDetail_parts [OF assms] parse_gap_parts.simps parse_gap_part_def prod.case keys
    by simp
  then show ?thesis unfolding parseGapDetail_def by simp
qed

section \<open>Evidence completeness needs every required capability\<close>

lemma close_required_simps [simp]:
  "prof_supportedCapabilities (close_required c p) = prof_supportedCapabilities p"
  "prof_requiredCapabilities (close_required c p) = insert c (prof_requiredCapabilities p)"
  "prof_evidenceComplete (close_required c p) \<longleftrightarrow>
     prof_evidenceComplete p \<and> c \<in> prof_supportedCapabilities p"
  by (simp_all add: close_required_def Let_def)

lemma close_required_fold:
  "prof_supportedCapabilities (fold close_required cs p) = prof_supportedCapabilities p \<and>
   prof_requiredCapabilities (fold close_required cs p) = set cs \<union> prof_requiredCapabilities p \<and>
   (prof_evidenceComplete (fold close_required cs p) \<longleftrightarrow>
      prof_evidenceComplete p \<and> set cs \<subseteq> prof_supportedCapabilities p)"
  by (induction cs arbitrary: p) auto

lemma set_cap_list [simp]: "set (cap_list S) = S"
  by (auto simp: cap_list_def)

lemma profile_complete_supports:
  "prof_evidenceComplete (profileFromRecords host rs required) \<Longrightarrow>
    required \<subseteq> prof_supportedCapabilities (profileFromRecords host rs required) \<and>
    required \<subseteq> prof_requiredCapabilities (profileFromRecords host rs required)"
  unfolding profileFromRecords_def Let_def by (simp add: close_required_fold)

text \<open>A missing required capability is always listed as a required gap.\<close>

definition has_required_gap :: "MonitorCapability \<Rightarrow> MonitorBackendProfile \<Rightarrow> bool" where
  "has_required_gap c p \<longleftrightarrow> (\<exists>g \<in> set (prof_gaps p). gap_capability g = c \<and> gap_required g)"

lemma close_required_gaps:
  "\<exists>new. prof_gaps (close_required d p) =
     map (\<lambda>g. if d \<notin> prof_supportedCapabilities p \<and> gap_capability g = d
              then g\<lparr>gap_required := True\<rparr> else g) (prof_gaps p) @ new"
  by (auto simp: close_required_def Let_def)

lemma close_required_gap:
  assumes "c \<notin> prof_supportedCapabilities p"
  shows "has_required_gap c (close_required c p)"
proof (cases "\<exists>g \<in> set (prof_gaps p). gap_capability g = c")
  case True
  then obtain g where g: "g \<in> set (prof_gaps p)" "gap_capability g = c" by blast
  obtain new where "prof_gaps (close_required c p) =
     map (\<lambda>g. if c \<notin> prof_supportedCapabilities p \<and> gap_capability g = c
              then g\<lparr>gap_required := True\<rparr> else g) (prof_gaps p) @ new"
    using close_required_gaps by blast
  then have "g\<lparr>gap_required := True\<rparr> \<in> set (prof_gaps (close_required c p))"
    using g assms by force
  then show ?thesis unfolding has_required_gap_def
    by (rule bexI [rotated]) (simp add: g(2))
next
  case False
  then show ?thesis using assms by (auto simp: close_required_def Let_def has_required_gap_def)
qed

lemma close_required_gap_keep:
  assumes "has_required_gap c p"
  shows "has_required_gap c (close_required d p)"
proof -
  obtain g where g: "g \<in> set (prof_gaps p)" "gap_capability g = c" "gap_required g"
    using assms by (auto simp: has_required_gap_def)
  let ?f = "\<lambda>g. if d \<notin> prof_supportedCapabilities p \<and> gap_capability g = d
              then g\<lparr>gap_required := True\<rparr> else g"
  obtain new where "prof_gaps (close_required d p) = map ?f (prof_gaps p) @ new"
    using close_required_gaps by blast
  then have "?f g \<in> set (prof_gaps (close_required d p))" using g(1) by simp
  moreover have "gap_capability (?f g) = c \<and> gap_required (?f g)" using g(2,3) by simp
  ultimately show ?thesis unfolding has_required_gap_def by blast
qed

lemma close_required_fold_gap:
  "c \<in> set cs \<and> c \<notin> prof_supportedCapabilities p \<or> has_required_gap c p \<Longrightarrow>
    has_required_gap c (fold close_required cs p)"
proof (induction cs arbitrary: p)
  case Nil
  then show ?case by simp
next
  case (Cons d cs)
  have "c \<in> set cs \<and> c \<notin> prof_supportedCapabilities (close_required d p) \<or>
      has_required_gap c (close_required d p)"
    using Cons.prems close_required_gap close_required_gap_keep by auto
  then show ?case using Cons.IH by simp
qed

lemma missing_required_is_gap:
  assumes "c \<in> required" "c \<notin> prof_supportedCapabilities (profileFromRecords host rs required)"
  shows "has_required_gap c (profileFromRecords host rs required)"
  using assms unfolding profileFromRecords_def Let_def
  by (intro close_required_fold_gap) (simp add: close_required_fold)

end
