(* ===== verification/Encode_Facts.thy ===== *)
theory Encode_Facts
  imports Encode Capability_Facts
begin

text \<open>
  Facts on the \<^verbatim>\<open>.iomon\<close> codec: the offset-based encoder is the field-by-field reference
  encoding, payloads and frames decode to what was encoded and to nothing else, the tolerant
  decoder on a cut buffer, the checksum, the canonical order, and the two envelope writers.
\<close>

unbundle bit_operations_syntax

section \<open>Ordinals\<close>

lemma ord_recordKind_range: "1 \<le> ord_recordKind k \<and> ord_recordKind k \<le> 19"
  by (cases k) simp_all

lemma recordKind_of_ord_inv [simp]: "recordKind_of_ord (ord_recordKind k) = k"
  by (cases k) (simp_all add: recordKind_of_ord_def enum_MonitorRecordKind_def)

lemma ord_recordKind_of_ord:
  assumes "1 \<le> n" "n \<le> 19" shows "ord_recordKind (recordKind_of_ord n) = n"
proof -
  have "list_all (\<lambda>n. ord_recordKind (recordKind_of_ord n) = n) [1..<20]"
    by code_simp
  then show ?thesis using assms by (simp add: list_all_iff)
qed

lemma ord_observationKind_range: "1 \<le> ord_observationKind k \<and> ord_observationKind k \<le> 17"
  by (cases k) simp_all

lemma observationKind_of_ord_inv [simp]: "observationKind_of_ord (ord_observationKind k) = k"
  by (cases k) (simp_all add: observationKind_of_ord_def observationKinds_def)

lemma ord_observationKind_of_ord:
  assumes "1 \<le> n" "n \<le> 17" shows "ord_observationKind (observationKind_of_ord n) = n"
proof -
  have "list_all (\<lambda>n. ord_observationKind (observationKind_of_ord n) = n) [1..<18]"
    by code_simp
  then show ?thesis using assms by (simp add: list_all_iff)
qed

lemma ord_probeResult_range: "ord_probeResult k \<le> 4"
  by (cases k) simp_all

lemma probeResult_of_ord_inv [simp]: "probeResult_of_ord (ord_probeResult k) = k"
  by (cases k) (simp_all add: probeResult_of_ord_def)

lemma ord_probeResult_of_ord:
  assumes "n \<le> 4" shows "ord_probeResult (probeResult_of_ord n) = n"
proof -
  have "n \<in> {0,1,2,3,4}" using assms by auto
  then show ?thesis by (elim insertE emptyE) (simp_all add: probeResult_of_ord_def)
qed

lemma unat_word_of_nat_ord [simp]:
  "unat (word_of_nat (ord_recordKind k) :: u16) = ord_recordKind k"
  "unat (word_of_nat (ord_observationKind ok) :: u16) = ord_observationKind ok"
  "unat (word_of_nat (ord_probeResult p) :: u32) = ord_probeResult p"
  using ord_recordKind_range [of k] ord_observationKind_range [of ok] ord_probeResult_range [of p]
  by (simp_all add: unat_of_nat)

section \<open>The header and payload as a concatenation of fields\<close>

text \<open>
  The reference encoding: every field appended by the cursor codec in wire order.  The fixed
  header the source stores at compile-time offsets is this list.
\<close>

definition header_bytes :: "MonitorRecord \<Rightarrow> bytes" where
  "header_bytes r =
     le_bytes 2 (word_of_nat (ord_recordKind (rec_kind r)) :: u16) @
     le_bytes 2 (word_of_nat (ord_observationKind (rec_observationKind r)) :: u16) @
     le_bytes 8 (rec_seq r) @ le_bytes 8 (rec_osPid r) @ le_bytes 8 (rec_parentOsPid r) @
     le_bytes 8 (rec_threadId r) @ le_bytes 8 (rec_childOsPid r) @
     le_bytes 8 (word_of_int (rec_result r) :: u64) @ le_bytes 4 (rec_flags r) @
     le_bytes 4 (word_of_nat (ord_probeResult (rec_probeResult r)) :: u32)"

lemma length_header_bytes [simp, len_simps]: "length (header_bytes r) = 60"
  by (simp add: header_bytes_def)

text \<open>Storing the next field behind what is already stored.\<close>

lemma store_next:
  assumes "off = length pre" "n \<le> m"
  shows "store_bytes (pre @ replicate m 0) off n w = (pre @ le_bytes n w) @ replicate (m - n) 0"
  using assms by (simp add: store_bytes_eq)

lemma storeRecordFixedHeader_eq:
  assumes "base = length pre"
  shows "storeRecordFixedHeader (pre @ replicate 60 0) base r = pre @ header_bytes r"
  unfolding storeRecordFixedHeader_def Let_def store_defs off_defs assms
  by (subst store_next, simp, simp)+ (simp add: header_bytes_def)

definition payload_bytes :: "MonitorRecord \<Rightarrow> bytes" where
  "payload_bytes r = header_bytes r @ string_bytes (rec_path r) @ string_bytes (rec_detail r)"

lemma length_payload_bytes [simp, len_simps]:
  "length (payload_bytes r) = 68 + length (rec_path r) + length (rec_detail r)"
  by (simp add: payload_bytes_def)

lemma encodeRecordPayload_eq: "encodeRecordPayload r = payload_bytes r"
  using storeRecordFixedHeader_eq [of 0 "[]" r]
  by (simp add: encodeRecordPayload_def Let_def writeString_eq payload_bytes_def RecordFixedHeaderLen_def)

lemma encodeFrame_eq:
  "encodeFrame r =
     le_bytes 4 (word_of_nat (length (encodeRecordPayload r)) :: u32) @ encodeRecordPayload r"
proof -
  let ?n = "word_of_nat (length (encodeRecordPayload r)) :: u32"
  have n: "word_of_nat (RecordFixedHeaderLen + 4 + length (rec_path r) + 4 + length (rec_detail r)) = ?n"
    by (simp add: encodeRecordPayload_eq RecordFixedHeaderLen_def)
  have "storeU32Le (replicate FrameFixedHeaderLen 0) 0 ?n = le_bytes 4 ?n @ replicate 60 0"
    using store_next [of 0 "[]" 4 64 ?n] by (simp add: store_defs off_defs)
  then show ?thesis
    using storeRecordFixedHeader_eq [of 4 "le_bytes 4 ?n" r]
    unfolding encodeFrame_def Let_def n
    by (simp add: writeString_eq encodeRecordPayload_eq payload_bytes_def)
qed


section \<open>Payload round trips\<close>

text \<open>
  A record is encodable when its result is a 64-bit integer and its payload length fits the
  32-bit frame prefix (so both strings fit theirs).
\<close>

definition encodable :: "MonitorRecord \<Rightarrow> bool" where
  "encodable r \<longleftrightarrow> is_int64 (rec_result r) \<and>
     68 + length (rec_path r) + length (rec_detail r) < 2 ^ 32"

text \<open>The payload codec itself only needs each string to fit its own length prefix.\<close>

definition payload_ok :: "MonitorRecord \<Rightarrow> bool" where
  "payload_ok r \<longleftrightarrow> is_int64 (rec_result r) \<and> length (rec_path r) < 2 ^ 32 \<and> length (rec_detail r) < 2 ^ 32"

lemma encodable_payload_ok: "encodable r \<Longrightarrow> payload_ok r"
  by (simp add: encodable_def payload_ok_def)

lemma sint_word_of_int64: "is_int64 i \<Longrightarrow> sint (word_of_int i :: u64) = i"
  by (simp add: is_int64_def signed_of_int signed_take_bit_int_eq_self)

lemma load_first:
  fixes w :: "'a::len word"
  shows "8 * n = LENGTH('a) \<Longrightarrow> load_bytes (le_bytes n w @ ys) 0 n = w"
  using load_bytes_append_mid [of n 0 "[]" w ys] by simp

lemma load_skip:
  "k \<le> off \<Longrightarrow> load_bytes (le_bytes k v @ ys) off n = load_bytes ys (off - k) n"
  unfolding load_bytes_eq by (rule or_bytes_cong) (simp add: nth_append)

lemma load_header_fields:
  assumes "payload = header_bytes r @ rest"
  shows "loadU16Le payload OffKind = word_of_nat (ord_recordKind (rec_kind r))"
    and "loadU16Le payload OffObservationKind = word_of_nat (ord_observationKind (rec_observationKind r))"
    and "loadU64Le payload OffSeq = rec_seq r"
    and "loadU64Le payload OffOsPid = rec_osPid r"
    and "loadU64Le payload OffParentOsPid = rec_parentOsPid r"
    and "loadU64Le payload OffThreadId = rec_threadId r"
    and "loadU64Le payload OffChildOsPid = rec_childOsPid r"
    and "loadU64Le payload OffResult = word_of_int (rec_result r)"
    and "loadU32Le payload OffFlags = rec_flags r"
    and "loadU32Le payload OffProbeResult = word_of_nat (ord_probeResult (rec_probeResult r))"
  unfolding load_defs assms header_bytes_def off_defs
  by (simp_all add: load_first load_skip)

lemma decode_encode_payload_ok:
  assumes "payload_ok r"
  shows "decodeRecordPayload (encodeRecordPayload r) = Inr r"
proof -
  let ?p = "payload_bytes r"
  have lens: "length (rec_path r) < 2 ^ 32" "length (rec_detail r) < 2 ^ 32"
    using assms by (simp_all add: payload_ok_def)
  note ld = load_header_fields [OF payload_bytes_def]
  have "readString ?p 60 = Inr (rec_path r, 64 + length (rec_path r))"
    using readString_append_mid [of 60 "header_bytes r" "rec_path r" "string_bytes (rec_detail r)"] lens
    by (simp add: payload_bytes_def)
  moreover have "readString ?p (64 + length (rec_path r)) =
      Inr (rec_detail r, 68 + length (rec_path r) + length (rec_detail r))"
    using readString_append_mid [of "64 + length (rec_path r)" "header_bytes r @ string_bytes (rec_path r)"
        "rec_detail r" "[]"] lens
    by (simp add: payload_bytes_def)
  ultimately show ?thesis
    using assms ord_recordKind_range [of "rec_kind r"] ord_probeResult_range [of "rec_probeResult r"]
      ord_observationKind_range [of "rec_observationKind r"]
    by (simp add: encodeRecordPayload_eq decodeRecordPayload_def Let_def ld RecordFixedHeaderLen_def
        payload_ok_def sint_word_of_int64)
qed

lemma decode_encode_payload: "encodable r \<Longrightarrow> decodeRecordPayload (encodeRecordPayload r) = Inr r"
  by (rule decode_encode_payload_ok [OF encodable_payload_ok])

text \<open>
  Decoding accepts exactly the encodings: whatever it accepts re-encodes to the same bytes, so
  no two payloads decode to one record.
\<close>

lemma is_int64_sint: "is_int64 (sint (w :: u64))"
  using sint_ge [of w] sint_lt [of w] by (simp add: is_int64_def)

lemma slice_split:
  "b = a + m \<Longrightarrow> k = m + n \<Longrightarrow> slice p a k = slice p a m @ slice p b n"
  by (simp add: slice_def take_add add.commute)

lemma header_fields_inverse:
  assumes "60 \<le> length p"
    and "loadU16Le p OffKind = word_of_nat (ord_recordKind (rec_kind r))"
    and "loadU16Le p OffObservationKind = word_of_nat (ord_observationKind (rec_observationKind r))"
    and "loadU64Le p OffSeq = rec_seq r" "loadU64Le p OffOsPid = rec_osPid r"
    and "loadU64Le p OffParentOsPid = rec_parentOsPid r" "loadU64Le p OffThreadId = rec_threadId r"
    and "loadU64Le p OffChildOsPid = rec_childOsPid r"
    and "loadU64Le p OffResult = word_of_int (rec_result r)" "loadU32Le p OffFlags = rec_flags r"
    and "loadU32Le p OffProbeResult = word_of_nat (ord_probeResult (rec_probeResult r))"
  shows "header_bytes r = take 60 p"
proof -
  note eqs = assms(2-) [symmetric, unfolded load_defs off_defs]
  have sp: "slice p 0 60 = slice p 0 2 @ slice p 2 58" "slice p 2 58 = slice p 2 2 @ slice p 4 56"
    "slice p 4 56 = slice p 4 8 @ slice p 12 48" "slice p 12 48 = slice p 12 8 @ slice p 20 40"
    "slice p 20 40 = slice p 20 8 @ slice p 28 32" "slice p 28 32 = slice p 28 8 @ slice p 36 24"
    "slice p 36 24 = slice p 36 8 @ slice p 44 16" "slice p 44 16 = slice p 44 8 @ slice p 52 8"
    "slice p 52 8 = slice p 52 4 @ slice p 56 4"
    by (rule slice_split; simp)+
  have sl: "take 60 p = slice p 0 2 @ slice p 2 2 @ slice p 4 8 @ slice p 12 8 @ slice p 20 8 @
      slice p 28 8 @ slice p 36 8 @ slice p 44 8 @ slice p 52 4 @ slice p 56 4"
    by (simp only: slice_0_take [symmetric] sp)
  show ?thesis
    unfolding header_bytes_def eqs sl using assms(1) by (simp add: le_bytes_load)
qed

lemma encode_decode_payload:
  assumes "decodeRecordPayload p = Inr r"
  shows "payload_ok r \<and> encodeRecordPayload r = p"
proof -
  let ?k = "unat (loadU16Le p OffKind)" and ?o = "unat (loadU16Le p OffObservationKind)"
    and ?q = "unat (loadU32Le p OffProbeResult)"
  from assms obtain pos where g: "60 \<le> length p" "1 \<le> ?k" "?k \<le> 19" "1 \<le> ?o" "?o \<le> 17" "?q \<le> 4"
    and s1: "readString p 60 = Inr (rec_path r, pos)"
    and s2: "readString p pos = Inr (rec_detail r, length p)"
    and r: "rec_kind r = recordKind_of_ord ?k" "rec_observationKind r = observationKind_of_ord ?o"
      "rec_probeResult r = probeResult_of_ord ?q" "rec_seq r = loadU64Le p OffSeq"
      "rec_osPid r = loadU64Le p OffOsPid" "rec_parentOsPid r = loadU64Le p OffParentOsPid"
      "rec_threadId r = loadU64Le p OffThreadId" "rec_childOsPid r = loadU64Le p OffChildOsPid"
      "rec_result r = sint (loadU64Le p OffResult)" "rec_flags r = loadU32Le p OffFlags"
    by (auto simp: decodeRecordPayload_def Let_def RecordFixedHeaderLen_def not_less not_le
        split: if_splits)
  note i1 = readString_inverse [OF s1] and i2 = readString_inverse [OF s2]
  have "header_bytes r = take 60 p"
    by (rule header_fields_inverse)
      (use g in \<open>simp_all add: r ord_recordKind_of_ord ord_observationKind_of_ord ord_probeResult_of_ord\<close>)
  moreover have "string_bytes (rec_path r) = take (4 + length (rec_path r)) (drop 60 p)"
    using i1 by (simp add: slice_def)
  moreover have "string_bytes (rec_detail r) = drop (64 + length (rec_path r)) p"
  proof -
    have "length (drop (64 + length (rec_path r)) p) = 4 + length (rec_detail r)"
      using i1 i2 by simp
    then have "take (4 + length (rec_detail r)) (drop (64 + length (rec_path r)) p) =
        drop (64 + length (rec_path r)) p" by simp
    moreover have "pos = 64 + length (rec_path r)" using i1 by simp
    ultimately show ?thesis using i2 by (metis slice_def)
  qed
  ultimately have "payload_bytes r = take 60 p @ take (4 + length (rec_path r)) (drop 60 p) @
      drop (60 + (4 + length (rec_path r))) p"
    by (simp add: payload_bytes_def)
  also have "drop (60 + (4 + length (rec_path r))) p = drop (4 + length (rec_path r)) (drop 60 p)"
    by (simp add: add.commute)
  also have "take 60 p @ take (4 + length (rec_path r)) (drop 60 p) @
      drop (4 + length (rec_path r)) (drop 60 p) = p"
    by (simp only: append_take_drop_id)
  finally show ?thesis using i1 i2 r(9) by (simp add: encodeRecordPayload_eq is_int64_sint payload_ok_def)
qed

text \<open>So the payload codec meets the contract of an exact codec.\<close>

interpretation payload: exact_codec encodeRecordPayload decodeRecordPayload payload_ok
  by unfold_locales (use decode_encode_payload_ok encode_decode_payload in auto)


section \<open>Frames\<close>

lemma length_encodeFrame [simp, len_simps]:
  "length (encodeFrame r) = 72 + length (rec_path r) + length (rec_detail r)"
  by (simp add: encodeFrame_eq encodeRecordPayload_eq)

text \<open>One step of the frame loops at an encoded frame, wherever it stands in the buffer.\<close>

lemma frame_prefix:
  assumes "bs = pre @ encodeFrame r @ post" "pos = length pre" "encodable r"
  shows "readU32Le bs pos = Inr (word_of_nat (length (encodeRecordPayload r)), pos + 4)"
    and "unat (word_of_nat (length (encodeRecordPayload r)) :: u32) = length (encodeRecordPayload r)"
    and "slice bs (pos + 4) (length (encodeRecordPayload r)) = encodeRecordPayload r"
    and "pos + 4 + length (encodeRecordPayload r) = length (pre @ encodeFrame r)"
    and "pos + length (encodeFrame r) \<le> length bs" "\<not> length (encodeRecordPayload r) \<le> 0"
proof -
  let ?n = "word_of_nat (length (encodeRecordPayload r)) :: u32"
  have bs: "bs = pre @ le_bytes 4 ?n @ (encodeRecordPayload r @ post)"
    by (simp add: assms(1) encodeFrame_eq)
  have "load_bytes bs pos 4 = ?n" unfolding bs using assms(2) by (intro load_bytes_append_mid) simp_all
  then show "readU32Le bs pos = Inr (?n, pos + 4)"
    unfolding readU32Le_eq using bs assms(2) by simp
  show "unat ?n = length (encodeRecordPayload r)"
    by (rule unat_length_u32) (use assms(3) in \<open>simp add: encodeRecordPayload_eq encodable_def\<close>)
  have "bs = (pre @ le_bytes 4 ?n) @ encodeRecordPayload r @ post" by (simp add: bs)
  then show "slice bs (pos + 4) (length (encodeRecordPayload r)) = encodeRecordPayload r"
    by (simp only:) (rule slice_append_midI, simp_all add: assms(2))
  show "pos + 4 + length (encodeRecordPayload r) = length (pre @ encodeFrame r)"
    by (simp add: assms(2) encodeRecordPayload_eq)
  show "pos + length (encodeFrame r) \<le> length bs" by (simp add: assms(1,2))
  show "\<not> length (encodeRecordPayload r) \<le> 0" by (simp add: encodeRecordPayload_eq)
qed

definition frames :: "MonitorRecord list \<Rightarrow> bytes" where
  "frames rs = concat (map encodeFrame rs)"

lemma frames_simps [simp]: "frames [] = []" "frames (r # rs) = encodeFrame r @ frames rs"
  "frames (rs @ ss) = frames rs @ frames ss"
  by (simp_all add: frames_def)

lemma decode_frames_step:
  assumes "encodable r"
  shows "decode_frames_from (pre @ encodeFrame r @ post) (length pre) =
    res_bind (decode_frames_from (pre @ encodeFrame r @ post) (length (pre @ encodeFrame r)))
      (\<lambda>rs. Inr (r # rs))"
proof -
  let ?bs = "pre @ encodeFrame r @ post"
  note f = frame_prefix [OF refl [of ?bs] refl assms]
  have "length pre < length ?bs" by simp
  moreover have "\<not> length pre + 4 + length (encodeRecordPayload r) > length ?bs"
    using f(4) by simp
  ultimately show ?thesis
    using f(6) by (subst decode_frames_from.simps)
      (simp only: f(1-3) res_bind.simps prod.case if_True if_False decode_encode_payload [OF assms]
        f(4) simp_thms de_Morgan_disj)
qed

lemma decode_frames_append:
  assumes "\<forall>r \<in> set rs. encodable r"
  shows "decode_frames_from (pre @ frames rs) (length pre) = Inr rs"
  using assms
proof (induction rs arbitrary: pre)
  case Nil
  show ?case by (subst decode_frames_from.simps) simp
next
  case (Cons r rs)
  have "decode_frames_from ((pre @ encodeFrame r) @ frames rs) (length (pre @ encodeFrame r)) = Inr rs"
    by (rule Cons.IH) (use Cons.prems in simp)
  then show ?case
    using decode_frames_step [of r pre "frames rs"] Cons.prems by simp
qed

lemma tolerant_step:
  assumes "encodable r"
  shows "tolerant_from (pre @ encodeFrame r @ post) (length pre) =
    (case tolerant_from (pre @ encodeFrame r @ post) (length (pre @ encodeFrame r)) of
       (rs, clean) \<Rightarrow> (r # rs, clean))"
proof -
  let ?bs = "pre @ encodeFrame r @ post"
  note f = frame_prefix [OF refl [of ?bs] refl assms]
  have "length pre < length ?bs" "\<not> length pre + 4 > length ?bs" by simp_all
  moreover have "\<not> length pre + 4 + length (encodeRecordPayload r) > length ?bs"
    using f(4) by simp
  ultimately show ?thesis
    using f(6) by (subst tolerant_from.simps)
      (simp only: f(1-3) sum.case prod.case if_True if_False decode_encode_payload [OF assms]
        f(4) simp_thms de_Morgan_disj)
qed

text \<open>A proper prefix of a frame is never taken for a frame.\<close>

lemma tolerant_partial:
  assumes "encodable r" "0 < n" "n < length (encodeFrame r)"
  shows "tolerant_from (pre @ take n (encodeFrame r)) (length pre) = ([], False)"
proof (cases "n < 4")
  case True
  then show ?thesis using assms by (subst tolerant_from.simps) simp
next
  case False
  let ?bs = "pre @ take n (encodeFrame r)"
  let ?n = "word_of_nat (length (encodeRecordPayload r)) :: u32"
  have bs: "?bs = pre @ le_bytes 4 ?n @ take (n - 4) (encodeRecordPayload r)"
    using False by (simp add: encodeFrame_eq)
  have "load_bytes ?bs (length pre) 4 = ?n" unfolding bs by (intro load_bytes_append_mid) simp_all
  then have rd: "readU32Le ?bs (length pre) = Inr (?n, length pre + 4)"
    using False assms(3) by (simp add: readU32Le_eq)
  have un: "unat ?n = length (encodeRecordPayload r)"
    by (rule unat_length_u32) (use assms(1) in \<open>simp add: encodeRecordPayload_eq encodable_def\<close>)
  have len: "length ?bs = length pre + n" using assms(3) by simp
  have "length pre + 4 + unat ?n > length ?bs"
    unfolding len un using assms(3) by (simp add: encodeRecordPayload_eq)
  then show ?thesis
    using False assms(2) len by (subst tolerant_from.simps) (simp add: rd)
qed

lemma tolerant_prefix:
  assumes "\<forall>r \<in> set rs. encodable r"
  shows "tolerant_from (pre @ frames rs @ post) (length pre) =
    (case tolerant_from (pre @ frames rs @ post) (length (pre @ frames rs)) of
       (ss, clean) \<Rightarrow> (rs @ ss, clean))"
  using assms
proof (induction rs arbitrary: pre)
  case Nil
  show ?case by simp
next
  case (Cons r rs)
  have "tolerant_from ((pre @ encodeFrame r) @ frames rs @ post) (length (pre @ encodeFrame r)) =
      (case tolerant_from ((pre @ encodeFrame r) @ frames rs @ post) (length ((pre @ encodeFrame r) @ frames rs)) of
        (ss, clean) \<Rightarrow> (rs @ ss, clean))"
    by (rule Cons.IH) (use Cons.prems in simp)
  then show ?case
    using tolerant_step [of r pre "frames rs @ post"] Cons.prems by (simp split: prod.splits)
qed

lemma tolerant_frames: "\<forall>r \<in> set rs. encodable r \<Longrightarrow> decodeFramesTolerant (frames rs) = (rs, True)"
proof -
  assume "\<forall>r \<in> set rs. encodable r"
  moreover have "tolerant_from (frames rs) (length (frames rs)) = ([], True)" by (subst tolerant_from.simps) simp
  ultimately show ?thesis using tolerant_prefix [of rs "[]" "[]"] by (simp add: decodeFramesTolerant_def)
qed

section \<open>The checksum detects single-byte damage\<close>

lemma FnvPrime_inverse: "FnvPrime * 14886173955864302971 = 1"
  by (simp add: FnvPrime_def)

lemma mult_FnvPrime_cancel: "a * FnvPrime = b * FnvPrime \<Longrightarrow> a = b"
proof -
  assume "a * FnvPrime = b * FnvPrime"
  then have "a * FnvPrime * 14886173955864302971 = b * FnvPrime * 14886173955864302971" by (rule arg_cong)
  then show "a = b" by (simp only: mult.assoc FnvPrime_inverse mult_1_right)
qed

lemma xor_cancel_right: "(a :: 'a::len word) XOR c = b XOR c \<Longrightarrow> a = b"
  by (auto intro: bit_word_eqI simp: bit_eq_iff bit_simps)

lemma checksumUpdate_simps [simp]:
  "checksumUpdate seed [] = seed"
  "checksumUpdate seed (b # bs) = checksumUpdate ((seed XOR ucast b) * FnvPrime) bs"
  "checksumUpdate seed (bs @ cs) = checksumUpdate (checksumUpdate seed bs) cs"
  by (simp_all add: checksumUpdate_def)

lemma checksumUpdate_inject: "checksumUpdate s bs = checksumUpdate t bs \<Longrightarrow> s = t"
proof (induction bs arbitrary: s t)
  case Nil
  then show ?case by simp
next
  case (Cons b bs)
  have "(s XOR ucast b) * FnvPrime = (t XOR ucast b) * FnvPrime"
    by (rule Cons.IH [OF Cons.prems [unfolded checksumUpdate_simps]])
  then have "s XOR ucast b = t XOR ucast b" by (rule mult_FnvPrime_cancel)
  then show ?case by (rule xor_cancel_right)
qed

lemma ucast_byte_inject:
  assumes "(ucast (a :: u8) :: u64) = ucast b"
  shows "a = b"
proof (rule bit_word_eqI)
  fix n assume "n < LENGTH(8)"
  moreover have "bit (ucast a :: u64) n = bit (ucast b :: u64) n" using assms by simp
  ultimately show "bit a n = bit b n" by (simp add: bit_simps)
qed

lemma checksum_single_byte:
  assumes "checksum (p @ a # s) = checksum (p @ b # s)"
  shows "a = b"
proof -
  let ?h = "checksumUpdate FnvOffset p"
  have "(?h XOR ucast a) * FnvPrime = (?h XOR ucast b) * FnvPrime"
    by (rule checksumUpdate_inject [OF assms [unfolded checksum_def checksumUpdate_simps]])
  then have "?h XOR ucast a = ?h XOR ucast b" by (rule mult_FnvPrime_cancel)
  then have "(ucast a :: u64) = ucast b"
    unfolding xor.commute [of ?h] by (rule xor_cancel_right)
  then show ?thesis by (rule ucast_byte_inject)
qed

section \<open>Canonical order\<close>

definition canonicalKey :: "MonitorRecord \<Rightarrow> u64 \<times> u64 \<times> u64 \<times> nat \<times> string" where
  "canonicalKey r = (rec_osPid r, rec_threadId r, rec_seq r, ord_recordKind (rec_kind r), rec_path r)"

lemma canonicalOrder_le: "canonicalOrder a b \<le> 0 \<longleftrightarrow> canonicalKey a \<le> canonicalKey b"
  unfolding canonicalOrder_def canonicalKey_def cmp_def Let_def less_eq_prod_def less_prod_def
  by auto

lemma sort_by_sort_key:
  assumes "\<And>a b. c a b \<le> 0 \<longleftrightarrow> f a \<le> f b"
  shows "sort_by c xs = sort_key f xs"
proof -
  have "insert_by c x ys = insort_key f x ys" for x ys
    by (induction ys) (simp_all add: assms)
  then have "insert_by c = insort_key f" by (intro ext)
  then show ?thesis by (simp add: sort_by_def sort_key_def)
qed

lemma canonical_sort: "sort_by canonicalOrder rs = sort_key canonicalKey rs"
  by (rule sort_by_sort_key) (rule canonicalOrder_le)

lemma length_renumber [simp]: "length (renumber rs) = length rs"
  by (simp add: renumber_def)

lemma nth_renumber: "i < length rs \<Longrightarrow> renumber rs ! i = (rs ! i)\<lparr>rec_seq := word_of_nat (i + 1)\<rparr>"
  by (simp add: renumber_def)

definition canonical_records :: "MonitorRecord list \<Rightarrow> MonitorRecord list" where
  "canonical_records rs = renumber (sort_by canonicalOrder rs)"

lemma length_canonical_records [simp]: "length (canonical_records rs) = length rs"
  by (simp add: canonical_records_def canonical_sort)

lemma renumber_set:
  "set (renumber rs) \<subseteq> {r\<lparr>rec_seq := n\<rparr> | r n. r \<in> set rs}"
  by (auto simp: renumber_def)

lemma encodable_seq [simp]: "encodable (r\<lparr>rec_seq := n\<rparr>) = encodable r"
  by (simp add: encodable_def)

lemma encodable_canonical:
  assumes "\<forall>r \<in> set rs. encodable r"
  shows "\<forall>r \<in> set (canonical_records rs). encodable r"
proof
  fix r assume "r \<in> set (canonical_records rs)"
  then obtain q n where q: "q \<in> set (sort_by canonicalOrder rs)" "r = q\<lparr>rec_seq := n\<rparr>"
    using renumber_set [of "sort_by canonicalOrder rs"] unfolding canonical_records_def by blast
  then have "q \<in> set rs" by (simp add: canonical_sort)
  with assms q(2) show "encodable r" by simp
qed

section \<open>The envelope as a concatenation\<close>

definition envelope_bytes :: "MonitorRecord list \<Rightarrow> bytes" where
  "envelope_bytes rs =
     toBytes IomonMagic @ le_bytes 2 IomonVersion @ le_bytes 2 CanonicalFileKind @
     le_bytes 8 (word_of_nat (length rs) :: u64) @ le_bytes 8 (word_of_nat (length (frames rs)) :: u64) @
     frames rs @ toBytes IomonTrailerMagic @ le_bytes 8 (word_of_nat (length rs) :: u64) @
     le_bytes 8 (checksum (frames rs))"

lemma fold_frames: "fold (\<lambda>r b. b @ encodeFrame r) rs acc = acc @ frames rs"
  by (induction rs arbitrary: acc) simp_all

lemma encodeCanonical_eq: "encodeCanonical records = envelope_bytes (canonical_records records)"
  unfolding encodeCanonical_def Let_def fold_frames canonical_records_def [symmetric]
  by (simp add: envelope_bytes_def writeU16Le_eq writeU64Le_eq)

lemma body_pass:
  "fold (\<lambda>r (len, sum). let frame = encodeFrame r
      in (len + word_of_nat (length frame), checksumUpdate sum frame)) rs (n :: u64, c) =
   (n + word_of_nat (length (frames rs)), checksumUpdate c (frames rs))"
proof (induction rs arbitrary: n c)
  case Nil
  show ?case by simp
next
  case (Cons r rs)
  show ?case unfolding fold_simps prod.case Let_def
    by (simp only: Cons.IH [unfolded Let_def]) (simp add: algebra_simps)
qed

lemma concat_canonical_chunks:
  "concat (canonical_chunks records) = envelope_bytes (canonical_records records)"
  unfolding canonical_chunks_def Let_def body_pass [unfolded Let_def] prod.case
    canonical_records_def [symmetric]
  by (simp add: envelope_bytes_def writeU16Le_eq writeU64Le_eq checksum_def frames_def)

text \<open>With room for all the bytes the streaming writer writes them all, in order.\<close>

lemma write_chunks_room:
  "length (concat cs) \<le> budget \<Longrightarrow> write_chunks cs budget out = (None, out @ concat cs)"
  by (induction cs budget out rule: write_chunks.induct) auto

lemma write_chunks_short:
  "budget < length (concat cs) \<Longrightarrow>
    write_chunks cs budget out =
      (Some \<lparr>ee_kind = eeMalformed, ee_msg = ''short write to iomon depfile''\<rparr>,
       out @ take budget (concat cs))"
  by (induction cs budget out rule: write_chunks.induct) auto

section \<open>Losses\<close>

lemma summary_losses:
  "sum_eventLossCount (summarizeRecords rs) = word_of_nat (length (filter is_loss rs))"
proof -
  have "fst (snd (fold (\<lambda>r (pids, losses, observations).
         (if rec_osPid r \<noteq> 0 then insert (rec_osPid r) pids else pids,
          if is_loss r then losses + 1 else losses,
          if is_loss r then observations else observations + 1)) rs (A, n, m))) =
      n + word_of_nat (length (filter is_loss rs))" for A :: "u64 set" and n m :: u64
    by (induction rs arbitrary: A n m) (simp_all add: algebra_simps)
  from this [of "{}" 0 0] show ?thesis
    by (auto simp: summarizeRecords_def Let_def split: prod.split)
qed

text \<open>A record list with a loss never gives a complete depfile.\<close>

lemma loss_incomplete:
  assumes "r \<in> set rs" "is_loss r" "length rs < 2 ^ 64"
  shows "dep_completeness (depFileFromOwnedRecords host rs) = mcIncomplete"
proof -
  let ?n = "length (filter is_loss rs)"
  have "?n < 2 ^ 64" by (rule le_less_trans [OF length_filter_le assms(3)])
  moreover have "0 < ?n" using assms(1,2) by (auto simp: filter_empty_conv)
  ultimately have "unat (word_of_nat ?n :: u64) \<noteq> 0" by (simp add: unat_of_nat)
  then have "(word_of_nat ?n :: u64) \<noteq> 0" by (metis unsigned_0)
  then show ?thesis
    by (simp add: depFileFromOwnedRecords_def Let_def summary_losses split: prod.splits)
qed

section \<open>A body cut at any byte\<close>

lemma cut_point:
  "\<exists>k \<le> length rs. length (frames (take k rs)) \<le> n \<and>
     (k < length rs \<longrightarrow> n < length (frames (take (Suc k) rs)))"
proof (induction rs arbitrary: n)
  case Nil
  show ?case by simp
next
  case (Cons r rs)
  show ?case
  proof (cases "n < length (encodeFrame r)")
    case True
    then show ?thesis by (intro exI [of _ 0]) simp
  next
    case False
    obtain k where "k \<le> length rs" "length (frames (take k rs)) \<le> n - length (encodeFrame r)"
      "k < length rs \<longrightarrow> n - length (encodeFrame r) < length (frames (take (Suc k) rs))"
      using Cons.IH by blast
    then show ?thesis using False by (intro exI [of _ "Suc k"]) auto
  qed
qed

lemma take_frames:
  assumes "k < length rs" "length (frames (take k rs)) \<le> n" "n < length (frames (take (Suc k) rs))"
  shows "take n (frames rs) = frames (take k rs) @ take (n - length (frames (take k rs))) (encodeFrame (rs ! k))"
    and "n - length (frames (take k rs)) < length (encodeFrame (rs ! k))"
proof -
  have sk: "take (Suc k) rs = take k rs @ [rs ! k]" using assms(1) by (rule take_Suc_conv_app_nth)
  have "frames rs = frames (take (Suc k) rs) @ frames (drop (Suc k) rs)"
    unfolding frames_simps(3) [symmetric] append_take_drop_id ..
  then show "take n (frames rs) =
      frames (take k rs) @ take (n - length (frames (take k rs))) (encodeFrame (rs ! k))"
    using assms(2,3) by (simp add: sk)
  show "n - length (frames (take k rs)) < length (encodeFrame (rs ! k))"
    using assms(2,3) by (simp add: sk del: length_encodeFrame)
qed

lemma tolerant_cut:
  assumes "\<forall>r \<in> set rs. encodable r" and "n \<le> length (frames rs)"
  shows "\<exists>k \<le> length rs. length (frames (take k rs)) \<le> n \<and>
    (k < length rs \<longrightarrow> n < length (frames (take (Suc k) rs))) \<and>
    decodeFramesTolerant (take n (frames rs)) =
      (take k rs, n = length (frames (take k rs)))"
proof -
  obtain k where k: "k \<le> length rs" "length (frames (take k rs)) \<le> n"
    "k < length rs \<longrightarrow> n < length (frames (take (Suc k) rs))"
    using cut_point by blast
  have enc: "\<forall>r \<in> set (take k rs). encodable r" using assms(1) by (meson in_set_takeD)
  have "decodeFramesTolerant (take n (frames rs)) = (take k rs, n = length (frames (take k rs)))"
  proof (cases "n = length (frames (take k rs))")
    case True
    have "take n (frames rs) = frames (take k rs)"
      unfolding True by (metis append_eq_conv_conj append_take_drop_id frames_simps(3))
    moreover have "tolerant_from (frames (take k rs)) (length (frames (take k rs))) = ([], True)"
      by (subst tolerant_from.simps) simp
    ultimately show ?thesis using tolerant_prefix [OF enc, of "[]" "[]"] True
      by (simp add: decodeFramesTolerant_def)
  next
    case False
    then have kl: "k < length rs" using k assms(2) by (cases "k = length rs") auto
    note tk = take_frames [OF kl k(2) k(3) [rule_format, OF kl]]
    have "tolerant_from (frames (take k rs) @ take (n - length (frames (take k rs))) (encodeFrame (rs ! k)))
        (length (frames (take k rs))) = ([], False)"
      by (rule tolerant_partial) (use assms(1) kl False k(2) tk(2) in auto)
    then show ?thesis
      using tolerant_prefix [OF enc, of "[]"] False unfolding tk(1) decodeFramesTolerant_def by simp
  qed
  then show ?thesis using k by blast
qed

end
