(* ===== verification/Reader.thy ===== *)
theory Reader
  imports Encode_Facts
begin

text \<open>
  The depfile readers of \<^verbatim>\<open>src/io_mon/reader.nim\<close>: the materializing reader, its \<open>try\<close>
  form, the item stream and the record-at-a-time iterator.  The file system is a parameter that
  maps a path to the bytes of the file, if there is one (\<open>extendedPath\<close> is the identity on
  the POSIX hosts modelled here).

  Nim raises a defect where a 64-bit count does not fit a signed \<open>int\<close> and where an \<open>int\<close>
  addition overflows; both are outcomes of the model, apart from the declared errors.
\<close>

section \<open>Outcomes\<close>

datatype reader_exn =
    ReaderError MonitorDepFileReaderErrorKind string
  | EnvelopeExn EnvelopeError
  | RangeDefect
  | OverflowDefect

fun lift_envelope :: "'a envelope \<Rightarrow> reader_exn + 'a" where
  "lift_envelope (Inl e) = Inl (EnvelopeExn e)"
| "lift_envelope (Inr x) = Inr x"

definition int_of_u64 :: "u64 \<Rightarrow> reader_exn + nat" where
  "int_of_u64 w = (if unat w < 2 ^ 63 then Inr (unat w) else Inl RangeDefect)"

definition int_add :: "nat \<Rightarrow> nat \<Rightarrow> reader_exn + nat" where
  "int_add a b = (if a + b < 2 ^ 63 then Inr (a + b) else Inl OverflowDefect)"

fun str_contains :: "string \<Rightarrow> string \<Rightarrow> bool" where
  "str_contains sub [] = (sub = [])"
| "str_contains sub (x # xs) = (take (length sub) (x # xs) = sub \<or> str_contains sub xs)"

definition classifyEnvelopeError :: "EnvelopeError \<Rightarrow> MonitorDepFileReaderErrorKind" where
  "classifyEnvelopeError err =
    (case ee_kind err of
       eeUnknownMagic \<Rightarrow> mrBadMagic
     | eeUnsupportedVersion \<Rightarrow> mrUnsupportedVersion
     | eeUnknownType \<Rightarrow> mrSemanticValidationFailed
     | eeMalformed \<Rightarrow>
         if str_contains ''truncated'' (ee_msg err) then mrTruncated
         else if str_contains ''checksum'' (ee_msg err) then mrChecksumMismatch
         else mrSemanticValidationFailed)"

fun sequence_from :: "u64 \<Rightarrow> MonitorRecord list \<Rightarrow> bool" where
  "sequence_from expected [] = True"
| "sequence_from expected (r # rs) = (rec_seq r = expected \<and> sequence_from (expected + 1) rs)"

definition validateSequenceOrder :: "MonitorRecord list \<Rightarrow> reader_exn + unit" where
  "validateSequenceOrder records =
    (if sequence_from 1 records then Inr ()
     else Inl (ReaderError mrRecordOrderInvalid ''iomon record sequence is not canonical''))"

section \<open>The envelope checks\<close>

text \<open>
  Both readers run the same checks in the same order before they look at a frame: length,
  magic, version, record limit, body length, trailer magic, record counts, checksum.  The result
  is the version, the record count, and the body's start and length.
\<close>

definition check_envelope ::
    "bytes \<Rightarrow> MonitorDepFileReaderOptions \<Rightarrow> reader_exn + (u16 \<times> u64 \<times> nat \<times> nat)" where
  "check_envelope bs options =
    (if length bs < 44 then Inl (ReaderError mrTruncated ''iomon file is too short'')
     else if fromBytes (slice bs 0 4) \<noteq> IomonMagic
     then Inl (ReaderError mrBadMagic ''unknown iomon magic'')
     else
       res_bind (lift_envelope (readU16Le bs 4)) (\<lambda>(version, pos).
       if version \<noteq> IomonVersion
       then Inl (ReaderError mrUnsupportedVersion ''unsupported iomon version'')
       else
         res_bind (lift_envelope (readU16Le bs pos)) (\<lambda>(_, pos).
         res_bind (lift_envelope (readU64Le bs pos)) (\<lambda>(headerCount, pos).
         res_bind (lift_envelope (readU64Le bs pos)) (\<lambda>(bodyLen64, pos).
         res_bind (int_of_u64 bodyLen64) (\<lambda>bodyLen.
         if headerCount > opt_maxObservationCount options
         then Inl (ReaderError mrRecordLimitExceeded ''iomon record count exceeds configured limit'')
         else
           res_bind (int_add pos bodyLen) (\<lambda>bodyEnd.
           res_bind (int_add bodyEnd 20) (\<lambda>total.
           if total \<noteq> length bs
           then Inl (ReaderError mrTruncated ''iomon body length/trailer mismatch'')
           else if fromBytes (slice bs bodyEnd 4) \<noteq> IomonTrailerMagic
           then Inl (ReaderError mrTruncated ''missing iomon trailer'')
           else
             res_bind (lift_envelope (readU64Le bs (bodyEnd + 4))) (\<lambda>(trailerCount, tpos).
             res_bind (lift_envelope (readU64Le bs tpos)) (\<lambda>(trailerChecksum, _).
             if trailerCount \<noteq> headerCount
             then Inl (ReaderError mrSemanticValidationFailed ''iomon record count mismatch'')
             else if opt_requireTrailerChecksum options \<and>
               trailerChecksum \<noteq> (if bodyLen = 0 then checksum [] else checksum (slice bs pos bodyLen))
             then Inl (ReaderError mrChecksumMismatch ''iomon checksum mismatch'')
             else Inr (version, headerCount, pos, bodyLen)))))))))))"

section \<open>The materializing reader\<close>

definition decodeMonitorDepFile ::
    "host \<Rightarrow> bytes \<Rightarrow> MonitorDepFileReaderOptions \<Rightarrow> reader_exn + MonitorDepFile" where
  "decodeMonitorDepFile host bs options =
    res_bind (check_envelope bs options) (\<lambda>(version, headerCount, bodyStart, bodyLen).
    res_bind
      (case (if bodyLen = 0 then Inr [] else decodeFrames (slice bs bodyStart bodyLen)) of
         Inl err \<Rightarrow> Inl (ReaderError (classifyEnvelopeError err) (ee_msg err))
       | Inr records \<Rightarrow> Inr records) (\<lambda>records.
    if word_of_nat (length records) \<noteq> headerCount
    then Inl (ReaderError mrSemanticValidationFailed ''iomon frame count mismatch'')
    else
      res_bind (validateSequenceOrder records) (\<lambda>_.
        Inr ((depFileFromOwnedRecords host records)\<lparr>dep_version := version\<rparr>))))"

definition readMonitorDepFile ::
    "(string \<Rightarrow> bytes option) \<Rightarrow> host \<Rightarrow> string \<Rightarrow> MonitorDepFileReaderOptions \<Rightarrow>
     reader_exn + MonitorDepFile" where
  "readMonitorDepFile fs host path options =
    (case fs path of
       None \<Rightarrow> Inl (ReaderError mrMissingFile (''iomon file does not exist: '' @ path))
     | Some bs \<Rightarrow> decodeMonitorDepFile host bs options)"

record MonitorDepFileReaderResult =
  rr_depFile :: "MonitorDepFile option"
  rr_diagnostics :: "MonitorDiagnostic list"

text \<open>Only the reader's own error is caught; a defect or an envelope error passes through.\<close>

definition tryReadMonitorDepFile ::
    "(string \<Rightarrow> bytes option) \<Rightarrow> host \<Rightarrow> string \<Rightarrow> MonitorDepFileReaderOptions \<Rightarrow>
     reader_exn + MonitorDepFileReaderResult" where
  "tryReadMonitorDepFile fs host path options =
    (case readMonitorDepFile fs host path options of
       Inr dep \<Rightarrow> Inr \<lparr>rr_depFile = Some dep, rr_diagnostics = []\<rparr>
     | Inl (ReaderError k msg) \<Rightarrow>
         Inr \<lparr>rr_depFile = None,
              rr_diagnostics = [\<lparr>diag_level = mdlError, diag_message = msg\<rparr>]\<rparr>
     | Inl other \<Rightarrow> Inl other)"

section \<open>Streams\<close>

datatype FsSnoopStreamItem =
    fsiProcessStarted MonitorRecord
  | fsiObservation MonitorRecord
  | fsiEventLoss MonitorRecord
  | fsiSummary MonitorSummary

definition stream_item :: "MonitorRecord \<Rightarrow> FsSnoopStreamItem" where
  "stream_item r =
    (case rec_kind r of
       mrProcessStart \<Rightarrow> fsiProcessStarted r
     | mrProcessExec \<Rightarrow> fsiObservation r
     | mrProcessSpawn \<Rightarrow> fsiObservation r
     | mrEventLoss \<Rightarrow> fsiEventLoss r
     | _ \<Rightarrow> if rec_observationKind r = moEventLoss then fsiEventLoss r else fsiObservation r)"

definition streamMonitorDepFile ::
    "(string \<Rightarrow> bytes option) \<Rightarrow> host \<Rightarrow> string \<Rightarrow> MonitorDepFileReaderOptions \<Rightarrow>
     reader_exn + FsSnoopStreamItem list" where
  "streamMonitorDepFile fs host path options =
    res_bind (readMonitorDepFile fs host path options) (\<lambda>dep.
      Inr (map stream_item (dep_records dep) @ [fsiSummary (dep_summary dep)]))"

text \<open>
  The record-at-a-time iterator: the records it yields, and how it ends (\<open>None\<close> for a normal
  end).  It walks the frames inside the whole file, so the length prefix of a cut frame may be
  read from the trailer.
\<close>

function stream_frames ::
    "bytes \<Rightarrow> nat \<Rightarrow> u64 \<Rightarrow> nat \<Rightarrow> u64 \<Rightarrow> u64 \<Rightarrow> MonitorRecord list \<times> reader_exn option" where
  "stream_frames bs bodyEnd headerCount framePos expectedSeq decoded =
    (if framePos < bodyEnd
     then (case readU32Le bs framePos of
             Inl e \<Rightarrow> ([], Some (EnvelopeExn e))
           | Inr (len, payloadPos) \<Rightarrow>
               if unat len \<le> 0 \<or> payloadPos + unat len > bodyEnd
               then ([], Some (ReaderError mrTruncated ''truncated iomon record frame''))
               else (case decodeRecordPayload (slice bs payloadPos (unat len)) of
                       Inl e \<Rightarrow> ([], Some (EnvelopeExn e))
                     | Inr r \<Rightarrow>
                         if rec_seq r \<noteq> expectedSeq
                         then ([], Some (ReaderError mrRecordOrderInvalid
                                  ''iomon record sequence is not canonical''))
                         else (case stream_frames bs bodyEnd headerCount (payloadPos + unat len)
                                      (expectedSeq + 1) (decoded + 1) of
                                 (rs, fin) \<Rightarrow> (r # rs, fin))))
     else if decoded \<noteq> headerCount
     then ([], Some (ReaderError mrSemanticValidationFailed ''iomon frame count mismatch''))
     else ([], None))"
  by pat_completeness auto
termination
  by (relation "measure (\<lambda>(bs, bodyEnd, headerCount, framePos, expectedSeq, decoded). bodyEnd - framePos)")
    (auto simp: readU32Le_eq split: if_splits)

declare stream_frames.simps [simp del]

definition streamMonitorDepFileRecords ::
    "(string \<Rightarrow> bytes option) \<Rightarrow> string \<Rightarrow> MonitorDepFileReaderOptions \<Rightarrow>
     MonitorRecord list \<times> reader_exn option" where
  "streamMonitorDepFileRecords fs path options =
    (case fs path of
       None \<Rightarrow> ([], Some (ReaderError mrMissingFile (''iomon file does not exist: '' @ path)))
     | Some bs \<Rightarrow>
         (case check_envelope bs options of
            Inl e \<Rightarrow> ([], Some e)
          | Inr (version, headerCount, bodyStart, bodyLen) \<Rightarrow>
              stream_frames bs (bodyStart + bodyLen) headerCount bodyStart 1 0))"

end
