(* ===== verification/Reader_Facts.thy ===== *)
theory Reader_Facts
  imports Reader
begin

text \<open>
  Facts on the readers: a written envelope passes the checks, the frames of its body decode, and
  the record-at-a-time iterator agrees with the materializing reader.
\<close>

lemma readU16Le_at:
  "bs = pre @ le_bytes 2 w @ post \<Longrightarrow> pos = length pre \<Longrightarrow> e = pos + 2 \<Longrightarrow> readU16Le bs pos = Inr (w, e)"
  by (simp add: readU16Le_eq load_bytes_append_mid)

lemma readU64Le_at:
  "bs = pre @ le_bytes 8 w @ post \<Longrightarrow> pos = length pre \<Longrightarrow> e = pos + 8 \<Longrightarrow> readU64Le bs pos = Inr (w, e)"
  by (simp add: readU64Le_eq load_bytes_append_mid)

lemma magic_lengths [simp]: "length IomonMagic = 4" "length IomonTrailerMagic = 4"
  by (simp_all add: IomonMagic_def IomonTrailerMagic_def)

text \<open>An envelope around any body and counts: what the checks see.\<close>

definition raw_envelope :: "u16 \<Rightarrow> u16 \<Rightarrow> u64 \<Rightarrow> u64 \<Rightarrow> bytes \<Rightarrow> u64 \<Rightarrow> u64 \<Rightarrow> bytes" where
  "raw_envelope version filekind headerCount bodyLen body trailerCount csum =
     toBytes IomonMagic @ le_bytes 2 version @ le_bytes 2 filekind @ le_bytes 8 headerCount @
     le_bytes 8 bodyLen @ body @ toBytes IomonTrailerMagic @ le_bytes 8 trailerCount @ le_bytes 8 csum"

lemma length_raw_envelope [simp]: "length (raw_envelope v k h l body t s) = 44 + length body"
  by (simp add: raw_envelope_def)

lemma raw_envelope_reads:
  fixes v k h l body t s
  defines "bs \<equiv> raw_envelope v k h l body t s"
  shows "fromBytes (slice bs 0 4) = IomonMagic"
    and "readU16Le bs 4 = Inr (v, 6)" "readU16Le bs 6 = Inr (k, 8)"
    and "readU64Le bs 8 = Inr (h, 16)" "readU64Le bs 16 = Inr (l, 24)"
    and "slice bs 24 (length body) = body"
    and "fromBytes (slice bs (24 + length body) 4) = IomonTrailerMagic"
    and "readU64Le bs (28 + length body) = Inr (t, 36 + length body)"
    and "readU64Le bs (36 + length body) = Inr (s, 44 + length body)"
proof -
  have "slice bs 0 4 = toBytes IomonMagic" unfolding bs_def raw_envelope_def
    using slice_append_midI [of 0 "[]" 4 "toBytes IomonMagic"] by simp
  then show "fromBytes (slice bs 0 4) = IomonMagic" by simp
  have bs: "bs = toBytes IomonMagic @ le_bytes 2 v @ le_bytes 2 k @ le_bytes 8 h @ le_bytes 8 l @ body @
      toBytes IomonTrailerMagic @ le_bytes 8 t @ le_bytes 8 s"
    by (simp only: bs_def raw_envelope_def)
  show "readU16Le bs 4 = Inr (v, 6)"
    by (rule readU16Le_at [where pre = "toBytes IomonMagic"], simp only: bs append_assoc, simp_all)
  show "readU16Le bs 6 = Inr (k, 8)"
    by (rule readU16Le_at [where pre = "toBytes IomonMagic @ le_bytes 2 v"],
        simp only: bs append_assoc, simp_all)
  show "readU64Le bs 8 = Inr (h, 16)"
    by (rule readU64Le_at [where pre = "toBytes IomonMagic @ le_bytes 2 v @ le_bytes 2 k"],
        simp only: bs append_assoc, simp_all)
  show "readU64Le bs 16 = Inr (l, 24)"
    by (rule readU64Le_at [where pre = "toBytes IomonMagic @ le_bytes 2 v @ le_bytes 2 k @ le_bytes 8 h"],
        simp only: bs append_assoc, simp_all)
  let ?hd = "toBytes IomonMagic @ le_bytes 2 v @ le_bytes 2 k @ le_bytes 8 h @ le_bytes 8 l"
  have "slice (?hd @ body @ (toBytes IomonTrailerMagic @ le_bytes 8 t @ le_bytes 8 s)) 24 (length body) = body"
    by (rule slice_append_midI) simp_all
  then show "slice bs 24 (length body) = body" by (simp add: bs_def raw_envelope_def)
  have "slice ((?hd @ body) @ toBytes IomonTrailerMagic @ (le_bytes 8 t @ le_bytes 8 s))
      (24 + length body) 4 = toBytes IomonTrailerMagic"
    by (rule slice_append_midI) simp_all
  then show "fromBytes (slice bs (24 + length body) 4) = IomonTrailerMagic"
    by (simp add: bs_def raw_envelope_def)
  show "readU64Le bs (28 + length body) = Inr (t, 36 + length body)"
    by (rule readU64Le_at [where pre = "?hd @ body @ toBytes IomonTrailerMagic"],
        simp only: bs append_assoc, simp_all)
  show "readU64Le bs (36 + length body) = Inr (s, 44 + length body)"
    by (rule readU64Le_at [where pre = "?hd @ body @ toBytes IomonTrailerMagic @ le_bytes 8 t" and post = "[]"],
        simp only: bs append_assoc append_Nil2, simp_all)
qed

lemma check_raw_envelope:
  assumes "length body + 44 < 2 ^ 63" "l = word_of_nat (length body)"
    and "h \<le> opt_maxObservationCount options"
  shows "check_envelope (raw_envelope IomonVersion k h l body h s) options =
    (if opt_requireTrailerChecksum options \<and> s \<noteq> checksum body
     then Inl (ReaderError mrChecksumMismatch ''iomon checksum mismatch'')
     else Inr (IomonVersion, h, 24, length body))"
proof -
  have l: "unat l = length body" using assms(1,2) by (simp add: unat_of_nat)
  have nb: "(if length body = 0 then checksum [] else checksum body) = checksum body" by simp
  let ?bs = "raw_envelope IomonVersion k h l body h s"
  have g: "\<not> length ?bs < 44" "int_of_u64 l = Inr (length body)" "int_add 24 (length body) = Inr (24 + length body)"
    "int_add (24 + length body) 20 = Inr (length ?bs)" "\<not> h > opt_maxObservationCount options"
    "24 + length body + 4 = 28 + length body"
    using assms(1,3) by (simp_all add: int_of_u64_def int_add_def l not_less)
  show ?thesis
    unfolding check_envelope_def
    by (simp only: raw_envelope_reads res_bind.simps lift_envelope.simps prod.case g nb if_False
        if_True not_True_eq_False simp_thms)
qed

section \<open>A written envelope reads back\<close>

lemma envelope_bytes_raw:
  "envelope_bytes rs = raw_envelope IomonVersion CanonicalFileKind (word_of_nat (length rs))
     (word_of_nat (length (frames rs))) (frames rs) (word_of_nat (length rs)) (checksum (frames rs))"
  by (simp add: envelope_bytes_def raw_envelope_def)

lemma sequence_from_nth:
  "sequence_from e rs \<longleftrightarrow> (\<forall>i < length rs. rec_seq (rs ! i) = e + word_of_nat i)"
proof (induction rs arbitrary: e)
  case Nil
  show ?case by simp
next
  case (Cons r rs)
  show ?case unfolding sequence_from.simps Cons.IH
    by (auto simp: nth_Cons algebra_simps split: nat.splits)
qed

lemma sequence_canonical: "sequence_from 1 (canonical_records rs)"
  unfolding sequence_from_nth canonical_records_def by (simp add: nth_renumber)

lemma check_canonical:
  assumes "length (frames rs) + 44 < 2 ^ 63"
    and "word_of_nat (length rs) \<le> opt_maxObservationCount options"
  shows "check_envelope (envelope_bytes rs) options =
    Inr (IomonVersion, word_of_nat (length rs), 24, length (frames rs))"
  unfolding envelope_bytes_raw using assms by (subst check_raw_envelope) simp_all

lemma slice_envelope_bytes: "slice (envelope_bytes rs) 24 (length (frames rs)) = frames rs"
  unfolding envelope_bytes_raw by (rule raw_envelope_reads(6))

lemma decodeFrames_frames: "\<forall>r \<in> set rs. encodable r \<Longrightarrow> decodeFrames (frames rs) = Inr rs"
  unfolding decodeFrames_def using decode_frames_append [of rs "[]"] by simp

lemma decode_envelope:
  assumes "\<forall>r \<in> set rs. encodable r" "sequence_from 1 rs" "length (frames rs) + 44 < 2 ^ 63"
    and "word_of_nat (length rs) \<le> opt_maxObservationCount options"
  shows "decodeMonitorDepFile host (envelope_bytes rs) options =
    Inr ((depFileFromOwnedRecords host rs)\<lparr>dep_version := IomonVersion\<rparr>)"
proof -
  have "(if length (frames rs) = 0 then Inr [] else decodeFrames (frames rs)) = Inr rs"
    using decodeFrames_frames [OF assms(1)] by (cases rs) (simp_all add: encodeFrame_eq)
  then show ?thesis
    unfolding decodeMonitorDepFile_def check_canonical [OF assms(3,4)] res_bind.simps prod.case
      slice_envelope_bytes
    using assms(2) by (simp add: validateSequenceOrder_def)
qed

text \<open>The dep file built from records carries the current version already.\<close>

lemma dep_version_owned [simp]: "dep_version (depFileFromOwnedRecords host rs) = IomonVersion"
  by (simp add: depFileFromOwnedRecords_def Let_def split: prod.splits)

section \<open>The record-at-a-time iterator agrees\<close>

lemma readU32Le_slice:
  assumes "p + 4 \<le> len" "start + len \<le> length bs"
  shows "readU32Le bs (start + p) = Inr (load_bytes bs (start + p) 4, start + p + 4)"
    and "readU32Le (slice bs start len) p = Inr (load_bytes bs (start + p) 4, p + 4)"
proof -
  show "readU32Le bs (start + p) = Inr (load_bytes bs (start + p) 4, start + p + 4)"
    using assms by (simp add: readU32Le_eq)
  have "load_bytes (slice bs start len) p 4 = (load_bytes bs (start + p) 4 :: u32)"
    unfolding load_bytes_eq by (rule or_bytes_cong) (use assms in \<open>simp add: slice_def add.assoc\<close>)
  then show "readU32Le (slice bs start len) p = Inr (load_bytes bs (start + p) 4, p + 4)"
    using assms by (simp add: readU32Le_eq)
qed

lemma readU32Le_cut:
  assumes "len < p + 4" "start + len \<le> length bs"
  shows "\<exists>e. readU32Le (slice bs start len) p = Inl e"
    and "readU32Le bs (start + p) = Inr (w, q) \<Longrightarrow> q + unat w > start + len"
  using assms by (auto simp: readU32Le_eq raiseEnvelopeError_def split: if_splits)

lemma slice_slice:
  "p + n \<le> len \<Longrightarrow> start + len \<le> length bs \<Longrightarrow> slice (slice bs start len) p n = slice bs (start + p) n"
  by (simp add: slice_def drop_take add.commute min_def)

lemma yield_first:
  "(case out of (rs, fin) \<Rightarrow> (r # rs, fin)) = (qs, None) \<longleftrightarrow> (\<exists>rs. qs = r # rs \<and> out = (rs, None))"
  by (cases out) auto

lemma stream_frames_iff:
  assumes "start + len \<le> length bs"
  shows "stream_frames bs (start + len) hc (start + p) e d = (rs, None) \<longleftrightarrow>
    decode_frames_from (slice bs start len) p = Inr rs \<and> sequence_from e rs \<and>
    d + word_of_nat (length rs) = hc"
proof (induction "len - p" arbitrary: p e d rs rule: less_induct)
  case less
  have sl [simp]: "length (slice bs start len) = len" using assms by simp
  consider (finished) "len \<le> p" | (cut) "p < len" "len < p + 4" | (frame) "p < len" "p + 4 \<le> len" by linarith
  then show ?case
  proof cases
    case finished
    then show ?thesis by (subst stream_frames.simps, subst decode_frames_from.simps) auto
  next
    case cut
    then have "fst (stream_frames bs (start + len) hc (start + p) e d) = [] \<and>
        snd (stream_frames bs (start + len) hc (start + p) e d) \<noteq> None"
      using readU32Le_cut(2) [OF cut(2) assms]
      by (subst (1 2) stream_frames.simps) (auto split: sum.splits prod.splits)
    moreover have "\<exists>err. decode_frames_from (slice bs start len) p = Inl err"
      using readU32Le_cut(1) [OF cut(2) assms] cut(1) by (subst decode_frames_from.simps) auto
    ultimately show ?thesis by auto
  next
    case frame
    let ?w = "load_bytes bs (start + p) 4 :: u32"
    let ?n = "unat ?w"
    note rd = readU32Le_slice [OF frame(2) assms]
    show ?thesis
    proof (cases "?n = 0 \<or> p + 4 + ?n > len")
      case True
      then show ?thesis using frame
        by (subst stream_frames.simps, subst decode_frames_from.simps)
          (auto simp: rd raiseEnvelopeError_def)
    next
      case False
      have pl: "slice (slice bs start len) (p + 4) ?n = slice bs (start + p + 4) ?n"
        using slice_slice [of "p + 4" ?n len start bs] False assms by (simp add: add.assoc)
      have IH: "stream_frames bs (start + len) hc (start + p + 4 + ?n) (e + 1) (d + 1) = (qs, None) \<longleftrightarrow>
          decode_frames_from (slice bs start len) (p + 4 + ?n) = Inr qs \<and> sequence_from (e + 1) qs \<and>
          d + (1 + word_of_nat (length qs)) = hc" for qs
      proof -
        have "len - (p + 4 + ?n) < len - p" using frame by linarith
        from less [OF this, of "e + 1" "d + 1" qs] show ?thesis by (simp only: add.assoc)
      qed
      show ?thesis using frame False
        by (subst stream_frames.simps, subst decode_frames_from.simps)
          (cases rs; auto simp: rd pl IH yield_first split: sum.splits)
    qed
  qed
qed

lemma check_envelope_bounds:
  assumes "check_envelope bs options = Inr (v, h, start, len)"
  shows "start = 24 \<and> start + len + 20 = length bs \<and> v = IomonVersion"
  using assms
  by (auto simp: check_envelope_def int_add_def readU16Le_eq readU64Le_eq raiseEnvelopeError_def
      split: if_splits)

end
