(* ===== verification/Scope_Properties.thy ===== *)
theory Scope_Properties
  imports Reader_Facts
begin

text \<open>
  The properties of the narrowing axes and of backend profiles: which records a narrow capture
  keeps, that the interest vocabulary survives the environment in both directions, and that a
  profile read back never overstates the evidence.
\<close>

section \<open>Interest and evidence scope\<close>

text \<open>
  Exactly five record kinds can never be narrowed away: whatever interest and evidence scope a
  capture asks for, event losses, backend profiles, capability gaps, IPC connections and external
  content are kept; every other kind is dropped by some interest.
\<close>

theorem ungateable_kinds:
  "(\<forall>I s. recordWanted I (rec_kind r) \<and> recordInEvidenceScope s r) \<longleftrightarrow>
     rec_kind r \<in> {mrEventLoss, mrBackendProfile, mrCapabilityGap, mrIpcConnect, mrExternalContent}"
proof
  assume all: "\<forall>I s. recordWanted I (rec_kind r) \<and> recordInEvidenceScope s r"
  have "categoryOf (rec_kind r) = None"
  proof (rule ccontr)
    assume "categoryOf (rec_kind r) \<noteq> None"
    then obtain c where c: "categoryOf (rec_kind r) = Some c" by auto
    have "normalizeInterest (- {c}) = - {c}"
    proof -
      have "- {c} \<noteq> {}" by (cases c) (auto intro: exI [of _ ecFileReads] exI [of _ ecEntropy])
      then show ?thesis by (simp add: normalizeInterest_def)
    qed
    then have "\<not> recordWanted (- {c}) (rec_kind r)" by (simp add: recordWanted_def c)
    with all show False by blast
  qed
  then show "rec_kind r \<in> {mrEventLoss, mrBackendProfile, mrCapabilityGap, mrIpcConnect, mrExternalContent}"
    by (simp add: categoryOf_None_iff)
next
  assume "rec_kind r \<in> {mrEventLoss, mrBackendProfile, mrCapabilityGap, mrIpcConnect, mrExternalContent}"
  then have none: "categoryOf (rec_kind r) = None" by (simp add: categoryOf_None_iff)
  then have "recordInEvidenceScope s r" for s
    by (cases s) (simp_all add: recordIsFailedExistenceLookup_def)
  then show "\<forall>I s. recordWanted I (rec_kind r) \<and> recordInEvidenceScope s r"
    by (simp add: recordWanted_def none)
qed

text \<open>
  C26. The interest handed to a shim through the environment is read back unchanged, whether it is
  spelled with the current tokens alone or with the padding that older shims need (an empty
  interest standing for the full one in both).
\<close>

theorem interest_environment_roundtrip:
  "parseInterestTokens (interestToTokens I) = normalizeInterest I \<and>
   parseInterestTokens (interestToShimTokens I) = normalizeInterest I \<and>
   shimInterestFromEnv (interestToShimTokens I) = normalizeInterest I"
proof -
  have plain: "parseInterestTokens (join_with CHR '','' (canonical_parts I)) = normalizeInterest I"
    by (rule parse_join_unfenced [OF canonical_parts_nonempty set_canonical_parts])
  have shim: "parseInterestTokens (interestToShimTokens I) = normalizeInterest I"
  proof (cases "shim_padding (normalizeInterest I) (canonical_parts I) = []")
    case True
    then show ?thesis using plain by (simp add: interestToShimTokens_alt shim_parts_def)
  next
    case False
    then have parts: "shim_parts I = canonical_parts I @ [LegacyPaddingToken] @
        shim_padding (normalizeInterest I) (canonical_parts I)"
      by (simp add: shim_parts_def)
    have "{c. interestToken c \<in> set (shim_parts I)} = normalizeInterest I"
      unfolding parts using padding_not_current [of _ I]
      by (auto simp: set_canonical_parts)
    then show ?thesis unfolding interestToShimTokens_alt
      by (subst parse_join_fenced [OF _ shim_parts_tokens]) (simp add: parts, simp)
  qed
  show ?thesis using plain shim by (simp add: interestToTokens_alt shimInterestFromEnv_def)
qed

text \<open>
  C27. An older shim, which knows only the legacy spellings, never captures less than was asked: every
  wanted record kind that some legacy category could name belongs to a legacy category whose
  spelling is on the wire.
\<close>

theorem legacy_shim_never_undercaptures:
  assumes "recordWanted I k" and "k \<in> legacyMemberKinds l"
  shows "\<exists>l'. legacyInterestToken l' \<in> set (wire_tokens (interestToShimTokens I)) \<and>
    k \<in> legacyMemberKinds l'"
proof -
  let ?pad = "shim_padding (normalizeInterest I) (canonical_parts I)"
  have "legacyInterestToken l \<in> set (canonical_parts I) \<or> legacyInterestToken l \<in> set ?pad"
  proof -
    have "recordWanted (normalizeInterest I) k" using assms(1)
      by (simp only: recordWanted_def normalizeInterest_idem)
    then show ?thesis using assms(2) by (auto simp: shim_padding_set)
  qed
  then have "legacyInterestToken l \<in> set (shim_parts I)" by (auto simp: shim_parts_def Let_def)
  moreover have "wire_tokens (interestToShimTokens I) = shim_parts I"
    unfolding interestToShimTokens_alt
    by (rule wire_tokens_join(1) [OF _ shim_parts_tokens])
      (use canonical_parts_nonempty in \<open>simp add: shim_parts_def Let_def\<close>)
  ultimately show ?thesis using assms(2) by auto
qed

theorem legacy_shim_never_undercaptures_witness:
  "recordWanted {ecFileReads} mrFileOpen \<and>
   (\<exists>l'. legacyInterestToken l' \<in> set (wire_tokens (interestToShimTokens {ecFileReads})) \<and>
      mrFileOpen \<in> legacyMemberKinds l')"
proof -
  have w: "recordWanted {ecFileReads} mrFileOpen" by (simp add: recordWanted_def normalizeInterest_def)
  show ?thesis using w legacy_shim_never_undercaptures [OF w, of lecFileDeps] by simp
qed

text \<open>
  C8. An artifact whose stated interest and evidence scope cover what a consumer requires serves that
  consumer: narrowing its records to the requirement gives exactly the records that a capture
  made under the requirement itself would have kept.
\<close>

theorem covering_artifact_serves_consumer:
  assumes "observedInterestCovers dep K" "K \<noteq> {}" and "observedEvidenceScopeCovers dep S"
  shows "filter (\<lambda>r. recordWanted K (rec_kind r) \<and> recordInEvidenceScope S r)
      (filter (\<lambda>r. recordWanted (effectiveObservedInterest dep) (rec_kind r) \<and>
                   recordInEvidenceScope (effectiveObservedEvidenceScope dep) r) rs) =
    filter (\<lambda>r. recordWanted K (rec_kind r) \<and> recordInEvidenceScope S r) rs"
proof -
  have "normalizeInterest K \<subseteq> normalizeInterest (effectiveObservedInterest dep)"
    using assms(1,2) by (auto simp: observedInterestCovers_def normalizeInterest_def)
  note I = interest.covers_keeps [OF this]
  have "evidenceScopeCovers (effectiveObservedEvidenceScope dep) S"
    using assms(3) by (simp add: observedEvidenceScopeCovers_def)
  note S = evidence.covers_keeps [OF this]
  show ?thesis unfolding filter_filter
    by (rule filter_cong [OF refl]) (use I S in blast)
qed

definition example_record :: MonitorRecord where
  "example_record =
     \<lparr>rec_kind = mrFileOpen, rec_observationKind = moFileOpen, rec_seq = 7, rec_osPid = 100,
      rec_parentOsPid = 1, rec_threadId = 100, rec_childOsPid = 0, rec_result = 3, rec_flags = 0,
      rec_probeResult = prUnknown, rec_path = ''/src/a.c'', rec_detail = ''O_RDONLY''\<rparr>"

theorem covering_artifact_serves_consumer_witness:
  "\<exists>dep. observedInterestCovers dep {ecFileReads} \<and> observedEvidenceScopeCovers dep esReadsOnly \<and>
     filter (\<lambda>r. recordWanted {ecFileReads} (rec_kind r) \<and> recordInEvidenceScope esReadsOnly r)
       (filter (\<lambda>r. recordWanted (effectiveObservedInterest dep) (rec_kind r) \<and>
                    recordInEvidenceScope (effectiveObservedEvidenceScope dep) r) [example_record]) =
     filter (\<lambda>r. recordWanted {ecFileReads} (rec_kind r) \<and> recordInEvidenceScope esReadsOnly r)
       [example_record]"
proof -
  let ?dep = "depFileFromOwnedRecords HostLinux []"
  have st: "\<not> dep_observedInterestStated ?dep" "\<not> dep_observedEvidenceScopeStated ?dep"
    by (simp_all add: depFileFromOwnedRecords_def observedInterestFromRecords_def
        observedEvidenceScopeFromRecords_def Let_def)
  have i: "observedInterestCovers ?dep {ecFileReads}"
    using st by (simp add: observedInterestCovers_def effectiveObservedInterest_def FullInterest_def)
  have e: "observedEvidenceScopeCovers ?dep esReadsOnly"
    using st by (simp add: observedEvidenceScopeCovers_def effectiveObservedEvidenceScope_def)
  show ?thesis
    using covering_artifact_serves_consumer [OF i _ e, of "[example_record]"] i e by blast
qed

text \<open>
  An artifact whose evidence-scope stamp this reader does not understand, or that is present but
  empty, covers no requirement at all, and the artifact says so.
\<close>

theorem unknown_evidence_stamp_covers_nothing:
  assumes "stamp_from_records ''evidence'' rs = Some v"
    and "strip v \<noteq> ''full''" "strip v \<noteq> ''reads-only''"
  shows "statesUnevaluableEvidenceScope (depFileFromOwnedRecords host rs) \<and>
    \<not> observedEvidenceScopeCovers (depFileFromOwnedRecords host rs) S"
proof -
  have "snd (snd (observedEvidenceScopeFromRecords rs)) = esUnrecognized \<and>
      fst (observedEvidenceScopeFromRecords rs)"
    using assms by (auto simp: observedEvidenceScopeFromRecords_def parseEvidenceScopeToken_def Let_def
        enum_EvidenceScope_def split: if_splits)
  then have "dep_observedEvidenceScopeStated (depFileFromOwnedRecords host rs) \<and>
      dep_observedEvidenceScope (depFileFromOwnedRecords host rs) = esUnrecognized"
    by (auto simp: depFileFromOwnedRecords_def Let_def split: prod.splits)
  then show ?thesis
    by (simp add: statesUnevaluableEvidenceScope_def observedEvidenceScopeCovers_def
        effectiveObservedEvidenceScope_def)
qed

theorem unknown_evidence_stamp_covers_nothing_witness:
  "let rs = [example_record\<lparr>rec_kind := mrBackendProfile, rec_detail := ''evidence=writes''\<rparr>]
   in statesUnevaluableEvidenceScope (depFileFromOwnedRecords HostLinux rs) \<and>
      \<not> observedEvidenceScopeCovers (depFileFromOwnedRecords HostLinux rs) esReadsOnly"
proof -
  let ?rs = "[example_record\<lparr>rec_kind := mrBackendProfile, rec_detail := ''evidence=writes''\<rparr>]"
  have "stamp_from_records ''evidence'' ?rs = Some ''writes''"
    by (simp add: stamp_in_detail_def split_once_def)
  from unknown_evidence_stamp_covers_nothing [OF this, of HostLinux esReadsOnly]
  show ?thesis by (simp add: strip_def isWhitespace_def Let_def)
qed

section \<open>Backend profiles\<close>

text \<open>
  A capability gap travels in a record's detail and is read back unchanged when its reason holds
  no semicolon (the separator of the detail).
\<close>

theorem gap_detail_roundtrip:
  assumes "CHR '';'' \<notin> set (gap_reason gap)"
  shows "parseGapDetail (gapDetail gap) = Inr gap"
  by (rule parse_gapDetail [OF assms])

theorem gap_detail_roundtrip_witness:
  "let gap = \<lparr>gap_backendFamily = mbfLinuxPreloadHooks, gap_capability = mcapPathMutation, gap_required = True,
              gap_inputChannel = True, gap_reason = ''not hooked''\<rparr>
   in parseGapDetail (gapDetail gap) = Inr gap"
  unfolding Let_def by (rule gap_detail_roundtrip) simp

text \<open>
  A profile rebuilt from records that calls its evidence complete supports every capability the
  reader requires; and a required capability the records do not show is listed as a required gap.
\<close>

theorem complete_evidence_supports_required:
  "(prof_evidenceComplete (profileFromRecords host rs required) \<longrightarrow>
      required \<subseteq> prof_supportedCapabilities (profileFromRecords host rs required)) \<and>
   (\<forall>c \<in> required - prof_supportedCapabilities (profileFromRecords host rs required).
      \<exists>g \<in> set (prof_gaps (profileFromRecords host rs required)). gap_capability g = c \<and> gap_required g)"
  using profile_complete_supports [of host rs required] missing_required_is_gap [of _ required host rs]
  by (auto simp: has_required_gap_def)

theorem complete_evidence_supports_required_witness:
  "\<exists>g \<in> set (prof_gaps (profileFromRecords HostLinux [] {mcapPathMutation})).
     gap_capability g = mcapPathMutation \<and> gap_required g"
proof -
  have "mcapPathMutation \<notin> prof_supportedCapabilities (profileFromRecords HostLinux [] {mcapPathMutation})"
    by code_simp
  then show ?thesis
    using complete_evidence_supports_required [of HostLinux "[]" "{mcapPathMutation}"] by blast
qed

end
