(* ===== verification/Depfile_Properties.thy ===== *)
theory Depfile_Properties
  imports Reader_Facts
begin

text \<open>
  The properties of the \<^verbatim>\<open>.iomon\<close> codec and readers: what the decoders accept, what a
  crash or a damaged byte does to a file, and that writer and readers agree.
\<close>

definition sample_record :: MonitorRecord where
  "sample_record =
     \<lparr>rec_kind = mrFileOpen, rec_observationKind = moFileOpen, rec_seq = 1, rec_osPid = 100,
      rec_parentOsPid = 1, rec_threadId = 100, rec_childOsPid = 0, rec_result = 3, rec_flags = 0,
      rec_probeResult = prUnknown, rec_path = ''/a'', rec_detail = ''r''\<rparr>"

lemma encodable_sample [simp]: "encodable sample_record"
  by (simp add: encodable_def sample_record_def is_int64_def)

section \<open>Payloads and frames\<close>

text \<open>
  C1. The payload decoder accepts exactly the encodings of well-formed records: it returns a record
  iff the bytes are that record's encoding, so encoding is injective, decoding loses nothing, and
  there is one byte representation of each record.
\<close>

theorem payload_decode_exact:
  "decodeRecordPayload p = Inr r \<longleftrightarrow>
     (is_int64 (rec_result r) \<and> length (rec_path r) < 2 ^ 32 \<and> length (rec_detail r) < 2 ^ 32) \<and>
     p = encodeRecordPayload r"
  using payload.dec_iff [of p r] by (simp add: payload_ok_def)

text \<open>
  The frame encoder, which stores the fixed header at compile-time offsets into one preallocated
  buffer, writes the same bytes as the field-by-field encoder: the length prefix followed by every
  field appended by the cursor codec in wire order.
\<close>

theorem frame_encoder_is_cursor_encoder:
  "encodeFrame r =
     (let out = writeU16Le [] (word_of_nat (ord_recordKind (rec_kind r)));
          out = writeU16Le out (word_of_nat (ord_observationKind (rec_observationKind r)));
          out = writeU64Le out (rec_seq r);
          out = writeU64Le out (rec_osPid r);
          out = writeU64Le out (rec_parentOsPid r);
          out = writeU64Le out (rec_threadId r);
          out = writeU64Le out (rec_childOsPid r);
          out = writeU64Le out (word_of_int (rec_result r));
          out = writeU32Le out (rec_flags r);
          out = writeU32Le out (word_of_nat (ord_probeResult (rec_probeResult r)));
          out = writeString out (rec_path r);
          out = writeString out (rec_detail r)
      in writeU32Le [] (word_of_nat (length out)) @ out)"
  unfolding encodeFrame_eq encodeRecordPayload_eq payload_bytes_def header_bytes_def
  by (simp add: Let_def writeU16Le_eq writeU32Le_eq writeU64Le_eq writeString_eq)

text \<open>A body of frames decodes to the records that were framed, in order.\<close>

theorem frames_roundtrip:
  assumes "\<forall>r \<in> set rs. encodable r"
  shows "decodeFrames (concat (map encodeFrame rs)) = Inr rs"
  using decodeFrames_frames [OF assms] by (simp add: frames_def)

theorem frames_roundtrip_witness:
  "decodeFrames (concat (map encodeFrame [sample_record, sample_record])) =
     Inr [sample_record, sample_record]"
  by (rule frames_roundtrip) simp

lemma tolerant_iff_strict:
  "tolerant_from bs pos = (rs, True) \<longleftrightarrow> decode_frames_from bs pos = Inr rs"
proof (induction bs pos arbitrary: rs rule: decode_frames_from.induct)
  case (1 bs pos)
  show ?case
  proof (cases "pos < length bs \<and> pos + 4 \<le> length bs")
    case False
    then show ?thesis
      by (subst tolerant_from.simps, subst decode_frames_from.simps)
        (auto simp: readU32Le_eq raiseEnvelopeError_def)
  next
    case True
    define w where "w = (load_bytes bs pos 4 :: u32)"
    have rd: "readU32Le bs pos = Inr (w, pos + 4)" using True by (simp add: readU32Le_eq w_def)
    have first: "(case out of (ss, clean) \<Rightarrow> (r # ss, clean)) = (rs, True) \<longleftrightarrow>
        (\<exists>ss. rs = r # ss \<and> out = (ss, True))" for out r by (cases out) auto
    show ?thesis
    proof (cases "unat w \<le> 0 \<or> pos + 4 + unat w > length bs")
      case True
      then show ?thesis using \<open>pos < length bs \<and> _\<close>
        by (subst tolerant_from.simps, subst decode_frames_from.simps)
          (auto simp: rd raiseEnvelopeError_def)
    next
      case False
      have IH: "tolerant_from bs (pos + 4 + unat w) = (ss, True) \<longleftrightarrow>
          decode_frames_from bs (pos + 4 + unat w) = Inr ss"
        if "decodeRecordPayload (slice bs (pos + 4) (unat w)) = Inr r" for ss r
        using "1.IH" [OF _ rd _ False that] True rd by simp
      show ?thesis using True False
        by (subst tolerant_from.simps, subst decode_frames_from.simps)
          (auto simp: rd first IH split: sum.splits)
    qed
  qed
qed

text \<open>
  The crash-tolerant decoder and the strict decoder agree on intact bodies: the tolerant one
  reports a clean end with some records iff the strict one accepts the body with those records.
\<close>

theorem tolerant_agrees_with_strict:
  "decodeFramesTolerant bs = (rs, True) \<longleftrightarrow> decodeFrames bs = Inr rs"
  by (simp add: decodeFramesTolerant_def decodeFrames_def tolerant_iff_strict)

text \<open>
  How a cut at byte \<open>n\<close> falls on a list of frames: the first \<open>k\<close> frames are whole, and the
  cut is inside the next one or at its start.
\<close>

text \<open>
  C3. A process killed at any byte of its fragment loses only the record it was writing: the tolerant
  decoder returns every record whose frame is complete, in order, and reports a clean end exactly
  when the cut falls between two frames.
\<close>

theorem tolerant_recovers_complete_frames:
  assumes "\<forall>r \<in> set rs. encodable r" and "n \<le> length (concat (map encodeFrame rs))"
  shows "\<exists>k \<le> length rs. length (concat (map encodeFrame (take k rs))) \<le> n \<and>
    (k < length rs \<longrightarrow> n < length (concat (map encodeFrame (take (Suc k) rs)))) \<and>
    decodeFramesTolerant (take n (concat (map encodeFrame rs))) =
      (take k rs, n = length (concat (map encodeFrame (take k rs))))"
  using tolerant_cut [OF assms(1), of n] assms(2) unfolding frames_def .

theorem tolerant_recovers_complete_frames_witness:
  "\<exists>k \<le> length [sample_record, sample_record].
     decodeFramesTolerant (take 80 (concat (map encodeFrame [sample_record, sample_record]))) =
       (take k [sample_record, sample_record],
        80 = length (concat (map encodeFrame (take k [sample_record, sample_record]))))"
proof -
  have "\<forall>r \<in> set [sample_record, sample_record]. encodable r"
    "80 \<le> length (concat (map encodeFrame [sample_record, sample_record]))"
    by (simp, simp)
  from tolerant_recovers_complete_frames [OF this] show ?thesis by blast
qed

section \<open>Writers\<close>




section \<open>Readers\<close>

lemma canonical_frames_bound:
  "length (encodeCanonical rs) = 44 + length (frames (canonical_records rs))"
  by (simp add: encodeCanonical_eq envelope_bytes_raw)

lemma raw_envelope_body:
  assumes "24 \<le> i" "i - 24 < length body"
  shows "(raw_envelope v k h l body t s)[i := b] = raw_envelope v k h l (body[i - 24 := b]) t s"
    and "raw_envelope v k h l body t s ! i = body ! (i - 24)"
proof -
  let ?hd = "toBytes IomonMagic @ le_bytes 2 v @ le_bytes 2 k @ le_bytes 8 h @ le_bytes 8 l"
  have e: "raw_envelope v k h l body' t s =
      ?hd @ body' @ (toBytes IomonTrailerMagic @ le_bytes 8 t @ le_bytes 8 s)" for body'
    by (simp add: raw_envelope_def)
  have hd: "length ?hd = 24" by simp
  have i: "\<not> i < 24" using assms(1) by simp
  show "(raw_envelope v k h l body t s)[i := b] = raw_envelope v k h l (body[i - 24 := b]) t s"
    unfolding e list_update_append [of ?hd] hd if_not_P [OF i]
    by (simp only: list_update_append1 [OF assms(2)])
  show "raw_envelope v k h l body t s ! i = body ! (i - 24)"
    unfolding e nth_append [of ?hd] hd if_not_P [OF i] using assms(2) by (simp add: nth_append)
qed

lemma readMonitorDepFile_canonical:
  assumes "\<forall>r \<in> set rs. encodable r" "length (encodeCanonical rs) < 2 ^ 63"
    and "word_of_nat (length rs) \<le> opt_maxObservationCount options"
    and "fs path = Some (encodeCanonical rs)"
  shows "readMonitorDepFile fs host path options =
    Inr (depFileFromOwnedRecords host (renumber (sort_by canonicalOrder rs)))"
proof -
  have "decodeMonitorDepFile host (envelope_bytes (canonical_records rs)) options =
      Inr ((depFileFromOwnedRecords host (canonical_records rs))\<lparr>dep_version := IomonVersion\<rparr>)"
    by (rule decode_envelope [OF encodable_canonical [OF assms(1)] sequence_canonical])
      (use assms(2,3) in \<open>simp_all add: canonical_frames_bound\<close>)
  also have "(depFileFromOwnedRecords host (canonical_records rs))\<lparr>dep_version := IomonVersion\<rparr> =
      depFileFromOwnedRecords host (canonical_records rs)"
    using dep_version_owned [of host "canonical_records rs"]
    by (cases "depFileFromOwnedRecords host (canonical_records rs)") simp
  finally show ?thesis
    by (simp add: readMonitorDepFile_def assms(4) encodeCanonical_eq canonical_records_def)
qed

text \<open>
  C2. Reading a written depfile gives back the records in canonical order, renumbered from 1, with the
  summary, scope stamps, profile and completeness computed from them, whenever the records are
  encodable, the file is smaller than 2^63 bytes and their number is within the reader's limit.
\<close>

theorem depfile_roundtrip:
  assumes "\<forall>r \<in> set rs. encodable r" "length (encodeCanonical rs) < 2 ^ 63"
    and "word_of_nat (length rs) \<le> opt_maxObservationCount options"
    and "fs path = Some (encodeCanonical rs)"
  shows "readMonitorDepFile fs host path options =
    Inr (depFileFromOwnedRecords host (renumber (sort_by canonicalOrder rs)))"
  using assms by (rule readMonitorDepFile_canonical)

theorem depfile_roundtrip_witness:
  "readMonitorDepFile [''out'' \<mapsto> encodeCanonical [sample_record]] HostLinux ''out''
     defaultMonitorDepFileReaderOptions =
     Inr (depFileFromOwnedRecords HostLinux (renumber (sort_by canonicalOrder [sample_record])))"
  by (rule depfile_roundtrip)
    (simp_all add: canonical_frames_bound canonical_records_def canonical_sort renumber_def
      sample_record_def encodable_def is_int64_def defaultMonitorDepFileReaderOptions_def)

text \<open>
  C5. Damage to any one byte of the body of a written depfile is reported as a checksum mismatch,
  never read as other records.
\<close>

theorem damaged_body_byte_is_rejected:
  assumes "length (encodeCanonical rs) < 2 ^ 63"
    and "word_of_nat (length rs) \<le> opt_maxObservationCount options" "opt_requireTrailerChecksum options"
    and "24 \<le> i" "i + 20 < length (encodeCanonical rs)" "encodeCanonical rs ! i \<noteq> b"
  shows "decodeMonitorDepFile host ((encodeCanonical rs)[i := b]) options =
    Inl (ReaderError mrChecksumMismatch ''iomon checksum mismatch'')"
proof -
  let ?cs = "canonical_records rs"
  let ?n = "word_of_nat (length rs) :: u64" and ?l = "word_of_nat (length (frames ?cs)) :: u64"
  let ?body = "frames ?cs" and ?c = "checksum (frames ?cs)"
  have il: "i - 24 < length ?body" using assms(4,5) by (simp add: canonical_frames_bound)
  have upd: "(raw_envelope IomonVersion CanonicalFileKind ?n ?l ?body ?n ?c)[i := b] =
      raw_envelope IomonVersion CanonicalFileKind ?n ?l (?body[i - 24 := b]) ?n ?c"
    by (rule raw_envelope_body(1) [OF assms(4) il])
  have neq: "?body ! (i - 24) \<noteq> b"
    using assms(6) raw_envelope_body(2) [OF assms(4) il]
    by (simp add: encodeCanonical_eq envelope_bytes_raw)
  have split: "?body = take (i - 24) ?body @ ?body ! (i - 24) # drop (Suc (i - 24)) ?body"
    "?body[i - 24 := b] = take (i - 24) ?body @ b # drop (Suc (i - 24)) ?body"
    using il by (simp_all add: id_take_nth_drop upd_conv_take_nth_drop)
  have "?c \<noteq> checksum (?body[i - 24 := b])"
    using checksum_single_byte [of "take (i - 24) ?body"] neq split by metis
  then have "check_envelope ((encodeCanonical rs)[i := b]) options =
      Inl (ReaderError mrChecksumMismatch ''iomon checksum mismatch'')"
    unfolding encodeCanonical_eq envelope_bytes_raw length_canonical_records upd
    using assms(1-3) by (subst check_raw_envelope) (simp_all add: canonical_frames_bound)
  then show ?thesis by (simp add: decodeMonitorDepFile_def)
qed

theorem damaged_body_byte_is_rejected_witness:
  "decodeMonitorDepFile HostLinux ((encodeCanonical [sample_record])[30 := 255])
     defaultMonitorDepFileReaderOptions =
     Inl (ReaderError mrChecksumMismatch ''iomon checksum mismatch'')"
proof -
  have "encodeCanonical [sample_record] ! 30 \<noteq> 255" by code_simp
  then show ?thesis
    by (intro damaged_body_byte_is_rejected)
      (simp_all add: canonical_frames_bound canonical_records_def canonical_sort renumber_def
        sample_record_def defaultMonitorDepFileReaderOptions_def)
qed

lemma load_bytes_take: "pos + k \<le> n \<Longrightarrow> load_bytes (take n bs) pos k = load_bytes bs pos k"
  unfolding load_bytes_eq by (rule or_bytes_cong) simp

text \<open>
  C6. A file cut short at any point is rejected: for every proper prefix of a written depfile the
  reader raises the truncation error.
\<close>

theorem truncated_depfile_is_rejected:
  assumes "length (encodeCanonical rs) < 2 ^ 63" "n < length (encodeCanonical rs)"
    and "word_of_nat (length rs) \<le> opt_maxObservationCount options"
  shows "\<exists>msg. decodeMonitorDepFile host (take n (encodeCanonical rs)) options =
    Inl (ReaderError mrTruncated msg)"
proof (cases "n < 44")
  case True
  then show ?thesis using assms(2)
    by (simp add: decodeMonitorDepFile_def check_envelope_def)
next
  case False
  let ?bs = "encodeCanonical rs"
  let ?cs = "canonical_records rs"
  have bs: "?bs = raw_envelope IomonVersion CanonicalFileKind (word_of_nat (length ?cs))
     (word_of_nat (length (frames ?cs))) (frames ?cs) (word_of_nat (length ?cs)) (checksum (frames ?cs))"
    by (simp add: encodeCanonical_eq envelope_bytes_raw)
  note r = raw_envelope_reads [of IomonVersion CanonicalFileKind "word_of_nat (length ?cs)"
      "word_of_nat (length (frames ?cs))" "frames ?cs" "word_of_nat (length ?cs)" "checksum (frames ?cs)",
      folded bs]
  have ln: "length (take n ?bs) = n" using assms(2) by simp
  have u: "readU16Le (take n ?bs) 4 = readU16Le ?bs 4" "readU16Le (take n ?bs) 6 = readU16Le ?bs 6"
    "readU64Le (take n ?bs) 8 = readU64Le ?bs 8" "readU64Le (take n ?bs) 16 = readU64Le ?bs 16"
    using False assms(2) unfolding readU16Le_eq readU64Le_eq ln by (simp_all add: load_bytes_take)
  have mg: "slice (take n ?bs) 0 4 = slice ?bs 0 4" using False by (simp add: slice_def)
  have l: "unat (word_of_nat (length (frames ?cs)) :: u64) = length (frames ?cs)"
    using assms(1) by (simp add: unat_of_nat canonical_frames_bound)
  have "check_envelope (take n ?bs) options =
      Inl (ReaderError mrTruncated ''iomon body length/trailer mismatch'')"
    unfolding check_envelope_def ln mg r(1)
    using False assms by (simp add: u r int_of_u64_def int_add_def l canonical_frames_bound not_less)
  then show ?thesis by (simp add: decodeMonitorDepFile_def)
qed

theorem truncated_depfile_is_rejected_witness:
  "\<exists>msg. decodeMonitorDepFile HostLinux (take 60 (encodeCanonical [sample_record]))
     defaultMonitorDepFileReaderOptions = Inl (ReaderError mrTruncated msg)"
  by (rule truncated_depfile_is_rejected)
    (simp_all add: canonical_frames_bound canonical_records_def canonical_sort renumber_def
      sample_record_def defaultMonitorDepFileReaderOptions_def)

text \<open>
  C4. The record-at-a-time iterator and the materializing reader accept the same files and deliver
  the same records: the iterator runs to its normal end having yielded some records iff the reader
  returns a depfile with those records.
\<close>

theorem record_stream_agrees_with_reader:
  "streamMonitorDepFileRecords fs path options = (rs, None) \<longleftrightarrow>
     (\<exists>dep. readMonitorDepFile fs host path options = Inr dep \<and> dep_records dep = rs)"
proof (cases "fs path")
  case None
  then show ?thesis by (simp add: streamMonitorDepFileRecords_def readMonitorDepFile_def)
next
  case (Some bs)
  show ?thesis
  proof (cases "check_envelope bs options")
    case (Inl e)
    then show ?thesis
      by (simp add: streamMonitorDepFileRecords_def readMonitorDepFile_def Some decodeMonitorDepFile_def)
  next
    case (Inr a)
    then obtain v h start len where env: "check_envelope bs options = Inr (v, h, start, len)"
      by (cases a) auto
    have b: "start + len \<le> length bs" using check_envelope_bounds [OF env] by simp
    have recs: "dep_records (depFileFromOwnedRecords host qs) = qs" for qs
      by (simp add: depFileFromOwnedRecords_def Let_def split: prod.splits)
    have empty: "(if len = 0 then Inr [] else decodeFrames (slice bs start len)) =
        decode_frames_from (slice bs start len) 0"
      using b by (simp add: decodeFrames_def) (subst decode_frames_from.simps, simp)
    have "streamMonitorDepFileRecords fs path options = (rs, None) \<longleftrightarrow>
        decode_frames_from (slice bs start len) 0 = Inr rs \<and> sequence_from 1 rs \<and> word_of_nat (length rs) = h"
      using stream_frames_iff [OF b, of h 0 1 0 rs]
      by (simp add: streamMonitorDepFileRecords_def Some env)
    moreover have "readMonitorDepFile fs host path options =
        (case decode_frames_from (slice bs start len) 0 of
           Inl err \<Rightarrow> Inl (ReaderError (classifyEnvelopeError err) (ee_msg err))
         | Inr qs \<Rightarrow> if word_of_nat (length qs) \<noteq> h
             then Inl (ReaderError mrSemanticValidationFailed ''iomon frame count mismatch'')
             else if sequence_from 1 qs
             then Inr ((depFileFromOwnedRecords host qs)\<lparr>dep_version := v\<rparr>)
             else Inl (ReaderError mrRecordOrderInvalid ''iomon record sequence is not canonical''))"
      by (simp add: readMonitorDepFile_def Some decodeMonitorDepFile_def env empty
          validateSequenceOrder_def split: sum.split)
    ultimately show ?thesis by (cases "decode_frames_from (slice bs start len) 0") (auto simp: recs)
  qed
qed






text \<open>
  C7. A depfile that calls itself complete is backed by its records: there is no event-loss record
  among them, and the profile they state supports every capability of the input-evidence set.
\<close>

theorem complete_depfile_has_no_loss:
  assumes "dep_completeness (depFileFromOwnedRecords host rs) = mcComplete" and "length rs < 2 ^ 64"
  shows "(\<forall>r \<in> set rs. rec_kind r \<noteq> mrEventLoss \<and> rec_observationKind r \<noteq> moEventLoss) \<and>
    InputEvidenceCapabilities \<subseteq>
      prof_supportedCapabilities (dep_profile (depFileFromOwnedRecords host rs))"
proof -
  let ?p = "profileFromRecords host rs InputEvidenceCapabilities"
  have c: "prof_evidenceComplete ?p" "sum_eventLossCount (summarizeRecords rs) = 0"
    using assms(1) by (auto simp: depFileFromOwnedRecords_def Let_def split: prod.splits if_splits)
  let ?n = "length (filter is_loss rs)"
  have "?n < 2 ^ 64" by (rule le_less_trans [OF length_filter_le assms(2)])
  then have "unat (word_of_nat ?n :: u64) = ?n" by (simp add: unat_of_nat)
  moreover have "(word_of_nat ?n :: u64) = 0" using c(2) by (simp only: summary_losses)
  ultimately have "?n = 0" by simp
  then have none: "\<forall>r \<in> set rs. \<not> is_loss r" by (simp add: filter_empty_conv)
  have "dep_profile (depFileFromOwnedRecords host rs) = ?p"
    using c(2) by (simp add: depFileFromOwnedRecords_def Let_def split: prod.splits)
  then show ?thesis using none profile_complete_supports [OF c(1)] by (auto simp: is_loss_def)
qed

theorem complete_depfile_has_no_loss_witness:
  "InputEvidenceCapabilities \<subseteq>
     prof_supportedCapabilities (dep_profile (depFileFromOwnedRecords HostLinux [sample_record]))"
proof -
  have "dep_completeness (depFileFromOwnedRecords HostLinux [sample_record]) = mcComplete"
    by code_simp
  from complete_depfile_has_no_loss [OF this] show ?thesis by simp
qed

end
