(* ===== verification/Dep_Queue.thy ===== *)
theory Dep_Queue
  imports Reader
begin

text \<open>
  The codec of the shared-memory dependency set, \<^verbatim>\<open>src/io_mon/shm/dep_queue.nim\<close>, and the one
  place that composes an element key from it, \<^verbatim>\<open>encodeDepSetElement\<close> of
  \<^verbatim>\<open>src/io_mon/writer.nim\<close>.  The encoders write into a buffer of the caller and return the number of bytes
  written or -1, so a model of one takes the buffer and returns it with the number.

  The set keeps one element per key: what two observations have in common when their keys agree is
  what the transport may forget.
\<close>

unbundle bit_operations_syntax

section \<open>Integers and varints\<close>

definition DepFixedHeaderLen :: nat where
  "DepFixedHeaderLen = 2 + 2 + 8 + 8 + 8 + 8 + 8 + 8 + 4 + 4"

function putVarint :: "bytes \<Rightarrow> nat \<Rightarrow> u64 \<Rightarrow> bytes \<times> nat \<times> bool" where
  "putVarint buf pos v =
     (if pos \<ge> length buf then (buf, pos, False)
      else
        let b = ucast (v AND 0x7F);
            v = drop_bit 7 v;
            b = (if v \<noteq> 0 then b OR 0x80 else b);
            buf = buf[pos := b];
            pos = pos + 1
        in if v = 0 then (buf, pos, True) else putVarint buf pos v)"
  by pat_completeness auto
termination
  by (relation "measure (\<lambda>(buf, pos, v). length buf - pos)") auto

function get_varint_from :: "bytes \<Rightarrow> nat \<Rightarrow> nat \<Rightarrow> u64 \<Rightarrow> (u64 \<times> nat) option" where
  "get_varint_from buf pos shift result0 =
     (if pos \<ge> length buf \<or> shift \<ge> 64 then None
      else
        let b = buf ! pos;
            pos = pos + 1;
            result0 = result0 OR push_bit shift (ucast (b AND 0x7F))
        in if b AND 0x80 = 0 then Some (result0, pos)
           else get_varint_from buf pos (shift + 7) result0)"
  by pat_completeness auto
termination
  by (relation "measure (\<lambda>(buf, pos, shift, result0). length buf - pos)") auto

declare putVarint.simps [simp del] get_varint_from.simps [simp del]

text \<open>The value and the new position; \<open>None\<close> where the source returns false.\<close>

definition getVarint :: "bytes \<Rightarrow> nat \<Rightarrow> (u64 \<times> nat) option" where
  "getVarint buf pos = get_varint_from buf pos 0 0"

definition putU16 :: "u16 \<Rightarrow> bytes \<times> nat \<Rightarrow> bytes \<times> nat" where
  "putU16 v = (\<lambda>(buf, pos). (buf[pos := ucast (v AND 0xFF), pos + 1 := ucast (drop_bit 8 v AND 0xFF)], pos + 2))"

definition putU32 :: "u32 \<Rightarrow> bytes \<times> nat \<Rightarrow> bytes \<times> nat" where
  "putU32 v = (\<lambda>(buf, pos).
     (buf[pos := ucast (v AND 0xFF), pos + 1 := ucast (drop_bit 8 v AND 0xFF),
          pos + 2 := ucast (drop_bit 16 v AND 0xFF), pos + 3 := ucast (drop_bit 24 v AND 0xFF)], pos + 4))"

definition putU64 :: "u64 \<Rightarrow> bytes \<times> nat \<Rightarrow> bytes \<times> nat" where
  "putU64 v = (\<lambda>(buf, pos).
     (fold (\<lambda>i b. b[pos + i := ucast (drop_bit (8 * i) v AND 0xFF)]) [0..<8] buf, pos + 8))"

definition getU16 :: "bytes \<Rightarrow> nat \<Rightarrow> u16" where
  "getU16 buf pos = ucast (buf ! pos) OR push_bit 8 (ucast (buf ! (pos + 1)))"

definition getU32 :: "bytes \<Rightarrow> nat \<Rightarrow> u32" where
  "getU32 buf pos =
     ucast (buf ! pos) OR push_bit 8 (ucast (buf ! (pos + 1))) OR
     push_bit 16 (ucast (buf ! (pos + 2))) OR push_bit 24 (ucast (buf ! (pos + 3)))"

definition getU64 :: "bytes \<Rightarrow> nat \<Rightarrow> u64" where
  "getU64 buf pos = fold (\<lambda>i r. r OR push_bit (8 * i) (ucast (buf ! (pos + i)))) [0..<8] 0"

section \<open>What makes two observations the same fact\<close>

datatype DepIdentityScope = disProcessScoped | disPathScoped | disFactScoped

fun depIdentityScope :: "MonitorRecordKind \<Rightarrow> DepIdentityScope" where
  "depIdentityScope mrFileOpen = disPathScoped"
| "depIdentityScope mrFileRead = disPathScoped"
| "depIdentityScope mrPathProbe = disPathScoped"
| "depIdentityScope mrDirectoryEnumerate = disPathScoped"
| "depIdentityScope mrLibraryLoad = disFactScoped"
| "depIdentityScope mrEnvRead = disFactScoped"
| "depIdentityScope mrSysctlRead = disFactScoped"
| "depIdentityScope mrTimeRead = disFactScoped"
| "depIdentityScope mrProcessStart = disProcessScoped"
| "depIdentityScope mrProcessExec = disProcessScoped"
| "depIdentityScope mrProcessSpawn = disProcessScoped"
| "depIdentityScope mrFileWrite = disProcessScoped"
| "depIdentityScope mrEventLoss = disProcessScoped"
| "depIdentityScope mrBackendProfile = disProcessScoped"
| "depIdentityScope mrCapabilityGap = disProcessScoped"
| "depIdentityScope mrIpcConnect = disProcessScoped"
| "depIdentityScope mrNonDeterministic = disProcessScoped"
| "depIdentityScope mrExternalContent = disProcessScoped"
| "depIdentityScope mrPathMutation = disProcessScoped"

definition depIdentityKeepsIncarnation :: "MonitorRecordKind \<Rightarrow> bool" where
  "depIdentityKeepsIncarnation k \<longleftrightarrow> depIdentityScope k \<noteq> disFactScoped"

definition identityNormalizedOutcome :: "MonitorRecordKind \<Rightarrow> int \<Rightarrow> u32 \<Rightarrow> int \<times> u32" where
  "identityNormalizedOutcome k rawResult rawFlags =
     (case k of
        mrFileRead \<Rightarrow> (0, 0)
      | mrFileWrite \<Rightarrow> (0, 0)
      | mrFileOpen \<Rightarrow> (if rawResult < 0 then - 1 else 0, rawFlags)
      | mrPathProbe \<Rightarrow> (if rawResult < 0 then - 1 else 0, rawFlags)
      | _ \<Rightarrow> (rawResult, rawFlags))"

section \<open>The record codec\<close>

text \<open>\<^verbatim>\<open>for i in 0 ..< s.len: buf[pos + i] = byte(s[i])\<close>, then the cursor moves.\<close>

definition put_chars :: "string \<Rightarrow> bytes \<times> nat \<Rightarrow> bytes \<times> nat" where
  "put_chars s = (\<lambda>(buf, pos).
     (fold (\<lambda>i b. b[pos + i := byte_of_char (s ! i)]) [0..<length s] buf, pos + length s))"

text \<open>A length and the characters; \<open>None\<close> as the new position where the source returns -1.\<close>

definition put_text :: "string \<Rightarrow> bytes \<times> nat \<Rightarrow> bytes \<times> nat option" where
  "put_text s = (\<lambda>(buf, pos).
     case putVarint buf pos (word_of_nat (length s)) of
       (buf, pos, ok) \<Rightarrow>
         if \<not> ok then (buf, None)
         else if length s > 0 then
           if pos + length s > length buf then (buf, None)
           else (case put_chars s (buf, pos) of (buf, pos) \<Rightarrow> (buf, Some pos))
         else (buf, Some pos))"

definition encodeDepRecordWithSeq :: "MonitorRecord \<Rightarrow> bytes \<Rightarrow> u64 \<Rightarrow> bool \<Rightarrow> bytes \<times> int" where
  "encodeDepRecordWithSeq r buf seqValue applyIdentityScope =
     (if length buf < DepFixedHeaderLen then (buf, - 1)
      else
        let scope = (if applyIdentityScope then depIdentityScope (rec_kind r) else disProcessScoped);
            dropObserver = (scope \<in> {disPathScoped, disFactScoped});
            (encodedResult, encodedFlags) =
              (if dropObserver then identityNormalizedOutcome (rec_kind r) (rec_result r) (rec_flags r)
               else (rec_result r, rec_flags r));
            s = putU16 (word_of_nat (ord_recordKind (rec_kind r))) (buf, 0);
            s = putU16 (word_of_nat (ord_observationKind (rec_observationKind r))) s;
            s = putU64 seqValue s;
            s = putU64 (if dropObserver then 0 else rec_osPid r) s;
            s = putU64 (if dropObserver then 0 else rec_parentOsPid r) s;
            s = putU64 (if dropObserver then 0 else rec_threadId r) s;
            s = putU64 (if dropObserver then 0 else rec_childOsPid r) s;
            s = putU64 (word_of_int encodedResult) s;
            s = putU32 encodedFlags s;
            s = putU32 (word_of_nat (ord_probeResult (rec_probeResult r))) s
        in case put_text (rec_path r) s of
             (buf, None) \<Rightarrow> (buf, - 1)
           | (buf, Some pos) \<Rightarrow>
               (case put_text (rec_detail r) (buf, pos) of
                  (buf, None) \<Rightarrow> (buf, - 1)
                | (buf, Some pos) \<Rightarrow> (buf, int pos)))"

definition encodeDepRecord :: "MonitorRecord \<Rightarrow> bytes \<Rightarrow> bytes \<times> int" where
  "encodeDepRecord r buf = encodeDepRecordWithSeq r buf (rec_seq r) False"

definition encodeDepRecordIdentity :: "MonitorRecord \<Rightarrow> bytes \<Rightarrow> bytes \<times> int" where
  "encodeDepRecordIdentity r buf = encodeDepRecordWithSeq r buf 0 True"

text \<open>
  A length and that many characters.  \<^verbatim>\<open>int(pathLen)\<close> raises a defect on a length that is not an
  \<open>int\<close>, and so does the sum; \<open>None\<close> where the source returns with \<open>ok\<close> false.
\<close>

definition get_text :: "bytes \<Rightarrow> nat \<Rightarrow> reader_exn + (string \<times> nat) option" where
  "get_text buf pos =
     (case getVarint buf pos of
        None \<Rightarrow> Inr None
      | Some (len, pos) \<Rightarrow>
          res_bind (int_of_u64 len) (\<lambda>n.
          res_bind (int_add pos n) (\<lambda>fin.
            if fin > length buf then Inr None
            else Inr (Some (if len > 0 then (map char_of_byte (slice buf pos n), fin) else ([], pos))))))"

text \<open>\<open>Inr None\<close> is the result with \<open>ok\<close> false; the record is then not used by any caller.\<close>

definition decodeDepRecord :: "bytes \<Rightarrow> reader_exn + MonitorRecord option" where
  "decodeDepRecord buf =
     (if length buf < DepFixedHeaderLen then Inr None
      else
        let kindOrd = getU16 buf 0; obsOrd = getU16 buf 2
        in if unat kindOrd < 1 \<or> unat kindOrd > 19 then Inr None
           else if unat obsOrd < 1 \<or> unat obsOrd > 17 then Inr None
           else
             let seq0 = getU64 buf 4; osPid = getU64 buf 12; parentOsPid = getU64 buf 20;
                 threadId = getU64 buf 28; childOsPid = getU64 buf 36; res = getU64 buf 44;
                 flags = getU32 buf 52; probeOrd = getU32 buf 56
             in if unat probeOrd > 4 then Inr None
                else
                  res_bind (get_text buf 60) (\<lambda>p.
                    case p of
                      None \<Rightarrow> Inr None
                    | Some (path, pos) \<Rightarrow>
                        res_bind (get_text buf pos) (\<lambda>d.
                          case d of
                            None \<Rightarrow> Inr None
                          | Some (detail, _) \<Rightarrow> Inr (Some
                              \<lparr>rec_kind = recordKind_of_ord (unat kindOrd),
                               rec_observationKind = observationKind_of_ord (unat obsOrd),
                               rec_seq = seq0, rec_osPid = osPid, rec_parentOsPid = parentOsPid,
                               rec_threadId = threadId, rec_childOsPid = childOsPid,
                               rec_result = sint res, rec_flags = flags,
                               rec_probeResult = probeResult_of_ord (unat probeOrd),
                               rec_path = path, rec_detail = detail\<rparr>))))"

section \<open>Element keys\<close>

datatype DepSetElemFit = dseRequireFit | dseTruncateSuffix

text \<open>\<open>img\<close> is the process's \<^verbatim>\<open>setElemImage\<close>, its per-exec incarnation identity.\<close>

definition encodeDepSetElement ::
    "string \<Rightarrow> MonitorRecord \<Rightarrow> bytes \<Rightarrow> DepSetElemFit \<Rightarrow> bytes \<times> int" where
  "encodeDepSetElement img r buf fit =
     (case encodeDepRecordIdentity r buf of
        (buf, n) \<Rightarrow>
          if n < 0 then (buf, - 1)
          else if \<not> depIdentityKeepsIncarnation (rec_kind r) then (buf, n)
          else (case fit of
                  dseRequireFit \<Rightarrow>
                    if nat n + length img > length buf then (buf, - 1)
                    else (case put_chars img (buf, nat n) of (buf, fin) \<Rightarrow> (buf, int fin))
                | dseTruncateSuffix \<Rightarrow>
                    (case put_chars (take (length buf - nat n) img) (buf, nat n) of
                       (buf, fin) \<Rightarrow> (buf, int fin))))"

text \<open>
  The pre-encoded event-loss element; the buffer on the stack is not initialized, so its content
  is an argument.
\<close>

definition loss_record :: MonitorRecord where
  "loss_record =
     \<lparr>rec_kind = mrEventLoss, rec_observationKind = moEventLoss, rec_seq = 0, rec_osPid = 0,
      rec_parentOsPid = 0, rec_threadId = 0, rec_childOsPid = 0, rec_result = 0, rec_flags = 0,
      rec_probeResult = prUnknown, rec_path = [], rec_detail = ''dep-set-capture-loss''\<rparr>"

definition rebuildDepSetLossElem :: "string \<Rightarrow> bytes \<Rightarrow> bytes" where
  "rebuildDepSetLossElem img stack =
     (case encodeDepSetElement img loss_record (stack) dseTruncateSuffix of
        (buf, fin) \<Rightarrow> if fin < 0 then [] else take (nat fin) buf)"

end
