(* ===== verification/Dep_Queue_Facts.thy ===== *)
theory Dep_Queue_Facts
  imports Dep_Queue Reader_Facts
begin

text \<open>
  Facts on the codec of the dependency set: a varint is the bytes of its seven-bit groups, the
  encoders write the reference bytes of the record that the identity scope leaves, the decoder
  reads them back whatever follows, and so an element key determines that record.
\<close>

unbundle bit_operations_syntax

section \<open>Varints\<close>

function varint_bytes :: "u64 \<Rightarrow> bytes" where
  "varint_bytes v =
     (if drop_bit 7 v = 0 then [ucast (v AND 0x7F)]
      else (ucast (v AND 0x7F) OR 0x80) # varint_bytes (drop_bit 7 v))"
  by pat_completeness auto
termination
proof (relation "measure unat")
  fix v :: u64 assume "drop_bit 7 v \<noteq> 0"
  then have "unat (drop_bit 7 v) \<noteq> 0" by (simp only: unsigned_eq_0_iff not_False_eq_True)
  then have "unat v div 128 \<noteq> 0" by (simp add: unat_drop_bit_eq drop_bit_eq_div [where 'a = nat])
  then show "(drop_bit 7 v, v) \<in> measure unat" by (simp add: unat_drop_bit_eq drop_bit_eq_div [where 'a = nat])
qed simp

declare varint_bytes.simps [simp del]

lemma varint_bytes_nonempty [simp]: "varint_bytes v \<noteq> []"
  by (subst varint_bytes.simps) simp

lemma mask7: "(0x7F :: 'a::len word) = mask 7"
  by (simp add: mask_eq_exp_minus_1)

lemma bit_80: "bit (0x80 :: u8) n \<longleftrightarrow> n = 7"
proof -
  have "(0x80 :: u8) = 2 ^ 7" by simp
  then show ?thesis by (simp only: bit_exp_iff) auto
qed

lemma bit_128 [simp]: "bit (128 :: int) n \<longleftrightarrow> n = 7" "bit (128 :: nat) n \<longleftrightarrow> n = 7"
proof -
  have i: "(128 :: int) = 2 ^ 7" and k: "(128 :: nat) = 2 ^ 7" by simp_all
  show "bit (128 :: int) n \<longleftrightarrow> n = 7" unfolding i by (simp only: bit_exp_iff) auto
  show "bit (128 :: nat) n \<longleftrightarrow> n = 7" unfolding k by (simp only: bit_exp_iff) auto
qed

lemma and_80_eq_0: "b AND (0x80 :: u8) = 0 \<longleftrightarrow> \<not> bit b 7"
proof
  assume "b AND 0x80 = 0"
  then have "\<not> bit (b AND 0x80) 7" by simp
  then show "\<not> bit b 7" by (simp only: bit_and_iff bit_80) simp
next
  assume "\<not> bit b 7"
  then show "b AND 0x80 = 0" by (intro bit_word_eqI) (auto simp only: bit_and_iff bit_80 bit_0_eq)
qed

lemma low_byte:
  fixes v :: u64
  shows "\<not> bit (ucast (v AND 0x7F) :: u8) 7"
    and "bit (ucast (v AND 0x7F) OR 0x80 :: u8) 7"
    and "(ucast ((ucast (v AND 0x7F) :: u8) AND 0x7F) :: u64) = v AND 0x7F"
    and "(ucast ((ucast (v AND 0x7F) OR 0x80 :: u8) AND 0x7F) :: u64) = v AND 0x7F"
  unfolding mask7 by (auto simp: bit_simps bit_80 bit_mask_iff intro!: bit_word_eqI)

lemma join_shift:
  fixes v :: u64
  shows "push_bit k (v AND 0x7F) OR push_bit (k + 7) (drop_bit 7 v) = push_bit k v"
proof (rule bit_word_eqI)
  fix n assume "n < LENGTH(64)"
  then show "bit (push_bit k (v AND 0x7F) OR push_bit (k + 7) (drop_bit 7 v)) n = bit (push_bit k v) n"
    unfolding mask7 by (cases "k + 7 \<le> n") (auto simp: bit_simps bit_mask_iff)
qed

lemma small_mask: "drop_bit 7 (v :: u64) = 0 \<Longrightarrow> v AND 0x7F = v"
  unfolding mask7 by (simp add: take_bit_eq_mask [symmetric] take_bit_eq_self_iff_drop_bit_eq_0)

lemma get_varint_from_bytes:
  assumes "shift < 64" "drop_bit (64 - shift) v = 0"
  shows "get_varint_from (xs @ varint_bytes v @ ys) (length xs) shift acc =
    Some (acc OR push_bit shift v, length xs + length (varint_bytes v))"
  using assms
proof (induction v arbitrary: xs shift acc rule: varint_bytes.induct)
  case (1 v)
  show ?case
  proof (cases "drop_bit 7 v = 0")
    case True
    have m: "\<not> bit (ucast v :: u8) 7" "(ucast ((ucast v :: u8) AND 0x7F) :: u64) = v"
      using low_byte(1) [of v] low_byte(3) [of v] unfolding small_mask [OF True] by blast+
    show ?thesis using 1(2) True
      by (subst get_varint_from.simps)
        (simp add: varint_bytes.simps [of v] nth_append and_80_eq_0 m small_mask Let_def)
  next
    case False
    have s7: "shift + 7 < 64"
    proof (rule ccontr)
      assume "\<not> shift + 7 < 64"
      then have "64 - shift \<le> 7" by simp
      then have "drop_bit 7 v = drop_bit (7 - (64 - shift)) (drop_bit (64 - shift) v)" by simp
      with 1(3) False show False by simp
    qed
    have d: "drop_bit (64 - (shift + 7)) (drop_bit 7 v) = 0" using 1(3) s7 by (simp add: add.commute)
    let ?b = "ucast (v AND 0x7F) OR 0x80 :: u8"
    have eq: "xs @ varint_bytes v @ ys = (xs @ [?b]) @ varint_bytes (drop_bit 7 v) @ ys"
      using False by (simp add: varint_bytes.simps [of v])
    have "get_varint_from (xs @ varint_bytes v @ ys) (length xs) shift acc =
      get_varint_from ((xs @ [?b]) @ varint_bytes (drop_bit 7 v) @ ys) (length (xs @ [?b])) (shift + 7)
        (acc OR push_bit shift (v AND 0x7F))"
      unfolding eq using 1(2)
      by (subst get_varint_from.simps) (simp add: nth_append and_80_eq_0 low_byte Let_def)
    also have "\<dots> = Some ((acc OR push_bit shift (v AND 0x7F)) OR push_bit (shift + 7) (drop_bit 7 v),
        length (xs @ [?b]) + length (varint_bytes (drop_bit 7 v)))"
      by (rule 1(1) [OF False s7 d])
    also have "\<dots> = Some (acc OR push_bit shift v, length xs + length (varint_bytes v))"
      unfolding or.assoc join_shift using False by (simp add: varint_bytes.simps [of v])
    finally show ?thesis .
  qed
qed

lemma getVarint_bytes:
  "pos = length xs \<Longrightarrow> getVarint (xs @ varint_bytes v @ ys) pos = Some (v, pos + length (varint_bytes v))"
  using get_varint_from_bytes [of 0 v xs ys 0] by (simp add: getVarint_def drop_bit_word_beyond)

lemma putVarint_fits:
  assumes "length (varint_bytes v) \<le> length rest"
  shows "putVarint (pre @ rest) (length pre) v =
    ((pre @ varint_bytes v) @ drop (length (varint_bytes v)) rest, length pre + length (varint_bytes v), True)"
  using assms
proof (induction v arbitrary: pre rest rule: varint_bytes.induct)
  case (1 v)
  obtain x xs where r: "rest = x # xs" using 1(2) by (cases rest) auto
  show ?case
  proof (cases "drop_bit 7 v = 0")
    case True
    then show ?thesis by (subst putVarint.simps) (simp add: r varint_bytes.simps [of v] list_update_append Let_def)
  next
    case False
    let ?b = "ucast (v AND 0x7F) OR 0x80 :: u8"
    have vb: "varint_bytes v = ?b # varint_bytes (drop_bit 7 v)"
      using False by (simp add: varint_bytes.simps [of v])
    have "putVarint (pre @ rest) (length pre) v =
      putVarint ((pre @ [?b]) @ xs) (length (pre @ [?b])) (drop_bit 7 v)"
      using False by (subst putVarint.simps) (simp add: r list_update_append Let_def)
    also have "\<dots> = (((pre @ [?b]) @ varint_bytes (drop_bit 7 v)) @ drop (length (varint_bytes (drop_bit 7 v))) xs,
        length (pre @ [?b]) + length (varint_bytes (drop_bit 7 v)), True)"
      by (rule 1(1) [OF False]) (use 1(2) in \<open>simp add: r vb\<close>)
    finally show ?thesis by (simp add: vb r)
  qed
qed

lemma putVarint_overruns:
  assumes "length rest < length (varint_bytes v)"
  shows "snd (snd (putVarint (pre @ rest) (length pre) v)) = False"
  using assms
proof (induction v arbitrary: pre rest rule: varint_bytes.induct)
  case (1 v)
  show ?case
  proof (cases rest)
    case Nil
    then show ?thesis by (subst putVarint.simps) simp
  next
    case (Cons x xs)
    let ?b = "ucast (v AND 0x7F) OR 0x80 :: u8"
    have nz: "drop_bit 7 v \<noteq> 0" using 1(2) Cons by (auto simp: varint_bytes.simps [of v] split: if_splits)
    then have "putVarint (pre @ rest) (length pre) v =
      putVarint ((pre @ [?b]) @ xs) (length (pre @ [?b])) (drop_bit 7 v)"
      by (subst putVarint.simps) (simp add: Cons list_update_append Let_def)
    moreover have "length xs < length (varint_bytes (drop_bit 7 v))"
      using 1(2) Cons nz by (simp add: varint_bytes.simps [of v])
    ultimately show ?thesis using 1(1) [OF nz, of xs "pre @ [?b]"] by simp
  qed
qed

section \<open>The encoder writes the reference bytes\<close>

text \<open>A cursor that stands behind \<open>pre\<close> in a buffer with \<open>rest\<close> left.\<close>

lemma put_fixed:
  "n \<le> length rest \<Longrightarrow> store_bytes (pre @ rest) (length pre) n w = (pre @ le_bytes n w) @ drop n rest"
  by (simp add: store_bytes_eq)

lemma putU16_cursor:
  assumes "2 \<le> length rest"
  shows "putU16 v (pre @ rest, length pre) = ((pre @ le_bytes 2 v) @ drop 2 rest, length (pre @ le_bytes 2 v))"
  using put_fixed [OF assms, of pre v]
  by (simp add: putU16_def store_bytes_def numeral_2_eq_2)

lemma putU32_cursor:
  assumes "4 \<le> length rest"
  shows "putU32 v (pre @ rest, length pre) = ((pre @ le_bytes 4 v) @ drop 4 rest, length (pre @ le_bytes 4 v))"
proof -
  have "[0..<4] = [0, 1, 2, 3 :: nat]" by (simp add: upt_rec)
  then show ?thesis using put_fixed [OF assms, of pre v] by (simp add: putU32_def store_bytes_def)
qed

lemma putU64_cursor:
  "8 \<le> length rest \<Longrightarrow>
   putU64 v (pre @ rest, length pre) = ((pre @ le_bytes 8 v) @ drop 8 rest, length (pre @ le_bytes 8 v))"
  using put_fixed [of 8 rest pre v] by (simp add: putU64_def store_bytes_def)

lemma put_chars_cursor:
  assumes "length s \<le> length rest"
  shows "put_chars s (pre @ rest, length pre) =
    ((pre @ toBytes s) @ drop (length s) rest, length (pre @ toBytes s))"
proof -
  have "fold (\<lambda>i b. b[length pre + i := byte_of_char (s ! i)]) [0..<k] (pre @ rest) =
      pre @ toBytes (take k s) @ drop k rest" if "k \<le> length s" for k
    using that
  proof (induction k)
    case 0
    then show ?case by (simp add: toBytes_def)
  next
    case (Suc k)
    then have k: "k < length s" "k < length rest" using assms by simp_all
    have "drop k rest = rest ! k # drop (Suc k) rest" using k(2) by (simp add: Cons_nth_drop_Suc)
    with Suc k show ?case by (simp add: toBytes_def take_Suc_conv_app_nth list_update_append)
  qed
  from this [of "length s"] show ?thesis by (simp add: put_chars_def)
qed

definition text_bytes :: "string \<Rightarrow> bytes" where
  "text_bytes s = varint_bytes (word_of_nat (length s)) @ toBytes s"

lemma put_text_fits:
  assumes "length (text_bytes s) \<le> length rest"
  shows "put_text s (pre @ rest, length pre) =
    ((pre @ text_bytes s) @ drop (length (text_bytes s)) rest, Some (length (pre @ text_bytes s)))"
proof -
  let ?v = "varint_bytes (word_of_nat (length s))"
  have l: "length ?v \<le> length rest" "length s \<le> length (drop (length ?v) rest)"
    using assms by (simp_all add: text_bytes_def)
  note c = put_chars_cursor [OF l(2), of "pre @ ?v"]
  show ?thesis
  proof (cases "s = []")
    case True
    then show ?thesis using putVarint_fits [OF l(1), of pre]
      by (simp add: put_text_def text_bytes_def toBytes_def)
  next
    case False
    then show ?thesis using l c
      by (simp add: put_text_def putVarint_fits [OF l(1)] text_bytes_def add.commute)
  qed
qed

lemma put_text_overruns:
  assumes "length rest < length (text_bytes s)"
  shows "snd (put_text s (pre @ rest, length pre)) = None"
proof -
  let ?v = "varint_bytes (word_of_nat (length s))"
  show ?thesis
  proof (cases "length rest < length ?v")
    case True
    then show ?thesis using putVarint_overruns [OF True, of pre]
      by (auto simp: put_text_def split: prod.splits)
  next
    case False
    then have l: "length ?v \<le> length rest" by simp
    have "s \<noteq> []" "length rest < length ?v + length s" using assms False by (auto simp: text_bytes_def toBytes_def)
    then show ?thesis using l by (simp add: put_text_def putVarint_fits [OF l])
  qed
qed

text \<open>
  The record an encoding stands for: what the identity scope leaves of it.
\<close>

definition keyed :: "bool \<Rightarrow> u64 \<Rightarrow> MonitorRecord \<Rightarrow> MonitorRecord" where
  "keyed scoped n r =
     (if scoped \<and> depIdentityScope (rec_kind r) \<noteq> disProcessScoped
      then r\<lparr>rec_seq := n, rec_osPid := 0, rec_parentOsPid := 0, rec_threadId := 0, rec_childOsPid := 0,
             rec_result := fst (identityNormalizedOutcome (rec_kind r) (rec_result r) (rec_flags r)),
             rec_flags := snd (identityNormalizedOutcome (rec_kind r) (rec_result r) (rec_flags r))\<rparr>
      else r\<lparr>rec_seq := n\<rparr>)"

definition dep_bytes :: "MonitorRecord \<Rightarrow> bytes" where
  "dep_bytes r = header_bytes r @ text_bytes (rec_path r) @ text_bytes (rec_detail r)"

lemma header_cursor:
  assumes "60 \<le> length buf"
  shows "putU32 (word_of_nat (ord_probeResult (rec_probeResult r))) (putU32 (rec_flags r)
    (putU64 (word_of_int (rec_result r)) (putU64 (rec_childOsPid r) (putU64 (rec_threadId r)
    (putU64 (rec_parentOsPid r) (putU64 (rec_osPid r) (putU64 (rec_seq r)
    (putU16 (word_of_nat (ord_observationKind (rec_observationKind r)))
    (putU16 (word_of_nat (ord_recordKind (rec_kind r))) (buf, 0)))))))))) =
    (header_bytes r @ drop 60 buf, length (header_bytes r))"
proof -
  note steps = putU16_cursor putU32_cursor putU64_cursor
  have "putU16 v (buf, 0) = (([] @ le_bytes 2 v) @ drop 2 buf, length ([] @ le_bytes 2 v))" for v
    using putU16_cursor [of buf v "[]"] assms by simp
  note first = this
  show ?thesis
    unfolding first
    by ((subst steps, use assms in simp)+) (simp add: header_bytes_def)
qed

lemma encode_with_seq_header:
  assumes "60 \<le> length buf"
  shows "encodeDepRecordWithSeq r buf n scoped =
    (case put_text (rec_path r) (header_bytes (keyed scoped n r) @ drop 60 buf, length (header_bytes (keyed scoped n r))) of
       (buf, None) \<Rightarrow> (buf, - 1)
     | (buf, Some pos) \<Rightarrow>
         (case put_text (rec_detail r) (buf, pos) of
            (buf, None) \<Rightarrow> (buf, - 1)
          | (buf, Some pos) \<Rightarrow> (buf, int pos)))"
proof -
  have "\<not> length buf < DepFixedHeaderLen" using assms by (simp add: DepFixedHeaderLen_def)
  moreover have "scope \<in> {disPathScoped, disFactScoped} \<longleftrightarrow> scope \<noteq> disProcessScoped" for scope
    by (cases scope) auto
  ultimately show ?thesis
    unfolding header_cursor [OF assms, of "keyed scoped n r", symmetric]
    by (auto simp: encodeDepRecordWithSeq_def keyed_def Let_def split: prod.split)
qed

lemma keyed_text [simp]:
  "rec_path (keyed scoped n r) = rec_path r" "rec_detail (keyed scoped n r) = rec_detail r"
  "rec_kind (keyed scoped n r) = rec_kind r"
  by (simp_all add: keyed_def)

lemma encode_with_seq_fits:
  assumes "length (dep_bytes (keyed scoped n r)) \<le> length buf"
  shows "encodeDepRecordWithSeq r buf n scoped =
    (dep_bytes (keyed scoped n r) @ drop (length (dep_bytes (keyed scoped n r))) buf,
     int (length (dep_bytes (keyed scoped n r))))"
proof -
  let ?r = "keyed scoped n r"
  have l: "60 \<le> length buf" "length (text_bytes (rec_path r)) \<le> length (drop 60 buf)"
    "length (text_bytes (rec_detail r)) \<le> length (drop (length (text_bytes (rec_path r))) (drop 60 buf))"
    using assms by (simp_all add: dep_bytes_def)
  show ?thesis
    unfolding encode_with_seq_header [OF l(1)] put_text_fits [OF l(2)]
    using put_text_fits [OF l(3), of "header_bytes ?r @ text_bytes (rec_path r)"]
    by (simp add: dep_bytes_def add.commute add.left_commute)
qed

lemma encode_with_seq_overruns:
  assumes "length buf < length (dep_bytes (keyed scoped n r))"
  shows "snd (encodeDepRecordWithSeq r buf n scoped) = - 1"
proof (cases "60 \<le> length buf")
  case False
  then show ?thesis by (simp add: encodeDepRecordWithSeq_def DepFixedHeaderLen_def)
next
  case True
  let ?r = "keyed scoped n r" and ?p = "text_bytes (rec_path r)"
  show ?thesis
  proof (cases "length ?p \<le> length (drop 60 buf)")
    case False
    then have "snd (put_text (rec_path r) (header_bytes ?r @ drop 60 buf, length (header_bytes ?r))) = None"
      by (intro put_text_overruns) simp
    then show ?thesis unfolding encode_with_seq_header [OF True] by (auto split: prod.splits)
  next
    case fits: True
    have "length (drop (length ?p) (drop 60 buf)) < length (text_bytes (rec_detail r))"
      using assms fits True by (simp add: dep_bytes_def)
    from put_text_overruns [OF this, of "header_bytes ?r @ ?p"] show ?thesis
      unfolding encode_with_seq_header [OF True] put_text_fits [OF fits] by (auto split: prod.splits)
  qed
qed

section \<open>The decoder\<close>

text \<open>A record whose result is a 64-bit integer and whose strings have lengths an \<open>int\<close> holds.\<close>

definition dep_ok :: "MonitorRecord \<Rightarrow> bool" where
  "dep_ok r \<longleftrightarrow> is_int64 (rec_result r) \<and> length (rec_path r) < 2 ^ 63 \<and> length (rec_detail r) < 2 ^ 63"

lemma get_eqs:
  "getU16 buf pos = load_bytes buf pos 2" "getU32 buf pos = load_bytes buf pos 4"
  "getU64 buf pos = load_bytes buf pos 8"
proof -
  have u: "[0..<2] = [0, 1 :: nat]" "[0..<4] = [0, 1, 2, 3 :: nat]" by (simp_all add: upt_rec)
  show "getU16 buf pos = load_bytes buf pos 2" "getU32 buf pos = load_bytes buf pos 4"
    "getU64 buf pos = load_bytes buf pos 8"
    by (simp_all add: getU16_def getU32_def getU64_def load_bytes_def u or.assoc)
qed

lemma get_text_bytes:
  assumes "pos = length xs" "length s < 2 ^ 63" "length (xs @ text_bytes s @ ys) < 2 ^ 63"
  shows "get_text (xs @ text_bytes s @ ys) pos = Inr (Some (s, pos + length (text_bytes s)))"
proof -
  let ?v = "varint_bytes (word_of_nat (length s))" and ?bs = "xs @ text_bytes s @ ys"
  have g: "getVarint ?bs pos = Some (word_of_nat (length s), pos + length ?v)"
    using getVarint_bytes [OF assms(1), of "word_of_nat (length s)" "toBytes s @ ys"]
    by (simp add: text_bytes_def)
  have n: "unat (word_of_nat (length s) :: u64) = length s" using assms(2) by (simp add: unat_of_nat)
  have "(xs @ ?v) @ toBytes s @ ys = ?bs" by (simp add: text_bytes_def)
  moreover have "slice ((xs @ ?v) @ toBytes s @ ys) (pos + length ?v) (length s) = toBytes s"
    by (rule slice_append_midI) (simp_all add: assms(1))
  ultimately have sl: "slice ?bs (pos + length ?v) (length s) = toBytes s" by (simp only:)
  have pos: "0 < (word_of_nat (length s) :: u64) \<longleftrightarrow> s \<noteq> []"
    using n by (metis length_0_conv unsigned_eq_0_iff word_neq_0_conv)
  have bd: "pos + length ?v + length s < 2 ^ 63" "pos + length ?v + length s \<le> length ?bs"
    using assms by (simp_all add: text_bytes_def)
  have len: "length (text_bytes s) = length ?v + length s" by (simp add: text_bytes_def)
  have chars: "map char_of_byte (toBytes s) = s" by (simp add: toBytes_def)
  have i: "int_of_u64 (word_of_nat (length s)) = Inr (length s)"
    using assms(2) by (simp only: int_of_u64_def n if_True)
  have ad: "int_add (pos + length ?v) (length s) = Inr (pos + length ?v + length s)"
    using bd(1) by (simp only: int_add_def if_True)
  show ?thesis using bd(2)
    by (simp only: get_text_def g option.case prod.case i ad res_bind.simps sl pos chars len not_less [symmetric])
      (cases "s = []", simp_all)
qed

lemma decodeDepRecord_bytes:
  assumes "dep_ok r" "length (dep_bytes r @ ys) < 2 ^ 63"
  shows "decodeDepRecord (dep_bytes r @ ys) = Inr (Some r)"
proof -
  let ?bs = "dep_bytes r @ ys" and ?p = "text_bytes (rec_path r)" and ?d = "text_bytes (rec_detail r)"
  have bs: "?bs = header_bytes r @ (?p @ ?d @ ys)" by (simp add: dep_bytes_def)
  note ld = load_header_fields [OF bs, unfolded load_defs off_defs]
  have ok: "is_int64 (rec_result r)" "length (rec_path r) < 2 ^ 63" "length (rec_detail r) < 2 ^ 63"
    using assms(1) by (simp_all add: dep_ok_def)
  have t1: "get_text ?bs 60 = Inr (Some (rec_path r, 60 + length ?p))"
    using get_text_bytes [of 60 "header_bytes r" "rec_path r" "?d @ ys"] ok assms(2)
    by (simp add: dep_bytes_def)
  have t2: "get_text ?bs (60 + length ?p) = Inr (Some (rec_detail r, 60 + length ?p + length ?d))"
    using get_text_bytes [of "60 + length ?p" "header_bytes r @ ?p" "rec_detail r" ys] ok assms(2)
    by (simp add: dep_bytes_def)
  have "\<not> length ?bs < DepFixedHeaderLen" by (simp add: DepFixedHeaderLen_def dep_bytes_def)
  then show ?thesis
    using ord_recordKind_range [of "rec_kind r"] ord_probeResult_range [of "rec_probeResult r"]
      ord_observationKind_range [of "rec_observationKind r"]
    by (simp add: decodeDepRecord_def Let_def get_eqs ld t1 t2 sint_word_of_int64 ok(1))
qed

lemma varint_length:
  "k \<ge> 1 \<Longrightarrow> drop_bit (7 * k) v = 0 \<Longrightarrow> length (varint_bytes v) \<le> k"
proof (induction k arbitrary: v rule: nat_induct_at_least)
  case base
  then show ?case by (simp add: varint_bytes.simps)
next
  case (Suc n)
  then have "drop_bit (7 * n) (drop_bit 7 v) = 0" by (simp add: add.commute)
  then have "length (varint_bytes (drop_bit 7 v)) \<le> n" by (rule Suc.IH)
  then show ?case by (subst varint_bytes.simps) simp
qed

lemma varint_length_10: "length (varint_bytes v) \<le> 10"
  using varint_length [of 10 v] by (simp add: drop_bit_word_beyond)

lemma length_dep_bytes: "length (dep_bytes r) \<le> 80 + length (rec_path r) + length (rec_detail r)"
  using varint_length_10 [of "word_of_nat (length (rec_path r))"]
    varint_length_10 [of "word_of_nat (length (rec_detail r))"]
  by (simp add: dep_bytes_def text_bytes_def)

lemma keyed_own: "keyed False (rec_seq r) r = r"
  by (simp add: keyed_def)

section \<open>Element keys\<close>

definition element_bytes :: "string \<Rightarrow> MonitorRecord \<Rightarrow> bytes" where
  "element_bytes img r =
     dep_bytes (keyed True 0 r) @ (if depIdentityKeepsIncarnation (rec_kind r) then toBytes img else [])"

lemma element_fits:
  assumes "encodeDepSetElement img r buf dseRequireFit = (buf', n)" "0 \<le> n"
  shows "take (nat n) buf' = element_bytes img r \<and> nat n \<le> length buf"
proof -
  let ?k = "dep_bytes (keyed True 0 r)"
  have l: "length ?k \<le> length buf"
  proof (rule ccontr)
    assume "\<not> ?thesis"
    then have "snd (encodeDepRecordIdentity r buf) = - 1"
      unfolding encodeDepRecordIdentity_def by (intro encode_with_seq_overruns) simp
    with assms show False by (auto simp: encodeDepSetElement_def split: prod.splits)
  qed
  have e: "encodeDepRecordIdentity r buf = (?k @ drop (length ?k) buf, int (length ?k))"
    unfolding encodeDepRecordIdentity_def by (rule encode_with_seq_fits [OF l])
  show ?thesis
  proof (cases "depIdentityKeepsIncarnation (rec_kind r)")
    case False
    then show ?thesis using assms l by (auto simp: encodeDepSetElement_def e element_bytes_def)
  next
    case True
    then have i: "length img \<le> length (drop (length ?k) buf)"
      using assms l by (auto simp: encodeDepSetElement_def e split: if_splits)
    then show ?thesis
      using assms True l put_chars_cursor [OF i, of ?k]
      by (auto simp: encodeDepSetElement_def e element_bytes_def split: if_splits)
  qed
qed

lemma dep_ok_keyed: "dep_ok r \<Longrightarrow> dep_ok (keyed scoped n r)"
  by (auto simp: dep_ok_def keyed_def identityNormalizedOutcome_def is_int64_def split: MonitorRecordKind.splits)

lemma dep_bytes_prefix_inject:
  assumes "dep_ok r" "dep_ok q" "dep_bytes r @ xs = dep_bytes q @ ys" "length (dep_bytes r @ xs) < 2 ^ 63"
  shows "r = q \<and> xs = ys"
proof -
  have "decodeDepRecord (dep_bytes r @ xs) = Inr (Some r)"
    by (rule decodeDepRecord_bytes [OF assms(1) assms(4)])
  moreover have "decodeDepRecord (dep_bytes q @ ys) = Inr (Some q)"
    using assms(3,4) by (intro decodeDepRecord_bytes [OF assms(2)]) simp
  ultimately show ?thesis using assms(3) by simp
qed

end
