(* ===== verification/Element_Properties.thy ===== *)
theory Element_Properties
  imports Dep_Queue_Facts
begin

text \<open>
  The properties of the dependency set: which observations share an element, the round trip of the
  record codec, and the loss marker.
\<close>

text \<open>
  When two observations, made by incarnations \<open>i\<close> and \<open>j\<close>, are one fact.
\<close>

definition same_observation :: "string \<Rightarrow> MonitorRecord \<Rightarrow> string \<Rightarrow> MonitorRecord \<Rightarrow> bool" where
  "same_observation i r j q \<longleftrightarrow>
     rec_kind r = rec_kind q \<and> rec_observationKind r = rec_observationKind q \<and>
     rec_probeResult r = rec_probeResult q \<and> rec_path r = rec_path q \<and> rec_detail r = rec_detail q \<and>
     (rec_kind r = mrFileRead \<or>
       rec_flags r = rec_flags q \<and>
       (if rec_kind r \<in> {mrFileOpen, mrPathProbe} then (rec_result r < 0 \<longleftrightarrow> rec_result q < 0)
        else rec_result r = rec_result q)) \<and>
     (rec_kind r \<in> {mrLibraryLoad, mrEnvRead, mrSysctlRead, mrTimeRead} \<or> i = j) \<and>
     (rec_kind r \<in> {mrLibraryLoad, mrEnvRead, mrSysctlRead, mrTimeRead, mrFileOpen, mrFileRead, mrPathProbe,
        mrDirectoryEnumerate} \<or>
       rec_osPid r = rec_osPid q \<and> rec_parentOsPid r = rec_parentOsPid q \<and>
       rec_threadId r = rec_threadId q \<and> rec_childOsPid r = rec_childOsPid q)"

lemma same_observation_keyed:
  "same_observation i r j q \<longleftrightarrow>
     keyed True 0 r = keyed True 0 q \<and> (depIdentityKeepsIncarnation (rec_kind r) \<longrightarrow> i = j)"
proof (cases "rec_kind r = rec_kind q")
  case False
  then show ?thesis by (auto simp: same_observation_def dest: arg_cong [where f = rec_kind])
next
  case True
  then show ?thesis
    by (cases r; cases q; cases "rec_kind r")
      (auto simp: same_observation_def keyed_def identityNormalizedOutcome_def depIdentityKeepsIncarnation_def)
qed

text \<open>
  C31. In the shared-memory set two observations are the same element exactly when they are the same
  fact: their keys agree iff the records agree in kind, outcome, path and detail, and, for the kinds
  where the process or its executable image is part of the fact, in those too.  So the set neither
  merges two different dependencies nor keeps one twice because a descriptor, a byte count, a pid or
  a sequence number differs.
\<close>

theorem element_key_is_observation_identity:
  assumes "encodeDepSetElement i r buf dseRequireFit = (b, n)" "0 \<le> n"
    and "encodeDepSetElement j q buf' dseRequireFit = (c, m)" "0 \<le> m"
    and "dep_ok r" "dep_ok q" "length buf < 2 ^ 63"
  shows "take (nat n) b = take (nat m) c \<longleftrightarrow> same_observation i r j q"
proof -
  let ?r = "keyed True 0 r" and ?q = "keyed True 0 q"
  define xs where "xs = (if depIdentityKeepsIncarnation (rec_kind r) then toBytes i else [])"
  define ys where "ys = (if depIdentityKeepsIncarnation (rec_kind q) then toBytes j else [])"
  have b: "take (nat n) b = dep_bytes ?r @ xs" "nat n \<le> length buf"
    using element_fits [OF assms(1,2)] by (simp_all add: element_bytes_def xs_def)
  have c: "take (nat m) c = dep_bytes ?q @ ys"
    using element_fits [OF assms(3,4)] by (simp add: element_bytes_def ys_def)
  have "length (dep_bytes ?r @ xs) < 2 ^ 63"
    using b assms(7) by (metis le_less_trans length_take min.cobounded2 le_trans)
  then have "dep_bytes ?r @ xs = dep_bytes ?q @ ys \<longleftrightarrow> ?r = ?q \<and> xs = ys"
    using dep_bytes_prefix_inject [OF dep_ok_keyed [OF assms(5)] dep_ok_keyed [OF assms(6)], of True 0 xs True 0 ys]
    by (intro iffI) (blast, simp)
  moreover have "?r = ?q \<Longrightarrow> rec_kind r = rec_kind q" by (metis keyed_text(3))
  ultimately show ?thesis
    unfolding b(1) c same_observation_keyed by (auto simp: xs_def ys_def)
qed

text \<open>
  A record encoded for the transport with its sequence number decodes to itself, whatever bytes
  follow it (an incarnation suffix does); the encoder reports that a record does not fit only for a
  buffer that is too small for it, and it leaves the rest of the buffer alone.
\<close>

theorem dep_record_roundtrip:
  assumes "dep_ok r" "length buf + length suffix < 2 ^ 63" "encodeDepRecord r buf = (buf', n)"
  shows "if n < 0 then length buf < 80 + length (rec_path r) + length (rec_detail r)
    else decodeDepRecord (take (nat n) buf' @ suffix) = Inr (Some r) \<and>
      nat n \<le> length buf \<and> drop (nat n) buf' = drop (nat n) buf"
proof (cases "length (dep_bytes r) \<le> length buf")
  case True
  have e: "encodeDepRecord r buf = (dep_bytes r @ drop (length (dep_bytes r)) buf, int (length (dep_bytes r)))"
    using encode_with_seq_fits [of False "rec_seq r" r buf] True by (simp add: encodeDepRecord_def keyed_own)
  have "decodeDepRecord (dep_bytes r @ suffix) = Inr (Some r)"
    by (rule decodeDepRecord_bytes [OF assms(1)]) (use True assms(2) in simp)
  then show ?thesis using assms(3) True by (auto simp: e)
next
  case False
  then have "n = - 1"
    using encode_with_seq_overruns [of buf False "rec_seq r" r] assms(3)
    by (simp add: encodeDepRecord_def keyed_own)
  then show ?thesis using False length_dep_bytes [of r] by simp
qed


definition opened :: "u64 \<Rightarrow> int \<Rightarrow> MonitorRecord" where
  "opened pid fd =
     \<lparr>rec_kind = mrFileOpen, rec_observationKind = moFileOpen, rec_seq = 7, rec_osPid = pid,
      rec_parentOsPid = 1, rec_threadId = pid, rec_childOsPid = 0, rec_result = fd, rec_flags = 0,
      rec_probeResult = prUnknown, rec_path = ''/usr/include/stdio.h'', rec_detail = ''run=4''\<rparr>"

lemma dep_ok_opened: "dep_ok (opened 100 3)" "dep_ok (opened 200 5)" "dep_ok (opened 200 (- 1))"
  by (simp_all add: dep_ok_def opened_def is_int64_def)

abbreviation element :: "MonitorRecord \<Rightarrow> bytes \<times> int" where
  "element r \<equiv> encodeDepSetElement ''/usr/bin/cc'' r (replicate 128 0) dseRequireFit"

theorem element_key_is_observation_identity_witness:
  "take (nat (snd (element (opened 100 3)))) (fst (element (opened 100 3))) =
     take (nat (snd (element (opened 200 5)))) (fst (element (opened 200 5))) \<and>
   take (nat (snd (element (opened 100 3)))) (fst (element (opened 100 3))) \<noteq>
     take (nat (snd (element (opened 200 (- 1))))) (fst (element (opened 200 (- 1))))"
proof -
  have e: "0 \<le> snd (element (opened 100 3))" "0 \<le> snd (element (opened 200 5))"
    "0 \<le> snd (element (opened 200 (- 1)))"
    by code_simp+
  have l: "length (replicate 128 (0 :: u8)) < 2 ^ 63" by simp
  have "same_observation ''/usr/bin/cc'' (opened 100 3) ''/usr/bin/cc'' (opened 200 5)"
    "\<not> same_observation ''/usr/bin/cc'' (opened 100 3) ''/usr/bin/cc'' (opened 200 (- 1))"
    by (simp_all add: same_observation_def opened_def)
  then show ?thesis
    using element_key_is_observation_identity [OF surjective_pairing e(1) surjective_pairing e(2) dep_ok_opened(1,2) l]
      element_key_is_observation_identity [OF surjective_pairing e(1) surjective_pairing e(3) dep_ok_opened(1,3) l]
    by simp
qed

theorem dep_record_roundtrip_witness:
  "decodeDepRecord (take (nat (snd (encodeDepRecord (opened 100 3) (replicate 128 0))))
     (fst (encodeDepRecord (opened 100 3) (replicate 128 0))) @ [1, 2]) = Inr (Some (opened 100 3))"
proof -
  have "\<not> snd (encodeDepRecord (opened 100 3) (replicate 128 0)) < 0" by code_simp
  then show ?thesis
    using dep_record_roundtrip [OF dep_ok_opened(1), of "replicate 128 0" "[1, 2]", OF _ surjective_pairing]
    by simp
qed

text \<open>
  The loss marker a producer falls back on can always be built: whatever the process's image and
  whatever the stack buffer held, the element decodes to an event-loss record, and a depfile with
  that record among its records is never complete.
\<close>

theorem loss_element_forces_incomplete:
  assumes "length stack = DepFixedHeaderLen + 64"
  shows "\<exists>r. decodeDepRecord (rebuildDepSetLossElem img stack) = Inr (Some r) \<and>
    (\<forall>host rs. r \<in> set rs \<and> length rs < 2 ^ 64 \<longrightarrow>
       dep_completeness (depFileFromOwnedRecords host rs) = mcIncomplete)"
proof -
  let ?k = "dep_bytes loss_record"
  have k: "keyed True 0 loss_record = loss_record" by (simp add: keyed_def loss_record_def)
  have n: "length ?k = 82" by code_simp
  let ?i = "take (length stack - 82) img"
  have e: "encodeDepRecordIdentity loss_record stack = (?k @ drop 82 stack, 82)"
    using encode_with_seq_fits [of True 0 loss_record stack] assms
    by (simp add: encodeDepRecordIdentity_def k n DepFixedHeaderLen_def)
  have "length ?i \<le> length (drop 82 stack)" by simp
  from put_chars_cursor [OF this, of ?k] have "rebuildDepSetLossElem img stack = ?k @ toBytes ?i"
    using assms by (simp add: rebuildDepSetLossElem_def encodeDepSetElement_def e n
        depIdentityKeepsIncarnation_def loss_record_def [THEN arg_cong [where f = rec_kind]] DepFixedHeaderLen_def)
  moreover have "dep_ok loss_record" by (simp add: dep_ok_def loss_record_def is_int64_def)
  then have "decodeDepRecord (?k @ toBytes ?i) = Inr (Some loss_record)"
    using assms by (intro decodeDepRecord_bytes) (simp_all add: n DepFixedHeaderLen_def)
  moreover have "is_loss loss_record" by (simp add: is_loss_def loss_record_def)
  ultimately show ?thesis using loss_incomplete by metis
qed

theorem loss_element_forces_incomplete_witness:
  "\<exists>r. decodeDepRecord (rebuildDepSetLossElem ''/usr/bin/cc'' (replicate 124 255)) = Inr (Some r) \<and>
    dep_completeness (depFileFromOwnedRecords HostLinux [r]) = mcIncomplete"
  using loss_element_forces_incomplete [of "replicate 124 255" "''/usr/bin/cc''"]
  by (auto simp: DepFixedHeaderLen_def)

text \<open>
  The decoder does not report every malformed buffer: a length varint of 2 to the 63 or more is not
  an \<open>int\<close>, and converting it raises.
\<close>

lemma oversized_varint_raises:
  assumes "2 ^ 63 \<le> unat v"
  shows "decodeDepRecord (header_bytes r @ varint_bytes v @ ys) = Inl RangeDefect"
proof -
  let ?bs = "header_bytes r @ varint_bytes v @ ys"
  note ld = load_header_fields [OF refl [of ?bs], unfolded load_defs off_defs]
  have "get_text ?bs 60 = Inl RangeDefect"
    using getVarint_bytes [of 60 "header_bytes r" v ys] assms
    by (simp add: get_text_def int_of_u64_def)
  moreover have "\<not> length ?bs < DepFixedHeaderLen" by (simp add: DepFixedHeaderLen_def)
  ultimately show ?thesis
    using ord_recordKind_range [of "rec_kind r"] ord_probeResult_range [of "rec_probeResult r"]
      ord_observationKind_range [of "rec_observationKind r"]
    by (simp add: decodeDepRecord_def Let_def get_eqs ld)
qed

end
