(* ===== verification/Detail_Tokens.thy ===== *)
theory Detail_Tokens
  imports Types
begin

text \<open>
  The identity tokens of a record's free-form detail (\<^verbatim>\<open>src/io_mon/writer.nim\<close>): blank-separated
  \<^verbatim>\<open>key=value\<close> words, of which the merge reads the run id, the start times and the channel.  The
  indices of the source's scanner delimit the words of the detail, so a scan is a walk over the list
  of words.
\<close>

definition StartTimeToken :: string where "StartTimeToken = ''start''"
definition ChildStartTimeToken :: string where "ChildStartTimeToken = ''childstart''"
definition PeerStartTimeToken :: string where "PeerStartTimeToken = ''peerstart''"
definition PeerUidToken :: string where "PeerUidToken = ''peeruid''"
definition RunIdToken :: string where "RunIdToken = ''run''"
definition NonceToken :: string where "NonceToken = ''nonce''"
definition ChanToken :: string where "ChanToken = ''chan''"
definition RoleToken :: string where "RoleToken = ''role''"
definition ExecStatusToken :: string where "ExecStatusToken = ''execstatus''"

lemmas token_defs = StartTimeToken_def ChildStartTimeToken_def PeerStartTimeToken_def PeerUidToken_def
  RunIdToken_def NonceToken_def ChanToken_def RoleToken_def ExecStatusToken_def

definition detailHasTokenSyntax :: "string \<Rightarrow> bool" where
  "detailHasTokenSyntax detail \<longleftrightarrow> CHR ''='' \<in> set detail"

definition isDetailSpace :: "char \<Rightarrow> bool" where
  "isDetailSpace c \<longleftrightarrow> c = CHR '' '' \<or> c = CHR 0x09 \<or> c = CHR 0x0A \<or> c = CHR 0x0D \<or> c = CHR 0x0B \<or> c = CHR 0x0C"

text \<open>The words of the detail, in order.\<close>

function detailTokens :: "string \<Rightarrow> string list" where
  "detailTokens detail =
     (let rest = dropWhile isDetailSpace detail
      in if rest = [] then []
         else takeWhile (\<lambda>c. \<not> isDetailSpace c) rest #
              detailTokens (dropWhile (\<lambda>c. \<not> isDetailSpace c) rest))"
  by pat_completeness auto
termination
proof (relation "measure length", simp, goal_cases)
  case (1 detail rest)
  then have "\<not> isDetailSpace (hd rest)" "length rest \<le> length detail"
    using hd_dropWhile [of isDetailSpace detail] by (simp_all add: length_dropWhile_le)
  moreover have "length (dropWhile (\<lambda>c. \<not> isDetailSpace c) rest) < length rest"
    using 1(2) calculation(1) by (cases rest) (auto simp: le_imp_less_Suc length_dropWhile_le)
  ultimately show ?case by simp
qed

declare detailTokens.simps [simp del]

definition tokenStartsWith :: "string \<Rightarrow> string \<Rightarrow> bool" where
  "tokenStartsWith tok needle \<longleftrightarrow> length tok > length needle \<and> take (length needle) tok = needle"

definition detailToken :: "string \<Rightarrow> string \<Rightarrow> string" where
  "detailToken detail key =
     (if \<not> detailHasTokenSyntax detail then []
      else let needle = key @ ''=''
           in case find (\<lambda>tok. tokenStartsWith tok needle) (detailTokens detail) of
                Some tok \<Rightarrow> drop (length needle) tok
              | None \<Rightarrow> [])"

text \<open>The loop of the source stops at the second word that matches.\<close>

fun token_twice :: "string \<Rightarrow> bool \<Rightarrow> string list \<Rightarrow> bool" where
  "token_twice needle seen [] = False"
| "token_twice needle seen (tok # toks) =
     (if tokenStartsWith tok needle
      then if seen then True else token_twice needle True toks
      else token_twice needle seen toks)"

definition detailTokenDuplicate :: "string \<Rightarrow> string \<Rightarrow> bool" where
  "detailTokenDuplicate detail key =
     (if \<not> detailHasTokenSyntax detail then False
      else token_twice (key @ ''='') False (detailTokens detail))"

definition trustedDetailToken :: "string \<Rightarrow> string \<Rightarrow> string" where
  "trustedDetailToken detail key =
     (if detailTokenDuplicate detail key then [] else detailToken detail key)"

definition hasDuplicateIdentityToken :: "string \<Rightarrow> bool" where
  "hasDuplicateIdentityToken detail \<longleftrightarrow>
     (\<exists>key \<in> set [RunIdToken, StartTimeToken, ChildStartTimeToken, PeerStartTimeToken, NonceToken].
        detailTokenDuplicate detail key)"

end
