(* ===== verification/Merge_Checks.thy ===== *)
theory Merge_Checks
  imports Detail_Tokens Encode
begin

text \<open>
  The completeness checks of the merge (\<^verbatim>\<open>src/io_mon/writer.nim\<close>): which spawned children, execs,
  IPC peers and content channels are evidence that something ran outside the monitored tree.  Each
  piece of evidence becomes one event-loss record, and those make the depfile incomplete.

  A \<^verbatim>\<open>HashSet\<close> is a set and a \<^verbatim>\<open>CountTable\<close> counts by a filter; where the source iterates over the
  keys of a table, the order is the one of the hash table, a parameter \<open>order\<close> that lists the keys it
  is given.
\<close>

type_synonym ProcIdentity = "u64 \<times> string"

definition monitoredStartPids :: "MonitorRecord list \<Rightarrow> u64 set" where
  "monitoredStartPids records =
     fold (\<lambda>r pids. if rec_kind r = mrProcessStart then insert (rec_osPid r) pids else pids) records {}"

definition processStartIdentities :: "MonitorRecord list \<Rightarrow> ProcIdentity set \<times> u64 set" where
  "processStartIdentities records =
     fold (\<lambda>r (idents, pids).
       if rec_kind r = mrProcessStart \<and> \<not> hasDuplicateIdentityToken (rec_detail r)
       then (insert (rec_osPid r, trustedDetailToken (rec_detail r) StartTimeToken) idents,
             insert (rec_osPid r) pids)
       else (idents, pids)) records ({}, {})"

definition childIsMonitored :: "u64 \<Rightarrow> string \<Rightarrow> ProcIdentity set \<Rightarrow> u64 set \<Rightarrow> bool" where
  "childIsMonitored childPid childStart idents pids =
     (if length childStart > 0 then (childPid, childStart) \<in> idents else childPid \<in> pids)"

section \<open>Children, execs and peers outside the tree\<close>

definition u64_text :: "u64 \<Rightarrow> string" where
  "u64_text n = nat_text (unat n)"

text \<open>(a) A spawned child without a process-start of its own, each child once.\<close>

definition names_child :: "MonitorRecord \<Rightarrow> bool" where
  "names_child r \<longleftrightarrow>
     rec_kind r = mrProcessSpawn \<and> rec_childOsPid r \<noteq> 0 \<and> rec_childOsPid r \<noteq> rec_osPid r"

definition spawn_loss :: "MonitorRecord \<Rightarrow> string" where
  "spawn_loss r =
     ''spawn child missing process-start parent='' @ u64_text (rec_osPid r) @
     '' child='' @ u64_text (rec_childOsPid r) @
     '' childstart='' @ trustedDetailToken (rec_detail r) ChildStartTimeToken @ '' path='' @ rec_path r"

fun spawn_losses ::
    "ProcIdentity set \<Rightarrow> u64 set \<Rightarrow> ProcIdentity set \<Rightarrow> MonitorRecord list \<Rightarrow> string list" where
  "spawn_losses idents pids flagged [] = []"
| "spawn_losses idents pids flagged (r # rs) =
     (let childStart = trustedDetailToken (rec_detail r) ChildStartTimeToken;
          ident = (rec_childOsPid r, childStart)
      in if names_child r \<and>
            (detailTokenDuplicate (rec_detail r) ChildStartTimeToken \<or>
             \<not> childIsMonitored (rec_childOsPid r) childStart idents pids) \<and> ident \<notin> flagged
         then spawn_loss r # spawn_losses idents pids (insert ident flagged) rs
         else spawn_losses idents pids flagged rs)"

text \<open>(b) An exec whose image never loaded the shim, in a process whose spawn was recorded.\<close>

definition failed_exec :: "MonitorRecord \<Rightarrow> bool" where
  "failed_exec r \<longleftrightarrow> detailToken (rec_detail r) ExecStatusToken = ''failed''"

definition count_of :: "(MonitorRecord \<Rightarrow> bool) \<Rightarrow> MonitorRecord list \<Rightarrow> u64 \<Rightarrow> int" where
  "count_of P records pid = int (length (filter (\<lambda>r. P r \<and> rec_osPid r = pid) records))"

definition startCount :: "MonitorRecord list \<Rightarrow> u64 \<Rightarrow> int" where
  "startCount = count_of (\<lambda>r. rec_kind r = mrProcessStart)"

definition execCount :: "MonitorRecord list \<Rightarrow> u64 \<Rightarrow> int" where
  "execCount = count_of (\<lambda>r. rec_kind r = mrProcessExec \<and> \<not> failed_exec r)"

definition execFailedCount :: "MonitorRecord list \<Rightarrow> u64 \<Rightarrow> int" where
  "execFailedCount = count_of (\<lambda>r. rec_kind r = mrProcessExec \<and> failed_exec r)"

definition exec_pids :: "MonitorRecord list \<Rightarrow> u64 list" where
  "exec_pids records =
     remdups (map rec_osPid (filter (\<lambda>r. rec_kind r = mrProcessExec \<and> \<not> failed_exec r) records))"

definition lastExecPath :: "MonitorRecord list \<Rightarrow> u64 \<Rightarrow> string" where
  "lastExecPath records pid =
     fold (\<lambda>r path. if rec_kind r = mrProcessExec \<and> \<not> failed_exec r \<and> rec_osPid r = pid \<and> length (rec_path r) > 0
                    then rec_path r else path) records []"

definition pidsWithAnchoredSpawn :: "MonitorRecord list \<Rightarrow> u64 set" where
  "pidsWithAnchoredSpawn records =
     fold (\<lambda>r pids. if names_child r then insert (rec_childOsPid r) pids else pids) records {}"

definition exec_loss :: "MonitorRecord list \<Rightarrow> u64 \<Rightarrow> string list" where
  "exec_loss records pid =
     (if pid \<notin> pidsWithAnchoredSpawn records then []
      else
        let effectiveExecs = execCount records pid - execFailedCount records pid
        in if effectiveExecs \<le> 0 then []
           else
             let starts = startCount records pid
             in if effectiveExecs \<ge> starts
                then let img = lastExecPath records pid
                     in [''exec without post-exec process-start pid='' @ u64_text pid @
                         '' execs='' @ int_text effectiveExecs @ '' starts='' @ int_text starts @
                         (if length img > 0 then '' image='' @ img else [])]
                else [])"

text \<open>(c) A connection to a peer outside the tree, each endpoint once.\<close>

definition peer_accounted ::
    "ProcIdentity set \<Rightarrow> u64 set \<Rightarrow> u64 set \<Rightarrow> MonitorRecord \<Rightarrow> bool" where
  "peer_accounted idents pids trusted r \<longleftrightarrow>
     rec_childOsPid r \<noteq> 0 \<and> \<not> detailTokenDuplicate (rec_detail r) PeerStartTimeToken \<and>
     (childIsMonitored (rec_childOsPid r) (trustedDetailToken (rec_detail r) PeerStartTimeToken) idents pids \<or>
      rec_childOsPid r \<in> trusted)"

definition peer_key :: "MonitorRecord \<Rightarrow> string" where
  "peer_key r =
     (if rec_childOsPid r \<noteq> 0
      then ''pid:'' @ u64_text (rec_childOsPid r) @ ''@'' @ trustedDetailToken (rec_detail r) PeerStartTimeToken @
           (if length (rec_path r) > 0 then ''|dest:'' @ rec_path r else [])
      else ''dest:'' @ rec_path r)"

definition peer_loss :: "MonitorRecord \<Rightarrow> string" where
  "peer_loss r =
     (let peerUid = trustedDetailToken (rec_detail r) PeerUidToken
      in ''ipc peer outside monitored tree pid='' @ u64_text (rec_osPid r) @ '' peer='' @ u64_text (rec_childOsPid r) @
         '' peerstart='' @ trustedDetailToken (rec_detail r) PeerStartTimeToken @
         (if length peerUid > 0 then '' peeruid='' @ peerUid else []) @ '' path='' @ rec_path r)"

fun peer_losses ::
    "ProcIdentity set \<Rightarrow> u64 set \<Rightarrow> u64 set \<Rightarrow> string set \<Rightarrow> MonitorRecord list \<Rightarrow> string list" where
  "peer_losses idents pids trusted flagged [] = []"
| "peer_losses idents pids trusted flagged (r # rs) =
     (if rec_kind r = mrIpcConnect \<and> \<not> peer_accounted idents pids trusted r \<and> peer_key r \<notin> flagged
      then peer_loss r # peer_losses idents pids trusted (insert (peer_key r) flagged) rs
      else peer_losses idents pids trusted flagged rs)"

definition unmonitoredSubtreeLossDetails ::
    "(u64 list \<Rightarrow> u64 list) \<Rightarrow> MonitorRecord list \<Rightarrow> u64 set \<Rightarrow> string list" where
  "unmonitoredSubtreeLossDetails order records trustedPeerPids =
     (case processStartIdentities records of
        (startIdents, startPids) \<Rightarrow>
          spawn_losses startIdents startPids {} records @
          concat (map (exec_loss records) (order (exec_pids records))) @
          peer_losses startIdents startPids trustedPeerPids {} records)"

definition unmonitoredSubtreeLossCount :: "(u64 list \<Rightarrow> u64 list) \<Rightarrow> MonitorRecord list \<Rightarrow> u64 set \<Rightarrow> nat" where
  "unmonitoredSubtreeLossCount order records trustedPeerPids =
     length (unmonitoredSubtreeLossDetails order records trustedPeerPids)"

definition nonDeterminismObservationCount :: "MonitorRecord list \<Rightarrow> nat" where
  "nonDeterminismObservationCount records = length (filter (\<lambda>r. rec_kind r = mrNonDeterministic) records)"

definition nonDeterminismLossCount :: "MonitorRecord list \<Rightarrow> nat" where
  "nonDeterminismLossCount records = 0"

section \<open>Content channels\<close>

definition channel :: "MonitorRecord \<Rightarrow> string \<times> string" where
  "channel r = (detailToken (rec_detail r) ChanToken, detailToken (rec_detail r) RoleToken)"

definition channel_paths :: "string \<times> string \<Rightarrow> MonitorRecord list \<Rightarrow> string set" where
  "channel_paths cr records =
     fold (\<lambda>r paths. if rec_kind r = mrExternalContent \<and> channel r = cr then insert (rec_path r) paths else paths)
       records {}"

text \<open>What a consuming record leaves unpaired; empty when its channel was made inside the tree.\<close>

definition unpaired_key :: "MonitorRecord list \<Rightarrow> MonitorRecord \<Rightarrow> string" where
  "unpaired_key records r =
     (if channel r = (''shm'', ''attach'')
      then if rec_path r \<notin> channel_paths (''shm'', ''create'') records then ''shm:'' @ rec_path r else []
      else if channel r = (''fifo'', ''read'')
      then if rec_path r \<notin> channel_paths (''fifo'', ''write'') records then ''fifo:'' @ rec_path r else []
      else if channel r = (''opaque'', ''read'')
      then if length (rec_path r) > 0 \<and> rec_path r \<notin> channel_paths (''localfd'', ''create'') records
           then rec_path r else []
      else [])"

definition producer_accounted ::
    "ProcIdentity set \<Rightarrow> u64 set \<Rightarrow> u64 set \<Rightarrow> MonitorRecord \<Rightarrow> bool" where
  "producer_accounted idents pids trusted r \<longleftrightarrow>
     rec_childOsPid r \<noteq> 0 \<and> \<not> detailTokenDuplicate (rec_detail r) PeerStartTimeToken \<and>
     (childIsMonitored (rec_childOsPid r) (detailToken (rec_detail r) PeerStartTimeToken) idents pids \<or>
      rec_childOsPid r \<in> trusted)"

fun count_channels ::
    "MonitorRecord list \<Rightarrow> ProcIdentity set \<Rightarrow> u64 set \<Rightarrow> u64 set \<Rightarrow> string set \<Rightarrow> MonitorRecord list \<Rightarrow> nat" where
  "count_channels records idents pids trusted flagged [] = 0"
| "count_channels records idents pids trusted flagged (r # rs) =
     (let key = unpaired_key records r
      in if rec_kind r = mrExternalContent \<and> length key \<noteq> 0 \<and>
            \<not> producer_accounted idents pids trusted r \<and> key \<notin> flagged
         then Suc (count_channels records idents pids trusted (insert key flagged) rs)
         else count_channels records idents pids trusted flagged rs)"

definition externalContentLossCount :: "MonitorRecord list \<Rightarrow> u64 set \<Rightarrow> nat" where
  "externalContentLossCount records trustedPeerPids =
     (case processStartIdentities records of
        (startIdents, startPids) \<Rightarrow> count_channels records startIdents startPids trustedPeerPids {} records)"

end
