(* ===== verification/Merge_Check_Facts.thy ===== *)
theory Merge_Check_Facts
  imports Merge_Checks
begin

text \<open>
  The completeness checks of the merge as predicates on the records: a check reports nothing exactly
  when every child, image, peer and channel of the records is accounted for.
\<close>

section \<open>The checks as predicates\<close>

text \<open>A process-start without ambiguous identity, and whether one matches a named process.\<close>

definition started_as :: "MonitorRecord list \<Rightarrow> u64 \<Rightarrow> string \<Rightarrow> bool" where
  "started_as records pid start \<longleftrightarrow>
     (\<exists>s \<in> set records. rec_kind s = mrProcessStart \<and> rec_osPid s = pid \<and>
        \<not> hasDuplicateIdentityToken (rec_detail s) \<and>
        (start = [] \<or> trustedDetailToken (rec_detail s) StartTimeToken = start))"

lemma fold_collect2:
  "fold (\<lambda>x (A, B). if P x then (insert (f x) A, insert (g x) B) else (A, B)) xs (A, B) =
     (f ` {x \<in> set xs. P x} \<union> A, g ` {x \<in> set xs. P x} \<union> B)"
  by (induction xs arbitrary: A B) auto

lemma processStartIdentities_eq:
  "processStartIdentities records =
     ((\<lambda>r. (rec_osPid r, trustedDetailToken (rec_detail r) StartTimeToken)) `
        {r \<in> set records. rec_kind r = mrProcessStart \<and> \<not> hasDuplicateIdentityToken (rec_detail r)},
      rec_osPid ` {r \<in> set records. rec_kind r = mrProcessStart \<and> \<not> hasDuplicateIdentityToken (rec_detail r)})"
  unfolding processStartIdentities_def by (subst fold_collect2) simp

lemma monitoredStartPids_eq:
  "monitoredStartPids records = rec_osPid ` {r \<in> set records. rec_kind r = mrProcessStart}"
  unfolding monitoredStartPids_def by (subst fold_if_insert) simp

lemma childIsMonitored_iff:
  "childIsMonitored pid start (fst (processStartIdentities records)) (snd (processStartIdentities records)) \<longleftrightarrow>
     started_as records pid start"
  by (auto simp: childIsMonitored_def processStartIdentities_eq started_as_def)

lemma spawn_losses_Nil:
  "spawn_losses idents pids flagged rs = [] \<longleftrightarrow>
     (\<forall>r \<in> set rs. names_child r \<longrightarrow>
        (rec_childOsPid r, trustedDetailToken (rec_detail r) ChildStartTimeToken) \<in> flagged \<or>
        \<not> detailTokenDuplicate (rec_detail r) ChildStartTimeToken \<and>
        childIsMonitored (rec_childOsPid r) (trustedDetailToken (rec_detail r) ChildStartTimeToken) idents pids)"
  by (induction rs arbitrary: flagged) (auto simp: Let_def)

lemma peer_losses_Nil:
  "peer_losses idents pids trusted flagged rs = [] \<longleftrightarrow>
     (\<forall>r \<in> set rs. rec_kind r = mrIpcConnect \<longrightarrow> peer_key r \<in> flagged \<or> peer_accounted idents pids trusted r)"
  by (induction rs arbitrary: flagged) auto

lemma count_channels_0:
  "count_channels records idents pids trusted flagged rs = 0 \<longleftrightarrow>
     (\<forall>r \<in> set rs. rec_kind r = mrExternalContent \<longrightarrow>
        unpaired_key records r = [] \<or> unpaired_key records r \<in> flagged \<or> producer_accounted idents pids trusted r)"
  by (induction rs arbitrary: flagged) (auto simp: Let_def)

definition lists_all :: "('a list \<Rightarrow> 'a list) \<Rightarrow> bool" where
  "lists_all order \<longleftrightarrow> (\<forall>xs. set (order xs) = set xs)"

text \<open>What the merge demands of a tree it calls complete.\<close>

definition child_started :: "MonitorRecord list \<Rightarrow> MonitorRecord \<Rightarrow> bool" where
  "child_started records r \<longleftrightarrow>
     \<not> detailTokenDuplicate (rec_detail r) ChildStartTimeToken \<and>
     started_as records (rec_childOsPid r) (trustedDetailToken (rec_detail r) ChildStartTimeToken)"

definition last_image_started :: "MonitorRecord list \<Rightarrow> u64 \<Rightarrow> bool" where
  "last_image_started records pid \<longleftrightarrow>
     (let execs = execCount records pid - execFailedCount records pid
      in execs > 0 \<longrightarrow> execs < startCount records pid)"

definition peer_known :: "MonitorRecord list \<Rightarrow> u64 set \<Rightarrow> MonitorRecord \<Rightarrow> bool" where
  "peer_known records trusted r \<longleftrightarrow>
     rec_childOsPid r \<noteq> 0 \<and> \<not> detailTokenDuplicate (rec_detail r) PeerStartTimeToken \<and>
     (started_as records (rec_childOsPid r) (trustedDetailToken (rec_detail r) PeerStartTimeToken) \<or>
      rec_childOsPid r \<in> trusted)"

lemma peer_accounted_iff:
  "peer_accounted (fst (processStartIdentities records)) (snd (processStartIdentities records)) trusted r \<longleftrightarrow>
     peer_known records trusted r"
  by (simp add: peer_accounted_def peer_known_def childIsMonitored_iff)

lemma producer_accounted_iff:
  "producer_accounted (fst (processStartIdentities records)) (snd (processStartIdentities records)) trusted r \<longleftrightarrow>
     peer_known records trusted r"
  by (auto simp: producer_accounted_def peer_known_def childIsMonitored_iff trustedDetailToken_def)

lemma in_anchored:
  "pid \<in> pidsWithAnchoredSpawn records \<longleftrightarrow> (\<exists>r \<in> set records. names_child r \<and> rec_childOsPid r = pid)"
  unfolding pidsWithAnchoredSpawn_def by (subst fold_if_insert) auto

lemma in_exec_pids: "pid \<in> set (exec_pids records) \<longleftrightarrow> execCount records pid > 0"
  by (auto simp: exec_pids_def execCount_def count_of_def filter_empty_conv)

lemma exec_loss_Nil:
  "exec_loss records pid = [] \<longleftrightarrow>
     (\<forall>r \<in> set records. names_child r \<and> rec_childOsPid r = pid \<longrightarrow> last_image_started records pid)"
  unfolding exec_loss_def last_image_started_def Let_def in_anchored by auto

lemma execFailedCount_nonneg: "0 \<le> execFailedCount records pid"
  by (simp add: execFailedCount_def count_of_def)

lemma subtree_losses_Nil:
  assumes "lists_all order"
  shows "unmonitoredSubtreeLossDetails order records trusted = [] \<longleftrightarrow>
    (\<forall>r \<in> set records. (names_child r \<longrightarrow> child_started records r \<and> last_image_started records (rec_childOsPid r)) \<and>
       (rec_kind r = mrIpcConnect \<longrightarrow> peer_known records trusted r))"
proof -
  let ?s = "processStartIdentities records"
  have exec: "concat (map (exec_loss records) (order (exec_pids records))) = [] \<longleftrightarrow>
      (\<forall>r \<in> set records. names_child r \<longrightarrow> last_image_started records (rec_childOsPid r))"
  proof -
    have "last_image_started records pid" if "\<not> execCount records pid > 0" for pid
      using that execFailedCount_nonneg [of records pid] by (auto simp: last_image_started_def Let_def)
    moreover have "set (order (exec_pids records)) = {pid. execCount records pid > 0}"
      using assms by (auto simp: lists_all_def in_exec_pids)
    ultimately show ?thesis by (auto simp: exec_loss_Nil)
  qed
  have "unmonitoredSubtreeLossDetails order records trusted = [] \<longleftrightarrow>
      spawn_losses (fst ?s) (snd ?s) {} records = [] \<and>
      concat (map (exec_loss records) (order (exec_pids records))) = [] \<and>
      peer_losses (fst ?s) (snd ?s) trusted {} records = []"
    unfolding unmonitoredSubtreeLossDetails_def by (simp add: case_prod_beta)
  then show ?thesis
    unfolding exec spawn_losses_Nil peer_losses_Nil peer_accounted_iff childIsMonitored_iff child_started_def
    by blast
qed

lemma external_losses_0:
  "externalContentLossCount records trusted = 0 \<longleftrightarrow>
    (\<forall>r \<in> set records. rec_kind r = mrExternalContent \<longrightarrow>
       unpaired_key records r = [] \<or> peer_known records trusted r)"
  unfolding externalContentLossCount_def case_prod_beta count_channels_0 producer_accounted_iff by simp

end
