(* ===== verification/Breakaway.thy ===== *)
theory Breakaway
  imports Merge_Checks
begin

text \<open>
  Trusted-daemon reports (\<^verbatim>\<open>src/io_mon/writer.nim\<close>): a daemon outside the monitored tree may account
  for the files it read for a monitored client.  A report is folded into the merge only when it
  authenticates against what the shims observed.  A report file is what the directory walk and the
  file system say of it: its path, its real path, its device and inode, and its content, each absent
  where the call fails.  The paths are those of the POSIX hosts.
\<close>

section \<open>Nim's line splitting and integer parsing\<close>

function split_lines :: "string \<Rightarrow> string list" where
  "split_lines s =
     (case s of
        [] \<Rightarrow> [[]]
      | c # cs \<Rightarrow>
          if c = CHR 0x0A then [] # split_lines cs
          else if c = CHR 0x0D then [] # split_lines (if take 1 cs = [CHR 0x0A] then drop 1 cs else cs)
          else (case split_lines cs of [] \<Rightarrow> [[c]] | l # ls \<Rightarrow> (c # l) # ls))"
  by pat_completeness auto
termination
  by (relation "measure length") auto

declare split_lines.simps [simp del]

definition is_decimal :: "char \<Rightarrow> bool" where
  "is_decimal c \<longleftrightarrow> 48 \<le> (of_char c :: nat) \<and> (of_char c :: nat) \<le> 57"

text \<open>Underscores between digits are skipped; a sum that comes out smaller is an overflow.\<close>

function parse_digits :: "string \<Rightarrow> u64 \<Rightarrow> (u64 \<times> string) option" where
  "parse_digits s res =
     (case s of
        [] \<Rightarrow> Some (res, [])
      | c # cs \<Rightarrow>
          if is_decimal c
          then let next = res * 10 + word_of_nat (of_char c - 48)
               in if res > next then None else parse_digits (dropWhile (\<lambda>d. d = CHR ''_'') cs) next
          else Some (res, s))"
  by pat_completeness auto
termination
  by (relation "measure (\<lambda>(s, res). length s)") (auto simp: le_imp_less_Suc length_dropWhile_le)

declare parse_digits.simps [simp del]

text \<open>\<open>None\<close> is the raised \<open>ValueError\<close>.\<close>

definition parseBiggestUInt :: "string \<Rightarrow> u64 option" where
  "parseBiggestUInt s =
     (if length s > 1 \<and> s ! 0 = CHR ''-'' \<and> is_decimal (s ! 1) then None
      else
        let t = (if take 1 s = ''+'' then drop 1 s else s)
        in if t = [] \<or> \<not> is_decimal (hd t) then None
           else (case parse_digits t 0 of
                   Some (n, rest) \<Rightarrow> if rest = [] then Some n else None
                 | None \<Rightarrow> None))"

definition ends_with :: "string \<Rightarrow> string \<Rightarrow> bool" where
  "ends_with s suf \<longleftrightarrow> length suf \<le> length s \<and> drop (length s - length suf) s = suf"

definition starts_with :: "string \<Rightarrow> string \<Rightarrow> bool" where
  "starts_with s pre \<longleftrightarrow> take (length pre) s = pre"

section \<open>The authentication context\<close>

definition BreakawayReportExt :: string where "BreakawayReportExt = ''.io-mon-report''"
definition BreakawayReportMagic :: string where "BreakawayReportMagic = ''io-mon-breakaway-report v1''"
definition BreakawayReportCompleteToken :: string where "BreakawayReportCompleteToken = ''complete''"

record BreakawayFold =
  bf_reads :: "MonitorRecord list"
  bf_trustedPeerPids :: "u64 set"

record BreakawayAuthContext =
  ba_runId :: string
  ba_connectedPeers :: "string set"
  ba_validNonces :: "string set"
  ba_inTreeOutputPaths :: "string set"
  ba_inTreeOutputInos :: "string set"

definition comparableReportPath :: "string \<Rightarrow> string" where
  "comparableReportPath path = path"

definition auth_output :: "MonitorRecord \<Rightarrow> BreakawayAuthContext \<Rightarrow> BreakawayAuthContext" where
  "auth_output r a =
     (if rec_observationKind r = moFileWrite \<and> length (rec_path r) > 0
      then
        let a = a\<lparr>ba_inTreeOutputPaths :=
                    insert (comparableReportPath (rec_path r)) (insert (rec_path r) (ba_inTreeOutputPaths a))\<rparr>;
            dev = detailToken (rec_detail r) ''dev'';
            ino = detailToken (rec_detail r) ''ino''
        in if length dev > 0 \<and> length ino > 0
           then a\<lparr>ba_inTreeOutputInos := insert (dev @ '':'' @ ino) (ba_inTreeOutputInos a)\<rparr>
           else a
      else a)"

definition auth_run :: "MonitorRecord \<Rightarrow> BreakawayAuthContext \<Rightarrow> BreakawayAuthContext" where
  "auth_run r a =
     (if length (ba_runId a) = 0
      then let run = trustedDetailToken (rec_detail r) RunIdToken
           in if length run > 0 then a\<lparr>ba_runId := run\<rparr> else a
      else a)"

definition connection_key :: "u64 \<Rightarrow> u64 \<Rightarrow> string" where
  "connection_key client peer = u64_text client @ '':'' @ u64_text peer"

definition auth_connect :: "MonitorRecord \<Rightarrow> BreakawayAuthContext \<Rightarrow> BreakawayAuthContext" where
  "auth_connect r a =
     (let a = (if rec_childOsPid r \<noteq> 0
               then a\<lparr>ba_connectedPeers :=
                        insert (connection_key (rec_osPid r) (rec_childOsPid r)) (ba_connectedPeers a)\<rparr>
               else a);
          nonce = trustedDetailToken (rec_detail r) NonceToken;
          a = (if length nonce > 0 then a\<lparr>ba_validNonces := insert nonce (ba_validNonces a)\<rparr> else a)
      in auth_run r a)"

definition auth_step :: "MonitorRecord \<Rightarrow> BreakawayAuthContext \<Rightarrow> BreakawayAuthContext" where
  "auth_step r a =
     (let a = auth_output r a
      in case rec_kind r of
           mrProcessStart \<Rightarrow> auth_run r a
         | mrIpcConnect \<Rightarrow> auth_connect r a
         | _ \<Rightarrow> a)"

definition breakawayAuthContext :: "MonitorRecord list \<Rightarrow> BreakawayAuthContext" where
  "breakawayAuthContext records =
     fold auth_step records
       \<lparr>ba_runId = [], ba_connectedPeers = {}, ba_validNonces = {},
        ba_inTreeOutputPaths = {}, ba_inTreeOutputInos = {}\<rparr>"

section \<open>Reports\<close>

record report_file =
  rf_path :: string
  rf_real :: "string option"
  rf_ident :: "(u64 \<times> u64) option"
  rf_content :: "string option"

definition reportAuthoredInTree :: "report_file \<Rightarrow> BreakawayAuthContext \<Rightarrow> bool" where
  "reportAuthoredInTree f auth =
     (if ba_inTreeOutputPaths auth = {} \<and> ba_inTreeOutputInos auth = {} then False
      else if rf_path f \<in> ba_inTreeOutputPaths auth then True
      else if comparableReportPath (rf_path f) \<in> ba_inTreeOutputPaths auth then True
      else if (case rf_real f of Some real \<Rightarrow> real \<in> ba_inTreeOutputPaths auth | None \<Rightarrow> False) then True
      else if ba_inTreeOutputInos auth \<noteq> {}
      then (case rf_ident f of
              Some (dev, ino) \<Rightarrow> u64_text dev @ '':'' @ u64_text ino \<in> ba_inTreeOutputInos auth
            | None \<Rightarrow> False)
      else False)"

record report =
  rp_client :: u64
  rp_daemon :: u64
  rp_run :: string
  rp_nonce :: string
  rp_complete :: bool
  rp_sawClient :: bool
  rp_sawDaemon :: bool
  rp_sawRun :: bool
  rp_sawNonce :: bool
  rp_reads :: "string list"

definition empty_report :: report where
  "empty_report =
     \<lparr>rp_client = 0, rp_daemon = 0, rp_run = [], rp_nonce = [], rp_complete = False, rp_sawClient = False,
      rp_sawDaemon = False, rp_sawRun = False, rp_sawNonce = False, rp_reads = []\<rparr>"

text \<open>The first line that is not blank must be the magic.\<close>

fun has_magic :: "string list \<Rightarrow> bool" where
  "has_magic [] = False"
| "has_magic (rawLine # ls) =
     (if length (strip rawLine) = 0 then has_magic ls else rawLine = BreakawayReportMagic)"

text \<open>One line; \<open>None\<close> when it makes the report malformed.\<close>

definition report_line :: "string \<Rightarrow> report \<Rightarrow> report option" where
  "report_line rawLine p =
     (let line = strip rawLine
      in if length line = 0 \<or> line = BreakawayReportMagic then Some p
         else if line = BreakawayReportCompleteToken
         then if rp_complete p then None else Some (p\<lparr>rp_complete := True\<rparr>)
         else
           let toks = detailTokens line
           in if length toks < 2 then None
              else if toks ! 0 \<noteq> ''read'' \<and> length toks \<noteq> 2 then None
              else if toks ! 0 = ''read''
              then let readPath = strip (drop (length ''read'') line)
                   in if length readPath = 0 then None else Some (p\<lparr>rp_reads := rp_reads p @ [readPath]\<rparr>)
              else if toks ! 0 = ''client''
              then if rp_sawClient p then None
                   else (case parseBiggestUInt (toks ! 1) of
                           None \<Rightarrow> None
                         | Some n \<Rightarrow> Some (p\<lparr>rp_sawClient := True, rp_client := n\<rparr>))
              else if toks ! 0 = ''daemon''
              then if rp_sawDaemon p then None
                   else (case parseBiggestUInt (toks ! 1) of
                           None \<Rightarrow> None
                         | Some n \<Rightarrow> Some (p\<lparr>rp_sawDaemon := True, rp_daemon := n\<rparr>))
              else if toks ! 0 = ''run''
              then if rp_sawRun p then None else Some (p\<lparr>rp_sawRun := True, rp_run := toks ! 1\<rparr>)
              else if toks ! 0 = ''nonce''
              then if rp_sawNonce p then None else Some (p\<lparr>rp_sawNonce := True, rp_nonce := toks ! 1\<rparr>)
              else None)"

fun parse_report :: "string list \<Rightarrow> report \<Rightarrow> report option" where
  "parse_report [] p = Some p"
| "parse_report (l # ls) p = (case report_line l p of None \<Rightarrow> None | Some q \<Rightarrow> parse_report ls q)"

definition report_authentic :: "u64 set \<Rightarrow> BreakawayAuthContext \<Rightarrow> report \<Rightarrow> bool" where
  "report_authentic monitored auth p =
     (if rp_client p = 0 \<or> rp_client p \<notin> monitored then False
      else if length (ba_runId auth) = 0 \<or> rp_run p \<noteq> ba_runId auth then False
      else if rp_daemon p = 0 \<or> connection_key (rp_client p) (rp_daemon p) \<notin> ba_connectedPeers auth then False
      else if length (rp_nonce p) > 0 \<and> rp_nonce p \<notin> ba_validNonces auth then False
      else rp_complete p \<and> (\<exists>rp \<in> set (rp_reads p). length rp > 0))"

definition reported_read :: "report \<Rightarrow> string \<Rightarrow> MonitorRecord" where
  "reported_read p path =
     \<lparr>rec_kind = mrFileRead, rec_observationKind = moFileRead, rec_seq = 0, rec_osPid = rp_client p,
      rec_parentOsPid = 0, rec_threadId = 0, rec_childOsPid = 0, rec_result = 0, rec_flags = 0,
      rec_probeResult = prUnknown, rec_path = path,
      rec_detail = ''breakaway-daemon-report daemon='' @ u64_text (rp_daemon p)\<rparr>"

text \<open>One file of the walk: skipped, or its report authenticates.\<close>

definition accepted_report :: "u64 set \<Rightarrow> BreakawayAuthContext \<Rightarrow> report_file \<Rightarrow> report option" where
  "accepted_report monitored auth f =
     (if \<not> ends_with (rf_path f) BreakawayReportExt then None
      else if reportAuthoredInTree f auth then None
      else (case rf_content f of
              None \<Rightarrow> None
            | Some content \<Rightarrow>
                if \<not> has_magic (split_lines content) then None
                else (case parse_report (split_lines content) empty_report of
                        None \<Rightarrow> None
                      | Some p \<Rightarrow> if report_authentic monitored auth p then Some p else None)))"

definition fold_report ::
    "u64 set \<Rightarrow> BreakawayAuthContext \<Rightarrow> report_file \<Rightarrow> BreakawayFold \<Rightarrow> BreakawayFold" where
  "fold_report monitored auth f result =
     (case accepted_report monitored auth f of
        None \<Rightarrow> result
      | Some p \<Rightarrow> result\<lparr>bf_trustedPeerPids := insert (rp_daemon p) (bf_trustedPeerPids result),
                         bf_reads := bf_reads result @
                           map (reported_read p) (filter (\<lambda>rp. length rp \<noteq> 0) (rp_reads p))\<rparr>)"

text \<open>The directory is \<open>None\<close> when it does not exist.\<close>

definition loadBreakawayReports ::
    "string \<Rightarrow> report_file list option \<Rightarrow> u64 set \<Rightarrow> BreakawayAuthContext \<Rightarrow> BreakawayFold" where
  "loadBreakawayReports reportDir listing monitored auth =
     (let result = \<lparr>bf_reads = [], bf_trustedPeerPids = {}\<rparr>
      in if length reportDir = 0 then result
         else (case listing of
                 None \<Rightarrow> result
               | Some files \<Rightarrow> fold (fold_report monitored auth) files result))"

end
