(* ===== verification/Kill_Diag.thy ===== *)
theory Kill_Diag
  imports Types
begin

text \<open>
  The kill diagnostics of \<^verbatim>\<open>src/io_mon/writer.nim\<close>: what a read-tail marker says about the process
  that wrote it.  The switches are read from the environment once per process; the samples are kept
  per thread, in buffers of fixed size.  A buffer and its length are the text in it.
\<close>

record diag_flags =
  killDiagChecked :: bool
  killDiagEnabled :: bool
  killDiagDeepEnabled :: bool

record thread_diag =
  killDiagContext :: string
  killDiagDeepArgv :: string
  killDiagDeepArgvSampled :: bool
  killDiagDeepLastPath :: string
  killDiagDeepLastKind :: int
  killDiagDeepEmitCount :: u32
  killDiagDeepLastHook :: string
  killDiagDeepSignalCode :: int
  killDiagDeepShimState :: int

definition KillDiagEnvVar :: string where "KillDiagEnvVar = ''IO_MON_KILL_DIAG''"
definition KillDiagDeepEnvVar :: string where "KillDiagDeepEnvVar = ''IO_MON_KILL_DIAG_DEEP''"
definition KillDiagCtxTag :: string where "KillDiagCtxTag = '' ctx=''"
definition DeepArgvBufLen :: nat where "DeepArgvBufLen = 240"
definition DeepLastPathBufLen :: nat where "DeepLastPathBufLen = 160"
definition DeepLastHookBufLen :: nat where "DeepLastHookBufLen = 32"

definition killDiagIsOn :: "(string \<Rightarrow> string) \<Rightarrow> diag_flags \<Rightarrow> diag_flags" where
  "killDiagIsOn env f =
     (if killDiagChecked f then f
      else
        let v = env KillDiagEnvVar; vDeep = env KillDiagDeepEnvVar;
            deep = (length vDeep > 0 \<and> vDeep \<noteq> ''0'')
        in \<lparr>killDiagChecked = True, killDiagEnabled = deep \<or> (length v > 0 \<and> v \<noteq> ''0''), killDiagDeepEnabled = deep\<rparr>)"

definition setKillDiagContext :: "diag_flags \<Rightarrow> string \<Rightarrow> thread_diag \<Rightarrow> thread_diag" where
  "setKillDiagContext f ctx d = (if \<not> killDiagEnabled f then d else d\<lparr>killDiagContext := ctx\<rparr>)"

text \<open>The samples of the deep mode; each is cut to what its buffer holds beside the final NUL.\<close>

definition setKillDiagDeepArgv :: "diag_flags \<Rightarrow> bytes \<Rightarrow> int \<Rightarrow> thread_diag \<Rightarrow> thread_diag" where
  "setKillDiagDeepArgv f cstrBuf len d =
     (if \<not> killDiagDeepEnabled f then d
      else if killDiagDeepArgvSampled d then d
      else
        let n = (if len < 0 then 0 else len);
            n = (if n \<ge> int DeepArgvBufLen then int DeepArgvBufLen - 1 else n)
        in d\<lparr>killDiagDeepArgv := map (\<lambda>b. if b = 0 then CHR '' '' else char_of_byte b) (take (nat n) cstrBuf),
             killDiagDeepArgvSampled := True\<rparr>)"

definition setKillDiagDeepLastPath :: "diag_flags \<Rightarrow> string \<Rightarrow> int \<Rightarrow> thread_diag \<Rightarrow> thread_diag" where
  "setKillDiagDeepLastPath f path kind d =
     (if \<not> killDiagDeepEnabled f then d
      else d\<lparr>killDiagDeepLastPath := take (DeepLastPathBufLen - 1) path, killDiagDeepLastKind := kind,
             killDiagDeepEmitCount := killDiagDeepEmitCount d + 1\<rparr>)"

definition setKillDiagDeepLastHook :: "diag_flags \<Rightarrow> string \<Rightarrow> thread_diag \<Rightarrow> thread_diag" where
  "setKillDiagDeepLastHook f hook d =
     (if \<not> killDiagDeepEnabled f then d
      else d\<lparr>killDiagDeepLastHook := take (DeepLastHookBufLen - 1) hook\<rparr>)"

definition setKillDiagDeepSignalCode :: "diag_flags \<Rightarrow> int \<Rightarrow> thread_diag \<Rightarrow> thread_diag" where
  "setKillDiagDeepSignalCode f signum d =
     (if \<not> killDiagDeepEnabled f then d else d\<lparr>killDiagDeepSignalCode := signum\<rparr>)"

definition setKillDiagDeepShimState :: "diag_flags \<Rightarrow> int \<Rightarrow> thread_diag \<Rightarrow> thread_diag" where
  "setKillDiagDeepShimState f st d =
     (if \<not> killDiagDeepEnabled f then d else d\<lparr>killDiagDeepShimState := st\<rparr>)"

text \<open>Printable text without brackets, up to a NUL.\<close>

fun appendDeepAscii :: "string \<Rightarrow> string \<Rightarrow> string" where
  "appendDeepAscii buf [] = buf"
| "appendDeepAscii buf (c # src) =
     (if c = CHR 0x00 then buf
      else appendDeepAscii
        (buf @ [if 32 \<le> (of_char c :: nat) \<and> (of_char c :: nat) < 127 \<and> c \<noteq> CHR ''['' \<and> c \<noteq> CHR '']''
                then c else CHR ''?'']) src)"

text \<open>Nim's \<open>toHex(x, 2)\<close>: the two lowest hexadecimal digits, in upper case.\<close>

definition toHex2 :: "int \<Rightarrow> string" where
  "toHex2 x = [''0123456789ABCDEF'' ! nat (x div 16 mod 16), ''0123456789ABCDEF'' ! nat (x mod 16)]"

definition killDiagContextForMarker :: "diag_flags \<Rightarrow> thread_diag \<Rightarrow> string" where
  "killDiagContextForMarker f d =
     (if \<not> killDiagEnabled f then []
      else if length (killDiagContext d) = 0 \<and> \<not> killDiagDeepEnabled f then []
      else
        let result = KillDiagCtxTag @ (if length (killDiagContext d) > 0 then killDiagContext d else [])
        in if killDiagDeepEnabled f
           then
             let result = result @ '' emits='' @ nat_text (unat (killDiagDeepEmitCount d));
                 result = result @ '' shimState=0x'' @ toHex2 (killDiagDeepShimState d);
                 result = (if killDiagDeepSignalCode d \<noteq> 0
                           then result @ '' sig='' @ int_text (killDiagDeepSignalCode d) else result);
                 result = (if killDiagDeepLastKind d \<noteq> 0
                           then result @ '' lastKind='' @ int_text (killDiagDeepLastKind d) else result);
                 result = (if length (killDiagDeepLastHook d) > 0
                           then appendDeepAscii (result @ '' lastHook='') (killDiagDeepLastHook d) else result);
                 result = (if length (killDiagDeepLastPath d) > 0
                           then appendDeepAscii (result @ '' lastPath='') (killDiagDeepLastPath d) else result)
             in if length (killDiagDeepArgv d) > 0
                then appendDeepAscii (result @ '' argv='') (killDiagDeepArgv d) else result
           else result)"

end
