(* ===== verification/Fragment_Slot.thy ===== *)
theory Fragment_Slot
  imports Kill_Diag Dep_Queue Breakaway
begin

text \<open>
  The fragment writer of \<^verbatim>\<open>src/io_mon/writer.nim\<close>: every thread of a monitored process keeps a slot,
  the open fragment file and a batch of encoded records that are not in the file yet.  A fragment is
  an append-only file; what a write, an open or a query of the handle gives is decided by the
  operating system and by the monitored program, which may close the descriptor behind the shim's
  back: the answers are lists in the state, consumed one per call, and past their end every call
  succeeds.  Using a file that was closed is undefined, a value of its own.

  A buffer of fixed size and its length are the bytes in it.  The fragment directory is an absolute
  path without a trailing slash.
\<close>

section \<open>State\<close>

datatype fragment_file = NoFile | OpenFile string | ClosedFile

record FragmentSlot =
  sl_isOpen :: bool
  sl_file :: fragment_file
  sl_fragmentDir :: string
  sl_osPid :: u64
  sl_threadId :: u64
  sl_batch :: bytes
  sl_batchOpenedAtNs :: int
  sl_batchProbeCountdown :: int
  sl_readingSentinelActive :: bool
  sl_committedFrame :: bytes
  sl_registryIndex :: nat
  sl_fragmentBytes :: int
  sl_overCap :: bool

text \<open>What \<open>writeBuffer\<close> does: take some of the bytes and return the count, or take some and raise.\<close>

datatype write_answer = Takes nat | RaisesAfter nat

datatype EmitStatus = emInserted | emExists | emSaturated | emConsumerGone | emOversize | emUnavailable

text \<open>The shared state of the process, the files, and the answers still to come.\<close>

record capture =
  cp_slot :: "nat \<Rightarrow> FragmentSlot"
  cp_registry :: "nat option list"
  cp_fragmentByteCap :: int
  cp_capResolved :: bool
  cp_runToken :: string
  cp_flags :: diag_flags
  cp_diag :: "nat \<Rightarrow> thread_diag"
  cp_env :: "string \<Rightarrow> string"
  cp_openCount :: u64
  cp_writeCount :: u64
  cp_flushCount :: u64
  cp_setAttached :: bool
  cp_setAvailable :: bool
  cp_setImage :: string
  cp_setLossElem :: bytes
  cp_emitted :: "bytes list"
  cp_files :: "string \<Rightarrow> bytes"
  cp_writes :: "write_answer list"
  cp_dirs :: "bool list"
  cp_opens :: "bool list"
  cp_infos :: "bool list"
  cp_current :: "bool list"
  cp_clock :: "int list"
  cp_emits :: "EmitStatus list"

datatype slot_failure = RaisesEnvelope EnvelopeError | RaisesIO | Undefined

type_synonym slot_op = "capture \<Rightarrow> slot_failure option \<times> capture"

definition next_answer :: "'a \<Rightarrow> 'a list \<Rightarrow> 'a \<times> 'a list" where
  "next_answer d xs = (case xs of [] \<Rightarrow> (d, []) | x # ys \<Rightarrow> (x, ys))"

definition set_slot :: "nat \<Rightarrow> (FragmentSlot \<Rightarrow> FragmentSlot) \<Rightarrow> capture \<Rightarrow> capture" where
  "set_slot t f c = c\<lparr>cp_slot := (cp_slot c)(t := f (cp_slot c t))\<rparr>"

text \<open>Statements in sequence, and a statement whose exceptions are discarded.\<close>

definition then_do :: "slot_op \<Rightarrow> slot_op \<Rightarrow> slot_op" where
  "then_do f g c = (case f c of (None, c) \<Rightarrow> g c | (Some e, c) \<Rightarrow> (Some e, c))"

definition discarding :: "slot_op \<Rightarrow> slot_op" where
  "discarding f c = (case f c of (Some Undefined, c) \<Rightarrow> (Some Undefined, c) | (_, c) \<Rightarrow> (None, c))"

definition FragmentDirBufLen :: nat where "FragmentDirBufLen = 4096"
definition FragmentBatchBufLen :: nat where "FragmentBatchBufLen = 64 * 1024"
definition FragmentBatchMaxAgeNs :: int where "FragmentBatchMaxAgeNs = 100000000"
definition BatchStalenessProbeInterval :: int where "BatchStalenessProbeInterval = 64"
definition FragmentMaxBytesDefault :: int where "FragmentMaxBytesDefault = 2 * 1024 * 1024 * 1024"
definition SigSafeCommittedBufLen :: nat where "SigSafeCommittedBufLen = 256"
definition MaxFragmentSlots :: nat where "MaxFragmentSlots = 8192"
definition SetProducerBufBytes :: nat where "SetProducerBufBytes = 16384"
definition ReadTailPendingDetail :: string where "ReadTailPendingDetail = ''read-tail-pending''"
definition ReadTailCommittedDetail :: string where "ReadTailCommittedDetail = ''read-tail-committed''"
definition FragmentCapReachedDetail :: string where "FragmentCapReachedDetail = ''fragment-byte-cap-reached ''"
definition LocalFdCreateDetailPrefix :: string where "LocalFdCreateDetailPrefix = ''chan=localfd role=create''"

section \<open>Files\<close>

definition writeBuffer :: "nat \<Rightarrow> bytes \<Rightarrow> capture \<Rightarrow> (slot_failure + nat) \<times> capture" where
  "writeBuffer t bs c =
     (case sl_file (cp_slot c t) of
        OpenFile p \<Rightarrow>
          (case next_answer (Takes (length bs)) (cp_writes c) of
             (a, ws) \<Rightarrow>
               let n = min (length bs) (case a of Takes k \<Rightarrow> k | RaisesAfter k \<Rightarrow> k);
                   c = c\<lparr>cp_files := (cp_files c)(p := cp_files c p @ take n bs), cp_writes := ws\<rparr>
               in case a of Takes k \<Rightarrow> (Inr n, c) | RaisesAfter k \<Rightarrow> (Inl RaisesIO, c))
      | _ \<Rightarrow> (Inl Undefined, c))"

definition close_file :: "nat \<Rightarrow> slot_op" where
  "close_file t c =
     (case sl_file (cp_slot c t) of
        OpenFile p \<Rightarrow> (None, set_slot t (\<lambda>s. s\<lparr>sl_file := ClosedFile\<rparr>) c)
      | NoFile \<Rightarrow> (None, c)
      | ClosedFile \<Rightarrow> (Some Undefined, c))"

definition fragmentPath :: "string \<Rightarrow> u64 \<Rightarrow> u64 \<Rightarrow> string" where
  "fragmentPath dir pid tid =
     dir @ ''/repro-monitor-'' @ nat_text (unat pid) @ ''-'' @ nat_text (unat tid) @ ''.iomon-frag''"

section \<open>The registry of open slots\<close>

fun free_index :: "nat option list \<Rightarrow> nat option" where
  "free_index [] = None"
| "free_index (x # xs) = (if x = None then Some 0 else map_option Suc (free_index xs))"

definition registerFragmentSlot :: "nat \<Rightarrow> capture \<Rightarrow> capture" where
  "registerFragmentSlot t c =
     (if sl_registryIndex (cp_slot c t) \<noteq> 0 then c
      else
        case free_index (cp_registry c) of
          Some idx \<Rightarrow> set_slot t (\<lambda>s. s\<lparr>sl_registryIndex := idx + 1\<rparr>) (c\<lparr>cp_registry := (cp_registry c)[idx := Some t]\<rparr>)
        | None \<Rightarrow>
            if length (cp_registry c) < MaxFragmentSlots
            then set_slot t (\<lambda>s. s\<lparr>sl_registryIndex := length (cp_registry c) + 1\<rparr>)
                   (c\<lparr>cp_registry := cp_registry c @ [Some t]\<rparr>)
            else c)"

definition unregisterFragmentSlot :: "nat \<Rightarrow> capture \<Rightarrow> capture" where
  "unregisterFragmentSlot t c =
     (if sl_registryIndex (cp_slot c t) = 0 then c
      else
        let idx = sl_registryIndex (cp_slot c t) - 1;
            c = (if idx < length (cp_registry c) \<and> cp_registry c ! idx = Some t
                 then c\<lparr>cp_registry := (cp_registry c)[idx := None]\<rparr> else c)
        in set_slot t (\<lambda>s. s\<lparr>sl_registryIndex := 0\<rparr>) c)"

section \<open>The byte cap\<close>

text \<open>
  Nim's \<open>parseBiggestInt\<close> accumulates the negated number, so that the smallest one has a text; \<open>None\<close>
  is the raised \<open>ValueError\<close>.
\<close>

function parse_negated :: "string \<Rightarrow> int \<Rightarrow> (int \<times> string) option" where
  "parse_negated s b =
     (case s of
        [] \<Rightarrow> Some (b, [])
      | ch # cs \<Rightarrow>
          if is_decimal ch
          then let c = int (of_char ch) - 48
               in if b \<ge> - ((2 ^ 63 - c) div 10)
                  then parse_negated (dropWhile (\<lambda>d. d = CHR ''_'') cs) (b * 10 - c)
                  else None
          else Some (b, s))"
  by pat_completeness auto
termination
  by (relation "measure (\<lambda>(s, b). length s)") (auto simp: le_imp_less_Suc length_dropWhile_le)

declare parse_negated.simps [simp del]

definition parseBiggestInt :: "string \<Rightarrow> int option" where
  "parseBiggestInt s =
     (let neg = (take 1 s = ''-''); t = (if take 1 s = ''+'' \<or> neg then drop 1 s else s)
      in if t = [] \<or> \<not> is_decimal (hd t) then None
         else (case parse_negated t 0 of
                 Some (b, []) \<Rightarrow> if neg then Some b else if b = - (2 ^ 63) then None else Some (- b)
               | _ \<Rightarrow> None))"

definition resolveFragmentByteCap :: "capture \<Rightarrow> capture" where
  "resolveFragmentByteCap c =
     (if cp_capResolved c then c
      else
        let c = c\<lparr>cp_capResolved := True\<rparr>;
            raw = cp_env c ''IO_MON_FRAGMENT_MAX_BYTES''
        in if length raw > 0
           then (case parseBiggestInt raw of
                   Some n \<Rightarrow> if n > 0 then c\<lparr>cp_fragmentByteCap := n\<rparr> else c
                 | None \<Rightarrow> c)
           else c)"

definition setFragmentByteCap :: "int \<Rightarrow> capture \<Rightarrow> capture" where
  "setFragmentByteCap n c =
     c\<lparr>cp_fragmentByteCap := (if n > 0 then n else FragmentMaxBytesDefault), cp_capResolved := True\<rparr>"

section \<open>The cached handle\<close>

definition fragmentHandleIsCurrent :: "nat \<Rightarrow> capture \<Rightarrow> bool \<times> capture" where
  "fragmentHandleIsCurrent t c =
     (if \<not> sl_isOpen (cp_slot c t) \<or> sl_file (cp_slot c t) = NoFile then (False, c)
      else (case next_answer True (cp_current c) of (b, bs) \<Rightarrow> (b, c\<lparr>cp_current := bs\<rparr>)))"

definition reopenFragmentHandle :: "nat \<Rightarrow> capture \<Rightarrow> bool \<times> capture" where
  "reopenFragmentHandle t c =
     (let s = cp_slot c t;
          path = fragmentPath (sl_fragmentDir s) (sl_osPid s) (sl_threadId s);
          c = set_slot t (\<lambda>s. s\<lparr>sl_file := NoFile\<rparr>) c
      in case next_answer True (cp_opens c) of
           (opened, os) \<Rightarrow>
             let c = c\<lparr>cp_opens := os\<rparr>
             in if \<not> opened
                then (False, unregisterFragmentSlot t (set_slot t (\<lambda>s. s\<lparr>sl_isOpen := False\<rparr>) c))
                else (case next_answer True (cp_infos c) of
                        (identified, is) \<Rightarrow>
                          let c = c\<lparr>cp_infos := is\<rparr>
                          in if \<not> identified
                             then (False, unregisterFragmentSlot t
                                     (set_slot t (\<lambda>s. s\<lparr>sl_file := NoFile, sl_isOpen := False\<rparr>) c))
                             else (True, (set_slot t (\<lambda>s. s\<lparr>sl_file := OpenFile path\<rparr>) c)
                                     \<lparr>cp_openCount := cp_openCount c + 1\<rparr>)))"

text \<open>The guard of every writer: the handle is current, or it can be opened again.\<close>

definition handle_ready :: "nat \<Rightarrow> capture \<Rightarrow> bool \<times> capture" where
  "handle_ready t c =
     (case fragmentHandleIsCurrent t c of (True, c) \<Rightarrow> (True, c) | (False, c) \<Rightarrow> reopenFragmentHandle t c)"

section \<open>Read-tail markers\<close>

definition marker_record :: "u64 \<Rightarrow> u64 \<Rightarrow> string \<Rightarrow> MonitorRecord" where
  "marker_record pid tid text =
     \<lparr>rec_kind = mrEventLoss, rec_observationKind = moEventLoss, rec_seq = 0, rec_osPid = pid,
      rec_parentOsPid = 0, rec_threadId = tid, rec_childOsPid = 0, rec_result = 0, rec_flags = 0,
      rec_probeResult = prUnknown, rec_path = [], rec_detail = text\<rparr>"

definition writeReadTailMarker :: "nat \<Rightarrow> string \<Rightarrow> slot_op" where
  "writeReadTailMarker t text c =
     (if \<not> sl_isOpen (cp_slot c t) then (None, c)
      else (case handle_ready t c of
              (False, c) \<Rightarrow> (None, c)
            | (True, c) \<Rightarrow>
                let flags = killDiagIsOn (cp_env c) (cp_flags c);
                    c = c\<lparr>cp_flags := flags\<rparr>;
                    s = cp_slot c t;
                    marker = marker_record (sl_osPid s) (sl_threadId s)
                      (text @ cp_runToken c @ killDiagContextForMarker flags (cp_diag c t))
                in case writeBuffer t (encodeFrame marker) c of
                     (Inl Undefined, c) \<Rightarrow> (Some Undefined, c)
                   | (_, c) \<Rightarrow> (None, c)))"

definition kindCarriesCapturedDependency :: "MonitorRecordKind \<Rightarrow> bool" where
  "kindCarriesCapturedDependency k \<longleftrightarrow>
     k \<notin> {mrProcessStart, mrProcessExec, mrProcessSpawn, mrBackendProfile, mrCapabilityGap, mrEventLoss}"

definition recordSuppressesOnlyADowngrade :: "MonitorRecord \<Rightarrow> bool" where
  "recordSuppressesOnlyADowngrade r \<longleftrightarrow>
     rec_kind r = mrExternalContent \<and> starts_with (rec_detail r) LocalFdCreateDetailPrefix"

definition markReadingSentinel :: "nat \<Rightarrow> MonitorRecord \<Rightarrow> slot_op" where
  "markReadingSentinel t r c =
     (if \<not> kindCarriesCapturedDependency (rec_kind r) then (None, c)
      else if recordSuppressesOnlyADowngrade r then (None, c)
      else if sl_readingSentinelActive (cp_slot c t) \<or> \<not> sl_isOpen (cp_slot c t) then (None, c)
      else then_do (writeReadTailMarker t ReadTailPendingDetail)
             (\<lambda>c. (None, set_slot t (\<lambda>s. s\<lparr>sl_readingSentinelActive := True\<rparr>) c)) c)"

definition clearReadingSentinel :: "nat \<Rightarrow> slot_op" where
  "clearReadingSentinel t c =
     (if \<not> sl_readingSentinelActive (cp_slot c t) then (None, c)
      else then_do (writeReadTailMarker t ReadTailCommittedDetail)
             (\<lambda>c. (None, set_slot t (\<lambda>s. s\<lparr>sl_readingSentinelActive := False\<rparr>) c)) c)"

section \<open>Flushing and closing\<close>

text \<open>The slot at its byte cap: a loss marker, then the file is closed for good.\<close>

definition accountFragmentBytes :: "nat \<Rightarrow> nat \<Rightarrow> slot_op" where
  "accountFragmentBytes t written c =
     (if sl_overCap (cp_slot c t) \<or> \<not> sl_isOpen (cp_slot c t) then (None, c)
      else
        let c = set_slot t (\<lambda>s. s\<lparr>sl_fragmentBytes := sl_fragmentBytes s + int written\<rparr>) c
        in if sl_fragmentBytes (cp_slot c t) < cp_fragmentByteCap c then (None, c)
           else
             then_do (writeReadTailMarker t FragmentCapReachedDetail)
             (then_do (\<lambda>c. (None, set_slot t (\<lambda>s. s\<lparr>sl_overCap := True\<rparr>) c))
             (then_do (clearReadingSentinel t)
             (then_do (close_file t)
               (\<lambda>c. (None, unregisterFragmentSlot t (set_slot t (\<lambda>s. s\<lparr>sl_isOpen := False, sl_batch := [],
                  sl_batchOpenedAtNs := 0, sl_batchProbeCountdown := 0, sl_readingSentinelActive := False\<rparr>) c)))))) c)"

definition short_write_error :: "u64 \<Rightarrow> u64 \<Rightarrow> slot_failure" where
  "short_write_error pid tid = RaisesEnvelope \<lparr>ee_kind = eeMalformed,
     ee_msg = ''short write to iomon fragment for osPid='' @ nat_text (unat pid) @ '' threadId='' @ nat_text (unat tid)\<rparr>"

definition handle_error :: slot_failure where
  "handle_error = RaisesEnvelope \<lparr>ee_kind = eeMalformed,
     ee_msg = ''cannot recover externally replaced iomon fragment handle''\<rparr>"

definition count_write :: "capture \<Rightarrow> capture" where
  "count_write c = c\<lparr>cp_writeCount := cp_writeCount c + 1, cp_flushCount := cp_flushCount c + 1\<rparr>"

definition flushFragmentBatch :: "nat \<Rightarrow> slot_op" where
  "flushFragmentBatch t c =
     (if \<not> sl_isOpen (cp_slot c t) \<or> sl_batch (cp_slot c t) = [] then (None, c)
      else (case handle_ready t c of
              (False, c) \<Rightarrow> (Some handle_error, c)
            | (True, c) \<Rightarrow>
                let bs = sl_batch (cp_slot c t)
                in case writeBuffer t bs c of
                     (Inl e, c) \<Rightarrow> (Some e, c)
                   | (Inr written, c) \<Rightarrow>
                       if written \<noteq> length bs
                       then (Some (short_write_error (sl_osPid (cp_slot c t)) (sl_threadId (cp_slot c t))),
                             set_slot t (\<lambda>s. s\<lparr>sl_batch := [], sl_batchOpenedAtNs := 0\<rparr>) c)
                       else
                         then_do (clearReadingSentinel t) (accountFragmentBytes t (length bs))
                           (set_slot t (\<lambda>s. s\<lparr>sl_batch := [], sl_batchOpenedAtNs := 0, sl_batchProbeCountdown := 0\<rparr>)
                             (count_write c))))"

definition closeFragmentSlot :: "bool \<Rightarrow> nat \<Rightarrow> slot_op" where
  "closeFragmentSlot retainIdentity t c =
     (if sl_isOpen (cp_slot c t)
      then (case handle_ready t c of
              (False, c) \<Rightarrow> (None, c)
            | (True, c) \<Rightarrow>
                then_do (discarding (flushFragmentBatch t))
                (then_do (clearReadingSentinel t)
                (then_do (\<lambda>c. if sl_isOpen (cp_slot c t) then close_file t c else (None, c))
                  (\<lambda>c. (None, unregisterFragmentSlot t (set_slot t (\<lambda>s.
                     let s = s\<lparr>sl_isOpen := False\<rparr>;
                         s = (if \<not> retainIdentity then s\<lparr>sl_fragmentDir := [], sl_osPid := 0, sl_threadId := 0\<rparr> else s);
                         s = s\<lparr>sl_batch := [], sl_batchOpenedAtNs := 0, sl_batchProbeCountdown := 0,
                               sl_readingSentinelActive := False\<rparr>
                     in if \<not> retainIdentity then s\<lparr>sl_fragmentBytes := 0, sl_overCap := False\<rparr> else s) c))))) c)
      else (None, unregisterFragmentSlot t c))"

definition discardFragmentSlotAfterFork :: "nat \<Rightarrow> slot_op" where
  "discardFragmentSlotAfterFork t =
     then_do (\<lambda>c. if sl_isOpen (cp_slot c t) then close_file t c else (None, c))
       (\<lambda>c. (None, (set_slot t (\<lambda>s. s\<lparr>sl_isOpen := False, sl_fragmentDir := [], sl_osPid := 0, sl_threadId := 0,
          sl_batch := [], sl_batchOpenedAtNs := 0, sl_batchProbeCountdown := 0, sl_fragmentBytes := 0,
          sl_overCap := False, sl_readingSentinelActive := False, sl_registryIndex := 0\<rparr>) c)\<lparr>cp_registry := []\<rparr>))"

text \<open>One slot of another thread, at process exit: its batch, then its committed marker.\<close>

definition sweep_slot :: "nat \<Rightarrow> slot_op" where
  "sweep_slot u c =
     (if \<not> (sl_isOpen (cp_slot c u) \<and> sl_batch (cp_slot c u) \<noteq> []) then (None, c)
      else
        let bs = sl_batch (cp_slot c u);
            emptied = (\<lambda>c. set_slot u (\<lambda>s. s\<lparr>sl_batch := [], sl_batchOpenedAtNs := 0, sl_batchProbeCountdown := 0\<rparr>) c);
            caught = (\<lambda>c. (None, set_slot u (\<lambda>s. s\<lparr>sl_batch := []\<rparr>) c))
        in case writeBuffer u bs c of
             (Inl Undefined, c) \<Rightarrow> (Some Undefined, c)
           | (Inl _, c) \<Rightarrow> caught c
           | (Inr written, c) \<Rightarrow>
               if written \<noteq> length bs then (None, emptied c)
               else
                 let c = count_write c; marker = sl_committedFrame (cp_slot c u)
                 in if sl_readingSentinelActive (cp_slot c u) \<and> marker \<noteq> []
                    then (case writeBuffer u marker c of
                            (Inl Undefined, c) \<Rightarrow> (Some Undefined, c)
                          | (Inl _, c) \<Rightarrow> caught c
                          | (Inr n, c) \<Rightarrow>
                              (None, emptied (if n = length marker
                                 then set_slot u (\<lambda>s. s\<lparr>sl_readingSentinelActive := False\<rparr>) c else c)))
                    else (None, emptied c))"

fun sweep_slots :: "nat \<Rightarrow> nat option list \<Rightarrow> slot_op" where
  "sweep_slots t [] c = (None, c)"
| "sweep_slots t (x # xs) c =
     (case x of
        None \<Rightarrow> sweep_slots t xs c
      | Some u \<Rightarrow> if u = t then sweep_slots t xs c else then_do (sweep_slot u) (sweep_slots t xs) c)"

definition flushAllRegisteredSlots :: "nat \<Rightarrow> slot_op" where
  "flushAllRegisteredSlots t c = then_do (sweep_slots t (cp_registry c)) (closeFragmentSlot False t) c"

definition threadExitFlushSlot :: "nat \<Rightarrow> slot_op" where
  "threadExitFlushSlot t = closeFragmentSlot False t"

text \<open>What the signal handler of the shim leaves behind after writing the batch and the marker itself.\<close>

definition sigSafeMarkSlotClosed :: "nat \<Rightarrow> capture \<Rightarrow> capture" where
  "sigSafeMarkSlotClosed t = set_slot t (\<lambda>s. s\<lparr>sl_isOpen := False, sl_batch := [],
     sl_readingSentinelActive := False, sl_committedFrame := []\<rparr>)"

section \<open>Opening and appending\<close>

text \<open>The encoder inlined into the writer, field by field.\<close>

definition inlined_frame :: "MonitorRecord \<Rightarrow> bytes" where
  "inlined_frame r =
     (let payloadLen = 60 + 4 + length (rec_path r) + 4 + length (rec_detail r);
          out = writeU32Le [] (word_of_nat payloadLen);
          out = writeU16Le out (word_of_nat (ord_recordKind (rec_kind r)));
          out = writeU16Le out (word_of_nat (ord_observationKind (rec_observationKind r)));
          out = writeU64Le out (rec_seq r);
          out = writeU64Le out (rec_osPid r);
          out = writeU64Le out (rec_parentOsPid r);
          out = writeU64Le out (rec_threadId r);
          out = writeU64Le out (rec_childOsPid r);
          out = writeU64Le out (word_of_int (rec_result r));
          out = writeU32Le out (rec_flags r);
          out = writeU32Le out (word_of_nat (ord_probeResult (rec_probeResult r)));
          out = writeU32Le out (word_of_nat (length (rec_path r))) @ toBytes (rec_path r)
      in writeU32Le out (word_of_nat (length (rec_detail r))) @ toBytes (rec_detail r))"

definition precomputeSigSafeCommittedFrame :: "string \<Rightarrow> FragmentSlot \<Rightarrow> FragmentSlot" where
  "precomputeSigSafeCommittedFrame runToken s =
     (let text = ReadTailCommittedDetail @ runToken;
          frameLen = 4 + (60 + 4 + 0 + 4 + length text)
      in if frameLen > SigSafeCommittedBufLen then s\<lparr>sl_committedFrame := []\<rparr>
         else s\<lparr>sl_committedFrame := inlined_frame (marker_record (sl_osPid s) (sl_threadId s) text)\<rparr>)"

definition openFragmentSlot :: "nat \<Rightarrow> string \<Rightarrow> u64 \<Rightarrow> u64 \<Rightarrow> string \<Rightarrow> capture \<Rightarrow> bool \<times> capture" where
  "openFragmentSlot t dir pid tid path c =
     (let s = cp_slot c t;
          sameIdentity = (sl_fragmentDir s = dir \<and> sl_osPid s = pid \<and> sl_threadId s = tid)
      in case next_answer True (cp_opens c) of
           (opened, os) \<Rightarrow>
             let c = c\<lparr>cp_opens := os\<rparr>
             in if \<not> opened then (False, c)
                else (case next_answer True (cp_infos c) of
                        (identified, is) \<Rightarrow>
                          let c = c\<lparr>cp_infos := is\<rparr>
                          in if \<not> identified then (False, set_slot t (\<lambda>s. s\<lparr>sl_file := NoFile\<rparr>) c)
                             else if length dir \<ge> FragmentDirBufLen
                             then (False, set_slot t (\<lambda>s. s\<lparr>sl_file := ClosedFile\<rparr>) c)
                             else
                               let c = set_slot t (\<lambda>s. s\<lparr>sl_file := OpenFile path, sl_fragmentDir := dir, sl_isOpen := True,
                                         sl_osPid := pid, sl_threadId := tid, sl_batch := [], sl_batchOpenedAtNs := 0,
                                         sl_batchProbeCountdown := 0, sl_readingSentinelActive := False\<rparr>) c;
                                   c = resolveFragmentByteCap c;
                                   c = (if \<not> sameIdentity
                                        then set_slot t (\<lambda>s. s\<lparr>sl_fragmentBytes := 0, sl_overCap := False\<rparr>) c else c);
                                   c = set_slot t (precomputeSigSafeCommittedFrame (cp_runToken c)) c;
                                   c = registerFragmentSlot t c
                               in (True, c\<lparr>cp_openCount := cp_openCount c + 1\<rparr>)))"

definition names_slot :: "string \<Rightarrow> MonitorRecord \<Rightarrow> FragmentSlot \<Rightarrow> bool" where
  "names_slot dir r s \<longleftrightarrow> sl_fragmentDir s = dir \<and> sl_osPid s = rec_osPid r \<and> sl_threadId s = rec_threadId r"

text \<open>The slot of the record's thread, opened on its fragment; another fragment is left first.\<close>

definition leave_slot :: "nat \<Rightarrow> slot_op" where
  "leave_slot t c =
     (if sl_isOpen (cp_slot c t)
      then then_do (discarding (flushFragmentBatch t))
             (then_do (close_file t) (\<lambda>c. (None, set_slot t (\<lambda>s. s\<lparr>sl_isOpen := False\<rparr>) c))) c
      else (None, c))"

definition enter_slot :: "nat \<Rightarrow> string \<Rightarrow> MonitorRecord \<Rightarrow> slot_op" where
  "enter_slot t dir r c =
     (case next_answer True (cp_dirs c) of
        (made, ds) \<Rightarrow>
          let c = c\<lparr>cp_dirs := ds\<rparr>; path = fragmentPath dir (rec_osPid r) (rec_threadId r)
          in if \<not> made then (Some RaisesIO, c)
             else (case openFragmentSlot t dir (rec_osPid r) (rec_threadId r) path c of
                     (True, c) \<Rightarrow> (None, c)
                   | (False, c) \<Rightarrow>
                       (Some (RaisesEnvelope \<lparr>ee_kind = eeMalformed,
                          ee_msg = ''cannot open iomon fragment for append: '' @ path\<rparr>), c)))"

definition ensure_slot :: "nat \<Rightarrow> string \<Rightarrow> MonitorRecord \<Rightarrow> slot_op" where
  "ensure_slot t dir r c =
     (if sl_isOpen (cp_slot c t) \<and> names_slot dir r (cp_slot c t) then (None, c)
      else then_do (leave_slot t) (enter_slot t dir r) c)"

text \<open>A frame the batch buffer cannot hold goes straight to the file.\<close>

definition append_giant :: "nat \<Rightarrow> MonitorRecord \<Rightarrow> slot_op" where
  "append_giant t r =
     then_do (flushFragmentBatch t) (\<lambda>c.
       let frame = encodeFrame r
       in case writeBuffer t frame c of
            (Inl e, c) \<Rightarrow> (Some e, c)
          | (Inr n, c) \<Rightarrow>
              if n \<noteq> length frame then (Some (short_write_error (rec_osPid r) (rec_threadId r)), c)
              else accountFragmentBytes t (length frame) (count_write c))"

text \<open>Room in the batch, and a batch that is not too old.\<close>

definition make_room :: "nat \<Rightarrow> nat \<Rightarrow> slot_op" where
  "make_room t frameLen c =
     (let s = cp_slot c t
      in if length (sl_batch s) + frameLen > FragmentBatchBufLen then flushFragmentBatch t c
         else if length (sl_batch s) > 0
         then if sl_batchProbeCountdown s \<le> 0
              then (case next_answer 0 (cp_clock c) of
                      (now, cs) \<Rightarrow>
                        let c = c\<lparr>cp_clock := cs\<rparr>
                        in if now - sl_batchOpenedAtNs s > FragmentBatchMaxAgeNs then flushFragmentBatch t c
                           else (None, set_slot t (\<lambda>s. s\<lparr>sl_batchProbeCountdown := BatchStalenessProbeInterval\<rparr>) c))
              else (None, set_slot t (\<lambda>s. s\<lparr>sl_batchProbeCountdown := sl_batchProbeCountdown s - 1\<rparr>) c)
         else (None, c))"

definition start_batch :: "nat \<Rightarrow> capture \<Rightarrow> capture" where
  "start_batch t c =
     (if sl_batch (cp_slot c t) = []
      then (case next_answer 0 (cp_clock c) of
              (now, cs) \<Rightarrow> set_slot t (\<lambda>s. s\<lparr>sl_batchOpenedAtNs := now, sl_batchProbeCountdown := 0\<rparr>) (c\<lparr>cp_clock := cs\<rparr>))
      else c)"

definition append_to_file :: "nat \<Rightarrow> string \<Rightarrow> MonitorRecord \<Rightarrow> slot_op" where
  "append_to_file t dir r c =
     (if sl_overCap (cp_slot c t) \<and> names_slot dir r (cp_slot c t) then (None, c)
      else
        case (if sl_isOpen (cp_slot c t) then handle_ready t c else (True, c)) of
          (False, c) \<Rightarrow> (Some handle_error, c)
        | (True, c) \<Rightarrow>
            then_do (ensure_slot t dir r) (\<lambda>c.
              let frameLen = 4 + (60 + 4 + length (rec_path r) + 4 + length (rec_detail r))
              in if frameLen > FragmentBatchBufLen then append_giant t r c
                 else
                   then_do (make_room t frameLen) (\<lambda>c.
                     markReadingSentinel t r
                       (set_slot t (\<lambda>s. s\<lparr>sl_batch := sl_batch s @ inlined_frame r\<rparr>) (start_batch t c))) c) c)"

definition emit_element :: "bytes \<Rightarrow> capture \<Rightarrow> EmitStatus \<times> capture" where
  "emit_element bs c =
     (case next_answer emInserted (cp_emits c) of
        (a, as) \<Rightarrow> (a, c\<lparr>cp_emits := as, cp_emitted := (if a = emInserted then cp_emitted c @ [bs] else cp_emitted c)\<rparr>))"

text \<open>The stack buffer of the set branch is not initialized, so its content is an argument.\<close>

definition appendFragmentRecord :: "bytes \<Rightarrow> nat \<Rightarrow> string \<Rightarrow> MonitorRecord \<Rightarrow> slot_op" where
  "appendFragmentRecord recBuf t dir r c =
     (if cp_setAttached c
      then
        if cp_setAvailable c
        then (case encodeDepSetElement (cp_setImage c) r recBuf dseRequireFit of
                (buf, n) \<Rightarrow>
                  let lost = (\<lambda>c. if cp_setLossElem c \<noteq> []
                                  then (None, snd (emit_element (cp_setLossElem c) c)) else (None, c))
                  in if n \<ge> 0
                     then (case emit_element (take (nat n) buf) c of
                             (a, c) \<Rightarrow> if a \<in> {emInserted, emExists, emSaturated, emConsumerGone} then (None, c)
                                       else lost c)
                     else lost c)
        else (None, c)
      else append_to_file t dir r c)"

end
