(* ===== verification/Merge.thy ===== *)
theory Merge
  imports Breakaway Fragment_Slot
begin

text \<open>
  The merge of \<^verbatim>\<open>src/io_mon/writer.nim\<close>: the fragments of all monitored processes and the records of
  the shared-memory set become one depfile.  What the merge asks of its surroundings is a record: the
  listings of the plain files of a directory with what reading each file gives, the environment, the iteration order of hash
  tables, and how much of the output file can be written.  The calling thread's own fragment is
  closed before the listing is taken.
\<close>

section \<open>Run scoping\<close>

text \<open>The run ids of each pid's process-starts; no run id where the source has no table entry.\<close>

definition fragmentRunIds :: "MonitorRecord list \<Rightarrow> u64 \<Rightarrow> string set" where
  "fragmentRunIds records =
     fold (\<lambda>r runs.
       let run = trustedDetailToken (rec_detail r) RunIdToken
       in if rec_kind r = mrProcessStart \<and> \<not> hasDuplicateIdentityToken (rec_detail r) \<and> length run > 0
          then runs(rec_osPid r := insert run (runs (rec_osPid r)))
          else runs) records (\<lambda>_. {})"

datatype run_verdict = KeepRecord | StaleRecord | AmbiguousRecord | DuplicateIdentity

definition run_scope :: "(u64 \<Rightarrow> string set) \<Rightarrow> string \<Rightarrow> MonitorRecord \<Rightarrow> run_verdict" where
  "run_scope runsByPid currentRunId r =
     (if hasDuplicateIdentityToken (rec_detail r) then DuplicateIdentity
      else if length currentRunId = 0 then KeepRecord
      else
        let recordRun = trustedDetailToken (rec_detail r) RunIdToken
        in if length recordRun > 0
           then if recordRun \<noteq> currentRunId then StaleRecord else KeepRecord
           else if rec_osPid r \<noteq> 0 \<and> runsByPid (rec_osPid r) \<noteq> {}
           then if currentRunId \<notin> runsByPid (rec_osPid r) then StaleRecord
                else if card (runsByPid (rec_osPid r)) > 1 then AmbiguousRecord
                else KeepRecord
           else KeepRecord)"

definition event_loss :: "u64 \<Rightarrow> u64 \<Rightarrow> string \<Rightarrow> MonitorRecord" where
  "event_loss pid tid detail =
     \<lparr>rec_kind = mrEventLoss, rec_observationKind = moEventLoss, rec_seq = 0, rec_osPid = pid,
      rec_parentOsPid = 0, rec_threadId = tid, rec_childOsPid = 0, rec_result = 0, rec_flags = 0,
      rec_probeResult = prUnknown, rec_path = [], rec_detail = detail\<rparr>"

definition pids_with :: "(MonitorRecord \<Rightarrow> bool) \<Rightarrow> MonitorRecord list \<Rightarrow> u64 list" where
  "pids_with P records = remdups (map rec_osPid (filter P records))"

definition duplicate_detail :: "string \<Rightarrow> string" where
  "duplicate_detail currentRunId =
     ''duplicate identity token in fragment record'' @
     (if length currentRunId = 0 then [] else '' for run '' @ currentRunId)"

definition ambiguous_detail :: "string \<Rightarrow> string" where
  "ambiguous_detail currentRunId =
     ''ambiguous unstamped fragment record for reused pid in run '' @ currentRunId"

definition dropStaleRunRecords ::
    "(u64 list \<Rightarrow> u64 list) \<Rightarrow> MonitorRecord list \<Rightarrow> string \<Rightarrow> MonitorRecord list" where
  "dropStaleRunRecords order records currentRunId =
     (let verdict = run_scope (fragmentRunIds records) currentRunId;
          duplicateIdentityLossPids = pids_with (\<lambda>r. verdict r = DuplicateIdentity) records;
          ambiguousLossPids = pids_with (\<lambda>r. verdict r = AmbiguousRecord) records;
          result = filter (\<lambda>r. verdict r = KeepRecord) records
      in if length currentRunId = 0
         then result @ map (\<lambda>pid. event_loss pid 0 (duplicate_detail currentRunId))
                         (order duplicateIdentityLossPids)
         else result @
              map (\<lambda>pid. event_loss pid 0 (ambiguous_detail currentRunId))
                (order ambiguousLossPids) @
              map (\<lambda>pid. event_loss pid 0 (duplicate_detail currentRunId))
                (order duplicateIdentityLossPids))"

section \<open>Folding observations\<close>

definition fold_identity_step ::
    "string \<Rightarrow> MonitorRecord \<Rightarrow> MonitorRecord list \<times> (string \<times> MonitorRecord) list \<times> bytes \<Rightarrow>
     MonitorRecord list \<times> (string \<times> MonitorRecord) list \<times> bytes" where
  "fold_identity_step img r = (\<lambda>(kept, firstSeen, buf).
     if depIdentityKeepsIncarnation (rec_kind r) then (kept @ [r], firstSeen, buf)
     else
       let need = DepFixedHeaderLen + 20 + length (rec_path r) + length (rec_detail r);
           buf = (if length buf < need then buf @ replicate (need - length buf) 0 else buf)
       in case encodeDepSetElement img r buf dseRequireFit of
            (buf, n) \<Rightarrow>
              if n < 0 then (kept @ [r], firstSeen, buf)
              else
                let key = map char_of_byte (take (nat n) buf)
                in if key \<in> fst ` set firstSeen then (kept, firstSeen, buf)
                   else (kept, firstSeen @ [(key, r)], buf))"

fun decode_keys :: "(string \<times> MonitorRecord) list \<Rightarrow> string list \<Rightarrow> reader_exn + MonitorRecord list" where
  "decode_keys firstSeen [] = Inr []"
| "decode_keys firstSeen (key # keys) =
     res_bind (decodeDepRecord (map byte_of_char key)) (\<lambda>d.
     res_bind (decode_keys firstSeen keys) (\<lambda>rs.
       Inr ((case d of Some decoded \<Rightarrow> decoded | None \<Rightarrow> the (map_of firstSeen key)) # rs)))"

definition foldObservationIdentity :: "string \<Rightarrow> MonitorRecord list \<Rightarrow> reader_exn + MonitorRecord list" where
  "foldObservationIdentity img records =
     (case fold (fold_identity_step img) records ([], [], []) of
        (kept, firstSeen, buf) \<Rightarrow>
          res_bind (decode_keys firstSeen (sort (map fst firstSeen))) (\<lambda>rs. Inr (kept @ rs)))"

section \<open>Collecting fragments\<close>

datatype fragment_state = FragBytes bytes | FragUnreadable | FragVanished

record dir_entry =
  de_path :: string
  de_state :: fragment_state
  de_removable :: bool

definition FragmentExt :: string where "FragmentExt = ''.iomon-frag''"
definition ReadingSentinelExt :: string where "ReadingSentinelExt = ''.io-mon-reading''"

text \<open>The records, the number of fragments that are cut, and the number that cannot be read.\<close>

definition collect_step :: "dir_entry \<Rightarrow> MonitorRecord list \<times> nat \<times> nat \<Rightarrow> MonitorRecord list \<times> nat \<times> nat" where
  "collect_step e = (\<lambda>(records, corrupt, unreadable).
     if ends_with (de_path e) FragmentExt
     then (case de_state e of
             FragBytes raw \<Rightarrow>
               (case decodeFramesTolerant raw of
                  (rs, cleanEof) \<Rightarrow> (records @ rs, if cleanEof then corrupt else corrupt + 1, unreadable))
           | FragUnreadable \<Rightarrow> (records, corrupt, unreadable + 1)
           | FragVanished \<Rightarrow> (records, corrupt, unreadable))
     else (records, corrupt, unreadable))"

definition collect_fragments :: "dir_entry list option \<Rightarrow> MonitorRecord list \<times> nat \<times> nat" where
  "collect_fragments dir =
     (case dir of None \<Rightarrow> ([], 0, 0) | Some entries \<Rightarrow> fold collect_step entries ([], 0, 0))"

section \<open>Netting the read-tail markers\<close>

fun find_sub :: "string \<Rightarrow> string \<Rightarrow> nat option" where
  "find_sub sub [] = (if sub = [] then Some 0 else None)"
| "find_sub sub (c # cs) = (if starts_with (c # cs) sub then Some 0 else map_option Suc (find_sub sub cs))"

definition is_pending :: "MonitorRecord \<Rightarrow> bool" where
  "is_pending r \<longleftrightarrow> rec_kind r = mrEventLoss \<and> starts_with (rec_detail r) ReadTailPendingDetail"

definition is_committed :: "MonitorRecord \<Rightarrow> bool" where
  "is_committed r \<longleftrightarrow>
     \<not> is_pending r \<and> rec_kind r = mrEventLoss \<and> starts_with (rec_detail r) ReadTailCommittedDetail"

definition thread_of :: "MonitorRecord \<Rightarrow> u64 \<times> u64" where
  "thread_of r = (rec_osPid r, rec_threadId r)"

definition marker_count :: "(MonitorRecord \<Rightarrow> bool) \<Rightarrow> MonitorRecord list \<Rightarrow> u64 \<times> u64 \<Rightarrow> nat" where
  "marker_count P records key = length (filter (\<lambda>r. P r \<and> thread_of r = key) records)"

definition lastPendingCtx :: "MonitorRecord list \<Rightarrow> u64 \<times> u64 \<Rightarrow> string" where
  "lastPendingCtx records key =
     fold (\<lambda>r ctx. if is_pending r \<and> thread_of r = key
        then (case find_sub KillDiagCtxTag (rec_detail r) of
                Some ctxAt \<Rightarrow> drop (ctxAt + length KillDiagCtxTag) (rec_detail r)
              | None \<Rightarrow> ctx)
        else ctx) records []"

definition killed_detail :: string where
  "killed_detail = ''process killed with an un-flushed read batch (kill-before-flush)''"

definition tail_losses :: "MonitorRecord list \<Rightarrow> u64 \<times> u64 \<Rightarrow> MonitorRecord list" where
  "tail_losses records key =
     (let leftover = marker_count is_pending records key - marker_count is_committed records key;
          ctx = lastPendingCtx records key
      in replicate leftover (event_loss (fst key) (snd key)
           (killed_detail @ (if length ctx > 0 then '' diag-ctx=['' @ ctx @ '']'' else []))))"

definition read_tail_net ::
    "((u64 \<times> u64) list \<Rightarrow> (u64 \<times> u64) list) \<Rightarrow> MonitorRecord list \<Rightarrow> MonitorRecord list" where
  "read_tail_net order records =
     filter (\<lambda>r. \<not> is_pending r \<and> \<not> is_committed r) records @
     concat (map (tail_losses records) (order (remdups (map thread_of (filter is_pending records)))))"

section \<open>The merge\<close>

record merge_host =
  mh_host :: host
  mh_order :: "u64 list \<Rightarrow> u64 list"
  mh_thread_order :: "(u64 \<times> u64) list \<Rightarrow> (u64 \<times> u64) list"
  mh_image :: string
  mh_env :: "string \<Rightarrow> string"
  mh_dir :: "string \<Rightarrow> dir_entry list option"
  mh_reports :: "string \<Rightarrow> report_file list option"
  mh_can_open :: bool
  mh_budget :: nat

datatype merge_error = MergeDefect reader_exn | MergeWrite EnvelopeError

definition is_sentinel :: "dir_entry \<Rightarrow> bool" where
  "is_sentinel e \<longleftrightarrow> ends_with (de_path e) ReadingSentinelExt"

definition killed_readers :: "dir_entry list option \<Rightarrow> nat" where
  "killed_readers dir = (case dir of None \<Rightarrow> 0 | Some entries \<Rightarrow> length (filter is_sentinel entries))"

definition remove_sentinels :: "dir_entry list option \<Rightarrow> dir_entry list option" where
  "remove_sentinels dir = map_option (filter (\<lambda>e. \<not> (is_sentinel e \<and> de_removable e))) dir"

definition corrupt_detail :: "string \<Rightarrow> string" where
  "corrupt_detail fragmentDir = ''corrupt or partial iomon fragment in '' @ fragmentDir"

definition unreadable_detail :: "string \<Rightarrow> string" where
  "unreadable_detail fragmentDir = ''unreadable iomon fragment in '' @ fragmentDir"

definition root_spawn :: "u64 \<Rightarrow> MonitorRecord" where
  "root_spawn pid =
     \<lparr>rec_kind = mrProcessSpawn, rec_observationKind = moExecute, rec_seq = 0, rec_osPid = 0,
      rec_parentOsPid = 0, rec_threadId = 0, rec_childOsPid = pid, rec_result = 0, rec_flags = 0,
      rec_probeResult = prUnknown, rec_path = [], rec_detail = ''io-mon-root-spawn launcher-expected-root''\<rparr>"

definition subtree_detail :: "string \<Rightarrow> string" where
  "subtree_detail loss =
     ''unmonitored subtree/peer (un-injectable spawn child, SETEXEC '' @
     ''into a hardened image, or IPC connect to an out-of-tree breakaway '' @ ''daemon): '' @ loss"

definition channel_detail :: string where
  "channel_detail =
     ''out-of-tree content channel consumed (POSIX shm not created '' @
     ''in-tree, FIFO with no in-tree writer, or an inherited pipe/socket with '' @
     ''no in-tree create) '' @ [CHR 0xE2, CHR 0x80, CHR 0x94] @ '' the real input is invisible, re-run''"

fun merge_capabilities :: "host \<Rightarrow> MonitorCapability set" where
  "merge_capabilities HostLinux = LinuxPreloadSupportedCapabilities"
| "merge_capabilities HostWindows = WindowsInterposeSupportedCapabilities"
| "merge_capabilities HostOther = MacosMonitorShimTaxonomyCapabilities"

definition stamp_profiles :: "string \<Rightarrow> MonitorRecord list \<Rightarrow> MonitorRecord list" where
  "stamp_profiles token records =
     map (\<lambda>r. if rec_kind r = mrBackendProfile then r\<lparr>rec_detail := rec_detail r @ token\<rparr> else r) records"

text \<open>
  Everything up to the completeness checks: the records of fragments and set, scoped to the run and
  folded, the losses of damaged fragments and killed readers, the expected root, and the reports.
  The second component is the set of trusted peers.
\<close>

definition gather_records ::
    "merge_host \<Rightarrow> string \<Rightarrow> string \<Rightarrow> u64 \<Rightarrow> string \<Rightarrow> MonitorRecord list \<Rightarrow>
     reader_exn + (MonitorRecord list \<times> u64 set)" where
  "gather_records mh fragmentDir breakawayReportDir expectedRootPid currentRunId setRecords =
     (case collect_fragments (mh_dir mh fragmentDir) of
        (records, corruptFragments, unreadableFragments) \<Rightarrow>
          let records = records @ setRecords;
              runScope = (if length currentRunId > 0 then currentRunId else mh_env mh ''REPRO_MONITOR_SESSION'');
              records = dropStaleRunRecords (mh_order mh) records runScope
          in res_bind (foldObservationIdentity (mh_image mh) records) (\<lambda>records.
            let records = records @ replicate corruptFragments
                  (event_loss 0 0 (corrupt_detail fragmentDir));
                records = records @ replicate unreadableFragments
                  (event_loss 0 0 (unreadable_detail fragmentDir));
                records = read_tail_net (mh_thread_order mh) records;
                records = records @ replicate (killed_readers (mh_dir mh fragmentDir))
                  (event_loss 0 0 killed_detail);
                records = (if expectedRootPid \<noteq> 0 then records @ [root_spawn expectedRootPid] else records);
                reportDir = (if length breakawayReportDir > 0 then breakawayReportDir
                             else mh_env mh ''IO_MON_BREAKAWAY_REPORT_DIR'')
            in if length reportDir > 0
               then let result = loadBreakawayReports reportDir (mh_reports mh reportDir)
                          (monitoredStartPids records) (breakawayAuthContext records)
                    in Inr (records @ bf_reads result, bf_trustedPeerPids result)
               else Inr (records, {})))"

text \<open>The completeness checks and the stamps.\<close>

definition judge_records ::
    "merge_host \<Rightarrow> EventCategory set \<Rightarrow> EvidenceScope \<Rightarrow> MonitorRecord list \<Rightarrow> u64 set \<Rightarrow> MonitorRecord list" where
  "judge_records mh observedInterest observedEvidenceScope records trustedPeerPids =
     (let subtreeLosses = unmonitoredSubtreeLossDetails (mh_order mh) records trustedPeerPids;
          records = records @ map (\<lambda>loss. event_loss 0 0 (subtree_detail loss)) subtreeLosses;
          records = records @ replicate (externalContentLossCount records trustedPeerPids)
            (event_loss 0 0 channel_detail);
          records = records @ profileRecords
            (defaultHooksMonitorProfile (mh_host mh) (merge_capabilities (mh_host mh)));
          records = (if observedInterest \<noteq> {}
                     then stamp_profiles ('';interest='' @ interestToTokens observedInterest) records else records)
      in if observedEvidenceScope \<noteq> esFull \<and> observedEvidenceScope \<noteq> esUnrecognized
         then stamp_profiles ('';evidence='' @ evidenceScopeToken observedEvidenceScope) records else records)"

text \<open>The returned depfile, the output file, and the fragment directory afterwards.\<close>

definition mergeFragments ::
    "merge_host \<Rightarrow> string \<Rightarrow> string \<Rightarrow> string \<Rightarrow> u64 \<Rightarrow> string \<Rightarrow> MonitorRecord list \<Rightarrow>
     EventCategory set \<Rightarrow> EvidenceScope \<Rightarrow>
     (merge_error + MonitorDepFile) \<times> bytes option \<times> dir_entry list option" where
  "mergeFragments mh fragmentDir outputPath breakawayReportDir expectedRootPid currentRunId setRecords
     observedInterest observedEvidenceScope =
     (case gather_records mh fragmentDir breakawayReportDir expectedRootPid currentRunId setRecords of
        Inl e \<Rightarrow> (Inl (MergeDefect e), None, mh_dir mh fragmentDir)
      | Inr (records, trustedPeerPids) \<Rightarrow>
          let records = judge_records mh observedInterest observedEvidenceScope records trustedPeerPids;
              dir = remove_sentinels (mh_dir mh fragmentDir)
          in case writeCanonicalInPlace (mh_can_open mh) (mh_budget mh) outputPath records of
               (Some e, file) \<Rightarrow> (Inl (MergeWrite e), file, dir)
             | (None, file) \<Rightarrow>
                 (Inr (depFileFromOwnedRecords (mh_host mh) (renumber (sort_by canonicalOrder records))), file, dir))"

end
