(* ===== verification/Fold_Facts.thy ===== *)
theory Fold_Facts
  imports Merge Dep_Queue_Facts
begin

text \<open>
  Folding by observation identity: what the fold keeps, the facts it leaves, and that folding again
  changes nothing.
\<close>

section \<open>Folding observations\<close>

text \<open>Records whose encodings have lengths an \<open>int\<close> holds, as any record in memory has.\<close>

definition dep_small :: "MonitorRecord \<Rightarrow> bool" where
  "dep_small r \<longleftrightarrow> dep_ok r \<and> 80 + length (rec_path r) + length (rec_detail r) < 2 ^ 63"

abbreviation is_fact :: "MonitorRecord \<Rightarrow> bool" where
  "is_fact r \<equiv> \<not> depIdentityKeepsIncarnation (rec_kind r)"

definition fact_key :: "MonitorRecord \<Rightarrow> string" where
  "fact_key r = map char_of_byte (dep_bytes (keyed True 0 r))"

definition key_record :: "string \<Rightarrow> MonitorRecord" where
  "key_record key = (case decodeDepRecord (map byte_of_char key) of Inr (Some d) \<Rightarrow> d)"

definition folded_facts :: "MonitorRecord list \<Rightarrow> MonitorRecord list" where
  "folded_facts rs = map key_record (sorted_list_of_set (fact_key ` {r \<in> set rs. is_fact r}))"

lemma decode_fact_key:
  assumes "dep_small r"
  shows "decodeDepRecord (map byte_of_char (fact_key r)) = Inr (Some (keyed True 0 r))"
proof -
  have "dep_ok (keyed True 0 r)" using assms dep_ok_keyed by (simp add: dep_small_def)
  moreover have "length (dep_bytes (keyed True 0 r) @ []) < 2 ^ 63"
    using length_dep_bytes [of "keyed True 0 r"] assms by (simp add: dep_small_def)
  ultimately have "decodeDepRecord (dep_bytes (keyed True 0 r) @ []) = Inr (Some (keyed True 0 r))"
    by (rule decodeDepRecord_bytes)
  then show ?thesis by (simp add: fact_key_def)
qed

lemma key_record_fact: "dep_small r \<Longrightarrow> key_record (fact_key r) = keyed True 0 r"
  by (simp add: key_record_def decode_fact_key)

lemma keyed_idem: "keyed True 0 (keyed True 0 r) = keyed True 0 r"
  by (cases "rec_kind r") (simp_all add: keyed_def identityNormalizedOutcome_def)

lemma fact_key_keyed [simp]: "fact_key (keyed True 0 r) = fact_key r"
  by (simp add: fact_key_def keyed_idem)

lemma fact_element:
  assumes "is_fact r" "DepFixedHeaderLen + 20 + length (rec_path r) + length (rec_detail r) \<le> length buf"
  shows "\<exists>buf'. encodeDepSetElement img r buf dseRequireFit = (buf', int (length (dep_bytes (keyed True 0 r)))) \<and>
    take (length (dep_bytes (keyed True 0 r))) buf' = dep_bytes (keyed True 0 r)"
proof -
  let ?k = "dep_bytes (keyed True 0 r)"
  have "length ?k \<le> length buf"
    using length_dep_bytes [of "keyed True 0 r"] assms(2) by (simp add: DepFixedHeaderLen_def)
  then have "encodeDepRecordIdentity r buf = (?k @ drop (length ?k) buf, int (length ?k))"
    unfolding encodeDepRecordIdentity_def by (rule encode_with_seq_fits)
  then show ?thesis using assms(1) by (simp add: encodeDepSetElement_def)
qed

lemma fold_identity_step_fact:
  assumes "is_fact r"
  shows "\<exists>buf'. fold_identity_step img r (kept, seen, buf) =
    (kept, if fact_key r \<in> fst ` set seen then seen else seen @ [(fact_key r, r)], buf')"
proof -
  let ?need = "DepFixedHeaderLen + 20 + length (rec_path r) + length (rec_detail r)"
  let ?b = "if length buf < ?need then buf @ replicate (?need - length buf) 0 else buf"
  have "?need \<le> length ?b" by simp
  from fact_element [OF assms this, of img] obtain buf' where
    "encodeDepSetElement img r ?b dseRequireFit = (buf', int (length (dep_bytes (keyed True 0 r))))"
    "take (length (dep_bytes (keyed True 0 r))) buf' = dep_bytes (keyed True 0 r)" by blast
  then show ?thesis using assms by (auto simp: fold_identity_step_def Let_def fact_key_def)
qed

lemma fold_identity_pass:
  "\<exists>seen' buf'. fold (fold_identity_step img) rs (kept, seen, buf) = (kept @ filter (\<lambda>r. \<not> is_fact r) rs, seen', buf') \<and>
     fst ` set seen' = fst ` set seen \<union> fact_key ` {r \<in> set rs. is_fact r} \<and>
     (distinct (map fst seen) \<longrightarrow> distinct (map fst seen'))"
proof (induction rs arbitrary: kept seen buf)
  case Nil
  then show ?case by simp
next
  case (Cons r rs)
  show ?case
  proof (cases "is_fact r")
    case True
    from fold_identity_step_fact [OF True, of img kept seen buf] obtain buf1 where
      s: "fold_identity_step img r (kept, seen, buf) =
        (kept, if fact_key r \<in> fst ` set seen then seen else seen @ [(fact_key r, r)], buf1)" (is "_ = (_, ?seen, _)")
      by blast
    have d: "distinct (map fst seen) \<longrightarrow> distinct (map fst ?seen)" by auto
    obtain seen' buf' where
      "fold (fold_identity_step img) rs (kept, ?seen, buf1) = (kept @ filter (\<lambda>r. \<not> is_fact r) rs, seen', buf')"
      "fst ` set seen' = fst ` set ?seen \<union> fact_key ` {r \<in> set rs. is_fact r}"
      "distinct (map fst ?seen) \<longrightarrow> distinct (map fst seen')"
      using Cons.IH [of kept ?seen buf1] by blast
    with d True s show ?thesis by (intro exI [of _ seen'] exI [of _ buf']) auto
  next
    case False
    then have "fold_identity_step img r (kept, seen, buf) = (kept @ [r], seen, buf)"
      by (simp add: fold_identity_step_def)
    moreover have "{q \<in> set (r # rs). is_fact q} = {q \<in> set rs. is_fact q}" using False by auto
    ultimately show ?thesis using False Cons.IH [of "kept @ [r]" seen buf] by simp
  qed
qed

lemma decode_keys_eq:
  "\<forall>k \<in> set ks. \<exists>r. dep_small r \<and> k = fact_key r \<Longrightarrow> decode_keys seen ks = Inr (map key_record ks)"
  by (induction ks) (auto simp: decode_fact_key key_record_fact)

lemma fold_identity_eq:
  assumes "\<forall>r \<in> set rs. is_fact r \<longrightarrow> dep_small r"
  shows "foldObservationIdentity img rs = Inr (filter (\<lambda>r. \<not> is_fact r) rs @ folded_facts rs)"
proof -
  obtain seen buf where f: "fold (fold_identity_step img) rs ([], [], []) = (filter (\<lambda>r. \<not> is_fact r) rs, seen, buf)"
    "fst ` set seen = fact_key ` {r \<in> set rs. is_fact r}" "distinct (map fst seen)"
    using fold_identity_pass [of img rs "[]" "[]" "[]"] by auto
  have "sort (map fst seen) = sorted_list_of_set (fact_key ` {r \<in> set rs. is_fact r})"
    using f(2,3) by (metis list.set_map sorted_list_of_set_sort_remdups distinct_remdups_id)
  moreover have "decode_keys seen (sort (map fst seen)) = Inr (map key_record (sort (map fst seen)))"
    using assms f(2) by (intro decode_keys_eq) (auto simp: image_iff)
  ultimately show ?thesis by (simp add: foldObservationIdentity_def f(1) folded_facts_def)
qed

lemma set_folded_facts:
  assumes "\<forall>r \<in> set rs. is_fact r \<longrightarrow> dep_small r"
  shows "set (folded_facts rs) = keyed True 0 ` {r \<in> set rs. is_fact r}"
proof -
  have "set (folded_facts rs) = key_record ` fact_key ` {r \<in> set rs. is_fact r}"
    by (simp add: folded_facts_def)
  also have "\<dots> = keyed True 0 ` {r \<in> set rs. is_fact r}"
    unfolding image_image using assms by (intro image_cong refl) (simp add: key_record_fact)
  finally show ?thesis .
qed

lemma distinct_folded_facts:
  assumes "\<forall>r \<in> set rs. is_fact r \<longrightarrow> dep_small r"
  shows "distinct (folded_facts rs)"
proof -
  have "inj_on key_record (fact_key ` {r \<in> set rs. is_fact r})"
    using assms by (auto simp: inj_on_def key_record_fact) (metis fact_key_keyed)
  then show ?thesis by (simp add: folded_facts_def distinct_map)
qed

lemma folded_facts_again:
  assumes "\<forall>r \<in> set rs. is_fact r \<longrightarrow> dep_small r"
  shows "folded_facts (filter (\<lambda>r. \<not> is_fact r) rs @ folded_facts rs) = folded_facts rs"
proof -
  have "fact_key ` {r \<in> set (filter (\<lambda>r. \<not> is_fact r) rs @ folded_facts rs). is_fact r} =
      fact_key ` keyed True 0 ` {r \<in> set rs. is_fact r}"
    using set_folded_facts [OF assms] by auto
  also have "\<dots> = fact_key ` {r \<in> set rs. is_fact r}" by (simp add: image_image)
  finally show ?thesis by (simp add: folded_facts_def)
qed

lemma dep_small_keyed: "dep_small r \<Longrightarrow> dep_small (keyed True 0 r)"
  using dep_ok_keyed by (simp add: dep_small_def)

end
