(* ===== verification/Posix.thy ===== *)
theory Posix
  imports IoMon_Prelude "HOL-Library.State_Monad"
begin

text \<open>
  The part of the operating system and C library that the probe programs under \<^verbatim>\<open>research/\<close>
  call.  The state of a run is one record: the directory, the inodes, the pipes, the calling
  process's descriptor table, its standard streams, and two things that are not in any kernel:

    \<^item> a schedule of faults, one taken by each call: \<open>Fail e\<close> makes the call fail with
      \<open>errno = e\<close>, \<open>Short k\<close> bounds the number of bytes one transfer moves; past the end of
      the schedule every call does all it can.  So every error branch of a program is reachable.
    \<^item> the trace of the calls made, each with the route it took: a libc entry point (which a
      preloaded shim can intercept), a raw \<^verbatim>\<open>syscall(2)\<close> or an io_uring submission.

  A program is a value of the state monad.  The peers of a socket or the writers of a FIFO are
  the bytes they send (\<open>os_incoming\<close>, and the pipe behind a FIFO); a stream with no byte left is
  at its end.
\<close>

section \<open>State\<close>

datatype errno = ENOENT | EBADF | EEXIST | EINVAL | EIO | ENOSYS | EACCES | ENOMEM | EINTR
  | ECHILD | ECONNREFUSED | EISDIR | ENOTDIR | EFAULT | EPIPE | ESPIPE | ENOTSUP | ENOTEMPTY

datatype fault = Good | Fail errno | Short nat

datatype route = Libc | Raw | Ring

datatype event = Ev (ev_route: route) (ev_call: string) (ev_path: string)

datatype node = NFile nat | NFifo nat | NSocket

datatype oflag = O_RDONLY | O_WRONLY | O_RDWR | O_CREAT | O_TRUNC | O_CLOEXEC | O_DIRECTORY

text \<open>An open file description names a file, a directory, a listening socket or a stream (read pipe, write pipe).\<close>

datatype fobj = OFile nat | ODir string | OStream nat nat | OListen

record ofd =
  od_obj :: fobj
  od_pos :: nat
  od_rd :: bool
  od_wr :: bool

datatype diag = Text string | Perror string errno

record os =
  os_dir :: "string \<rightharpoonup> node"
  os_dirs :: "string list"
  os_data :: "nat \<Rightarrow> bytes"
  os_pipe :: "nat \<Rightarrow> bytes"
  os_rights :: "nat \<Rightarrow> nat list"
  os_fd :: "(nat \<times> nat) list"
  os_ofd :: "nat \<rightharpoonup> ofd"
  os_fresh :: nat
  os_cwd :: string
  os_environ :: "string list"
  os_pid :: nat
  os_errno :: errno
  os_faults :: "fault list"
  os_incoming :: "bytes list"
  os_stdout :: string
  os_stderr :: "diag list"
  os_trace :: "event list"
  os_mtime :: "nat \<Rightarrow> int \<times> nat"
  os_port :: nat
  os_peerpid :: int

type_synonym 'a prog = "(os, 'a) state"

text \<open>How a program ends.\<close>

datatype outcome =
    Exit int
  | Execd string "string list" "string list"
  | Signalled nat
  | Blocked

abbreviation ret :: "'a \<Rightarrow> 'a prog" where
  "ret \<equiv> State_Monad.return"

section \<open>Calls\<close>

fun fault_limit :: "fault \<Rightarrow> nat \<Rightarrow> nat" where
  "fault_limit (Short k) n = min n (max 1 k)"
| "fault_limit _ n = n"

fun pop_fault :: "os \<Rightarrow> fault \<times> os" where
  "pop_fault s = (case os_faults s of [] \<Rightarrow> (Good, s) | f # fs \<Rightarrow> (f, s\<lparr>os_faults := fs\<rparr>))"

text \<open>
  The shape of a call: it is traced, takes its fault, and either fails with the value \<open>bad\<close> and
  \<open>errno\<close>, or runs its body.  The body gets the bound on a transfer.
\<close>

definition sys ::
    "route \<Rightarrow> string \<Rightarrow> string \<Rightarrow> 'a \<Rightarrow> ((nat \<Rightarrow> nat) \<Rightarrow> os \<Rightarrow> errno + ('a \<times> os)) \<Rightarrow> 'a prog" where
  "sys route name path bad body = State (\<lambda>s.
     case pop_fault (s\<lparr>os_trace := os_trace s @ [Ev route name path]\<rparr>) of
       (Fail e, s) \<Rightarrow> (bad, s\<lparr>os_errno := e\<rparr>)
     | (f, s) \<Rightarrow> (case body (fault_limit f) s of
                    Inl e \<Rightarrow> (bad, s\<lparr>os_errno := e\<rparr>)
                  | Inr r \<Rightarrow> r))"

definition resolve :: "os \<Rightarrow> string \<Rightarrow> string" where
  "resolve s p = (if take 1 p = ''/'' then p else os_cwd s @ ''/'' @ p)"

definition lowest_free :: "nat \<Rightarrow> (nat \<times> nat) list \<Rightarrow> nat" where
  "lowest_free from t = hd (filter (\<lambda>n. n \<notin> fst ` set t) [from..<from + Suc (length t)])"

definition install_id :: "nat \<Rightarrow> nat \<Rightarrow> os \<Rightarrow> int \<times> os" where
  "install_id from i s =
     (let fd = lowest_free from (os_fd s) in (int fd, s\<lparr>os_fd := (fd, i) # os_fd s\<rparr>))"

definition install :: "fobj \<Rightarrow> bool \<Rightarrow> bool \<Rightarrow> os \<Rightarrow> int \<times> os" where
  "install ob rd wr s =
     (let i = os_fresh s
      in install_id 0 i (s\<lparr>os_ofd := (os_ofd s)(i \<mapsto> \<lparr>od_obj = ob, od_pos = 0, od_rd = rd, od_wr = wr\<rparr>),
                            os_fresh := Suc i\<rparr>))"

definition fd_ofd :: "os \<Rightarrow> int \<Rightarrow> (nat \<times> ofd) option" where
  "fd_ofd s fd =
     (if fd < 0 then None
      else (case map_of (os_fd s) (nat fd) of
              None \<Rightarrow> None
            | Some i \<Rightarrow> map_option (Pair i) (os_ofd s i)))"

definition can_read :: "oflag list \<Rightarrow> bool" where
  "can_read flags \<longleftrightarrow> O_WRONLY \<notin> set flags"

definition can_write :: "oflag list \<Rightarrow> bool" where
  "can_write flags \<longleftrightarrow> O_WRONLY \<in> set flags \<or> O_RDWR \<in> set flags"

definition open_body :: "string \<Rightarrow> oflag list \<Rightarrow> os \<Rightarrow> errno + (int \<times> os)" where
  "open_body q flags s =
     (if q \<in> set (os_dirs s)
      then if can_write flags then Inl EISDIR else Inr (install (ODir q) (can_read flags) False s)
      else if O_DIRECTORY \<in> set flags
      then Inl (if os_dir s q = None then ENOENT else ENOTDIR)
      else (case os_dir s q of
              Some (NFile i) \<Rightarrow>
                Inr (install (OFile i) (can_read flags) (can_write flags)
                       (if O_TRUNC \<in> set flags then s\<lparr>os_data := (os_data s)(i := [])\<rparr> else s))
            | Some (NFifo p) \<Rightarrow> Inr (install (OStream p p) (can_read flags) (can_write flags) s)
            | Some NSocket \<Rightarrow> Inl ENOTSUP
            | None \<Rightarrow>
                if O_CREAT \<in> set flags
                then let i = os_fresh s
                     in Inr (install (OFile i) (can_read flags) (can_write flags)
                               (s\<lparr>os_dir := (os_dir s)(q \<mapsto> NFile i), os_data := (os_data s)(i := []),
                                  os_fresh := Suc i\<rparr>))
                else Inl ENOENT))"

text \<open>A path argument is \<open>None\<close> where the program passes a null pointer.\<close>

definition open_as :: "route \<Rightarrow> string \<Rightarrow> string option \<Rightarrow> oflag list \<Rightarrow> int prog" where
  "open_as route name path flags =
     sys route name (case path of None \<Rightarrow> '''' | Some p \<Rightarrow> p) (- 1) (\<lambda>_ s.
       case path of None \<Rightarrow> Inl EFAULT | Some p \<Rightarrow> open_body (resolve s p) flags s)"

definition c_open :: "string \<Rightarrow> oflag list \<Rightarrow> int prog" where
  "c_open p = open_as Libc ''open'' (Some p)"

text \<open>Relative to a directory descriptor.\<close>

definition c_openat :: "int \<Rightarrow> string \<Rightarrow> oflag list \<Rightarrow> int prog" where
  "c_openat dfd p flags =
     sys Libc ''openat'' p (- 1) (\<lambda>_ s.
       if take 1 p = ''/'' then open_body p flags s
       else (case fd_ofd s dfd of
               Some (_, d) \<Rightarrow> (case od_obj d of ODir q \<Rightarrow> open_body (q @ ''/'' @ p) flags s | _ \<Rightarrow> Inl ENOTDIR)
             | None \<Rightarrow> Inl EBADF))"

definition set_ofd :: "nat \<Rightarrow> ofd \<Rightarrow> os \<Rightarrow> os" where
  "set_ofd i d s = s\<lparr>os_ofd := (os_ofd s)(i \<mapsto> d)\<rparr>"

definition overwrite :: "bytes \<Rightarrow> nat \<Rightarrow> bytes \<Rightarrow> bytes" where
  "overwrite xs a b = take a (xs @ replicate (a - length xs) 0) @ b @ drop (a + length b) xs"

text \<open>Take up to \<open>n\<close> bytes from, or put bytes to, an open file description.\<close>

definition take_body :: "int \<Rightarrow> nat \<Rightarrow> os \<Rightarrow> errno + (bytes \<times> os)" where
  "take_body fd n s =
     (case fd_ofd s fd of
        None \<Rightarrow> Inl EBADF
      | Some (i, d) \<Rightarrow>
          if \<not> od_rd d then Inl EBADF
          else (case od_obj d of
                  OFile f \<Rightarrow>
                    let b = slice (os_data s f) (od_pos d) n
                    in Inr (b, set_ofd i (d\<lparr>od_pos := od_pos d + length b\<rparr>) s)
                | OStream r w \<Rightarrow>
                    Inr (take n (os_pipe s r), s\<lparr>os_pipe := (os_pipe s)(r := drop n (os_pipe s r))\<rparr>)
                | ODir _ \<Rightarrow> Inl EISDIR
                | OListen \<Rightarrow> Inl EINVAL))"

definition put_body :: "int \<Rightarrow> bytes \<Rightarrow> os \<Rightarrow> errno + (int \<times> os)" where
  "put_body fd b s =
     (case fd_ofd s fd of
        None \<Rightarrow> Inl EBADF
      | Some (i, d) \<Rightarrow>
          if \<not> od_wr d then Inl EBADF
          else (case od_obj d of
                  OFile f \<Rightarrow>
                    Inr (int (length b),
                      set_ofd i (d\<lparr>od_pos := od_pos d + length b\<rparr>)
                        (s\<lparr>os_data := (os_data s)(f := overwrite (os_data s f) (od_pos d) b)\<rparr>))
                | OStream r w \<Rightarrow>
                    Inr (int (length b), s\<lparr>os_pipe := (os_pipe s)(w := os_pipe s w @ b)\<rparr>)
                | ODir _ \<Rightarrow> Inl EISDIR
                | OListen \<Rightarrow> Inl EPIPE))"

definition with_len :: "errno + (bytes \<times> os) \<Rightarrow> errno + ((int \<times> bytes) \<times> os)" where
  "with_len r = map_sum id (\<lambda>(b, s). ((int (length b), b), s)) r"

definition read_as :: "route \<Rightarrow> string \<Rightarrow> int \<Rightarrow> nat \<Rightarrow> (int \<times> bytes) prog" where
  "read_as route name fd n =
     sys route name '''' (- 1, []) (\<lambda>lim s. with_len (take_body fd (lim n) s))"

abbreviation c_read :: "int \<Rightarrow> nat \<Rightarrow> (int \<times> bytes) prog" where
  "c_read \<equiv> read_as Libc ''read''"

definition write_as :: "route \<Rightarrow> string \<Rightarrow> int \<Rightarrow> bytes \<Rightarrow> int prog" where
  "write_as route name fd b =
     sys route name '''' (- 1) (\<lambda>lim s. put_body fd (take (lim (length b)) b) s)"

abbreviation c_write :: "int \<Rightarrow> bytes \<Rightarrow> int prog" where
  "c_write \<equiv> write_as Libc ''write''"

text \<open>Positioned transfers leave the offset alone and need a file.\<close>

definition pread_as :: "string \<Rightarrow> int \<Rightarrow> nat \<Rightarrow> nat \<Rightarrow> (int \<times> bytes) prog" where
  "pread_as name fd n off =
     sys Libc name '''' (- 1, []) (\<lambda>lim s.
       case fd_ofd s fd of
         None \<Rightarrow> Inl EBADF
       | Some (i, d) \<Rightarrow>
           if \<not> od_rd d then Inl EBADF
           else (case od_obj d of
                   OFile f \<Rightarrow> let b = slice (os_data s f) off (lim n) in Inr ((int (length b), b), s)
                 | ODir _ \<Rightarrow> Inl EISDIR
                 | _ \<Rightarrow> Inl ESPIPE))"

abbreviation c_pread :: "int \<Rightarrow> nat \<Rightarrow> nat \<Rightarrow> (int \<times> bytes) prog" where
  "c_pread \<equiv> pread_as ''pread''"

definition c_pwrite :: "int \<Rightarrow> bytes \<Rightarrow> nat \<Rightarrow> int prog" where
  "c_pwrite fd b off =
     sys Libc ''pwrite'' '''' (- 1) (\<lambda>lim s.
       let b = take (lim (length b)) b in
       case fd_ofd s fd of
         None \<Rightarrow> Inl EBADF
       | Some (i, d) \<Rightarrow>
           if \<not> od_wr d then Inl EBADF
           else (case od_obj d of
                   OFile f \<Rightarrow>
                     Inr (int (length b), s\<lparr>os_data := (os_data s)(f := overwrite (os_data s f) off b)\<rparr>)
                 | ODir _ \<Rightarrow> Inl EISDIR
                 | _ \<Rightarrow> Inl ESPIPE))"

definition c_lseek_set :: "int \<Rightarrow> nat \<Rightarrow> int prog" where
  "c_lseek_set fd off =
     sys Libc ''lseek'' '''' (- 1) (\<lambda>_ s.
       case fd_ofd s fd of
         None \<Rightarrow> Inl EBADF
       | Some (i, d) \<Rightarrow>
           (case od_obj d of
              OFile f \<Rightarrow> Inr (int off, set_ofd i (d\<lparr>od_pos := off\<rparr>) s)
            | _ \<Rightarrow> Inl ESPIPE))"

definition close_as :: "route \<Rightarrow> int \<Rightarrow> int prog" where
  "close_as route fd =
     sys route ''close'' '''' (- 1) (\<lambda>_ s.
       if 0 \<le> fd \<and> nat fd \<in> fst ` set (os_fd s)
       then Inr (0, s\<lparr>os_fd := filter (\<lambda>(n, i). n \<noteq> nat fd) (os_fd s)\<rparr>)
       else Inl EBADF)"

abbreviation c_close :: "int \<Rightarrow> int prog" where
  "c_close \<equiv> close_as Libc"

subsection \<open>Descriptors\<close>

definition dup_from :: "string \<Rightarrow> int \<Rightarrow> nat \<Rightarrow> int prog" where
  "dup_from name fd from =
     sys Libc name '''' (- 1) (\<lambda>_ s.
       case fd_ofd s fd of None \<Rightarrow> Inl EBADF | Some (i, d) \<Rightarrow> Inr (install_id from i s))"

definition c_dup :: "int \<Rightarrow> int prog" where
  "c_dup fd = dup_from ''dup'' fd 0"

definition c_dup2 :: "int \<Rightarrow> int \<Rightarrow> int prog" where
  "c_dup2 fd fd2 =
     sys Libc ''dup2'' '''' (- 1) (\<lambda>_ s.
       case fd_ofd s fd of
         None \<Rightarrow> Inl EBADF
       | Some (i, d) \<Rightarrow>
           if fd2 < 0 then Inl EBADF
           else Inr (fd2, s\<lparr>os_fd := (nat fd2, i) # filter (\<lambda>(n, j). n \<noteq> nat fd2) (os_fd s)\<rparr>))"

subsection \<open>Names\<close>

definition fstat_as :: "int \<Rightarrow> (int \<times> nat) prog" where
  "fstat_as fd =
     sys Libc ''fstat'' '''' (- 1, 0) (\<lambda>_ s.
       case fd_ofd s fd of
         None \<Rightarrow> Inl EBADF
       | Some (i, d) \<Rightarrow>
           Inr ((0, case od_obj d of OFile f \<Rightarrow> length (os_data s f) | _ \<Rightarrow> 0), s))"

definition node_size :: "os \<Rightarrow> node \<Rightarrow> nat" where
  "node_size s n = (case n of NFile i \<Rightarrow> length (os_data s i) | _ \<Rightarrow> 0)"

definition stat_body :: "string \<Rightarrow> os \<Rightarrow> errno + ((int \<times> nat) \<times> os)" where
  "stat_body q s =
     (if q \<in> set (os_dirs s) then Inr ((0, 0), s)
      else (case os_dir s q of None \<Rightarrow> Inl ENOENT | Some n \<Rightarrow> Inr ((0, node_size s n), s)))"

definition stat_as :: "route \<Rightarrow> string \<Rightarrow> string \<Rightarrow> (int \<times> nat) prog" where
  "stat_as route name p = sys route name p (- 1, 0) (\<lambda>_ s. stat_body (resolve s p) s)"

definition c_fstatat :: "int \<Rightarrow> string \<Rightarrow> (int \<times> nat) prog" where
  "c_fstatat dfd p =
     sys Libc ''fstatat'' p (- 1, 0) (\<lambda>_ s.
       if take 1 p = ''/'' then stat_body p s
       else (case fd_ofd s dfd of
               Some (_, d) \<Rightarrow> (case od_obj d of ODir q \<Rightarrow> stat_body (q @ ''/'' @ p) s | _ \<Rightarrow> Inl ENOTDIR)
             | None \<Rightarrow> Inl EBADF))"

definition c_fchdir :: "int \<Rightarrow> int prog" where
  "c_fchdir fd =
     sys Libc ''fchdir'' '''' (- 1) (\<lambda>_ s.
       case fd_ofd s fd of
         Some (_, d) \<Rightarrow> (case od_obj d of ODir q \<Rightarrow> Inr (0, s\<lparr>os_cwd := q\<rparr>) | _ \<Rightarrow> Inl ENOTDIR)
       | None \<Rightarrow> Inl EBADF)"

definition c_linkat :: "string \<Rightarrow> string \<Rightarrow> int prog" where
  "c_linkat old new =
     sys Libc ''linkat'' old (- 1) (\<lambda>_ s.
       case os_dir s (resolve s old) of
         None \<Rightarrow> Inl ENOENT
       | Some n \<Rightarrow>
           if os_dir s (resolve s new) \<noteq> None \<or> resolve s new \<in> set (os_dirs s) then Inl EEXIST
           else Inr (0, s\<lparr>os_dir := (os_dir s)(resolve s new \<mapsto> n)\<rparr>))"

text \<open>Renaming one of two links to the same file onto the other does nothing.\<close>

definition c_rename :: "string \<Rightarrow> string \<Rightarrow> int prog" where
  "c_rename old new =
     sys Libc ''rename'' old (- 1) (\<lambda>_ s.
       case os_dir s (resolve s old) of
         None \<Rightarrow> Inl ENOENT
       | Some n \<Rightarrow>
           if resolve s new \<in> set (os_dirs s) then Inl EISDIR
           else if os_dir s (resolve s new) = Some n then Inr (0, s)
           else Inr (0, s\<lparr>os_dir := (os_dir s)(resolve s new \<mapsto> n, resolve s old := None)\<rparr>))"

definition c_unlink :: "string \<Rightarrow> int prog" where
  "c_unlink p =
     sys Libc ''unlink'' p (- 1) (\<lambda>_ s.
       case os_dir s (resolve s p) of
         None \<Rightarrow> Inl ENOENT
       | Some _ \<Rightarrow> Inr (0, s\<lparr>os_dir := (os_dir s)(resolve s p := None)\<rparr>))"

definition resize :: "bytes \<Rightarrow> nat \<Rightarrow> bytes" where
  "resize xs n = take n xs @ replicate (n - length xs) 0"

definition c_ftruncate :: "int \<Rightarrow> nat \<Rightarrow> int prog" where
  "c_ftruncate fd n =
     sys Libc ''ftruncate'' '''' (- 1) (\<lambda>_ s.
       case fd_ofd s fd of
         None \<Rightarrow> Inl EBADF
       | Some (i, d) \<Rightarrow>
           (case od_obj d of
              OFile f \<Rightarrow> if od_wr d then Inr (0, s\<lparr>os_data := (os_data s)(f := resize (os_data s f) n)\<rparr>)
                         else Inl EINVAL
            | _ \<Rightarrow> Inl EINVAL))"

definition c_truncate :: "string option \<Rightarrow> nat \<Rightarrow> int prog" where
  "c_truncate path n =
     sys Libc ''truncate'' (case path of None \<Rightarrow> '''' | Some p \<Rightarrow> p) (- 1) (\<lambda>_ s.
       case path of
         None \<Rightarrow> Inl EFAULT
       | Some p \<Rightarrow>
           (case os_dir s (resolve s p) of
              Some (NFile f) \<Rightarrow> Inr (0, s\<lparr>os_data := (os_data s)(f := resize (os_data s f) n)\<rparr>)
            | Some _ \<Rightarrow> Inl EINVAL
            | None \<Rightarrow> Inl (if resolve s p \<in> set (os_dirs s) then EISDIR else ENOENT)))"

subsection \<open>Moving bytes inside the kernel\<close>

text \<open>Take from one description, put to the other, in one call.\<close>

definition move_body :: "int \<Rightarrow> int \<Rightarrow> nat \<Rightarrow> os \<Rightarrow> errno + (int \<times> os)" where
  "move_body ifd ofd n s =
     res_bind (take_body ifd n s) (\<lambda>(b, s). put_body ofd b s)"

definition move_as :: "route \<Rightarrow> string \<Rightarrow> int \<Rightarrow> int \<Rightarrow> nat \<Rightarrow> int prog" where
  "move_as route name ifd ofd n = sys route name '''' (- 1) (\<lambda>lim s. move_body ifd ofd (lim n) s)"

text \<open>\<^verbatim>\<open>ioctl(dst, FICLONE, src)\<close>: the destination becomes a copy of the whole source.\<close>

definition c_ficlone :: "int \<Rightarrow> int \<Rightarrow> int prog" where
  "c_ficlone dst src =
     sys Libc ''ioctl'' '''' (- 1) (\<lambda>_ s.
       case (fd_ofd s src, fd_ofd s dst) of
         (Some (i, d), Some (j, e)) \<Rightarrow>
           if \<not> od_rd d \<or> \<not> od_wr e then Inl EBADF
           else (case (od_obj d, od_obj e) of
                   (OFile f, OFile g) \<Rightarrow> Inr (0, s\<lparr>os_data := (os_data s)(g := os_data s f)\<rparr>)
                 | _ \<Rightarrow> Inl EINVAL)
       | _ \<Rightarrow> Inl EBADF)"

definition c_pipe :: "(int \<times> int \<times> int) prog" where
  "c_pipe =
     sys Libc ''pipe'' '''' (- 1, - 1, - 1) (\<lambda>_ s.
       let p = os_fresh s;
           (r, s) = install (OStream p p) True False (s\<lparr>os_pipe := (os_pipe s)(p := []), os_fresh := Suc p\<rparr>);
           (w, s) = install (OStream p p) False True s
       in Inr ((0, r, w), s))"

subsection \<open>Sockets\<close>

definition c_socket :: "int prog" where
  "c_socket = sys Libc ''socket'' '''' (- 1) (\<lambda>_ s. Inr (install OListen False False s))"

definition c_socketpair :: "(int \<times> int \<times> int) prog" where
  "c_socketpair =
     sys Libc ''socketpair'' '''' (- 1, - 1, - 1) (\<lambda>_ s.
       let p = os_fresh s; q = Suc p;
           s = s\<lparr>os_pipe := (os_pipe s)(p := [], q := []), os_rights := (os_rights s)(p := [], q := []), os_fresh := Suc q\<rparr>;
           (a, s) = install (OStream p q) True True s;
           (b, s) = install (OStream q p) True True s
       in Inr ((0, a, b), s))"

text \<open>A stream whose input is what the peer sends; what is written to it collects in its own pipe.\<close>

definition peer_stream :: "bytes \<Rightarrow> os \<Rightarrow> fobj \<times> os" where
  "peer_stream input s =
     (let p = os_fresh s; q = Suc p
      in (OStream p q, s\<lparr>os_pipe := (os_pipe s)(p := input, q := []), os_fresh := Suc q\<rparr>))"

definition c_connect :: "int \<Rightarrow> string \<Rightarrow> int prog" where
  "c_connect fd addr =
     sys Libc ''connect'' addr (- 1) (\<lambda>_ s.
       case fd_ofd s fd of
         None \<Rightarrow> Inl EBADF
       | Some (i, d) \<Rightarrow>
           (case os_incoming s of
              [] \<Rightarrow> Inl ECONNREFUSED
            | input # rest \<Rightarrow>
                let (ob, s) = peer_stream input (s\<lparr>os_incoming := rest\<rparr>)
                in Inr (0, set_ofd i (d\<lparr>od_obj := ob, od_rd := True, od_wr := True\<rparr>) s)))"

definition c_bind :: "int \<Rightarrow> string \<Rightarrow> int prog" where
  "c_bind fd addr =
     sys Libc ''bind'' addr (- 1) (\<lambda>_ s.
       case fd_ofd s fd of
         None \<Rightarrow> Inl EBADF
       | Some _ \<Rightarrow>
           if os_dir s (resolve s addr) \<noteq> None then Inl EEXIST
           else Inr (0, s\<lparr>os_dir := (os_dir s)(resolve s addr \<mapsto> NSocket)\<rparr>))"

definition fd_call :: "string \<Rightarrow> int \<Rightarrow> int prog" where
  "fd_call name fd = sys Libc name '''' (- 1) (\<lambda>_ s. if fd_ofd s fd = None then Inl EBADF else Inr (0, s))"

text \<open>\<open>None\<close> when no peer will ever connect: the call never returns.\<close>

definition c_accept :: "int \<Rightarrow> int option prog" where
  "c_accept fd =
     sys Libc ''accept'' '''' (Some (- 1)) (\<lambda>_ s.
       case fd_ofd s fd of
         None \<Rightarrow> Inl EBADF
       | Some _ \<Rightarrow>
           (case os_incoming s of
              [] \<Rightarrow> Inr (None, s)
            | input # rest \<Rightarrow>
                let (ob, s) = peer_stream input (s\<lparr>os_incoming := rest\<rparr>);
                    (c, s) = install ob True True s
                in Inr (Some c, s)))"

subsection \<open>Standard streams, environment, processes\<close>

definition c_errno :: "errno prog" where
  "c_errno = State (\<lambda>s. (os_errno s, s))"

definition perror :: "string \<Rightarrow> unit prog" where
  "perror msg = State (\<lambda>s. ((), s\<lparr>os_stderr := os_stderr s @ [Perror msg (os_errno s)]\<rparr>))"

definition eprintf :: "string \<Rightarrow> unit prog" where
  "eprintf msg = State (\<lambda>s. ((), s\<lparr>os_stderr := os_stderr s @ [Text msg]\<rparr>))"

definition printf :: "string \<Rightarrow> unit prog" where
  "printf msg = State (\<lambda>s. ((), s\<lparr>os_stdout := os_stdout s @ msg\<rparr>))"

definition c_environ :: "string list prog" where
  "c_environ = State (\<lambda>s. (os_environ s, s))"

text \<open>Programs on disk: what running one with given arguments and environment does.\<close>

type_synonym programs = "string \<Rightarrow> (string list \<Rightarrow> string list \<Rightarrow> outcome prog) option"

definition exec_as :: "route \<Rightarrow> string \<Rightarrow> programs \<Rightarrow> string \<Rightarrow> string list \<Rightarrow> string list \<Rightarrow> outcome option prog" where
  "exec_as route name progs path argv env =
     sys route name path None (\<lambda>_ s.
       case progs path of None \<Rightarrow> Inl ENOENT | Some _ \<Rightarrow> Inr (Some (Execd path argv env), s))"

text \<open>A child runs to its end, shares the system and has its own descriptor table and environment.\<close>

definition in_child :: "outcome prog \<Rightarrow> outcome prog" where
  "in_child p = State (\<lambda>s. case run_state p s of
     (r, t) \<Rightarrow> (r, t\<lparr>os_fd := os_fd s, os_environ := os_environ s, os_cwd := os_cwd s, os_errno := os_errno s\<rparr>))"

definition c_posix_spawn ::
    "programs \<Rightarrow> string \<Rightarrow> string list \<Rightarrow> string list \<Rightarrow> (errno + outcome) prog" where
  "c_posix_spawn progs path argv env = State (\<lambda>s.
     case pop_fault (s\<lparr>os_trace := os_trace s @ [Ev Libc ''posix_spawn'' path]\<rparr>) of
       (Fail e, s) \<Rightarrow> (Inl e, s)
     | (_, s) \<Rightarrow>
         (case progs path of
            None \<Rightarrow> (Inl ENOENT, s)
          | Some child \<Rightarrow>
              (case run_state (in_child (State (\<lambda>s. run_state (child argv env) (s\<lparr>os_environ := env\<rparr>)))) s of
                 (out, s) \<Rightarrow> (Inr out, s))))"

text \<open>\<^verbatim>\<open>fork\<close> with the child's code: the pid the parent sees (-1 when it fails, then no child runs).\<close>

definition c_fork :: "outcome prog \<Rightarrow> int prog" where
  "c_fork child =
     sys Libc ''fork'' '''' (- 1) (\<lambda>_ s.
       case run_state (in_child child) s of (out, t) \<Rightarrow> Inr (int (os_pid s) + 1, t))"

definition c_waitpid :: "int \<Rightarrow> int prog" where
  "c_waitpid pid = sys Libc ''waitpid'' '''' (- 1) (\<lambda>_ s. if pid < 0 then Inl ECHILD else Inr (pid, s))"

definition eprint_errno :: "string \<Rightarrow> errno \<Rightarrow> unit prog" where
  "eprint_errno msg e = State (\<lambda>s. ((), s\<lparr>os_stderr := os_stderr s @ [Perror msg e]\<rparr>))"

text \<open>A call that only succeeds or fails, and its form whose failure the program ignores.\<close>

definition c_call :: "route \<Rightarrow> string \<Rightarrow> int prog" where
  "c_call route name = sys route name [] (- 1) (\<lambda>_ s. Inr (0, s))"

text \<open>\<^verbatim>\<open>getenv\<close>: the value of the first entry \<^verbatim>\<open>NAME=value\<close>.\<close>

definition c_getenv :: "string \<Rightarrow> string option prog" where
  "c_getenv name = State (\<lambda>s.
     (map_option (drop (Suc (length name)))
        (find (\<lambda>e. take (Suc (length name)) e = name @ ''='') (os_environ s)), s))"

text \<open>The pid at the other end of a socket, 0 where the call fails.\<close>

definition c_peerpid :: "int \<Rightarrow> int prog" where
  "c_peerpid fd =
     sys Libc ''getsockopt'' [] 0 (\<lambda>_ s. if fd_ofd s fd = None then Inl EBADF else Inr (os_peerpid s, s))"

definition c_getpid :: "nat prog" where
  "c_getpid = State (\<lambda>s. (os_pid s, s))"

text \<open>\<^verbatim>\<open>kill(getpid(), SIGKILL)\<close>: whether the signal ends the process.\<close>

definition c_kill_self :: "bool prog" where
  "c_kill_self = sys Libc ''kill'' [] False (\<lambda>_ s. Inr (True, s))"

text \<open>\<^verbatim>\<open>dprintf\<close> writes all of its text unless a write fails.\<close>

function dprintf_loop :: "string \<Rightarrow> int \<Rightarrow> bytes \<Rightarrow> os \<Rightarrow> int \<times> os" where
  "dprintf_loop name fd b s =
     (if b = [] then (0, s)
      else (case run_state (write_as Libc name fd b) s of
              (k, t) \<Rightarrow> if k \<le> 0 then (- 1, t) else dprintf_loop name fd (drop (nat k) b) t))"
  by pat_completeness auto
termination
  by (relation "measure (\<lambda>(name, fd, b, s). length b)") auto

declare dprintf_loop.simps [simp del]

definition c_dprintf :: "int \<Rightarrow> string \<Rightarrow> int prog" where
  "c_dprintf fd text = State (dprintf_loop ''dprintf'' fd (map byte_of_char text))"

text \<open>\<^verbatim>\<open>fopen(path, "w")\<close>, one \<^verbatim>\<open>fprintf\<close> and \<^verbatim>\<open>fclose\<close>, skipped when the file does not open.\<close>

definition write_text_file :: "string \<Rightarrow> string \<Rightarrow> unit prog" where
  "write_text_file path text = do {
     f \<leftarrow> open_as Libc ''fopen'' (Some path) [O_WRONLY, O_CREAT, O_TRUNC];
     if f < 0 then ret ()
     else do {
       _ \<leftarrow> State (dprintf_loop ''fprintf'' f (map byte_of_char text));
       _ \<leftarrow> c_close f;
       ret ()
     }
   }"

subsection \<open>Memory maps\<close>

text \<open>
  A shared mapping of a file: the inode and the length; loads and stores go to the inode, and a
  store past its end is not kept.
\<close>

definition c_mmap :: "int \<Rightarrow> nat \<Rightarrow> bool \<Rightarrow> (nat \<times> nat) option prog" where
  "c_mmap fd n prot_write =
     sys Libc ''mmap'' '''' None (\<lambda>_ s.
       if n = 0 then Inl EINVAL
       else (case fd_ofd s fd of
               None \<Rightarrow> Inl EBADF
             | Some (i, d) \<Rightarrow>
                 (case od_obj d of
                    OFile f \<Rightarrow> if od_rd d \<and> (prot_write \<longrightarrow> od_wr d) then Inr (Some (f, n), s) else Inl EACCES
                  | _ \<Rightarrow> Inl EACCES)))"

definition map_load :: "nat \<times> nat \<Rightarrow> bytes prog" where
  "map_load m = State (\<lambda>s. (take (snd m) (os_data s (fst m)), s))"

definition map_store :: "nat \<times> nat \<Rightarrow> bytes \<Rightarrow> unit prog" where
  "map_store m b = State (\<lambda>s. ((), s\<lparr>os_data := (os_data s)(fst m :=
     overwrite (os_data s (fst m)) 0 (take (min (snd m) (length (os_data s (fst m)))) b))\<rparr>))"

definition c_munmap :: "int prog" where
  "c_munmap = sys Libc ''munmap'' '''' (- 1) (\<lambda>_ s. Inr (0, s))"

section \<open>Reading a descriptor to its end\<close>

text \<open>The bytes a descriptor can still deliver.\<close>

definition unread :: "int \<Rightarrow> os \<Rightarrow> bytes" where
  "unread fd s =
     (case fd_ofd s fd of
        None \<Rightarrow> []
      | Some (i, d) \<Rightarrow>
          if \<not> od_rd d then []
          else (case od_obj d of
                  OFile f \<Rightarrow> drop (od_pos d) (os_data s f)
                | OStream r w \<Rightarrow> os_pipe s r
                | _ \<Rightarrow> []))"

lemma fd_ofd_simps [simp]:
  "fd_ofd (s\<lparr>os_trace := t\<rparr>) fd = fd_ofd s fd" "fd_ofd (s\<lparr>os_faults := fs\<rparr>) fd = fd_ofd s fd"
  "fd_ofd (s\<lparr>os_errno := e\<rparr>) fd = fd_ofd s fd" "fd_ofd (s\<lparr>os_pipe := p\<rparr>) fd = fd_ofd s fd"
  "fd_ofd (s\<lparr>os_data := da\<rparr>) fd = fd_ofd s fd"
  by (simp_all add: fd_ofd_def split: option.split)

lemma unread_simps [simp]:
  "unread fd (s\<lparr>os_trace := t\<rparr>) = unread fd s" "unread fd (s\<lparr>os_faults := fs\<rparr>) = unread fd s"
  "unread fd (s\<lparr>os_errno := e\<rparr>) = unread fd s"
  by (simp_all add: unread_def split: option.split fobj.split)

lemma fd_ofd_set: "fd_ofd s fd = Some (i, d) \<Longrightarrow> fd_ofd (set_ofd i e s) fd = Some (i, e)"
  by (auto simp: fd_ofd_def set_ofd_def split: if_splits option.splits)

lemma take_body_unread:
  assumes "take_body fd n s = Inr (b, t)"
  shows "b = take n (unread fd s) \<and> unread fd t = drop n (unread fd s)"
proof -
  obtain i d where fd: "fd_ofd s fd = Some (i, d)" and rd: "od_rd d"
    using assms by (auto simp: take_body_def split: option.splits if_splits)
  show ?thesis
  proof (cases "od_obj d")
    case (OFile f)
    let ?b = "slice (os_data s f) (od_pos d) n"
    have t: "b = ?b" "t = set_ofd i (d\<lparr>od_pos := od_pos d + length ?b\<rparr>) s"
      using assms by (auto simp: take_body_def fd rd OFile Let_def)
    have "drop (od_pos d + length ?b) (os_data s f) = drop n (drop (od_pos d) (os_data s f))"
      by (cases "n \<le> length (os_data s f) - od_pos d") (simp_all add: slice_def add.commute)
    then show ?thesis
      using fd_ofd_set [OF fd] by (simp add: unread_def t fd rd OFile slice_def) (simp add: set_ofd_def)
  next
    case (OStream r w)
    then show ?thesis using assms by (auto simp: take_body_def unread_def fd rd)
  qed (use assms in \<open>simp_all add: take_body_def fd rd\<close>)
qed

lemma pop_fault_cases:
  assumes "pop_fault s = (f, t)"
  shows "t = s\<lparr>os_faults := tl (os_faults s)\<rparr>"
  using assms by (auto split: list.splits)

lemma fault_limit_bounds: "fault_limit f n \<le> n \<and> (fault_limit f n = 0 \<longrightarrow> n = 0)"
  by (cases f) auto

text \<open>
  One read: it fails, or delivers the next bytes of the descriptor; it delivers none only at the
  end (or when none were asked for).
\<close>

lemma read_as_cases:
  assumes "run_state (read_as route name fd n) s = ((k, b), t)"
  shows "(k = - 1 \<and> b = [] \<and> unread fd t = unread fd s) \<or>
    (k = int (length b) \<and> unread fd s = b @ unread fd t \<and> length b \<le> n \<and>
       (b = [] \<longrightarrow> n = 0 \<or> unread fd s = []))"
proof -
  let ?s = "s\<lparr>os_trace := os_trace s @ [Ev route name '''']\<rparr>"
  obtain f u where pf: "pop_fault ?s = (f, u)" by (cases "pop_fault ?s") auto
  have u: "unread fd u = unread fd s" using pop_fault_cases [OF pf] by simp
  show ?thesis
  proof (cases "\<exists>e. f = Fail e")
    case True
    then show ?thesis using assms pf u by (auto simp: read_as_def sys_def)
  next
    case False
    then have r: "((k, b), t) = (case with_len (take_body fd (fault_limit f n) u) of
        Inl e \<Rightarrow> ((- 1, []), u\<lparr>os_errno := e\<rparr>) | Inr r \<Rightarrow> r)"
      using assms pf by (cases f) (simp_all add: read_as_def sys_def)
    have lim: "fault_limit f n \<le> n" "fault_limit f n = 0 \<longrightarrow> n = 0"
      using fault_limit_bounds [of f n] by simp_all
    show ?thesis
    proof (cases "take_body fd (fault_limit f n) u")
      case (Inl e)
      then show ?thesis using r u by (simp add: with_len_def)
    next
      case (Inr p)
      then obtain c v where tb: "take_body fd (fault_limit f n) u = Inr (c, v)" by (cases p) auto
      then have eq: "k = int (length c)" "b = c" "t = v" using r by (simp_all add: with_len_def)
      note tu = take_body_unread [OF tb, unfolded u]
      then have "length b \<le> n" using lim(1) eq by (simp add: min_def)
      moreover have "b = [] \<longrightarrow> n = 0 \<or> unread fd s = []" using tu eq lim(2) by auto
      moreover have "unread fd s = b @ unread fd t" using tu eq by simp
      ultimately show ?thesis using eq(1,2) by simp
    qed
  qed
qed

function read_loop ::
    "route \<Rightarrow> string \<Rightarrow> int \<Rightarrow> nat \<Rightarrow> (bytes \<Rightarrow> 'a \<Rightarrow> 'a) \<Rightarrow> 'a \<Rightarrow> os \<Rightarrow> (int \<times> 'a) \<times> os" where
  "read_loop route name fd n step acc s =
     (case run_state (read_as route name fd n) s of
        ((k, b), t) \<Rightarrow> if k \<le> 0 then ((k, acc), t) else read_loop route name fd n step (step b acc) t)"
  by pat_completeness auto
termination
proof (relation "measure (\<lambda>(route, name, fd, n, step, acc, s). length (unread fd s))", goal_cases)
  case 1
  show ?case by simp
next
  case (2 route name fd n step acc s p t k b)
  then have "run_state (read_as route name fd n) s = ((k, b), t)" "0 < k" by simp_all
  with read_as_cases [OF this(1)] show ?case by auto
qed

declare read_loop.simps [simp del]

text \<open>
  \<^verbatim>\<open>while ((n = read(fd, buf, size)) > 0) step\<close>: the last result of \<^verbatim>\<open>read\<close> (0 at the end,
  negative on an error) and the accumulated value.
\<close>

definition read_all :: "route \<Rightarrow> string \<Rightarrow> int \<Rightarrow> nat \<Rightarrow> (bytes \<Rightarrow> 'a \<Rightarrow> 'a) \<Rightarrow> 'a \<Rightarrow> (int \<times> 'a) prog" where
  "read_all route name fd n step acc = State (read_loop route name fd n step acc)"

text \<open>
  Whatever short reads the schedule forces, the loop has folded exactly the bytes it consumed, and
  when it ends with 0 it has consumed them all.
\<close>

definition byte_fold :: "(bytes \<Rightarrow> 'a \<Rightarrow> 'a) \<Rightarrow> bool" where
  "byte_fold step \<longleftrightarrow> (\<forall>acc. step [] acc = acc) \<and> (\<forall>a b acc. step (a @ b) acc = step b (step a acc))"

lemma read_loop_folds:
  assumes "read_loop route name fd n step acc s = ((k, r), t)" "byte_fold step" "0 < n"
  shows "(k = 0 \<or> k = - 1) \<and> (\<exists>used. unread fd s = used @ unread fd t \<and> r = step used acc) \<and>
    (k = 0 \<longrightarrow> unread fd t = [])"
  using assms
proof (induction route name fd n step acc s arbitrary: k r t rule: read_loop.induct)
  case (1 route name fd n step acc s)
  obtain k' b u where rd: "run_state (read_as route name fd n) s = ((k', b), u)"
    by (metis prod.collapse)
  note c = read_as_cases [OF rd]
  show ?case
  proof (cases "k' \<le> 0")
    case True
    then have "k = k'" "r = acc" "t = u" using "1.prems"(1) rd by (subst (asm) read_loop.simps, simp)+
    moreover have "step [] acc = acc" using "1.prems"(2) by (simp add: byte_fold_def)
    ultimately show ?thesis using c True "1.prems"(3) by auto
  next
    case False
    then have b: "unread fd s = b @ unread fd u" using c by auto
    have "read_loop route name fd n step (step b acc) u = ((k, r), t)"
      using "1.prems"(1) rd False by (subst (asm) read_loop.simps) simp
    from "1.IH" [OF rd [symmetric] refl False this "1.prems"(2,3)]
    obtain used where "k = 0 \<or> k = - 1" "unread fd u = used @ unread fd t" "r = step used (step b acc)"
      "k = 0 \<longrightarrow> unread fd t = []" by blast
    then show ?thesis using b "1.prems"(2)
      by (auto simp: byte_fold_def intro!: exI [of _ "b @ used"])
  qed
qed

section \<open>Buffered reading\<close>

text \<open>
  \<^verbatim>\<open>fread(buf, 1, want, f)\<close>: reads until \<open>want\<close> bytes have arrived, or the file ends, or a
  read fails.  The result is the bytes, the end-of-file flag and the error flag.
\<close>

function fread_loop :: "int \<Rightarrow> nat \<Rightarrow> bytes \<Rightarrow> os \<Rightarrow> (bytes \<times> bool \<times> bool) \<times> os" where
  "fread_loop fd want got s =
     (if want = 0 then ((got, False, False), s)
      else (case run_state (read_as Libc ''fread'' fd want) s of
              ((k, b), t) \<Rightarrow>
                if k \<le> 0 then ((got, k = 0, k < 0), t)
                else fread_loop fd (want - nat k) (got @ b) t))"
  by pat_completeness auto
termination
  by (relation "measure (\<lambda>(fd, want, got, s). want)") auto

declare fread_loop.simps [simp del]

lemma fread_loop_unread:
  assumes "fread_loop fd want got s = ((b, eof, err), t)"
  shows "\<exists>new. b = got @ new \<and> unread fd s = new @ unread fd t \<and> (eof \<longrightarrow> unread fd t = []) \<and>
    (new = [] \<longrightarrow> want = 0 \<or> eof \<or> err)"
  using assms
proof (induction fd want got s arbitrary: b eof err t rule: fread_loop.induct)
  case (1 fd want got s)
  show ?case
  proof (cases "want = 0")
    case True
    then show ?thesis using "1.prems" by (subst (asm) fread_loop.simps) simp
  next
    case False
    obtain k c u where rd: "run_state (read_as Libc ''fread'' fd want) s = ((k, c), u)"
      by (metis prod.collapse)
    note rc = read_as_cases [OF rd]
    show ?thesis
    proof (cases "k \<le> 0")
      case True
      then have "b = got" "eof = (k = 0)" "err = (k < 0)" "t = u"
        using "1.prems" False rd by (subst (asm) fread_loop.simps, simp)+
      then show ?thesis using rc True False by auto
    next
      case pos: False
      have next_loop: "fread_loop fd (want - nat k) (got @ c) u = ((b, eof, err), t)"
        using "1.prems" False rd pos by (subst (asm) fread_loop.simps) simp
      obtain new where "b = (got @ c) @ new" "unread fd u = new @ unread fd t" "eof \<longrightarrow> unread fd t = []"
        using "1.IH" [OF False rd [symmetric] refl pos next_loop] by blast
      moreover have "unread fd s = c @ unread fd u" "c \<noteq> []" using rc pos by auto
      ultimately show ?thesis by (intro exI [of _ "c @ new"]) auto
    qed
  qed
qed

text \<open>
  \<^verbatim>\<open>while ((n = fread(buf, 1, size, f)) > 0) step\<close>: the accumulated value and whether the error
  flag was ever set.  Once the end of the file has been seen, \<^verbatim>\<open>fread\<close> returns 0.
\<close>

function fread_all :: "int \<Rightarrow> nat \<Rightarrow> (bytes \<Rightarrow> 'a \<Rightarrow> 'a) \<Rightarrow> 'a \<Rightarrow> bool \<Rightarrow> os \<Rightarrow> ('a \<times> bool) \<times> os" where
  "fread_all fd blk step acc ferr s =
     (case fread_loop fd blk [] s of
        ((b, eof, err), t) \<Rightarrow>
          if b = [] then ((acc, ferr \<or> err), t)
          else if eof then ((step b acc, ferr \<or> err), t)
          else fread_all fd blk step (step b acc) (ferr \<or> err) t)"
  by pat_completeness auto
termination
proof (relation "measure (\<lambda>(fd, blk, step, acc, ferr, s). length (unread fd s))", goal_cases)
  case 1
  show ?case by simp
next
  case (2 fd blk step acc ferr s p t b q eof err)
  then have "fread_loop fd blk [] s = ((b, eof, err), t)" "b \<noteq> []" by simp_all
  with fread_loop_unread [OF this(1)] show ?case by auto
qed

declare fread_all.simps [simp del]

section \<open>Frames\<close>

text \<open>
  What a program leaves alone.  A frame is a reflexive and transitive relation between the states
  before and after; a program honours it when every run does.  The contract of a call: it appends
  its event, may take a fault and set \<open>errno\<close>, and its body touches none of the fields \<open>kept\<close>
  compares.
\<close>

definition honours :: "(os \<Rightarrow> os \<Rightarrow> bool) \<Rightarrow> 'a prog \<Rightarrow> bool" where
  "honours R m \<longleftrightarrow> (\<forall>s a t. run_state m s = (a, t) \<longrightarrow> R s t)"

definition kept :: "os \<Rightarrow> os \<Rightarrow> bool" where
  "kept s t \<longleftrightarrow> os_trace t = os_trace s \<and> os_faults t = os_faults s \<and> os_incoming t = os_incoming s \<and>
     os_stdout t = os_stdout s \<and> os_environ t = os_environ s"

lemma honoursI: "(\<And>s a t. run_state m s = (a, t) \<Longrightarrow> R s t) \<Longrightarrow> honours R m"
  by (auto simp: honours_def)

lemma honoursD: "honours R m \<Longrightarrow> run_state m s = (a, t) \<Longrightarrow> R s t"
  by (auto simp: honours_def)

locale call_frame =
  fixes R :: "os \<Rightarrow> os \<Rightarrow> bool"
    and allowed :: "event \<Rightarrow> bool"
  assumes R_refl: "R s s"
    and R_trans: "R s t \<Longrightarrow> R t u \<Longrightarrow> R s u"
    and R_event: "allowed e \<Longrightarrow> R s (s\<lparr>os_trace := os_trace s @ [e]\<rparr>)"
    and R_fault: "R s (s\<lparr>os_faults := tl (os_faults s)\<rparr>)"
    and R_kept: "kept s t \<Longrightarrow> R s t"
begin

lemma resp_ret: "honours R (ret x)"
  by (rule honoursI) (auto intro: R_refl)

lemma resp_bind:
  assumes "honours R m" "\<And>x. honours R (f x)"
  shows "honours R (State_Monad.bind m f)"
proof (rule honoursI)
  fix s a t assume "run_state (State_Monad.bind m f) s = (a, t)"
  then obtain x u where "run_state m s = (x, u)" "run_state (f x) u = (a, t)"
    by (cases "run_state m s") auto
  then show "R s t" using honoursD [OF assms(1)] honoursD [OF assms(2)] R_trans by blast
qed

lemma resp_cases:
  "honours R m \<Longrightarrow> honours R n \<Longrightarrow> honours R (if b then m else n)"
  "(\<And>x y. honours R (f x y)) \<Longrightarrow> honours R (case p of (x, y) \<Rightarrow> f x y)"
  "(\<And>x. honours R (g x)) \<Longrightarrow> honours R (let x = v in g x)"
  "honours R m \<Longrightarrow> (\<And>x. honours R (h x)) \<Longrightarrow> honours R (case opt of None \<Rightarrow> m | Some x \<Rightarrow> h x)"
  by (cases p; cases opt; simp)+

lemma resp_sys:
  assumes "allowed (Ev route name path)" "\<And>lim s a t. body lim s = Inr (a, t) \<Longrightarrow> kept s t"
  shows "honours R (sys route name path bad body)"
proof (rule honoursI)
  fix s a t assume r: "run_state (sys route name path bad body) s = (a, t)"
  let ?s = "s\<lparr>os_trace := os_trace s @ [Ev route name path]\<rparr>"
  obtain f u where pf: "pop_fault ?s = (f, u)" by (cases "pop_fault ?s") auto
  have "R s u" using R_trans [OF R_event [OF assms(1)] R_fault] pop_fault_cases [OF pf] by simp
  moreover have "kept u t"
    using r pf assms(2) [of "fault_limit f" u]
    by (cases f; cases "body (fault_limit f) u") (auto simp: sys_def kept_def)
  ultimately show "R s t" using R_trans R_kept by blast
qed

lemma resp_view: "honours R (State (\<lambda>s. (f s, s)))"
  by (rule honoursI) (auto intro: R_refl)

lemma resp_stderr: "honours R (perror msg)" "honours R (eprintf msg)" "honours R (eprint_errno msg e)"
  by (rule honoursI; auto simp: perror_def eprintf_def eprint_errno_def kept_def intro!: R_kept)+

lemma resp_views: "honours R c_errno" "honours R c_environ" "honours R c_getpid"
  by (simp_all add: c_errno_def c_environ_def c_getpid_def resp_view)

end

subsection \<open>The bodies of the calls touch none of the kept fields\<close>

lemma kept_set_ofd [simp]: "kept s (set_ofd i d t) = kept s t"
  by (simp add: set_ofd_def kept_def)

lemma take_body_kept: "take_body fd n s = Inr (b, t) \<Longrightarrow> kept s t"
  by (auto simp: take_body_def Let_def split: option.splits if_splits fobj.splits) (simp_all add: kept_def)

lemma put_body_kept: "put_body fd b s = Inr (k, t) \<Longrightarrow> kept s t"
  by (auto simp: put_body_def Let_def split: option.splits if_splits fobj.splits) (simp_all add: kept_def)

lemma move_body_kept: "move_body i j n s = Inr (k, t) \<Longrightarrow> kept s t"
  by (auto simp: move_body_def res_bind_eq_Inl dest!: take_body_kept put_body_kept) (simp add: kept_def)

lemma install_id_kept: "install_id from i s = (k, t) \<Longrightarrow> kept s t"
  by (auto simp: install_id_def Let_def kept_def)

lemma install_kept: "install ob rd wr s = (k, t) \<Longrightarrow> kept s t"
  by (auto simp: install_def install_id_def Let_def kept_def)

lemma open_body_kept: "open_body q flags s = Inr (k, t) \<Longrightarrow> kept s t"
  by (auto simp: open_body_def Let_def dest!: install_kept split: if_splits option.splits node.splits)
    (auto simp: kept_def)

lemma with_len_kept: "with_len (take_body fd n s) = Inr (a, t) \<Longrightarrow> kept s t"
  by (auto simp: with_len_def map_sum_def dest: take_body_kept split: sum.splits)

lemma stat_body_kept: "stat_body q s = Inr (a, t) \<Longrightarrow> kept s t"
  by (auto simp: stat_body_def kept_def split: if_splits option.splits)

context call_frame
begin

lemma resp_read: "allowed (Ev route name []) \<Longrightarrow> honours R (read_as route name fd n)"
  unfolding read_as_def by (rule resp_sys) (auto dest: with_len_kept)

lemma resp_write: "allowed (Ev route name []) \<Longrightarrow> honours R (write_as route name fd b)"
  unfolding write_as_def by (rule resp_sys) (auto dest: put_body_kept)

lemma resp_move: "allowed (Ev route name []) \<Longrightarrow> honours R (move_as route name i j n)"
  unfolding move_as_def by (rule resp_sys) (auto dest: move_body_kept)

lemma resp_close: "allowed (Ev route ''close'' []) \<Longrightarrow> honours R (close_as route fd)"
  unfolding close_as_def by (rule resp_sys) (auto simp: kept_def split: if_splits)

lemma resp_open_as: "allowed (Ev route name (case p of None \<Rightarrow> [] | Some q \<Rightarrow> q)) \<Longrightarrow> honours R (open_as route name p flags)"
  unfolding open_as_def by (rule resp_sys) (auto dest: open_body_kept split: option.splits)

lemma resp_open: "allowed (Ev Libc ''open'' p) \<Longrightarrow> honours R (c_open p flags)"
  unfolding c_open_def by (rule resp_open_as) simp

lemma resp_call: "allowed (Ev route name []) \<Longrightarrow> honours R (c_call route name)"
  unfolding c_call_def by (rule resp_sys) (auto simp: kept_def)

lemma resp_ficlone: "allowed (Ev Libc ''ioctl'' []) \<Longrightarrow> honours R (c_ficlone i j)"
  unfolding c_ficlone_def
  by (rule resp_sys) (auto simp: kept_def split: option.splits if_splits fobj.splits)

lemma resp_pipe: "allowed (Ev Libc ''pipe'' []) \<Longrightarrow> honours R c_pipe"
  unfolding c_pipe_def
  by (rule resp_sys) (auto simp: Let_def kept_def dest!: install_kept split: prod.splits)

lemma resp_read_all:
  assumes "allowed (Ev route name [])"
  shows "honours R (read_all route name fd n step acc)"
proof (rule honoursI)
  fix s x t
  assume "run_state (read_all route name fd n step acc) s = (x, t)"
  then have "read_loop route name fd n step acc s = (x, t)" by (simp add: read_all_def)
  then show "R s t" using assms
  proof (induction route name fd n step acc s arbitrary: x t rule: read_loop.induct)
    case (1 route name fd n step acc s)
    obtain k b u where rd: "run_state (read_as route name fd n) s = ((k, b), u)" by (metis prod.collapse)
    have su: "R s u" by (rule honoursD [OF resp_read [OF "1.prems"(2)] rd])
    show ?case
    proof (cases "k \<le> 0")
      case True
      then show ?thesis using "1.prems"(1) rd su read_loop.simps [of route name fd n step acc s] by auto
    next
      case False
      then have "read_loop route name fd n step (step b acc) u = (x, t)"
        using "1.prems"(1) rd read_loop.simps [of route name fd n step acc s] by simp
      from "1.IH" [OF rd [symmetric] refl False this "1.prems"(2)] su show ?thesis using R_trans by blast
    qed
  qed
qed

lemma resp_dprintf:
  assumes "allowed (Ev Libc name [])"
  shows "honours R (State (dprintf_loop name fd b))"
proof (rule honoursI)
  fix s x t
  assume "run_state (State (dprintf_loop name fd b)) s = (x, t)"
  then have "dprintf_loop name fd b s = (x, t)" by simp
  then show "R s t" using assms
  proof (induction name fd b s arbitrary: x t rule: dprintf_loop.induct)
    case (1 name fd b s)
    obtain k u where w: "run_state (write_as Libc name fd b) s = (k, u)" by (metis prod.collapse)
    have su: "R s u" by (rule honoursD [OF resp_write [OF "1.prems"(2)] w])
    show ?case
    proof (cases "b = [] \<or> k \<le> 0")
      case True
      then show ?thesis
        using "1.prems"(1) w su R_refl dprintf_loop.simps [of name fd b s] by (cases "b = []") auto
    next
      case False
      then have "dprintf_loop name fd (drop (nat k) b) u = (x, t)"
        using "1.prems"(1) w dprintf_loop.simps [of name fd b s] by simp
      from "1.IH" [OF _ w [symmetric] _ this "1.prems"(2)] False su show ?thesis using R_trans by blast
    qed
  qed
qed

lemmas resp_calls = resp_ret resp_bind resp_cases resp_read resp_write resp_move resp_close resp_open_as
  resp_open resp_call resp_ficlone resp_pipe resp_read_all resp_dprintf resp_stderr resp_views

end

text \<open>Three frames: peers and faults, the calls traced, standard output.\<close>

definition steady_rel :: "os \<Rightarrow> os \<Rightarrow> bool" where
  "steady_rel s t \<longleftrightarrow> os_incoming t = os_incoming s \<and> length (os_faults t) \<le> length (os_faults s)"

definition only :: "(event \<Rightarrow> bool) \<Rightarrow> os \<Rightarrow> os \<Rightarrow> bool" where
  "only Q s t \<longleftrightarrow> (\<exists>evs. os_trace t = os_trace s @ evs \<and> (\<forall>e \<in> set evs. Q e))"

definition same_stdout :: "os \<Rightarrow> os \<Rightarrow> bool" where
  "same_stdout s t \<longleftrightarrow> os_stdout t = os_stdout s"

interpretation steady: call_frame steady_rel "\<lambda>_. True"
  by unfold_locales (auto simp: steady_rel_def kept_def)

interpretation traced: call_frame "only Q" Q for Q
proof unfold_locales
  fix s t u :: os
  assume "only Q s t" "only Q t u"
  then obtain xs ys where "os_trace t = os_trace s @ xs" "\<forall>e \<in> set xs. Q e"
    "os_trace u = os_trace t @ ys" "\<forall>e \<in> set ys. Q e"
    by (auto simp: only_def)
  then show "only Q s u" unfolding only_def by (intro exI [of _ "xs @ ys"]) auto
qed (auto simp: only_def kept_def)

interpretation quiet: call_frame same_stdout "\<lambda>_. True"
  by unfold_locales (auto simp: same_stdout_def kept_def)

end
