(* ===== verification/Linux_Probes.thy ===== *)
theory Linux_Probes
  imports Posix
begin

text \<open>
  The Linux probe programs of \<^verbatim>\<open>research/adversarial-2026-06-linux-round3\<close>: copies and clones,
  raw system calls, identity and kill.  Each \<^verbatim>\<open>main\<close> is one definition, a function of the argument
  vector; the programs a probe executes are a parameter.
\<close>

unbundle bit_operations_syntax

definition usage :: "string list \<Rightarrow> string \<Rightarrow> outcome prog" where
  "usage argv text = do {
     eprintf (''usage: '' @ (if argv = [] then ''(null)'' else argv ! 0) @ text);
     ret (Exit 2)
   }"

definition fail :: "string \<Rightarrow> outcome prog" where
  "fail msg = do { perror msg; ret (Exit 1) }"

definition byte_sum :: "bytes \<Rightarrow> u64 \<Rightarrow> u64" where
  "byte_sum bs acc = fold (\<lambda>b r. r + ucast b) bs acc"

section \<open>copy_clone/probes\<close>

definition copy_clone_baseline_read :: "string list \<Rightarrow> outcome prog" where
  "copy_clone_baseline_read argv =
    (if length argv \<noteq> 3 then usage argv '' <src> <out>''
     else do {
       inp \<leftarrow> c_open (argv ! 1) [O_RDONLY];
       if inp < 0 then fail ''open src''
       else do {
         out \<leftarrow> c_open (argv ! 2) [O_WRONLY, O_CREAT, O_TRUNC];
         if out < 0 then fail ''open out''
         else do {
           (n, buf) \<leftarrow> c_read inp 4096;
           if n < 0 then fail ''read''
           else do {
             w \<leftarrow> c_write out buf;
             if w \<noteq> n then fail ''write'' else ret (Exit 0)
           }
         }
       }
     })"

definition copy_file_range_libc :: "string list \<Rightarrow> outcome prog" where
  "copy_file_range_libc argv =
    (if length argv \<noteq> 3 then usage argv '' <src> <out>''
     else do {
       inp \<leftarrow> c_open (argv ! 1) [O_RDONLY];
       if inp < 0 then fail ''open src''
       else do {
         out \<leftarrow> c_open (argv ! 2) [O_WRONLY, O_CREAT, O_TRUNC];
         if out < 0 then fail ''open out''
         else do {
           n \<leftarrow> move_as Libc ''copy_file_range'' inp out (2 ^ 20);
           if n < 0 then fail ''copy_file_range''
           else ret (Exit (if n > 0 then 0 else 3))
         }
       }
     })"

definition xopenat :: "string \<Rightarrow> oflag list \<Rightarrow> int prog" where
  "xopenat path flags = open_as Raw ''openat'' (Some path) flags"

definition xcopy_file_range :: "int \<Rightarrow> int \<Rightarrow> nat \<Rightarrow> int prog" where
  "xcopy_file_range in_fd out_fd len = move_as Raw ''copy_file_range'' in_fd out_fd len"

definition copy_file_range_raw :: "string list \<Rightarrow> outcome prog" where
  "copy_file_range_raw argv =
    (if length argv \<noteq> 3 then usage argv '' <src> <out>''
     else do {
       inp \<leftarrow> xopenat (argv ! 1) [O_RDONLY];
       if inp < 0 then fail ''raw open src''
       else do {
         out \<leftarrow> xopenat (argv ! 2) [O_WRONLY, O_CREAT, O_TRUNC];
         if out < 0 then fail ''raw open out''
         else do {
           n \<leftarrow> xcopy_file_range inp out (2 ^ 20);
           if n < 0 then fail ''copy_file_range''
           else ret (Exit (if n > 0 then 0 else 3))
         }
       }
     })"

definition ficlone_raw :: "string list \<Rightarrow> outcome prog" where
  "ficlone_raw argv =
    (if length argv \<noteq> 3 then usage argv '' <src> <out>''
     else do {
       inp \<leftarrow> xopenat (argv ! 1) [O_RDONLY];
       if inp < 0 then fail ''raw open src''
       else do {
         out \<leftarrow> xopenat (argv ! 2) [O_WRONLY, O_CREAT, O_TRUNC];
         if out < 0 then fail ''raw open out''
         else do {
           rc \<leftarrow> c_ficlone out inp;
           if rc \<noteq> 0 then fail ''FICLONE'' else ret (Exit 0)
         }
       }
     })"

definition hardlink_read_alias :: "string list \<Rightarrow> outcome prog" where
  "hardlink_read_alias argv =
    (if length argv \<noteq> 4 then usage argv '' <src> <alias> <out>''
     else do {
       rc \<leftarrow> c_linkat (argv ! 1) (argv ! 2);
       if rc \<noteq> 0 then fail ''linkat''
       else do {
         inp \<leftarrow> c_open (argv ! 2) [O_RDONLY];
         if inp < 0 then fail ''open alias''
         else do {
           out \<leftarrow> c_open (argv ! 3) [O_WRONLY, O_CREAT, O_TRUNC];
           if out < 0 then fail ''open out''
           else do {
             (n, buf) \<leftarrow> c_read inp 4096;
             if n < 0 then fail ''read alias''
             else do {
               w \<leftarrow> c_write out buf;
               if w \<noteq> n then fail ''write out'' else ret (Exit 0)
             }
           }
         }
       }
     })"

definition rename_staging_alias :: "string list \<Rightarrow> outcome prog" where
  "rename_staging_alias argv =
    (if length argv \<noteq> 4 then usage argv '' <src> <stage> <final>''
     else do {
       rc \<leftarrow> c_linkat (argv ! 1) (argv ! 2);
       if rc \<noteq> 0 then fail ''linkat stage''
       else do {
         rc \<leftarrow> c_rename (argv ! 2) (argv ! 3);
         if rc \<noteq> 0 then fail ''rename final'' else ret (Exit 0)
       }
     })"

definition xsendfile :: "int \<Rightarrow> int \<Rightarrow> nat \<Rightarrow> int prog" where
  "xsendfile out_fd in_fd len = move_as Raw ''sendfile'' in_fd out_fd len"

definition sendfile_raw :: "string list \<Rightarrow> outcome prog" where
  "sendfile_raw argv =
    (if length argv \<noteq> 3 then usage argv '' <src> <out>''
     else do {
       inp \<leftarrow> xopenat (argv ! 1) [O_RDONLY];
       if inp < 0 then fail ''raw open src''
       else do {
         out \<leftarrow> xopenat (argv ! 2) [O_WRONLY, O_CREAT, O_TRUNC];
         if out < 0 then fail ''raw open out''
         else do {
           n \<leftarrow> xsendfile out inp (2 ^ 20);
           if n < 0 then fail ''sendfile''
           else ret (Exit (if n > 0 then 0 else 3))
         }
       }
     })"

definition xsplice :: "int \<Rightarrow> int \<Rightarrow> nat \<Rightarrow> int prog" where
  "xsplice in_fd out_fd len = do {
     (rc, r, w) \<leftarrow> c_pipe;
     if rc \<noteq> 0 then ret (- 1)
     else do {
       n \<leftarrow> move_as Raw ''splice'' in_fd w len;
       n \<leftarrow> (if n > 0
             then do {
               m \<leftarrow> move_as Raw ''splice'' r out_fd (nat n);
               ret (if m < 0 then - 1 else m)
             }
             else ret n);
       _ \<leftarrow> c_close r;
       _ \<leftarrow> c_close w;
       ret n
     }
   }"

definition splice_raw :: "string list \<Rightarrow> outcome prog" where
  "splice_raw argv =
    (if length argv \<noteq> 3 then usage argv '' <src> <out>''
     else do {
       inp \<leftarrow> xopenat (argv ! 1) [O_RDONLY];
       if inp < 0 then fail ''raw open src''
       else do {
         out \<leftarrow> xopenat (argv ! 2) [O_WRONLY, O_CREAT, O_TRUNC];
         if out < 0 then fail ''raw open out''
         else do {
           n \<leftarrow> xsplice inp out (2 ^ 20);
           if n < 0 then fail ''splice''
           else ret (Exit (if n > 0 then 0 else 3))
         }
       }
     })"

section \<open>raw_syscalls\<close>

definition print_sum :: "string \<Rightarrow> u64 \<Rightarrow> outcome prog" where
  "print_sum name sm = do {
     printf (name @ '' sum='' @ nat_text (unat sm) @ [CHR 0x0A]);
     ret (Exit 0)
   }"

definition baseline_fopen :: "string list \<Rightarrow> outcome prog" where
  "baseline_fopen argv =
    (if length argv \<noteq> 2 then usage argv '' MARKER''
     else do {
       f \<leftarrow> open_as Libc ''fopen'' (Some (argv ! 1)) [O_RDONLY];
       if f < 0 then fail ''fopen''
       else do {
         (sm, ferr) \<leftarrow> State (fread_all f 4096 byte_sum 0 False);
         if ferr
         then do { perror ''fread''; _ \<leftarrow> c_close f; ret (Exit 1) }
         else do { _ \<leftarrow> c_close f; print_sum ''baseline_fopen'' sm }
       }
     })"

definition baseline_open_read :: "string list \<Rightarrow> outcome prog" where
  "baseline_open_read argv =
    (if length argv \<noteq> 2 then usage argv '' MARKER''
     else do {
       fd \<leftarrow> c_open (argv ! 1) [O_RDONLY, O_CLOEXEC];
       if fd < 0 then fail ''open''
       else do {
         (n, sm) \<leftarrow> read_all Libc ''read'' fd 4096 byte_sum 0;
         if n < 0
         then do { perror ''read''; _ \<leftarrow> c_close fd; ret (Exit 1) }
         else do { _ \<leftarrow> c_close fd; print_sum ''baseline_open_read'' sm }
       }
     })"

text \<open>
  The ring probe.  Its first argument says whether the build found the liburing headers.  A
  submitted operation takes effect at submission; its result is read after the wait.
\<close>

definition io_uring_probe :: "bool \<Rightarrow> string list \<Rightarrow> outcome prog" where
  "io_uring_probe have_liburing argv =
    (if length argv \<noteq> 2 then usage argv '' MARKER''
     else if \<not> have_liburing
     then do { eprintf ''liburing headers unavailable; skipping io_uring probe''; ret (Exit 77) }
     else do {
       rc \<leftarrow> c_call Ring ''io_uring_queue_init'';
       if rc < 0 then do { perror ''io_uring_queue_init''; ret (Exit 77) }
       else do {
         rc \<leftarrow> c_call Ring ''io_uring_submit'';
         if rc < 0
         then do { perror ''io_uring_submit openat''; _ \<leftarrow> c_call Ring ''io_uring_queue_exit''; ret (Exit 77) }
         else do {
           fd \<leftarrow> open_as Ring ''openat'' (Some (argv ! 1)) [O_RDONLY, O_CLOEXEC];
           openErr \<leftarrow> c_errno;
           rc \<leftarrow> c_call Ring ''io_uring_wait_cqe'';
           if rc < 0
           then do { perror ''io_uring_wait_cqe openat''; _ \<leftarrow> c_call Ring ''io_uring_queue_exit''; ret (Exit 77) }
           else if fd < 0
           then do { eprint_errno ''io_uring openat result'' openErr;
                     _ \<leftarrow> c_call Ring ''io_uring_queue_exit''; ret (Exit 1) }
           else do {
             rc \<leftarrow> c_call Ring ''io_uring_submit'';
             if rc < 0
             then do { perror ''io_uring_submit read''; _ \<leftarrow> c_close fd;
                       _ \<leftarrow> c_call Ring ''io_uring_queue_exit''; ret (Exit 77) }
             else do {
               (n, buf) \<leftarrow> read_as Ring ''read'' fd 4096;
               readErr \<leftarrow> c_errno;
               rc \<leftarrow> c_call Ring ''io_uring_wait_cqe'';
               if rc < 0
               then do { perror ''io_uring_wait_cqe read''; _ \<leftarrow> c_close fd;
                         _ \<leftarrow> c_call Ring ''io_uring_queue_exit''; ret (Exit 77) }
               else do {
                 _ \<leftarrow> c_close fd;
                 _ \<leftarrow> c_call Ring ''io_uring_queue_exit'';
                 if n < 0 then do { eprint_errno ''io_uring read result'' readErr; ret (Exit 1) }
                 else do {
                   printf (''io_uring_probe bytes='' @ int_text n @ '' sum='' @
                     nat_text (unat (byte_sum buf 0)) @ [CHR 0x0A]);
                   ret (Exit 0)
                 }
               }
             }
           }
         }
       }
     })"

definition raw_openat2_read :: "string list \<Rightarrow> outcome prog" where
  "raw_openat2_read argv =
    (if length argv \<noteq> 2 then usage argv '' MARKER''
     else do {
       fd \<leftarrow> open_as Raw ''openat2'' (Some (argv ! 1)) [O_RDONLY, O_CLOEXEC];
       if fd < 0
       then do {
         e \<leftarrow> c_errno;
         if e = ENOSYS
         then do { eprintf ''openat2 unavailable on this kernel''; ret (Exit 77) }
         else fail ''syscall(SYS_openat2)''
       }
       else do {
         (n, sm) \<leftarrow> read_all Libc ''read'' fd 4096 byte_sum 0;
         if n < 0
         then do { perror ''read''; _ \<leftarrow> c_close fd; ret (Exit 1) }
         else do { _ \<leftarrow> c_close fd; print_sum ''raw_openat2_read'' sm }
       }
     })"

definition raw_openat_read :: "string list \<Rightarrow> outcome prog" where
  "raw_openat_read argv =
    (if length argv \<noteq> 2 then usage argv '' MARKER''
     else do {
       fd \<leftarrow> open_as Raw ''openat'' (Some (argv ! 1)) [O_RDONLY, O_CLOEXEC];
       if fd < 0 then fail ''syscall(SYS_openat)''
       else do {
         (n, sm) \<leftarrow> read_all Raw ''read'' fd 4096 byte_sum 0;
         if n < 0
         then do { perror ''syscall(SYS_read)''; _ \<leftarrow> close_as Raw fd; ret (Exit 1) }
         else do { _ \<leftarrow> close_as Raw fd; print_sum ''raw_openat_read'' sm }
       }
     })"

text \<open>The modification time \<^verbatim>\<open>statx\<close> reports with the size.\<close>

definition statx :: "string \<Rightarrow> (int \<times> nat \<times> int \<times> nat) prog" where
  "statx p = sys Raw ''statx'' p (- 1, 0, 0, 0) (\<lambda>_ s.
     case stat_body (resolve s p) s of
       Inl e \<Rightarrow> Inl e
     | Inr ((rc, sz), s) \<Rightarrow>
         Inr ((rc, sz, case os_dir s (resolve s p) of Some (NFile i) \<Rightarrow> os_mtime s i | _ \<Rightarrow> (0, 0)), s))"

definition raw_statx_probe :: "string list \<Rightarrow> outcome prog" where
  "raw_statx_probe argv =
    (if length argv \<noteq> 2 then usage argv '' MARKER''
     else do {
       (rc, stx_size, stx_mtime) \<leftarrow> statx (argv ! 1);
       if rc \<noteq> 0
       then do {
         e \<leftarrow> c_errno;
         if e = ENOSYS
         then do { eprintf ''statx unavailable on this kernel''; ret (Exit 77) }
         else fail ''syscall(SYS_statx)''
       }
       else do {
         printf (''raw_statx size='' @ nat_text stx_size @ '' mtime='' @ int_text (fst stx_mtime) @
           ''.'' @ nat_text (snd stx_mtime) @ [CHR 0x0A]);
         ret (Exit 0)
       }
     })"

section \<open>identity_kill\<close>

definition identity_baseline_read :: "string list \<Rightarrow> outcome prog" where
  "identity_baseline_read argv =
    (if length argv \<noteq> 2 then usage argv '' marker''
     else do {
       fd \<leftarrow> c_open (argv ! 1) [O_RDONLY];
       if fd < 0 then fail ''open''
       else do {
         (n, buf) \<leftarrow> c_read fd 64;
         if n < 0 then fail ''read''
         else do { _ \<leftarrow> c_close fd; ret (Exit 0) }
       }
     })"

definition kill_after_read :: "string list \<Rightarrow> outcome prog" where
  "kill_after_read argv =
    (if length argv \<noteq> 2 then usage argv '' marker''
     else do {
       fd \<leftarrow> c_open (argv ! 1) [O_RDONLY];
       if fd < 0 then fail ''open''
       else do {
         (n, buf) \<leftarrow> c_read fd 64;
         if n < 0 then fail ''read''
         else do {
           _ \<leftarrow> fd_call ''fsync'' 2;
           _ \<leftarrow> c_getpid;
           killed \<leftarrow> c_kill_self;
           ret (if killed then Signalled 9 else Exit 99)
         }
       }
     })"

definition ld_preload_prefix :: string where
  "ld_preload_prefix = ''LD_PRELOAD=''"

text \<open>\<open>None\<close> when the allocation fails; the two passes over \<^verbatim>\<open>environ\<close> keep the same entries.\<close>

definition env_without_ld_preload :: "string list option prog" where
  "env_without_ld_preload = do {
     environ \<leftarrow> c_environ;
     ok \<leftarrow> c_call Libc ''calloc'';
     ret (if ok < 0 then None else Some (filter (\<lambda>e. take 11 e \<noteq> ld_preload_prefix) environ))
   }"

definition raw_exec_unpreloaded :: "programs \<Rightarrow> string list \<Rightarrow> outcome prog" where
  "raw_exec_unpreloaded progs argv =
    (if length argv \<noteq> 3 then usage argv '' child-reader marker''
     else do {
       child_env \<leftarrow> env_without_ld_preload;
       case child_env of
         None \<Rightarrow> fail ''calloc''
       | Some env \<Rightarrow> do {
           r \<leftarrow> exec_as Raw ''execve'' progs (argv ! 1) [argv ! 1, argv ! 2] env;
           case r of
             Some out \<Rightarrow> ret out
           | None \<Rightarrow> fail ''raw execve failed''
         }
     })"

definition raw_syscall_read :: "string list \<Rightarrow> outcome prog" where
  "raw_syscall_read argv =
    (if length argv \<noteq> 2 then usage argv '' marker''
     else do {
       fd \<leftarrow> open_as Raw ''openat'' (Some (argv ! 1)) [O_RDONLY];
       if fd < 0 then fail ''syscall openat''
       else do {
         (n, buf) \<leftarrow> read_as Raw ''read'' fd 64;
         if n < 0 then fail ''syscall read''
         else do { _ \<leftarrow> close_as Raw fd; ret (Exit 0) }
       }
     })"

text \<open>\<^verbatim>\<open>sun_path\<close> holds 108 bytes, the last one the terminator.\<close>

definition sun_path :: "string \<Rightarrow> string" where
  "sun_path p = take 107 p"

definition socket_client :: "string list \<Rightarrow> outcome prog" where
  "socket_client argv =
    (if length argv \<noteq> 2 then usage argv '' socket-path''
     else do {
       fd \<leftarrow> c_socket;
       if fd < 0 then fail ''socket''
       else do {
         rc \<leftarrow> c_connect fd (sun_path (argv ! 1));
         if rc \<noteq> 0 then fail ''connect''
         else do {
           w \<leftarrow> c_write fd [byte_of_char CHR ''R''];
           if w \<noteq> 1 then fail ''write''
           else do {
             (n, buf) \<leftarrow> c_read fd 64;
             if n \<le> 0 then fail ''read reply''
             else do { _ \<leftarrow> c_close fd; ret (Exit 0) }
           }
         }
       }
     })"

definition read_marker :: "string \<Rightarrow> int prog" where
  "read_marker path = do {
     fd \<leftarrow> c_open path [O_RDONLY];
     if fd < 0 then do { perror ''daemon open marker''; ret (- 1) }
     else do {
       (n, buf) \<leftarrow> c_read fd 64;
       _ \<leftarrow> c_close fd;
       ret (if n < 0 then - 1 else 0)
     }
   }"

definition socket_daemon :: "string list \<Rightarrow> outcome prog" where
  "socket_daemon argv =
    (if length argv \<noteq> 3 then usage argv '' socket-path marker''
     else do {
       _ \<leftarrow> c_call Libc ''signal'';
       _ \<leftarrow> c_unlink (argv ! 1);
       srv \<leftarrow> c_socket;
       if srv < 0 then fail ''socket''
       else do {
         rc \<leftarrow> c_bind srv (sun_path (argv ! 1));
         if rc \<noteq> 0 then fail ''bind''
         else do {
           rc \<leftarrow> fd_call ''listen'' srv;
           if rc \<noteq> 0 then fail ''listen''
           else do {
             printf (''ready'' @ [CHR 0x0A]);
             conn \<leftarrow> c_accept srv;
             case conn of
               None \<Rightarrow> ret Blocked
             | Some c \<Rightarrow>
                 if c < 0 then fail ''accept''
                 else do {
                   (n, cmd) \<leftarrow> c_read c 1;
                   if n \<noteq> 1 then fail ''read cmd''
                   else do {
                     rc \<leftarrow> read_marker (argv ! 2);
                     let ok = (rc = 0);
                     _ \<leftarrow> c_write c [byte_of_char (if ok then CHR ''Y'' else CHR ''N'')];
                     _ \<leftarrow> c_close c;
                     _ \<leftarrow> c_close srv;
                     ret (Exit (if ok then 0 else 1))
                   }
                 }
           }
         }
       }
     })"

definition spawn_unpreloaded :: "programs \<Rightarrow> string list \<Rightarrow> outcome prog" where
  "spawn_unpreloaded progs argv =
    (if length argv \<noteq> 3 then usage argv '' child-reader marker''
     else do {
       child_env \<leftarrow> env_without_ld_preload;
       case child_env of
         None \<Rightarrow> fail ''calloc''
       | Some env \<Rightarrow> do {
           r \<leftarrow> c_posix_spawn progs (argv ! 1) [argv ! 1, argv ! 2] env;
           case r of
             Inl e \<Rightarrow> do { eprint_errno ''posix_spawn failed'' e; ret (Exit 1) }
           | Inr out \<Rightarrow> do {
               w \<leftarrow> c_waitpid 1;
               if w < 0 then fail ''waitpid''
               else ret (case out of Exit c \<Rightarrow> Exit (c mod 256) | _ \<Rightarrow> Exit 1)
             }
         }
     })"

end
