(* ===== verification/Ipc_Probes.thy ===== *)
theory Ipc_Probes
  imports Linux_Probes
begin

text \<open>
  The IPC and exec probes of \<^verbatim>\<open>research/adversarial-2026-06-linux-round3/ipc_exec\<close>: readers that
  hash a file themselves, or have a daemon outside the monitored tree send it over a socket, and
  launchers that drop the preload environment.
\<close>

unbundle bit_operations_syntax

section \<open>Hashes\<close>

definition fnv1a_step :: "u64 \<Rightarrow> bytes \<Rightarrow> u64 \<Rightarrow> u64" where
  "fnv1a_step prime bs h = fold (\<lambda>b h. (h XOR ucast b) * prime) bs h"

definition djb2_step :: "bytes \<Rightarrow> u64 \<Rightarrow> u64" where
  "djb2_step bs h = fold (\<lambda>b h. (push_bit 5 h + h) + ucast b) bs h"

text \<open>The accumulator of the readers: the byte count and the hash.\<close>

definition count_and :: "(bytes \<Rightarrow> u64 \<Rightarrow> u64) \<Rightarrow> bytes \<Rightarrow> nat \<times> u64 \<Rightarrow> nat \<times> u64" where
  "count_and step bs acc = (fst acc + length bs, step bs (snd acc))"

definition print_hash :: "string \<Rightarrow> nat \<times> u64 \<Rightarrow> string \<Rightarrow> outcome prog" where
  "print_hash name acc path = do {
     printf (name @ '' bytes='' @ nat_text (fst acc) @ '' hash='' @ nat_text (unat (snd acc)) @
       '' path='' @ path @ [CHR 0x0A]);
     ret (Exit 0)
   }"

definition usage_line :: "string \<Rightarrow> outcome prog" where
  "usage_line text = do { eprintf text; ret (Exit 2) }"

section \<open>Programs\<close>

definition baseline_reader :: "string list \<Rightarrow> outcome prog" where
  "baseline_reader argv =
    (if length argv \<noteq> 2 then usage_line ''usage: baseline_reader <marker>''
     else do {
       fd \<leftarrow> c_open (argv ! 1) [O_RDONLY];
       if fd < 0 then fail ''open''
       else do {
         (n, acc) \<leftarrow> read_all Libc ''read'' fd 4096 (count_and (fnv1a_step 1099511628211)) (0, 1469598103934665603);
         if n < 0
         then do { perror ''read''; _ \<leftarrow> c_close fd; ret (Exit 1) }
         else do { _ \<leftarrow> c_close fd; print_hash ''baseline'' acc (argv ! 1) }
       }
     })"

definition scrubbed_env :: "string list" where
  "scrubbed_env = [''PATH=/usr/bin:/bin'']"

definition exec_env_scrub :: "programs \<Rightarrow> string list \<Rightarrow> outcome prog" where
  "exec_env_scrub progs argv =
    (if length argv \<noteq> 3 then usage_line ''usage: exec_env_scrub <reader> <marker>''
     else do {
       r \<leftarrow> exec_as Libc ''execve'' progs (argv ! 1) [argv ! 1, argv ! 2] scrubbed_env;
       case r of Some out \<Rightarrow> ret out | None \<Rightarrow> fail ''execve''
     })"

definition ldso_direct_exec :: "programs \<Rightarrow> string list \<Rightarrow> outcome prog" where
  "ldso_direct_exec progs argv =
    (if length argv \<noteq> 4 then usage_line ''usage: ldso_direct_exec <ld-linux> <reader> <marker>''
     else do {
       r \<leftarrow> exec_as Raw ''execve'' progs (argv ! 1) [argv ! 1, argv ! 2, argv ! 3] scrubbed_env;
       case r of
         Some out \<Rightarrow> ret out
       | None \<Rightarrow> do { perror ''syscall execve ld-linux''; ret (Exit (- 1)) }
     })"

definition raw_exec_env_scrub :: "programs \<Rightarrow> string list \<Rightarrow> outcome prog" where
  "raw_exec_env_scrub progs argv =
    (if length argv \<noteq> 3 then usage_line ''usage: raw_exec_env_scrub <reader> <marker>''
     else do {
       r \<leftarrow> exec_as Raw ''execve'' progs (argv ! 1) [argv ! 1, argv ! 2] scrubbed_env;
       case r of
         Some out \<Rightarrow> ret out
       | None \<Rightarrow> do { perror ''syscall execve''; ret (Exit (- 1)) }
     })"

text \<open>\<^verbatim>\<open>htons((uint16_t)atoi(text))\<close> as the port the address names.\<close>

definition digits_value :: "string \<Rightarrow> nat" where
  "digits_value t = fold (\<lambda>c v. 10 * v + (of_char c - 48)) t 0"

definition is_digit :: "char \<Rightarrow> bool" where
  "is_digit c \<longleftrightarrow> 48 \<le> (of_char c :: nat) \<and> (of_char c :: nat) \<le> 57"

definition atoi :: "string \<Rightarrow> int" where
  "atoi text =
     (let t = dropWhile (\<lambda>c. c \<in> {CHR '' '', CHR 0x09, CHR 0x0A, CHR 0x0B, CHR 0x0C, CHR 0x0D}) text;
          neg = (take 1 t = ''-'');
          t = (if take 1 t = ''-'' \<or> take 1 t = ''+'' then drop 1 t else t);
          v = int (digits_value (takeWhile is_digit t))
      in if neg then - v else v)"

definition loopback :: "u16 \<Rightarrow> string" where
  "loopback port = ''127.0.0.1:'' @ nat_text (unat port)"

definition tcp_client :: "string list \<Rightarrow> outcome prog" where
  "tcp_client argv =
    (if length argv \<noteq> 3 then usage_line ''usage: tcp_client <port> <marker>''
     else do {
       sk \<leftarrow> c_socket;
       if sk < 0 then fail ''socket''
       else do {
         rc \<leftarrow> c_connect sk (loopback (word_of_int (atoi (argv ! 1))));
         if rc < 0 then fail ''connect''
         else do {
           _ \<leftarrow> c_dprintf sk (argv ! 2 @ [CHR 0x0A]);
           (n, acc) \<leftarrow> read_all Libc ''read'' sk 4096 (count_and (fnv1a_step 16777619)) (0, 2166136261);
           _ \<leftarrow> c_close sk;
           print_hash ''tcp-client'' acc (argv ! 2)
         }
       }
     })"

definition unix_client :: "string list \<Rightarrow> outcome prog" where
  "unix_client argv =
    (if length argv \<noteq> 3 then usage_line ''usage: unix_client <sockpath> <marker>''
     else do {
       sk \<leftarrow> c_socket;
       if sk < 0 then fail ''socket''
       else do {
         rc \<leftarrow> c_connect sk (sun_path (argv ! 1));
         if rc < 0 then fail ''connect''
         else do {
           _ \<leftarrow> c_dprintf sk (argv ! 2 @ [CHR 0x0A]);
           (n, acc) \<leftarrow> read_all Libc ''read'' sk 4096 (count_and djb2_step) (0, 5381);
           _ \<leftarrow> c_close sk;
           print_hash ''unix-client'' acc (argv ! 2)
         }
       }
     })"

section \<open>Daemons\<close>

text \<open>
  The request line of a connection: at most \<open>n\<close> bytes up to a newline; the path is the C string
  in the buffer, which ends at the first zero byte.
\<close>

primrec read_line :: "nat \<Rightarrow> int \<Rightarrow> bytes prog" where
  "read_line 0 c = ret []"
| "read_line (Suc k) c = do {
     (r, b) \<leftarrow> c_read c 1;
     if r \<noteq> 1 then ret []
     else if b = [10] then ret []
     else do { rest \<leftarrow> read_line k c; ret (b @ rest) }
   }"

definition c_string :: "bytes \<Rightarrow> string" where
  "c_string b = map char_of_byte (takeWhile (\<lambda>x. x \<noteq> 0) b)"

text \<open>
  \<^verbatim>\<open>while ((n = read(fd, ..)) > 0) if (write(c, buf, n) < 0) break;\<close>.  Each round consumes a byte
  of \<open>fd\<close>, so the number of unread bytes bounds the rounds.
\<close>

primrec copy_loop :: "nat \<Rightarrow> int \<Rightarrow> int \<Rightarrow> unit prog" where
  "copy_loop 0 fd c = ret ()"
| "copy_loop (Suc k) fd c = do {
     (n, buf) \<leftarrow> c_read fd 4096;
     if n \<le> 0 then ret ()
     else do {
       w \<leftarrow> c_write c buf;
       if w < 0 then ret () else copy_loop k fd c
     }
   }"

definition copy_all :: "int \<Rightarrow> int \<Rightarrow> unit prog" where
  "copy_all fd c = State (\<lambda>s. run_state (copy_loop (Suc (length (unread fd s))) fd c) s)"

definition strerror :: "errno \<Rightarrow> string" where
  "strerror e =
     (case e of ENOENT \<Rightarrow> ''No such file or directory'' | EISDIR \<Rightarrow> ''Is a directory''
      | EACCES \<Rightarrow> ''Permission denied'' | EIO \<Rightarrow> ''Input/output error'' | _ \<Rightarrow> ''Unknown error'')"

definition serve_path :: "int \<Rightarrow> string \<Rightarrow> int prog" where
  "serve_path c path = do {
     fd \<leftarrow> c_open path [O_RDONLY];
     if fd < 0
     then do {
       e \<leftarrow> c_errno;
       _ \<leftarrow> c_dprintf c (''ERR '' @ strerror e @ [CHR 0x0A]);
       ret 1
     }
     else do {
       copy_all fd c;
       _ \<leftarrow> c_close fd;
       ret 0
     }
   }"

text \<open>One accepted connection: \<open>True\<close> when it asked the daemon to quit.\<close>

definition handle_connection :: "int \<Rightarrow> bool prog" where
  "handle_connection c = do {
     line \<leftarrow> read_line 4095 c;
     let path = c_string line;
     if path = ''__QUIT__''
     then do { _ \<leftarrow> c_close c; ret True }
     else do { _ \<leftarrow> serve_path c path; _ \<leftarrow> c_close c; ret False }
   }"

text \<open>The connection handler takes no peer and adds no fault.\<close>

lemma steady_read_line: "honours steady_rel (read_line n c)"
  by (induction n) (auto intro!: steady.resp_calls)

lemma steady_copy_all: "honours steady_rel (copy_all fd c)"
proof -
  have "honours steady_rel (copy_loop k fd c)" for k
    by (induction k) (auto intro!: steady.resp_calls)
  then show ?thesis unfolding copy_all_def
    by (intro honoursI) (simp only: state.sel, erule honoursD [rotated])
qed

lemma steady_handle_connection: "honours steady_rel (handle_connection c)"
  unfolding handle_connection_def serve_path_def c_dprintf_def
  by (intro steady.resp_calls steady_read_line steady_copy_all TrueI)

lemma accept_progress:
  assumes "run_state (c_accept sk) s = (Some c, t)"
  shows "os_faults t = tl (os_faults s) \<and>
    (0 \<le> c \<longrightarrow> length (os_incoming t) < length (os_incoming s)) \<and> length (os_incoming t) \<le> length (os_incoming s)"
proof -
  let ?s = "s\<lparr>os_trace := os_trace s @ [Ev Libc ''accept'' []]\<rparr>"
  obtain f u where pf: "pop_fault ?s = (f, u)" by (cases "pop_fault ?s") auto
  have u: "os_incoming u = os_incoming s" "os_faults u = tl (os_faults s)"
    using pop_fault_cases [OF pf] by simp_all
  show ?thesis
    using assms pf u
    by (cases f; auto simp: c_accept_def sys_def peer_stream_def Let_def kept_def
        dest!: install_kept split: option.splits list.splits prod.splits)
qed

text \<open>
  The accept loop.  The result is \<open>True\<close> when a peer asked to quit and \<open>False\<close> when the loop
  never ends: no further peer connects, or \<^verbatim>\<open>accept\<close> fails with no fault of the schedule to
  explain it, and so would fail for ever.
\<close>

function accept_loop :: "int \<Rightarrow> os \<Rightarrow> bool \<times> os" where
  "accept_loop sk s =
     (case run_state (c_accept sk) s of
        (None, t) \<Rightarrow> (False, t)
      | (Some c, t) \<Rightarrow>
          if c < 0
          then if os_faults s = [] then (False, t) else accept_loop sk t
          else (case run_state (handle_connection c) t of
                  (quit, u) \<Rightarrow> if quit then (True, u) else accept_loop sk u))"
  by pat_completeness auto
termination
proof (relation "measure (\<lambda>(sk, s). length (os_incoming s) + length (os_faults s))", goal_cases)
  case 1
  show ?case by simp
next
  case (2 sk s p t c)
  then have a: "run_state (c_accept sk) s = (Some c, t)" "c < 0" "os_faults s \<noteq> []" by simp_all
  then show ?case using accept_progress [OF a(1)] by (cases "os_faults s") simp_all
next
  case (3 sk s p t c quit u)
  then have a: "run_state (c_accept sk) s = (Some c, t)" "0 \<le> c" "run_state (handle_connection c) t = (quit, u)"
    by simp_all
  then show ?case using accept_progress [OF a(1)] honoursD [OF steady_handle_connection a(3)]
    by (cases "os_faults s") (simp_all add: steady_rel_def)
qed

declare accept_loop.simps [simp del]

definition write_ready :: "string \<Rightarrow> nat \<Rightarrow> unit prog" where
  "write_ready path port = write_text_file path (nat_text port @ [CHR 0x0A])"

text \<open>\<^verbatim>\<open>getsockname\<close> reports the port the kernel picked for a socket bound to port 0.\<close>

definition c_getsockname_port :: "int \<Rightarrow> (int \<times> nat) prog" where
  "c_getsockname_port fd =
     sys Libc ''getsockname'' [] (- 1, 0) (\<lambda>_ s.
       if fd_ofd s fd = None then Inl EBADF else Inr ((0, os_port s), s))"

definition tcp_daemon :: "string list \<Rightarrow> outcome prog" where
  "tcp_daemon argv =
    (if length argv \<noteq> 2 then usage_line ''usage: tcp_daemon <ready-file>''
     else do {
       sk \<leftarrow> c_socket;
       if sk < 0 then fail ''socket''
       else do {
         _ \<leftarrow> fd_call ''setsockopt'' sk;
         rc \<leftarrow> fd_call ''bind'' sk;
         if rc < 0 then fail ''bind''
         else do {
           rc \<leftarrow> fd_call ''listen'' sk;
           if rc < 0 then fail ''listen''
           else do {
             (rc, port) \<leftarrow> c_getsockname_port sk;
             if rc < 0 then fail ''getsockname''
             else do {
               write_ready (argv ! 1) port;
               quit \<leftarrow> State (accept_loop sk);
               if \<not> quit then ret Blocked
               else do { _ \<leftarrow> c_close sk; ret (Exit 0) }
             }
           }
         }
       }
     })"

definition unix_daemon :: "string list \<Rightarrow> outcome prog" where
  "unix_daemon argv =
    (if length argv \<noteq> 3 then usage_line ''usage: unix_daemon <sockpath> <ready-file>''
     else do {
       _ \<leftarrow> c_unlink (argv ! 1);
       sk \<leftarrow> c_socket;
       if sk < 0 then fail ''socket''
       else do {
         rc \<leftarrow> c_bind sk (sun_path (argv ! 1));
         if rc < 0 then fail ''bind''
         else do {
           rc \<leftarrow> fd_call ''listen'' sk;
           if rc < 0 then fail ''listen''
           else do {
             pid \<leftarrow> c_getpid;
             write_text_file (argv ! 2) (nat_text pid @ [CHR 0x0A]);
             quit \<leftarrow> State (accept_loop sk);
             if \<not> quit then ret Blocked
             else do { _ \<leftarrow> c_close sk; _ \<leftarrow> c_unlink (argv ! 1); ret (Exit 0) }
           }
         }
       }
     })"

end
