(* ===== verification/Macos_Probes.thy ===== *)
theory Macos_Probes
  imports Ipc_Probes
begin

text \<open>
  The macOS probe programs: descriptors (\<^verbatim>\<open>round3/r3_fd\<close>), memory maps (\<^verbatim>\<open>round2/r2_mmap\<close>), writes
  (\<^verbatim>\<open>round4/r4_write\<close>) and channels (\<^verbatim>\<open>round3/r3_channel\<close>).  They check few of their calls; a
  descriptor of -1 goes on to the next call, which fails on it.
\<close>

definition str_bytes :: "string \<Rightarrow> bytes" where
  "str_bytes t = map byte_of_char t"

text \<open>\<^verbatim>\<open>argv[i]\<close>, a null pointer past the end.\<close>

definition arg :: "string list \<Rightarrow> nat \<Rightarrow> string option" where
  "arg argv i = (if i < length argv then Some (argv ! i) else None)"

definition out_flags :: "oflag list" where
  "out_flags = [O_WRONLY, O_CREAT, O_TRUNC]"

definition nl :: string where
  "nl = [CHR 0x0A]"

section \<open>r3_fd\<close>

definition r3_fd_base :: "outcome prog" where
  "r3_fd_base = do {
     fd \<leftarrow> c_open ''/tmp/r3_fd/marker_base.txt'' [O_RDONLY];
     if fd < 0 then ret (Exit 1)
     else do { _ \<leftarrow> c_read fd 64; _ \<leftarrow> c_close fd; ret (Exit 0) }
   }"

definition p_devfdexec :: "programs \<Rightarrow> outcome prog" where
  "p_devfdexec progs = do {
     fd \<leftarrow> c_open ''/tmp/r3_fd/tgt'' [O_RDONLY];
     if fd < 0 then ret (Exit 1)
     else do {
       let p = ''/dev/fd/'' @ int_text fd;
       environ \<leftarrow> c_environ;
       r \<leftarrow> exec_as Libc ''execve'' progs p [''tgt''] environ;
       case r of Some out \<Rightarrow> ret out | None \<Rightarrow> ret (Exit 99)
     }
   }"

definition p_dup :: "outcome prog" where
  "p_dup = do {
     fd \<leftarrow> c_open ''/tmp/r3_fd/marker_dup.txt'' [O_RDONLY];
     if fd < 0 then ret (Exit 1)
     else do {
       fd2 \<leftarrow> c_dup fd;
       _ \<leftarrow> c_read fd2 64;
       _ \<leftarrow> c_close fd2; _ \<leftarrow> c_close fd; ret (Exit 0)
     }
   }"

definition p_dup2 :: "outcome prog" where
  "p_dup2 = do {
     fd \<leftarrow> c_open ''/tmp/r3_fd/marker_dup2.txt'' [O_RDONLY];
     if fd < 0 then ret (Exit 1)
     else do {
       _ \<leftarrow> c_dup2 fd 7;
       _ \<leftarrow> c_read 7 64;
       _ \<leftarrow> c_close 7; _ \<leftarrow> c_close fd; ret (Exit 0)
     }
   }"

definition p_dup2swap :: "(outcome \<times> bytes) prog" where
  "p_dup2swap = do {
     fa \<leftarrow> c_open ''/tmp/r3_fd/marker_A.txt'' [O_RDONLY];
     fb \<leftarrow> c_open ''/tmp/r3_fd/marker_B.txt'' [O_RDONLY];
     _ \<leftarrow> c_dup2 fa fb;
     (n, b) \<leftarrow> c_read fb 64;
     _ \<leftarrow> c_close fb; _ \<leftarrow> c_close fa; ret (Exit 0, b)
   }"

definition p_dupout :: "outcome prog" where
  "p_dupout = do {
     fd \<leftarrow> c_open ''/tmp/r3_fd/out_dup.txt'' out_flags;
     if fd < 0 then ret (Exit 1)
     else do {
       fd2 \<leftarrow> c_dup fd;
       _ \<leftarrow> c_write fd2 (str_bytes (''INVISIBLE_OUTPUT'' @ nl));
       _ \<leftarrow> c_close fd2; _ \<leftarrow> c_close fd; ret (Exit 0)
     }
   }"

definition p_fchdir :: "outcome prog" where
  "p_fchdir = do {
     dfd \<leftarrow> c_open ''/tmp/r3_fd'' [O_RDONLY, O_DIRECTORY];
     if dfd < 0 then ret (Exit 1)
     else do {
       _ \<leftarrow> c_fchdir dfd;
       fd \<leftarrow> c_open ''marker_fchdir.txt'' [O_RDONLY];
       if fd < 0 then ret (Exit 2)
       else do { _ \<leftarrow> c_read fd 64; _ \<leftarrow> c_close fd; _ \<leftarrow> c_close dfd; ret (Exit 0) }
     }
   }"

definition p_fdupcx :: "outcome prog" where
  "p_fdupcx = do {
     fd \<leftarrow> c_open ''/tmp/r3_fd/marker_fdupcx.txt'' [O_RDONLY];
     if fd < 0 then ret (Exit 1)
     else do {
       fd2 \<leftarrow> dup_from ''fcntl'' fd 30;
       _ \<leftarrow> c_read fd2 64;
       _ \<leftarrow> c_close fd2; _ \<leftarrow> c_close fd; ret (Exit 0)
     }
   }"

definition p_fdupfd :: "outcome prog" where
  "p_fdupfd = do {
     fd \<leftarrow> c_open ''/tmp/r3_fd/marker_fdupfd.txt'' [O_RDONLY];
     if fd < 0 then ret (Exit 1)
     else do {
       fd2 \<leftarrow> dup_from ''fcntl'' fd 20;
       _ \<leftarrow> c_read fd2 64;
       _ \<leftarrow> c_close fd2; _ \<leftarrow> c_close fd; ret (Exit 0)
     }
   }"

text \<open>The program a descriptor names is looked up under the path it was opened by.\<close>

definition p_fexec :: "programs \<Rightarrow> outcome prog" where
  "p_fexec progs = do {
     fd \<leftarrow> c_open ''/tmp/r3_fd/tgt'' [O_RDONLY];
     if fd < 0 then ret (Exit 1)
     else do {
       environ \<leftarrow> c_environ;
       r \<leftarrow> exec_as Libc ''fexecve'' progs ''/tmp/r3_fd/tgt'' [''tgt''] environ;
       case r of Some out \<Rightarrow> ret out | None \<Rightarrow> ret (Exit 99)
     }
   }"

definition p_fstat :: "outcome prog" where
  "p_fstat = do {
     dfd \<leftarrow> c_open ''/tmp/r3_fd'' [O_RDONLY, O_DIRECTORY];
     if dfd < 0 then ret (Exit 1)
     else do { _ \<leftarrow> c_fstatat dfd ''marker_fstat.txt''; _ \<leftarrow> c_close dfd; ret (Exit 0) }
   }"

definition p_inheritfork :: "outcome prog" where
  "p_inheritfork = do {
     fd \<leftarrow> c_open ''/tmp/r3_fd/marker_inherit.txt'' [O_RDONLY];
     if fd < 0 then ret (Exit 1)
     else do {
       p \<leftarrow> c_fork (do { _ \<leftarrow> c_read fd 64; ret (Exit 0) });
       _ \<leftarrow> c_waitpid p;
       _ \<leftarrow> c_close fd; ret (Exit 0)
     }
   }"

definition p_normw :: "outcome prog" where
  "p_normw = do {
     fd \<leftarrow> c_open ''/tmp/r3_fd/out_normw.txt'' out_flags;
     if fd < 0 then ret (Exit 1)
     else do { _ \<leftarrow> c_write fd (str_bytes (''NORMAL_OUTPUT'' @ nl)); _ \<leftarrow> c_close fd; ret (Exit 0) }
   }"

definition p_oat :: "outcome prog" where
  "p_oat = do {
     dfd \<leftarrow> c_open ''/tmp/r3_fd'' [O_RDONLY, O_DIRECTORY];
     if dfd < 0 then ret (Exit 1)
     else do {
       fd \<leftarrow> c_openat dfd ''marker_oat.txt'' [O_RDONLY];
       if fd < 0 then ret (Exit 2)
       else do { _ \<leftarrow> c_read fd 64; _ \<leftarrow> c_close fd; _ \<leftarrow> c_close dfd; ret (Exit 0) }
     }
   }"

definition p_oatw :: "outcome prog" where
  "p_oatw = do {
     dfd \<leftarrow> c_open ''/tmp/r3_fd'' [O_RDONLY, O_DIRECTORY];
     if dfd < 0 then ret (Exit 1)
     else do {
       fd \<leftarrow> c_openat dfd ''out_oatw.txt'' out_flags;
       if fd < 0 then ret (Exit 2)
       else do {
         _ \<leftarrow> c_write fd (str_bytes (''OUTPUT_VIA_DIRFD'' @ nl));
         _ \<leftarrow> c_close fd; _ \<leftarrow> c_close dfd; ret (Exit 0)
       }
     }
   }"

definition p_plainstat :: "outcome prog" where
  "p_plainstat = do { _ \<leftarrow> stat_as Libc ''stat'' ''/tmp/r3_fd/marker_fstat.txt''; ret (Exit 0) }"

definition p_symexec :: "programs \<Rightarrow> outcome prog" where
  "p_symexec progs = do {
     environ \<leftarrow> c_environ;
     r \<leftarrow> exec_as Libc ''execve'' progs ''/tmp/r3_fd/tgt_link'' [''tgt''] environ;
     case r of Some out \<Rightarrow> ret out | None \<Rightarrow> ret (Exit 99)
   }"

definition tgt :: "outcome prog" where
  "tgt = ret (Exit 7)"

section \<open>r2_mmap\<close>

definition r2_mmap_baseline :: "outcome prog" where
  "r2_mmap_baseline = do {
     fd \<leftarrow> c_open ''/tmp/r2_mmap/marker_in.txt'' [O_RDONLY];
     _ \<leftarrow> c_read fd 64; _ \<leftarrow> c_close fd;
     fo \<leftarrow> c_open ''/tmp/r2_mmap/marker_out.txt'' out_flags;
     _ \<leftarrow> c_write fo (str_bytes (''hello'' @ nl)); _ \<leftarrow> c_close fo;
     ret (Exit 0)
   }"

text \<open>
  The sum over a mapping: \<open>None\<close> when the program loads from a failed mapping, which ends it by
  SIGSEGV; a mapping of no bytes is never loaded from.
\<close>

definition long_sum :: "bytes \<Rightarrow> int" where
  "long_sum bs = fold (\<lambda>b r. r + int (unat b)) bs 0"

definition map_sum_loop :: "(nat \<times> nat) option \<Rightarrow> nat \<Rightarrow> int option prog" where
  "map_sum_loop m n =
     (case m of
        Some mp \<Rightarrow> do { b \<leftarrow> map_load mp; ret (Some (long_sum b)) }
      | None \<Rightarrow> ret (if n = 0 then Some 0 else None))"

definition write_sum :: "string \<Rightarrow> string \<Rightarrow> int \<Rightarrow> outcome prog" where
  "write_sum path label sm = do {
     fo \<leftarrow> c_open path out_flags;
     _ \<leftarrow> c_write fo (str_bytes (take 63 (label @ int_text sm @ nl)));
     _ \<leftarrow> c_close fo;
     ret (Exit 0)
   }"

definition probeA_rdwr_mmap_read :: "outcome prog" where
  "probeA_rdwr_mmap_read = do {
     fd \<leftarrow> c_open ''/tmp/r2_mmap/config_input.txt'' [O_RDWR];
     if fd < 0 then fail ''open''
     else do {
       (rc, st_size) \<leftarrow> fstat_as fd;
       m \<leftarrow> c_mmap fd st_size False;
       if m = None then fail ''mmap''
       else do {
         sm \<leftarrow> map_sum_loop m st_size;
         _ \<leftarrow> c_munmap;
         _ \<leftarrow> c_close fd;
         write_sum ''/tmp/r2_mmap/derived_out.txt'' ''checksum='' (the sm)
       }
     }
   }"

definition probeB_rdwr_read :: "outcome prog" where
  "probeB_rdwr_read = do {
     fd \<leftarrow> c_open ''/tmp/r2_mmap/rdwr_config.txt'' [O_RDWR];
     (n, buf) \<leftarrow> c_read fd 128; _ \<leftarrow> c_close fd;
     write_sum ''/tmp/r2_mmap/rdwr_out.txt'' ''s='' (long_sum buf)
   }"

text \<open>The fill byte is the first character of the argument, the terminator when it is empty.\<close>

definition probeC_mmap_writeback :: "string list \<Rightarrow> outcome prog" where
  "probeC_mmap_writeback argv = do {
     let fill = (case arg argv 1 of
                   None \<Rightarrow> byte_of_char CHR ''A''
                 | Some a \<Rightarrow> if a = [] then 0 else byte_of_char (a ! 0));
     fd \<leftarrow> c_open ''/tmp/r2_mmap/mmap_output.bin'' [O_RDWR];
     (rc, st_size) \<leftarrow> fstat_as fd;
     m \<leftarrow> c_mmap fd st_size True;
     case m of
       None \<Rightarrow> fail ''mmap''
     | Some mp \<Rightarrow> do {
         map_store mp (replicate st_size fill);
         _ \<leftarrow> c_call Libc ''msync'';
         _ \<leftarrow> c_munmap;
         _ \<leftarrow> c_close fd;
         ret (Exit 0)
       }
   }"

definition guarded_open_np :: "string \<Rightarrow> oflag list \<Rightarrow> int prog" where
  "guarded_open_np p flags = open_as Libc ''guarded_open_np'' (Some p) flags"

text \<open>Reading a database through a mapping of an already open descriptor.\<close>

definition db_sum :: "int \<Rightarrow> string \<Rightarrow> string \<Rightarrow> outcome prog" where
  "db_sum fd path label = do {
     (rc, st_size) \<leftarrow> fstat_as fd;
     m \<leftarrow> c_mmap fd st_size False;
     sm \<leftarrow> map_sum_loop m st_size;
     case sm of
       None \<Rightarrow> ret (Signalled 11)
     | Some v \<Rightarrow> do {
         _ \<leftarrow> c_munmap; _ \<leftarrow> c_close fd;
         write_sum path label v
       }
   }"

definition probeD_guarded :: "outcome prog" where
  "probeD_guarded = do {
     fd \<leftarrow> guarded_open_np ''/tmp/r2_mmap/database_input.db'' [O_RDONLY];
     if fd < 0 then fail ''guarded_open_np''
     else db_sum fd ''/tmp/r2_mmap/db_derived_out.txt'' ''db_sum=''
   }"

text \<open>The first guard flag set that opens the file.\<close>

primrec try_guards :: "nat list \<Rightarrow> int prog" where
  "try_guards [] = ret (- 1)"
| "try_guards (g # gs) = do {
     fd \<leftarrow> guarded_open_np ''/tmp/r2_mmap/database_input.db'' [O_RDONLY];
     eprintf (''gf='' @ nat_text g @ '' fd='' @ int_text fd @ nl);
     if fd \<ge> 0 then ret fd else try_guards gs
   }"

definition probeD2 :: "outcome prog" where
  "probeD2 = do {
     fd \<leftarrow> try_guards [2, 1, 3, 4];
     if fd < 0 then ret (Exit 1)
     else db_sum fd ''/tmp/r2_mmap/db_derived_out.txt'' ''db_sum=''
   }"

section \<open>r4_write\<close>

definition clean_ftruncate :: "string list \<Rightarrow> outcome prog" where
  "clean_ftruncate argv = do {
     fd \<leftarrow> open_as Libc ''open'' (arg argv 1) [O_RDWR];
     if fd < 0 then fail ''open''
     else do {
       rc \<leftarrow> c_ftruncate fd 4;
       if rc \<noteq> 0 then fail ''ftruncate''
       else do {
         _ \<leftarrow> c_close fd;
         eprintf (''ftruncate mutated '' @ the (arg argv 1) @ '' to 4 bytes'' @ nl);
         ret (Exit 0)
       }
     }
   }"

definition clean_pwrite :: "string list \<Rightarrow> outcome prog" where
  "clean_pwrite argv = do {
     fd \<leftarrow> open_as Libc ''open'' (arg argv 1) [O_RDWR];
     if fd < 0 then fail ''open''
     else do {
       n \<leftarrow> c_pwrite fd (str_bytes (''MUTATED-BY-PWRITE-cafef00d'' @ nl)) 0;
       if n < 0 then fail ''pwrite''
       else do {
         _ \<leftarrow> c_close fd;
         eprintf (''pwrite mutated '' @ the (arg argv 1) @ '' by '' @ int_text n @ '' bytes'' @ nl);
         ret (Exit 0)
       }
     }
   }"

definition clean_truncate :: "string list \<Rightarrow> outcome prog" where
  "clean_truncate argv = do {
     rc \<leftarrow> c_truncate (arg argv 1) 4;
     if rc \<noteq> 0 then fail ''truncate''
     else do {
       eprintf (''truncate mutated '' @ the (arg argv 1) @ '' to 4 bytes'' @ nl);
       ret (Exit 0)
     }
   }"

text \<open>The stale file the mutation probes start from; \<open>False\<close> when the write fails.\<close>

definition make_stale :: "string list \<Rightarrow> string \<Rightarrow> bool prog" where
  "make_stale argv text = do {
     c \<leftarrow> open_as Libc ''open'' (arg argv 1) out_flags;
     w \<leftarrow> c_write c (str_bytes text);
     if w < 0 then ret False
     else do { _ \<leftarrow> c_close c; ret True }
   }"

definition path_truncate :: "string list \<Rightarrow> outcome prog" where
  "path_truncate argv = do {
     ok \<leftarrow> make_stale argv (''0123456789ABCDEF0123456789ABCDEF'' @ nl);
     if \<not> ok then ret (Exit 2)
     else do {
       rc \<leftarrow> c_truncate (arg argv 1) 8;
       if rc \<noteq> 0 then fail ''truncate''
       else do {
         eprintf (''truncated '' @ the (arg argv 1) @ '' to 8 bytes'' @ nl);
         ret (Exit 0)
       }
     }
   }"

definition rdwr_ftruncate :: "string list \<Rightarrow> outcome prog" where
  "rdwr_ftruncate argv = do {
     ok \<leftarrow> make_stale argv (''FULL-CONTENT-AAAAAAAAAAAAAAAAAAAAAAAA'' @ nl);
     if \<not> ok then ret (Exit 2)
     else do {
       fd \<leftarrow> open_as Libc ''open'' (arg argv 1) [O_RDWR];
       if fd < 0 then fail ''open''
       else do {
         rc \<leftarrow> c_ftruncate fd 5;
         if rc \<noteq> 0 then fail ''ftruncate''
         else do {
           _ \<leftarrow> c_close fd;
           eprintf (''ftruncate '' @ the (arg argv 1) @ '' to 5 bytes'' @ nl);
           ret (Exit 0)
         }
       }
     }
   }"

definition rdwr_pwrite :: "string list \<Rightarrow> outcome prog" where
  "rdwr_pwrite argv = do {
     ok \<leftarrow> make_stale argv (''STALE-PLACEHOLDER-0000000000'' @ nl);
     if \<not> ok then ret (Exit 2)
     else do {
       fd \<leftarrow> open_as Libc ''open'' (arg argv 1) [O_RDWR];
       if fd < 0 then fail ''open''
       else do {
         n \<leftarrow> c_pwrite fd (str_bytes (''REAL-OUTPUT-CONTENT-deadbeef'' @ nl)) 0;
         if n < 0 then fail ''pwrite''
         else do {
           _ \<leftarrow> c_close fd;
           eprintf (''pwrite wrote '' @ int_text n @ '' bytes to '' @ the (arg argv 1) @ nl);
           ret (Exit 0)
         }
       }
     }
   }"

definition rdwr_write :: "string list \<Rightarrow> outcome prog" where
  "rdwr_write argv = do {
     ok \<leftarrow> make_stale argv (''STALE-PLACEHOLDER-0000000000'' @ nl);
     if \<not> ok then ret (Exit 2)
     else do {
       fd \<leftarrow> open_as Libc ''open'' (arg argv 1) [O_RDWR];
       if fd < 0 then fail ''open''
       else do {
         n \<leftarrow> c_write fd (str_bytes (''REAL-OUTPUT-CONTENT-deadbeef'' @ nl));
         if n < 0 then fail ''write''
         else do {
           _ \<leftarrow> c_close fd;
           eprintf (''write wrote '' @ int_text n @ '' bytes to '' @ the (arg argv 1) @ nl);
           ret (Exit 0)
         }
       }
     }
   }"

text \<open>\<^verbatim>\<open>writev\<close> of two buffers moves their concatenation.\<close>

definition rdwr_writev :: "string list \<Rightarrow> outcome prog" where
  "rdwr_writev argv = do {
     ok \<leftarrow> make_stale argv (''STALE-PLACEHOLDER'' @ nl);
     if \<not> ok then ret (Exit 2)
     else do {
       fd \<leftarrow> open_as Libc ''open'' (arg argv 1) [O_RDWR];
       if fd < 0 then fail ''open''
       else do {
         n \<leftarrow> write_as Libc ''writev'' fd (concat [str_bytes ''REAL-VEC-PART-A-'', str_bytes (''deadbeef'' @ nl)]);
         if n < 0 then fail ''writev''
         else do {
           _ \<leftarrow> c_close fd;
           eprintf (''writev wrote '' @ int_text n @ '' bytes to '' @ the (arg argv 1) @ nl);
           ret (Exit 0)
         }
       }
     }
   }"

definition wronly_pwrite :: "string list \<Rightarrow> outcome prog" where
  "wronly_pwrite argv = do {
     fd \<leftarrow> open_as Libc ''open'' (arg argv 1) out_flags;
     _ \<leftarrow> c_pwrite fd (str_bytes (''OUT-VIA-PWRITE'' @ nl)) 0;
     _ \<leftarrow> c_close fd;
     ret (Exit 0)
   }"

section \<open>r3_channel\<close>

definition arg_or :: "string list \<Rightarrow> nat \<Rightarrow> string \<Rightarrow> string" where
  "arg_or argv i dflt = (if length argv > i then argv ! i else dflt)"

definition channel_baseline_read :: "string list \<Rightarrow> outcome prog" where
  "channel_baseline_read argv = do {
     fd \<leftarrow> c_open (arg_or argv 1 ''/tmp/r3_channel/markerBase.txt'') [O_RDONLY];
     if fd < 0 then fail ''open''
     else do {
       (n, buf) \<leftarrow> c_read fd 255;
       (if n > 0 then eprintf (''[baseline] read '' @ int_text n @ '' bytes'' @ nl) else ret ());
       _ \<leftarrow> c_close fd;
       ret (Exit 0)
     }
   }"

definition probeA_pread :: "string list \<Rightarrow> outcome prog" where
  "probeA_pread argv = do {
     fd \<leftarrow> c_open (arg_or argv 1 ''/tmp/r3_channel/markerA.txt'') [O_RDONLY];
     if fd < 0 then fail ''open''
     else do {
       (n, buf) \<leftarrow> c_pread fd 255 0;
       if n < 0 then fail ''pread''
       else do {
         eprintf (''[probeA] pread got '' @ int_text n @ '' bytes: '' @ take 40 (c_string buf) @ nl);
         _ \<leftarrow> c_lseek_set fd 0;
         (m, vbuf) \<leftarrow> read_as Libc ''readv'' fd 255;
         (if m > 0 then eprintf (''[probeA] readv got '' @ int_text m @ '' bytes'' @ nl) else ret ());
         _ \<leftarrow> c_close fd;
         ret (Exit 0)
       }
     }
   }"

text \<open>
  macOS \<^verbatim>\<open>sendfile\<close>: sends from offset 0 to the end of the file and reports the length; the file
  offset is not used.
\<close>

definition c_sendfile_macos :: "int \<Rightarrow> int \<Rightarrow> (int \<times> nat) prog" where
  "c_sendfile_macos fd sk =
     sys Libc ''sendfile'' [] (- 1, 0) (\<lambda>lim s.
       case fd_ofd s fd of
         None \<Rightarrow> Inl EBADF
       | Some (i, d) \<Rightarrow>
           (case od_obj d of
              OFile f \<Rightarrow>
                if \<not> od_rd d then Inl EBADF
                else let b = take (lim (length (os_data s f))) (os_data s f)
                     in map_sum id (\<lambda>(k, t). ((0, length b), t)) (put_body sk b s)
            | _ \<Rightarrow> Inl ENOTSUP))"

definition probeB_sendfile :: "string list \<Rightarrow> outcome prog" where
  "probeB_sendfile argv = do {
     (rc, sv0, sv1) \<leftarrow> c_socketpair;
     if rc < 0 then fail ''socketpair''
     else do {
       fd \<leftarrow> c_open (arg_or argv 1 ''/tmp/r3_channel/markerB.txt'') [O_RDONLY];
       if fd < 0 then fail ''open''
       else do {
         (rc, len) \<leftarrow> c_sendfile_macos fd sv0;
         if rc < 0 then fail ''sendfile''
         else do {
           eprintf (''[probeB] sendfile moved '' @ nat_text len @ '' bytes from source (no read syscall)'' @ nl);
           (n, buf) \<leftarrow> read_as Libc ''recv'' sv1 255;
           (if n > 0 then eprintf (''[probeB] receiver got: '' @ take 40 (c_string buf) @ nl) else ret ());
           _ \<leftarrow> c_close fd; _ \<leftarrow> c_close sv0; _ \<leftarrow> c_close sv1;
           ret (Exit 0)
         }
       }
     }
   }"

text \<open>POSIX shared-memory objects live in a name space of their own.\<close>

definition shm_path :: "string \<Rightarrow> string" where
  "shm_path name = ''/posix-shm'' @ name"

definition shm_open :: "string \<Rightarrow> oflag list \<Rightarrow> int prog" where
  "shm_open name flags = open_as Libc ''shm_open'' (Some (shm_path name)) flags"

definition SHM_NAME :: string where "SHM_NAME = ''/r3shm''"
definition SHM_SIZE :: nat where "SHM_SIZE = 4096"

definition shm_marker :: string where
  "shm_marker = ''MARKER_SHM_CONTENT_j1k2l3 unique-shared-memory-marker''"

definition probeC_shm_producer :: "outcome prog" where
  "probeC_shm_producer = do {
     _ \<leftarrow> c_unlink (shm_path SHM_NAME);
     fd \<leftarrow> shm_open SHM_NAME [O_CREAT, O_RDWR];
     if fd < 0 then fail ''shm_open''
     else do {
       rc \<leftarrow> c_ftruncate fd SHM_SIZE;
       if rc < 0 then fail ''ftruncate''
       else do {
         p \<leftarrow> c_mmap fd SHM_SIZE True;
         case p of
           None \<Rightarrow> fail ''mmap''
         | Some mp \<Rightarrow> do {
             map_store mp (str_bytes shm_marker @ [0]);
             _ \<leftarrow> c_munmap;
             _ \<leftarrow> c_close fd;
             eprintf (''[producer] wrote marker into shm '' @ SHM_NAME @ '', object persists'' @ nl);
             ret (Exit 0)
           }
       }
     }
   }"

definition probeC_shm_consumer :: "outcome prog" where
  "probeC_shm_consumer = do {
     fd \<leftarrow> shm_open SHM_NAME [O_RDONLY];
     if fd < 0 then fail ''shm_open''
     else do {
       p \<leftarrow> c_mmap fd SHM_SIZE False;
       case p of
         None \<Rightarrow> fail ''mmap''
       | Some mp \<Rightarrow> do {
           b \<leftarrow> map_load mp;
           let buf = take 255 (c_string b);
           eprintf (''[consumer] read from shared memory: '' @ take 60 buf @ nl);
           _ \<leftarrow> c_munmap;
           _ \<leftarrow> c_close fd;
           ret (Exit 0)
         }
     }
   }"

text \<open>
  The FIFO reader fills a buffer of 255 bytes: \<open>fuel\<close> is the room left, which every successful
  read reduces.
\<close>

fun fill_buffer :: "nat \<Rightarrow> int \<Rightarrow> nat \<Rightarrow> bytes prog" where
  "fill_buffer 0 fd room = ret []"
| "fill_buffer (Suc k) fd room = do {
     (n, b) \<leftarrow> c_read fd room;
     if n \<le> 0 then ret []
     else if length b \<ge> room then ret b
     else do { rest \<leftarrow> fill_buffer k fd (room - length b); ret (b @ rest) }
   }"

definition probeD_fifo_reader :: "string list \<Rightarrow> outcome prog" where
  "probeD_fifo_reader argv = do {
     fd \<leftarrow> c_open (arg_or argv 1 ''/tmp/r3_channel/fifoD'') [O_RDONLY];
     if fd < 0 then fail ''open fifo''
     else do {
       buf \<leftarrow> fill_buffer 255 fd 255;
       eprintf (''[fifo-reader] read '' @ nat_text (length buf) @ '' bytes via FIFO: '' @
         take 60 (c_string buf) @ nl);
       _ \<leftarrow> c_close fd;
       ret (Exit 0)
     }
   }"

text \<open>\<^verbatim>\<open>/dev/fd/0\<close> opens the file behind descriptor 0 again.\<close>

definition open_dev_fd0 :: "int prog" where
  "open_dev_fd0 =
     sys Libc ''open'' ''/dev/fd/0'' (- 1) (\<lambda>_ s.
       case fd_ofd s 0 of
         None \<Rightarrow> Inl EBADF
       | Some (i, d) \<Rightarrow> Inr (install (od_obj d) (od_rd d) False s))"

definition probeE_stdin_reader :: "string list \<Rightarrow> outcome prog" where
  "probeE_stdin_reader argv = do {
     fd \<leftarrow> (if length argv > 1 \<and> argv ! 1 = ''devfd'' then open_dev_fd0 else ret 0);
     if fd < 0 then fail ''open /dev/fd/0''
     else do {
       (n, buf) \<leftarrow> c_read fd 255;
       (if n > 0
        then eprintf (''[stdin-reader] read '' @ int_text n @ '' bytes: '' @ take 60 (c_string buf) @ nl)
        else ret ());
       ret (Exit 0)
     }
   }"

text \<open>\<^verbatim>\<open>fcopyfile\<close> with \<^verbatim>\<open>COPYFILE_DATA\<close> copies the whole source, from its start.\<close>

definition c_fcopyfile_data :: "int \<Rightarrow> int \<Rightarrow> int prog" where
  "c_fcopyfile_data sfd dfd =
     sys Libc ''fcopyfile'' [] (- 1) (\<lambda>_ s.
       case fd_ofd s sfd of
         None \<Rightarrow> Inl EBADF
       | Some (i, d) \<Rightarrow>
           (case od_obj d of
              OFile f \<Rightarrow> if od_rd d then map_sum id (\<lambda>(k, t). (0, t)) (put_body dfd (os_data s f) s) else Inl EBADF
            | _ \<Rightarrow> Inl ENOTSUP))"

definition probeF_fcopyfile_data :: "string list \<Rightarrow> outcome prog" where
  "probeF_fcopyfile_data argv = do {
     let src = arg_or argv 1 ''/tmp/r3_channel/markerF.txt'';
     let dst = arg_or argv 2 ''/tmp/r3_channel/markerF.out'';
     sfd \<leftarrow> c_open src [O_RDONLY];
     if sfd < 0 then fail ''open src''
     else do {
       dfd \<leftarrow> c_open dst out_flags;
       if dfd < 0 then fail ''open dst''
       else do {
         rc \<leftarrow> c_fcopyfile_data sfd dfd;
         if rc \<noteq> 0 then fail ''fcopyfile''
         else do {
           eprintf (''[probeF] fcopyfile COPYFILE_DATA copied '' @ src @ '' -> '' @ dst @ nl);
           _ \<leftarrow> c_close sfd; _ \<leftarrow> c_close dfd;
           ret (Exit 0)
         }
       }
     }
   }"

end
