(* ===== verification/Process_Probes.thy ===== *)
theory Process_Probes
  imports Macos_Probes
begin

text \<open>
  Probes around processes and daemons: \<^verbatim>\<open>adversarial-2026-06/adv_proctree\<close> (a client and two daemons
  that read files for it, the trusted one reporting what it read), \<^verbatim>\<open>round2/r2_machinery\<close> and
  \<^verbatim>\<open>round3/r3_merge\<close> (spawned, forked and killed readers), and the shared-memory and pipe probes
  of \<^verbatim>\<open>round4/r4_residual\<close>.
\<close>

section \<open>Files through stdio\<close>

definition c_fopen_r :: "string option \<Rightarrow> int prog" where
  "c_fopen_r path = open_as Libc ''fopen'' path [O_RDONLY]"

definition c_fread :: "int \<Rightarrow> nat \<Rightarrow> (bytes \<times> bool \<times> bool) prog" where
  "c_fread f n = State (fread_loop f n [])"

text \<open>
  \<^verbatim>\<open>while ((n = fread(buf, 1, 8192, f)) > 0) if (write(c, buf, n) < 0) break;\<close>.  Each round
  consumes a byte of the file, which bounds the rounds.
\<close>

primrec fcopy_loop :: "nat \<Rightarrow> int \<Rightarrow> int \<Rightarrow> unit prog" where
  "fcopy_loop 0 f c = ret ()"
| "fcopy_loop (Suc k) f c = do {
     (b, eof, err) \<leftarrow> c_fread f 8192;
     if b = [] then ret ()
     else do {
       w \<leftarrow> c_write c b;
       if w < 0 \<or> eof then ret () else fcopy_loop k f c
     }
   }"

definition fcopy_all :: "int \<Rightarrow> int \<Rightarrow> unit prog" where
  "fcopy_all f c = State (\<lambda>s. run_state (fcopy_loop (Suc (length (unread f s))) f c) s)"

text \<open>A C string argument; \<^verbatim>\<open>%s\<close> of a null pointer prints \<^verbatim>\<open>(null)\<close>.\<close>

definition arg_text :: "string list \<Rightarrow> nat \<Rightarrow> string" where
  "arg_text argv i = (case arg argv i of None \<Rightarrow> ''(null)'' | Some a \<Rightarrow> a)"

definition quoted :: "string \<Rightarrow> string" where
  "quoted x = [CHR 0x27] @ x @ [CHR 0x27]"

text \<open>The first bytes of a file through stdio, if it opens.\<close>

definition peek_file :: "string option \<Rightarrow> nat \<Rightarrow> bool prog" where
  "peek_file path n = do {
     f \<leftarrow> c_fopen_r path;
     if f < 0 then ret False
     else do { _ \<leftarrow> c_fread f n; _ \<leftarrow> c_close f; ret True }
   }"

text \<open>The same through descriptors.\<close>

definition touch_file :: "string option \<Rightarrow> unit prog" where
  "touch_file path = do {
     fd \<leftarrow> open_as Libc ''open'' path [O_RDONLY];
     if fd \<ge> 0 then do { _ \<leftarrow> c_read fd 64; _ \<leftarrow> c_close fd; ret () } else ret ()
   }"

primrec repeat :: "nat \<Rightarrow> unit prog \<Rightarrow> unit prog" where
  "repeat 0 m = ret ()"
| "repeat (Suc n) m = do { m; repeat n m }"

fun for_each :: "'a list \<Rightarrow> ('a \<Rightarrow> unit prog) \<Rightarrow> unit prog" where
  "for_each [] m = ret ()"
| "for_each (x # xs) m = do { m x; for_each xs m }"

text \<open>\<^verbatim>\<open>raise(SIGKILL); return 0;\<close>\<close>

definition raise_sigkill :: "outcome prog" where
  "raise_sigkill = do {
     rc \<leftarrow> c_call Libc ''raise'';
     ret (if rc = 0 then Signalled 9 else Exit 0)
   }"

section \<open>adv_proctree\<close>

text \<open>On macOS \<^verbatim>\<open>sun_path\<close> holds 104 bytes, the last one the terminator.\<close>

definition sun_path_macos :: "string \<Rightarrow> string" where
  "sun_path_macos p = take 103 p"

definition proctree_client :: "string list \<Rightarrow> outcome prog" where
  "proctree_client argv =
    (if length argv < 3 then usage_line (''usage: client <sockpath> <filepath>'' @ nl)
     else do {
       sk \<leftarrow> c_socket;
       rc \<leftarrow> c_connect sk (sun_path_macos (argv ! 1));
       if rc < 0 then fail ''connect''
       else do {
         _ \<leftarrow> c_dprintf sk (argv ! 2 @ nl);
         (n, acc) \<leftarrow> read_all Libc ''read'' sk 8192 (count_and djb2_step) (0, 5381);
         _ \<leftarrow> c_close sk;
         printf (''CLIENT got '' @ nat_text (fst acc) @ '' bytes hash='' @ nat_text (unat (snd acc)) @
           '' from daemon for '' @ argv ! 2 @ nl);
         ret (Exit 0)
       }
     })"

definition proctree_reader :: "string list \<Rightarrow> outcome prog" where
  "proctree_reader argv =
    (if length argv < 2 then usage_line (''usage'' @ nl)
     else do {
       f \<leftarrow> c_fopen_r (Some (argv ! 1));
       if f < 0 then fail ''fopen''
       else do {
         (tot, err) \<leftarrow> State (fread_all f 4096 (\<lambda>b n. n + length b) 0 False);
         _ \<leftarrow> c_close f;
         printf (''READ '' @ nat_text tot @ '' bytes from '' @ argv ! 1 @ nl);
         ret (Exit 0)
       }
     })"

text \<open>The program a vforked child executes may fail to start; the parent ignores the status.\<close>

definition vfork_exec :: "programs \<Rightarrow> string list \<Rightarrow> outcome prog" where
  "vfork_exec progs argv =
    (if length argv < 2 then usage_line (''usage: vfork_exec <path>'' @ nl)
     else do {
       environ \<leftarrow> c_environ;
       p \<leftarrow> c_fork (do {
              r \<leftarrow> exec_as Libc ''execv'' progs ''/bin/cat'' [''/bin/cat'', argv ! 1] environ;
              case r of
                None \<Rightarrow> ret (Exit 127)
              | Some out \<Rightarrow>
                  (case progs ''/bin/cat'' of
                     None \<Rightarrow> ret out
                   | Some cat \<Rightarrow> cat [''/bin/cat'', argv ! 1] environ)
            });
       _ \<leftarrow> c_waitpid p;
       ret (Exit 0)
     })"

text \<open>
  The accept loop of the daemons: a handler serves a connection and may ask to stop; it threads a
  counter.  Every round takes a peer or a fault, so their number bounds the rounds; \<open>False\<close> means
  that the loop never ends.
\<close>

primrec serve_loop :: "nat \<Rightarrow> (int \<Rightarrow> nat \<Rightarrow> (bool \<times> nat) prog) \<Rightarrow> int \<Rightarrow> nat \<Rightarrow> bool prog" where
  "serve_loop 0 handler sk n = ret False"
| "serve_loop (Suc k) handler sk n = do {
     conn \<leftarrow> c_accept sk;
     case conn of
       None \<Rightarrow> ret False
     | Some c \<Rightarrow>
         if c < 0 then serve_loop k handler sk n
         else do {
           (quit, m) \<leftarrow> handler c n;
           if quit then ret True else serve_loop k handler sk m
         }
   }"

definition serve :: "(int \<Rightarrow> nat \<Rightarrow> (bool \<times> nat) prog) \<Rightarrow> int \<Rightarrow> bool prog" where
  "serve handler sk = State (\<lambda>s.
     run_state (serve_loop (Suc (length (os_incoming s) + length (os_faults s))) handler sk 0) s)"

text \<open>The file read happens here, in the daemon; \<open>False\<close> when it does not open.\<close>

definition send_file :: "int \<Rightarrow> string \<Rightarrow> bool prog" where
  "send_file c path = do {
     f \<leftarrow> c_fopen_r (Some path);
     if f < 0
     then do { _ \<leftarrow> c_write c (str_bytes (''ERR'' @ nl)); _ \<leftarrow> c_close c; ret False }
     else do { fcopy_all f c; _ \<leftarrow> c_close f; _ \<leftarrow> c_close c; ret True }
   }"

definition proctree_serve_one :: "int \<Rightarrow> nat \<Rightarrow> (bool \<times> nat) prog" where
  "proctree_serve_one c n = do {
     line \<leftarrow> read_line 4095 c;
     let path = c_string line;
     if path = ''__QUIT__'' then do { _ \<leftarrow> c_close c; ret (True, n) }
     else do { _ \<leftarrow> send_file c path; ret (False, n) }
   }"

definition proctree_daemon :: "string list \<Rightarrow> outcome prog" where
  "proctree_daemon argv =
    (if length argv < 2 then usage_line (''usage: daemon <sockpath> [readyfile]'' @ nl)
     else do {
       _ \<leftarrow> c_unlink (argv ! 1);
       sk \<leftarrow> c_socket;
       rc \<leftarrow> c_bind sk (sun_path_macos (argv ! 1));
       if rc < 0 then fail ''bind''
       else do {
         rc \<leftarrow> fd_call ''listen'' sk;
         if rc < 0 then fail ''listen''
         else do {
           pid \<leftarrow> c_getpid;
           eprintf (''daemon: listening on '' @ argv ! 1 @ '' pid='' @ nat_text pid @ nl);
           rf \<leftarrow> open_as Libc ''fopen'' (Some (if length argv > 2 then argv ! 2 else ''/tmp/adv_proctree/daemon.ready'')) out_flags;
           if rf < 0
           then do { perror ''ready file''; _ \<leftarrow> c_close sk; _ \<leftarrow> c_unlink (argv ! 1); ret (Exit 1) }
           else do {
             _ \<leftarrow> State (dprintf_loop ''fprintf'' rf (str_bytes (nat_text pid @ nl)));
             _ \<leftarrow> c_close rf;
             quit \<leftarrow> serve proctree_serve_one sk;
             if \<not> quit then ret Blocked
             else do { _ \<leftarrow> c_close sk; _ \<leftarrow> c_unlink (argv ! 1); ret (Exit 0) }
           }
         }
       }
     })"

subsection \<open>The trusted daemon\<close>

text \<open>The report that accounts for one read.\<close>

definition report_text :: "string option \<Rightarrow> int \<Rightarrow> nat \<Rightarrow> string \<Rightarrow> string" where
  "report_text runid client pid path =
     ''io-mon-breakaway-report v1'' @ nl @ ''run '' @ (case runid of None \<Rightarrow> [] | Some r \<Rightarrow> r) @ nl @
     ''client '' @ int_text client @ nl @ ''daemon '' @ nat_text pid @ nl @ ''read '' @ path @ nl @
     ''complete'' @ nl"

definition report_path :: "string \<Rightarrow> int \<Rightarrow> nat \<Rightarrow> nat \<Rightarrow> string" where
  "report_path reportdir client pid n =
     take 8191 (reportdir @ ''/report-'' @ int_text client @ ''-'' @ nat_text pid @ ''-'' @ nat_text n @
       ''.io-mon-report'')"

definition trusted_serve_one :: "string option \<Rightarrow> string option \<Rightarrow> int \<Rightarrow> nat \<Rightarrow> (bool \<times> nat) prog" where
  "trusted_serve_one reportdir runid c n = do {
     line \<leftarrow> read_line 4095 c;
     let path = c_string line;
     if path = ''__QUIT__'' then do { _ \<leftarrow> c_close c; ret (True, n) }
     else do {
       client \<leftarrow> c_peerpid c;
       ok \<leftarrow> send_file c path;
       if ok \<and> reportdir \<noteq> None \<and> reportdir \<noteq> Some [] \<and> client > 0
       then do {
         pid \<leftarrow> c_getpid;
         write_text_file (report_path (the reportdir) client pid n) (report_text runid client pid path);
         ret (False, Suc n)
       }
       else ret (False, n)
     }
   }"

definition trusted_daemon :: "string list \<Rightarrow> outcome prog" where
  "trusted_daemon argv =
    (if length argv < 3 then usage_line (''usage: trusted_daemon <sockpath> <readyfile>'' @ nl)
     else do {
       reportdir \<leftarrow> c_getenv ''IO_MON_BREAKAWAY_REPORT_DIR'';
       runid \<leftarrow> c_getenv ''REPRO_MONITOR_SESSION'';
       _ \<leftarrow> c_unlink (argv ! 1);
       sk \<leftarrow> c_socket;
       if sk < 0 then fail ''socket''
       else do {
         rc \<leftarrow> c_bind sk (sun_path_macos (argv ! 1));
         if rc < 0 then fail ''bind''
         else do {
           rc \<leftarrow> fd_call ''listen'' sk;
           if rc < 0 then fail ''listen''
           else do {
             pid \<leftarrow> c_getpid;
             write_text_file (argv ! 2) (nat_text pid @ nl);
             quit \<leftarrow> serve (trusted_serve_one reportdir runid) sk;
             if \<not> quit then ret Blocked
             else do { _ \<leftarrow> c_close sk; _ \<leftarrow> c_unlink (argv ! 1); ret (Exit 0) }
           }
         }
       }
     })"

section \<open>r2_machinery\<close>

text \<open>The client and the daemon of this directory; the ready file is optional here.\<close>

definition machinery_client :: "string list \<Rightarrow> outcome prog" where
  "machinery_client argv = proctree_client argv"

definition plain_daemon :: "string \<Rightarrow> string list \<Rightarrow> outcome prog" where
  "plain_daemon ready argv =
    (if length argv < 2 then usage_line (''usage: daemon <sockpath>'' @ nl)
     else do {
       _ \<leftarrow> c_unlink (argv ! 1);
       sk \<leftarrow> c_socket;
       rc \<leftarrow> c_bind sk (sun_path_macos (argv ! 1));
       if rc < 0 then fail ''bind''
       else do {
         rc \<leftarrow> fd_call ''listen'' sk;
         if rc < 0 then fail ''listen''
         else do {
           pid \<leftarrow> c_getpid;
           eprintf (''daemon: listening on '' @ argv ! 1 @ '' pid='' @ nat_text pid @ nl);
           write_text_file ready (nat_text pid @ nl);
           quit \<leftarrow> serve proctree_serve_one sk;
           if \<not> quit then ret Blocked
           else do { _ \<leftarrow> c_close sk; _ \<leftarrow> c_unlink (argv ! 1); ret (Exit 0) }
         }
       }
     })"

definition machinery_daemon :: "string list \<Rightarrow> outcome prog" where
  "machinery_daemon = plain_daemon ''/tmp/adv_proctree/daemon.ready''"

text \<open>A client that forges the report of a daemon it used, without its reads.\<close>

definition forged_report :: "nat \<Rightarrow> int \<Rightarrow> string" where
  "forged_report pid peer =
     ''io-mon-breakaway-report v1'' @ nl @ ''client '' @ nat_text pid @ nl @ ''daemon '' @ int_text peer @ nl"

definition malicious_client :: "string list \<Rightarrow> outcome prog" where
  "malicious_client argv =
    (if length argv < 3 then usage_line (''usage: mc <sock> <file>'' @ nl)
     else do {
       sk \<leftarrow> c_socket;
       rc \<leftarrow> c_connect sk (sun_path_macos (argv ! 1));
       if rc < 0 then fail ''connect''
       else do {
         peer \<leftarrow> c_peerpid sk;
         _ \<leftarrow> c_dprintf sk (argv ! 2 @ nl);
         (n, tot) \<leftarrow> read_all Libc ''read'' sk 8192 (\<lambda>b n. n + length b) 0;
         _ \<leftarrow> c_close sk;
         dir \<leftarrow> c_getenv ''IO_MON_BREAKAWAY_REPORT_DIR'';
         pid \<leftarrow> c_getpid;
         (case dir of
            None \<Rightarrow> ret ()
          | Some d \<Rightarrow>
              if d = [] then ret ()
              else write_text_file
                     (take 8191 (d @ ''/forged-'' @ nat_text pid @ ''.io-mon-report''))
                     (forged_report pid peer));
         printf (''MALICIOUS CLIENT got '' @ nat_text tot @ '' bytes; forged report for daemon pid '' @
           int_text peer @ nl);
         ret (Exit 0)
       }
     })"

definition kill_probe :: "string list \<Rightarrow> outcome prog" where
  "kill_probe argv = do {
     repeat 2000 (touch_file (arg argv 1));
     touch_file (arg argv 2);
     raise_sigkill
   }"

definition marker_read :: "string list \<Rightarrow> outcome prog" where
  "marker_read argv = do {
     for_each (drop 1 argv) (\<lambda>p. touch_file (Some p));
     ret (Exit 0)
   }"

text \<open>The macOS numbers of the errors.\<close>

fun errno_number :: "errno \<Rightarrow> nat" where
  "errno_number ENOENT = 2" | "errno_number EINTR = 4" | "errno_number EIO = 5" | "errno_number EBADF = 9"
| "errno_number ECHILD = 10" | "errno_number ENOMEM = 12" | "errno_number EACCES = 13"
| "errno_number EFAULT = 14" | "errno_number EEXIST = 17" | "errno_number ENOTDIR = 20"
| "errno_number EISDIR = 21" | "errno_number EINVAL = 22" | "errno_number ESPIPE = 29"
| "errno_number EPIPE = 32" | "errno_number ENOTSUP = 45" | "errno_number ECONNREFUSED = 61"
| "errno_number ENOTEMPTY = 66" | "errno_number ENOSYS = 78"

text \<open>The argument vector of a child ends at the first null pointer.\<close>

definition spawn_and_wait :: "programs \<Rightarrow> string option \<Rightarrow> string option list \<Rightarrow> (errno option) prog" where
  "spawn_and_wait progs path args = do {
     environ \<leftarrow> c_environ;
     case path of
       None \<Rightarrow> ret (Some EFAULT)
     | Some p \<Rightarrow> do {
         r \<leftarrow> c_posix_spawn progs p (map the (takeWhile (\<lambda>a. a \<noteq> None) args)) environ;
         case r of
           Inl e \<Rightarrow> ret (Some e)
         | Inr out \<Rightarrow> do { pid \<leftarrow> c_getpid; _ \<leftarrow> c_waitpid (int pid + 1); ret None }
       }
   }"

definition spawn_hardened :: "programs \<Rightarrow> string list \<Rightarrow> outcome prog" where
  "spawn_hardened progs argv = do {
     r \<leftarrow> spawn_and_wait progs (arg argv 1) [arg argv 1, arg argv 2];
     case r of
       Some e \<Rightarrow> do { printf (''spawn rc='' @ nat_text (errno_number e) @ nl); ret (Exit 1) }
     | None \<Rightarrow> do {
         pid \<leftarrow> c_getpid;
         printf (''SPAWNER child pid='' @ nat_text (Suc pid) @ nl);
         ret (Exit 0)
       }
   }"

definition spawn_uninject :: "programs \<Rightarrow> string list \<Rightarrow> outcome prog" where
  "spawn_uninject progs argv = do {
     r \<leftarrow> spawn_and_wait progs (Some ''/usr/bin/cat'') [Some ''/usr/bin/cat'', arg argv 1];
     case r of
       Some e \<Rightarrow> do { printf (''spawn failed '' @ nat_text (errno_number e) @ nl); ret (Exit 1) }
     | None \<Rightarrow> do {
         pid \<leftarrow> c_getpid;
         printf (''SPAWNER: cat ran as pid='' @ nat_text (Suc pid) @ nl);
         ret (Exit 0)
       }
   }"

section \<open>r3_merge\<close>

definition bigread :: "string list \<Rightarrow> outcome prog" where
  "bigread argv = do {
     for_each [0..<5000] (\<lambda>i. do {
       _ \<leftarrow> peek_file (Some (take 599 (arg_text argv 1 @ ''/f_'' @ nat_text i @ ''.txt''))) 16;
       ret () });
     ret (Exit 0)
   }"

definition merge_smoke :: "string list \<Rightarrow> outcome prog" where
  "merge_smoke argv = do {
     f \<leftarrow> c_fopen_r (arg argv 1);
     if f < 0 then fail ''open''
     else do {
       (b, eof, err) \<leftarrow> c_fread f 64;
       _ \<leftarrow> c_close f;
       printf (''read '' @ nat_text (length b) @ '' bytes'' @ nl);
       ret (Exit 0)
     }
   }"

definition killtest :: "string list \<Rightarrow> outcome prog" where
  "killtest argv = do {
     _ \<leftarrow> peek_file (Some (take 599 (arg_text argv 1 @ ''/killmarker.txt''))) 64;
     raise_sigkill
   }"

text \<open>The children run one after the other here; they share no descriptor and write no file.\<close>

fun fork_children :: "nat list \<Rightarrow> (nat \<Rightarrow> outcome prog) \<Rightarrow> int list prog" where
  "fork_children [] child = ret []"
| "fork_children (i # is) child = do {
     p \<leftarrow> c_fork (child i);
     ps \<leftarrow> fork_children is child;
     ret (p # ps)
   }"

definition forktree :: "string list \<Rightarrow> outcome prog" where
  "forktree argv = do {
     pids \<leftarrow> fork_children [0..<24] (\<lambda>i. do {
       ok \<leftarrow> peek_file (Some (take 599 (arg_text argv 1 @ ''/marker_'' @ nat_text i @ ''.txt''))) 64;
       ret (Exit (if ok then 0 else 1)) });
     for_each pids (\<lambda>p. do { _ \<leftarrow> c_waitpid p; ret () });
     ret (Exit 0)
   }"

section \<open>r4_residual\<close>

definition residual_reader :: "string list \<Rightarrow> outcome prog" where
  "residual_reader argv = do {
     fd \<leftarrow> open_as Libc ''open'' (arg argv 1) [O_RDONLY];
     if fd < 0 then fail ''open''
     else do {
       (n, buf) \<leftarrow> c_read fd 256;
       (if n > 0 then do { _ \<leftarrow> c_write 1 buf; ret () } else ret ());
       _ \<leftarrow> c_close fd;
       ret (Exit 0)
     }
   }"

text \<open>\<^verbatim>\<open>atoi\<close> and \<^verbatim>\<open>strlen\<close> of a null pointer end the program by SIGSEGV.\<close>

definition pipe_client :: "string list \<Rightarrow> outcome prog" where
  "pipe_client argv =
    (case arg argv 1 of
       None \<Rightarrow> ret (Signalled 11)
     | Some a \<Rightarrow> do {
         let rfd = atoi a;
         (n, buf) \<leftarrow> c_read rfd 255;
         if n \<le> 0
         then do {
           eprintf (''[client] read inherited fd '' @ int_text rfd @ '' failed n='' @ int_text n @ nl);
           ret (Exit 1)
         }
         else do {
           ofd \<leftarrow> open_as Libc ''open'' (arg argv 2) out_flags;
           _ \<leftarrow> c_dprintf ofd (''output-from-inherited-pipe: '' @ c_string buf);
           _ \<leftarrow> c_close ofd;
           eprintf (''[client] read '' @ quoted (c_string buf) @ '' from inherited fd '' @ int_text rfd @ nl);
           ret (Exit 0)
         }
       })"

definition pipe_launcher :: "programs \<Rightarrow> string list \<Rightarrow> outcome prog" where
  "pipe_launcher progs argv = do {
     (rc, r, w) \<leftarrow> c_pipe;
     if rc \<noteq> 0 then do { perror ''pipe''; ret (Exit 2) }
     else (case arg argv 5 of
       None \<Rightarrow> ret (Signalled 11)
     | Some marker \<Rightarrow> do {
         _ \<leftarrow> c_write w (str_bytes marker);
         _ \<leftarrow> c_close w;
         _ \<leftarrow> fd_call ''fcntl'' r;
         _ \<leftarrow> fd_call ''fcntl'' r;
         environ \<leftarrow> c_environ;
         x \<leftarrow> exec_as Libc ''execl'' progs (argv ! 1)
                [''io-mon'', ''run'', ''--depfile'', argv ! 2, ''--'', argv ! 3, int_text r, argv ! 4] environ;
         case x of
           Some out \<Rightarrow> ret out
         | None \<Rightarrow> do { perror ''execl''; ret (Exit 3) }
       })
   }"

definition residual_shm_open :: "string option \<Rightarrow> oflag list \<Rightarrow> int prog" where
  "residual_shm_open name flags = open_as Libc ''shm_open'' (map_option shm_path name) flags"

definition residual_shm_consumer :: "string list \<Rightarrow> outcome prog" where
  "residual_shm_consumer argv = do {
     fd \<leftarrow> residual_shm_open (arg argv 1) [O_RDONLY];
     if fd < 0 then fail ''shm_open''
     else do {
       p \<leftarrow> c_mmap fd 4096 False;
       case p of
         None \<Rightarrow> fail ''mmap''
       | Some mp \<Rightarrow> do {
           b \<leftarrow> map_load mp;
           let marker = take 255 (c_string b);
           ofd \<leftarrow> open_as Libc ''open'' (arg argv 2) out_flags;
           _ \<leftarrow> c_dprintf ofd (''output-derived-from: '' @ marker @ nl);
           _ \<leftarrow> c_close ofd;
           _ \<leftarrow> c_munmap;
           _ \<leftarrow> c_close fd;
           eprintf (''consumer baked '' @ quoted marker @ '' into '' @ arg_text argv 2 @ nl);
           ret (Exit 0)
         }
     }
   }"

text \<open>
  \<^verbatim>\<open>strncpy\<close> pads with zeros; storing into a mapping of an empty object ends the program by SIGBUS.
\<close>

definition map_bytes :: "nat \<times> nat \<Rightarrow> nat prog" where
  "map_bytes m = State (\<lambda>s. (length (os_data s (fst m)), s))"

definition residual_shm_producer :: "string list \<Rightarrow> outcome prog" where
  "residual_shm_producer argv = do {
     fd \<leftarrow> residual_shm_open (arg argv 1) [O_CREAT, O_RDWR];
     if fd < 0 then fail ''shm_open''
     else do {
       _ \<leftarrow> c_ftruncate fd 4096;
       p \<leftarrow> c_mmap fd 4096 True;
       case p of
         None \<Rightarrow> fail ''mmap''
       | Some mp \<Rightarrow>
           (case arg argv 2 of
              None \<Rightarrow> ret (Signalled 11)
            | Some marker \<Rightarrow> do {
                sz \<leftarrow> map_bytes mp;
                if sz = 0 then ret (Signalled 10)
                else do {
                  map_store mp (resize (take 4095 (str_bytes marker)) 4095);
                  _ \<leftarrow> c_munmap;
                  _ \<leftarrow> c_close fd;
                  eprintf (''producer wrote '' @ quoted marker @ '' to shm '' @ quoted (arg_text argv 1) @ nl);
                  ret (Exit 0)
                }
              })
     }
   }"

end
