(* ===== verification/Breakaway_Facts.thy ===== *)
theory Breakaway_Facts
  imports Breakaway Merge_Check_Facts Process_Probes
begin

text \<open>
  Decimal text and the authentication of trusted-daemon reports.
\<close>

section \<open>Decimal text\<close>

lemma digit_char: "n < (10 :: nat) \<Longrightarrow> of_char (char_of (48 + n)) = 48 + n"
  by (simp add: of_char_of)

lemma is_decimal_digit: "n < (10 :: nat) \<Longrightarrow> is_decimal (char_of (48 + n))"
  by (simp add: is_decimal_def digit_char)

lemma nat_text_decimal: "c \<in> set (nat_text n) \<Longrightarrow> is_decimal c"
proof (induction n rule: nat_text.induct)
  case (1 n)
  show ?case
  proof (cases "n < 10")
    case True
    then show ?thesis using 1(2) by (simp add: nat_text.simps [of n] is_decimal_digit)
  next
    case False
    then show ?thesis using 1 by (auto simp: nat_text.simps [of n] is_decimal_digit)
  qed
qed

lemma parse_nat_text:
  assumes "n < 2 ^ 64" "take 1 s \<noteq> ''_''"
  shows "parse_digits (nat_text n @ s) 0 = parse_digits s (word_of_nat n)"
  using assms
proof (induction n arbitrary: s rule: nat_text.induct)
  case (1 n)
  have skip: "dropWhile (\<lambda>d. d = CHR ''_'') s = s" using 1(3) by (cases s) auto
  have step: "parse_digits (char_of (48 + d) # s) (word_of_nat m) = parse_digits s (word_of_nat (10 * m + d))"
    if d: "d < 10" and b: "10 * m + d < 2 ^ 64" for m d
  proof -
    have "unat (word_of_nat (10 * m + d) :: u64) = 10 * m + d" "unat (word_of_nat m :: u64) = m"
      using b by (simp_all add: unat_of_nat del: of_nat_add of_nat_mult)
    then have "(word_of_nat m :: u64) \<le> word_of_nat (10 * m + d)"
      unfolding word_le_nat_alt by linarith
    then have "\<not> word_of_nat m * 10 + word_of_nat d < (word_of_nat m :: u64)"
      by (simp add: not_less mult.commute)
    then show ?thesis using d
      by (subst parse_digits.simps) (simp add: is_decimal_digit digit_char skip Let_def mult.commute)
  qed
  show ?case
  proof (cases "n < 10")
    case True
    then show ?thesis using step [of n 0] 1(2) by (simp add: nat_text.simps [of n])
  next
    case False
    have "parse_digits (nat_text n @ s) 0 = parse_digits (nat_text (n div 10) @ char_of (48 + n mod 10) # s) 0"
      using False by (simp add: nat_text.simps [of n])
    also have "\<dots> = parse_digits (char_of (48 + n mod 10) # s) (word_of_nat (n div 10))"
    proof (rule 1(1) [OF False])
      have "char_of (48 + n mod 10) \<noteq> CHR ''_''"
      proof
        assume "char_of (48 + n mod 10) = CHR ''_''"
        then have "48 + n mod 10 = (95 :: nat)" using digit_char [of "n mod 10"] by simp
        moreover have "n mod 10 < 10" by simp
        ultimately show False by linarith
      qed
      then show "take 1 (char_of (48 + n mod 10) # s) \<noteq> ''_''" by simp
    qed (use 1(2) in simp)
    also have "\<dots> = parse_digits s (word_of_nat n)"
      using step [of "n mod 10" "n div 10"] 1(2) by simp
    finally show ?thesis .
  qed
qed

lemma parseBiggestUInt_text:
  assumes "n < 2 ^ 64"
  shows "parseBiggestUInt (nat_text n) = Some (word_of_nat n)"
proof -
  have d: "is_decimal (hd (nat_text n))" by (intro nat_text_decimal [of _ n]) simp
  have p: "parse_digits (nat_text n) 0 = Some (word_of_nat n, [])"
    using parse_nat_text [OF assms, of "[]"] by (simp add: parse_digits.simps [of "[]"])
  have "nat_text n ! 0 \<noteq> CHR ''-''" "take 1 (nat_text n) \<noteq> ''+''"
    using d by (auto simp: is_decimal_def hd_conv_nth take_Suc)
  then show ?thesis using d p by (simp add: parseBiggestUInt_def Let_def)
qed

lemma u64_text_inject: "u64_text a = u64_text b \<longleftrightarrow> a = b"
proof
  assume "u64_text a = u64_text b"
  moreover have "parseBiggestUInt (u64_text w) = Some w" for w
    using parseBiggestUInt_text [of "unat w"] unsigned_less [of w, where ?'a = nat] by (simp add: u64_text_def)
  ultimately show "a = b" by (metis option.inject)
qed simp

lemma connection_key_inject: "connection_key a b = connection_key c d \<longleftrightarrow> a = c \<and> b = d"
proof
  have nc: "CHR '':'' \<notin> set (u64_text w)" for w using nat_text_decimal [of "CHR '':''"] by (auto simp: u64_text_def is_decimal_def)
  assume e: "connection_key a b = connection_key c d"
  have "takeWhile (\<lambda>x. x \<noteq> CHR '':'') (connection_key a b) = u64_text a" for a b
    unfolding connection_key_def using nc [of a] by (subst takeWhile_append2) auto
  then have "u64_text a = u64_text c" using e by metis
  then show "a = c \<and> b = d" using e by (simp add: connection_key_def u64_text_inject)
qed simp

section \<open>The authentication context\<close>

lemma auth_output_simps [simp]:
  "ba_connectedPeers (auth_output r a) = ba_connectedPeers a" "ba_runId (auth_output r a) = ba_runId a"
  "ba_inTreeOutputPaths (auth_output r a) =
     (if rec_observationKind r = moFileWrite \<and> rec_path r \<noteq> []
      then insert (rec_path r) (ba_inTreeOutputPaths a) else ba_inTreeOutputPaths a)"
  by (simp_all add: auth_output_def Let_def comparableReportPath_def)

lemma auth_run_simps [simp]:
  "ba_connectedPeers (auth_run r a) = ba_connectedPeers a"
  "ba_inTreeOutputPaths (auth_run r a) = ba_inTreeOutputPaths a"
  "ba_runId (auth_run r a) =
     (if ba_runId a = [] then trustedDetailToken (rec_detail r) RunIdToken else ba_runId a)"
  by (simp_all add: auth_run_def Let_def)

lemma auth_connect_simps [simp]:
  "ba_connectedPeers (auth_connect r a) =
     (if rec_childOsPid r \<noteq> 0
      then insert (connection_key (rec_osPid r) (rec_childOsPid r)) (ba_connectedPeers a) else ba_connectedPeers a)"
  "ba_inTreeOutputPaths (auth_connect r a) = ba_inTreeOutputPaths a"
  "ba_runId (auth_connect r a) =
     (if ba_runId a = [] then trustedDetailToken (rec_detail r) RunIdToken else ba_runId a)"
  by (simp_all add: auth_connect_def Let_def)

lemma auth_step_simps:
  "ba_connectedPeers (auth_step r a) =
     (if rec_kind r = mrIpcConnect \<and> rec_childOsPid r \<noteq> 0
      then insert (connection_key (rec_osPid r) (rec_childOsPid r)) (ba_connectedPeers a) else ba_connectedPeers a)"
  "ba_inTreeOutputPaths (auth_step r a) =
     (if rec_observationKind r = moFileWrite \<and> rec_path r \<noteq> []
      then insert (rec_path r) (ba_inTreeOutputPaths a) else ba_inTreeOutputPaths a)"
  "ba_runId (auth_step r a) = ba_runId a \<or> ba_runId (auth_step r a) = trustedDetailToken (rec_detail r) RunIdToken"
  by (cases "rec_kind r"; simp add: auth_step_def Let_def)+

lemma auth_connected:
  "k \<in> ba_connectedPeers (fold auth_step rs a) \<longleftrightarrow> k \<in> ba_connectedPeers a \<or>
     (\<exists>r \<in> set rs. rec_kind r = mrIpcConnect \<and> rec_childOsPid r \<noteq> 0 \<and>
        k = connection_key (rec_osPid r) (rec_childOsPid r))"
  by (induction rs arbitrary: a) (auto simp: auth_step_simps(1))

lemma auth_outputs:
  "ba_inTreeOutputPaths (fold auth_step rs a) =
     ba_inTreeOutputPaths a \<union> rec_path ` {r \<in> set rs. rec_observationKind r = moFileWrite \<and> rec_path r \<noteq> []}"
  by (induction rs arbitrary: a) (auto simp: auth_step_simps(2))

lemma auth_runs:
  "ba_runId (fold auth_step rs a) = ba_runId a \<or>
     (\<exists>r \<in> set rs. trustedDetailToken (rec_detail r) RunIdToken = ba_runId (fold auth_step rs a))"
proof (induction rs arbitrary: a)
  case (Cons r rs)
  show ?case using Cons [of "auth_step r a"] auth_step_simps(3) [of r a]
    unfolding fold_simps list.set by (metis insert_iff)
qed simp

lemma in_connectedPeers:
  "connection_key client peer \<in> ba_connectedPeers (breakawayAuthContext rs) \<longleftrightarrow>
     peer \<noteq> 0 \<and> (\<exists>r \<in> set rs. rec_kind r = mrIpcConnect \<and> rec_osPid r = client \<and> rec_childOsPid r = peer)"
  unfolding breakawayAuthContext_def auth_connected by (auto simp: connection_key_inject)

lemma known_run:
  "ba_runId (breakawayAuthContext rs) \<noteq> [] \<Longrightarrow>
     \<exists>r \<in> set rs. trustedDetailToken (rec_detail r) RunIdToken = ba_runId (breakawayAuthContext rs)"
  unfolding breakawayAuthContext_def
  using auth_runs [of rs "\<lparr>ba_runId = [], ba_connectedPeers = {}, ba_validNonces = {},
    ba_inTreeOutputPaths = {}, ba_inTreeOutputInos = {}\<rparr>"] by simp

lemma in_tree_report:
  assumes "r \<in> set rs" "rec_observationKind r = moFileWrite" "rec_path r = rf_path f \<or> rf_real f = Some (rec_path r)"
    "rec_path r \<noteq> []"
  shows "reportAuthoredInTree f (breakawayAuthContext rs)"
proof -
  have "rec_path r \<in> ba_inTreeOutputPaths (breakawayAuthContext rs)"
    using assms by (auto simp: breakawayAuthContext_def auth_outputs)
  then show ?thesis using assms(3) by (auto simp: reportAuthoredInTree_def)
qed

lemma in_monitored: "pid \<in> monitoredStartPids rs \<longleftrightarrow> (\<exists>r \<in> set rs. rec_kind r = mrProcessStart \<and> rec_osPid r = pid)"
  unfolding monitoredStartPids_def by (subst fold_if_insert) auto

section \<open>What an accepted report guarantees\<close>

definition authenticates :: "MonitorRecord list \<Rightarrow> report_file \<Rightarrow> report \<Rightarrow> bool" where
  "authenticates rs f p \<longleftrightarrow>
     rp_complete p \<and> rp_reads p \<noteq> [] \<and>
     (\<exists>s \<in> set rs. rec_kind s = mrProcessStart \<and> rec_osPid s = rp_client p) \<and>
     (\<exists>c \<in> set rs. rec_kind c = mrIpcConnect \<and> rec_osPid c = rp_client p \<and> rec_childOsPid c = rp_daemon p) \<and>
     rp_run p \<noteq> [] \<and> (\<exists>s \<in> set rs. trustedDetailToken (rec_detail s) RunIdToken = rp_run p) \<and>
     (\<forall>w \<in> set rs. rec_observationKind w = moFileWrite \<and> rec_path w \<noteq> [] \<longrightarrow>
        rec_path w \<noteq> rf_path f \<and> rf_real f \<noteq> Some (rec_path w))"

lemma accepted_authenticates:
  assumes "accepted_report (monitoredStartPids rs) (breakawayAuthContext rs) f = Some p"
  shows "authenticates rs f p \<and> rp_daemon p \<noteq> 0 \<and>
    (\<exists>content. rf_content f = Some content \<and> parse_report (split_lines content) empty_report = Some p)"
proof -
  from assms obtain content where
    out: "\<not> reportAuthoredInTree f (breakawayAuthContext rs)" and c: "rf_content f = Some content" and
    parsed: "parse_report (split_lines content) empty_report = Some p" and
    a: "report_authentic (monitoredStartPids rs) (breakawayAuthContext rs) p"
    by (auto simp: accepted_report_def split: if_splits option.splits)
  from a have run: "rp_run p = ba_runId (breakawayAuthContext rs)" "rp_run p \<noteq> []"
    and rest: "rp_client p \<in> monitoredStartPids rs" "rp_daemon p \<noteq> 0" "rp_complete p" "rp_reads p \<noteq> []"
      "connection_key (rp_client p) (rp_daemon p) \<in> ba_connectedPeers (breakawayAuthContext rs)"
    by (auto simp: report_authentic_def split: if_splits)
  have "\<exists>s \<in> set rs. trustedDetailToken (rec_detail s) RunIdToken = rp_run p"
    using known_run run by metis
  moreover have "\<forall>w \<in> set rs. rec_observationKind w = moFileWrite \<and> rec_path w \<noteq> [] \<longrightarrow>
        rec_path w \<noteq> rf_path f \<and> rf_real f \<noteq> Some (rec_path w)"
    using out in_tree_report [of _ rs f] by metis
  ultimately show ?thesis
    using rest run c parsed unfolding authenticates_def in_monitored in_connectedPeers by simp
qed

section \<open>The text of a report\<close>

lemma split_lines_nl:
  assumes "CHR 0x0A \<notin> set s" "CHR 0x0D \<notin> set s"
  shows "split_lines (s @ CHR 0x0A # t) = s # split_lines t"
  using assms
proof (induction s)
  case Nil
  then show ?case by (simp add: split_lines.simps [of "CHR 0x0A # t"])
next
  case (Cons c s)
  then show ?case by (auto simp: split_lines.simps [of "c # s @ CHR 0x0A # t"])
qed

lemma split_lines_Nil: "split_lines [] = [[]]"
  by (simp add: split_lines.simps)

text \<open>A word has no blanks and no line ends.\<close>

definition is_word :: "string \<Rightarrow> bool" where
  "is_word w \<longleftrightarrow> w \<noteq> [] \<and> (\<forall>c \<in> set w. \<not> isWhitespace c)"

lemma isDetailSpace_eq: "isDetailSpace = isWhitespace"
  by (auto simp: isDetailSpace_def isWhitespace_def fun_eq_iff)

lemma two_words:
  assumes "is_word v" "is_word w"
  shows "detailTokens (v @ '' '' @ w) = [v, w]"
proof -
  have one: "detailTokens w = [w]"
  proof -
    have d: "dropWhile isWhitespace w = w" using assms(2) by (cases w) (simp_all add: is_word_def)
    have t: "takeWhile (\<lambda>c. \<not> isWhitespace c) w = w" "dropWhile (\<lambda>c. \<not> isWhitespace c) w = []"
      using assms(2) by (simp_all add: is_word_def takeWhile_eq_all_conv dropWhile_eq_Nil_conv)
    have "detailTokens [] = []" by (simp add: detailTokens.simps)
    then show ?thesis using assms(2)
      unfolding detailTokens.simps [of w] Let_def isDetailSpace_eq d t by (simp add: is_word_def)
  qed
  have sp: "detailTokens ('' '' @ w) = detailTokens w"
    by (subst (1 2) detailTokens.simps) (simp add: isDetailSpace_def)
  have "dropWhile isWhitespace (v @ '' '' @ w) = v @ '' '' @ w" using assms(1) by (cases v) (auto simp: is_word_def)
  moreover have "takeWhile (\<lambda>c. \<not> isWhitespace c) (v @ '' '' @ w) = v"
    "dropWhile (\<lambda>c. \<not> isWhitespace c) (v @ '' '' @ w) = '' '' @ w"
    using assms(1) by (simp_all add: is_word_def isWhitespace_def)
  ultimately show ?thesis using assms(1) one sp
    by (subst detailTokens.simps) (simp add: isDetailSpace_eq is_word_def)
qed

lemma strip_line:
  assumes "is_word v" "is_word w"
  shows "strip (v @ '' '' @ w) = v @ '' '' @ w"
proof -
  have "\<not> isWhitespace (hd v)" "\<not> isWhitespace (last w)" using assms by (auto simp: is_word_def)
  then show ?thesis using assms by (subst strip_fixed_iff) (auto simp: is_word_def)
qed

lemma nat_text_word: "is_word (nat_text n)"
proof -
  have "\<not> isWhitespace c" if "c \<in> set (nat_text n)" for c
    using nat_text_decimal [OF that] by (auto simp: isWhitespace_def is_decimal_def)
  then show ?thesis by (simp add: is_word_def)
qed

lemma word_no_newline: "is_word w \<Longrightarrow> CHR 0x0A \<notin> set w \<and> CHR 0x0D \<notin> set w"
  by (auto simp: is_word_def isWhitespace_def)

lemma int_text_word: "is_word (int_text z)"
  using nat_text_word [of "nat z"] nat_text_word [of "nat (- z)"]
  by (auto simp: int_text_def is_word_def isWhitespace_def)

section \<open>Parsing\<close>

lemma report_line_complete:
  "report_line l p = Some q \<Longrightarrow> rp_complete q \<Longrightarrow> rp_complete p \<or> strip l = BreakawayReportCompleteToken"
  by (auto simp: report_line_def Let_def split: if_splits option.splits)

lemma parse_report_complete:
  "parse_report ls p = Some q \<Longrightarrow> rp_complete q \<Longrightarrow>
     rp_complete p \<or> BreakawayReportCompleteToken \<in> strip ` set ls"
proof (induction ls arbitrary: p)
  case (Cons l ls)
  then obtain p' where p': "report_line l p = Some p'" "parse_report ls p' = Some q"
    by (auto split: option.splits)
  from Cons.IH [OF p'(2) Cons.prems(2)] report_line_complete [OF p'(1)] show ?case by auto
qed simp

text \<open>A report that never says it is complete is not accepted.\<close>

lemma incomplete_not_accepted:
  assumes "rf_content f = Some content" "BreakawayReportCompleteToken \<notin> strip ` set (split_lines content)"
  shows "accepted_report monitored auth f = None"
proof (rule ccontr)
  assume "accepted_report monitored auth f \<noteq> None"
  then obtain p where "parse_report (split_lines content) empty_report = Some p" "rp_complete p"
    using assms(1) by (auto simp: accepted_report_def report_authentic_def split: if_splits option.splits)
  then show False using parse_report_complete [of "split_lines content" empty_report p] assms(2)
    by (simp add: empty_report_def)
qed

lemma word_literals [simp]:
  "is_word ''client''" "is_word ''daemon''" "is_word ''run''" "is_word ''read''"
  by (simp_all add: is_word_def isWhitespace_def)

lemma split_line_of_words:
  assumes "is_word v" "is_word w"
  shows "split_lines (v @ '' '' @ w @ CHR 0x0A # t) = (v @ '' '' @ w) # split_lines t"
  using split_lines_nl [of "v @ '' '' @ w" t] word_no_newline [OF assms(1)] word_no_newline [OF assms(2)] by simp

lemma split_magic:
  "split_lines (''io-mon-breakaway-report v1'' @ CHR 0x0A # t) = ''io-mon-breakaway-report v1'' # split_lines t"
  by (rule split_lines_nl) simp_all

lemma forged_lines:
  "split_lines (forged_report pid peer) =
     [''io-mon-breakaway-report v1'', ''client '' @ nat_text pid, ''daemon '' @ int_text peer, []]"
  unfolding forged_report_def nl_def
  using split_line_of_words [of "''client''" "nat_text pid"] split_line_of_words [of "''daemon''" "int_text peer" "[]"]
    split_magic nat_text_word int_text_word
  by (simp add: split_lines_Nil)

lemma forged_never_complete: "BreakawayReportCompleteToken \<notin> strip ` set (split_lines (forged_report pid peer))"
proof -
  have "strip (''client '' @ nat_text pid) = ''client '' @ nat_text pid"
    "strip (''daemon '' @ int_text peer) = ''daemon '' @ int_text peer"
    using strip_line [of "''client''" "nat_text pid"] strip_line [of "''daemon''" "int_text peer"]
      nat_text_word int_text_word by simp_all
  moreover have "strip ''io-mon-breakaway-report v1'' \<noteq> BreakawayReportCompleteToken" "strip [] \<noteq> BreakawayReportCompleteToken"
    by code_simp+
  ultimately show ?thesis by (auto simp: forged_lines BreakawayReportCompleteToken_def)
qed

section \<open>The report of the cooperating daemon\<close>

lemma report_words:
  assumes "is_word w"
  shows "report_line (''client '' @ nat_text n) p =
      (if rp_sawClient p \<or> parseBiggestUInt (nat_text n) = None then None
       else Some (p\<lparr>rp_sawClient := True, rp_client := the (parseBiggestUInt (nat_text n))\<rparr>))"
    "report_line (''daemon '' @ nat_text n) p =
      (if rp_sawDaemon p \<or> parseBiggestUInt (nat_text n) = None then None
       else Some (p\<lparr>rp_sawDaemon := True, rp_daemon := the (parseBiggestUInt (nat_text n))\<rparr>))"
    "report_line (''run '' @ w) p = (if rp_sawRun p then None else Some (p\<lparr>rp_sawRun := True, rp_run := w\<rparr>))"
  using strip_line [of "''client''" "nat_text n"] two_words [of "''client''" "nat_text n"]
    strip_line [of "''daemon''" "nat_text n"] two_words [of "''daemon''" "nat_text n"]
    strip_line [of "''run''" w] two_words [of "''run''" w] nat_text_word [of n] assms
  by (auto simp: report_line_def BreakawayReportMagic_def BreakawayReportCompleteToken_def split: option.splits)

text \<open>A path that a report line carries: one line, without blanks at its ends.\<close>

definition line_path :: "string \<Rightarrow> bool" where
  "line_path path \<longleftrightarrow> path \<noteq> [] \<and> strip path = path \<and> CHR 0x0A \<notin> set path \<and> CHR 0x0D \<notin> set path"

lemma report_read:
  assumes "line_path path"
  shows "report_line (''read '' @ path) p = Some (p\<lparr>rp_reads := rp_reads p @ [path]\<rparr>)"
proof -
  have e: "path \<noteq> []" "\<not> isWhitespace (hd path)" "\<not> isWhitespace (last path)"
    using assms strip_fixed_iff [of path] by (auto simp: line_path_def)
  have s: "strip (''read '' @ path) = ''read '' @ path"
    using e by (subst strip_fixed_iff) (auto simp: isWhitespace_def)
  have d: "strip ('' '' @ path) = path"
    using assms by (simp add: line_path_def strip_def isWhitespace_def)
  have "detailTokens path \<noteq> []" using e by (subst detailTokens.simps) (auto simp: isDetailSpace_eq Let_def)
  moreover have "detailTokens (''read '' @ path) = ''read'' # detailTokens ('' '' @ path)"
    by (subst detailTokens.simps) (simp add: isDetailSpace_def Let_def)
  moreover have "detailTokens ('' '' @ path) = detailTokens path"
    by (subst (1 2) detailTokens.simps) (simp add: isDetailSpace_def)
  ultimately have t: "\<exists>x xs. detailTokens (''read '' @ path) = ''read'' # x # xs" by (metis list.exhaust)
  show ?thesis using t s d e
    by (auto simp: report_line_def BreakawayReportMagic_def BreakawayReportCompleteToken_def)
qed

lemma report_text_lines:
  assumes "is_word run" "line_path path"
  shows "split_lines (report_text (Some run) client pid path) =
     [''io-mon-breakaway-report v1'', ''run '' @ run, ''client '' @ int_text client, ''daemon '' @ nat_text pid,
      ''read '' @ path, ''complete'', []]"
proof -
  have "split_lines (''read '' @ path @ CHR 0x0A # t) = (''read '' @ path) # split_lines t" for t
    using split_lines_nl [of "''read '' @ path" t] assms(2) by (simp add: line_path_def)
  moreover have "split_lines (''complete'' @ [CHR 0x0A]) = [''complete'', []]"
    using split_lines_nl [of "''complete''" "[]"] by (simp add: split_lines_Nil)
  ultimately show ?thesis
    unfolding report_text_def nl_def
    using split_line_of_words [of "''client''" "int_text client"] split_line_of_words [of "''daemon''" "nat_text pid"]
      split_line_of_words [of "''run''" run] split_magic nat_text_word int_text_word assms(1)
    by simp
qed

lemma parse_report_text:
  assumes "is_word run" "line_path path" "0 \<le> client" "client < 2 ^ 64" "pid < 2 ^ 64"
  shows "parse_report (split_lines (report_text (Some run) client pid path)) empty_report =
     Some (empty_report\<lparr>rp_client := word_of_int client, rp_daemon := word_of_nat pid, rp_run := run,
       rp_complete := True, rp_sawClient := True, rp_sawDaemon := True, rp_sawRun := True, rp_reads := [path]\<rparr>)"
proof -
  have c: "int_text client = nat_text (nat client)" "word_of_nat (nat client) = word_of_int client"
    "parseBiggestUInt (nat_text (nat client)) = Some (word_of_nat (nat client))"
    using assms(3,4) parseBiggestUInt_text [of "nat client"] by (auto simp: int_text_def of_nat_nat)
  have m: "report_line ''io-mon-breakaway-report v1'' p = Some p" "report_line [] p = Some p" for p
    by (simp_all add: report_line_def BreakawayReportMagic_def strip_def isWhitespace_def)
  have k: "report_line ''complete'' p = (if rp_complete p then None else Some (p\<lparr>rp_complete := True\<rparr>))" for p
    by (simp add: report_line_def BreakawayReportMagic_def BreakawayReportCompleteToken_def strip_def isWhitespace_def)
  show ?thesis
    unfolding report_text_lines [OF assms(1,2)] c(1)
    using report_words [OF assms(1)] report_read [OF assms(2)] c parseBiggestUInt_text [OF assms(5)]
    by (simp add: m k empty_report_def)
qed

text \<open>A report in the words of the trusted daemon, for an observed connection of the run, is accepted.\<close>

lemma report_text_accepted:
  assumes "is_word run" "line_path path" "0 < client" "client < 2 ^ 64" "0 < pid" "pid < 2 ^ 64"
    and "rf_content f = Some (report_text (Some run) client pid path)" "ends_with (rf_path f) BreakawayReportExt"
    and "\<not> reportAuthoredInTree f (breakawayAuthContext rs)" "ba_runId (breakawayAuthContext rs) = run"
    and "\<exists>s \<in> set rs. rec_kind s = mrProcessStart \<and> rec_osPid s = word_of_int client"
    and "\<exists>c \<in> set rs. rec_kind c = mrIpcConnect \<and> rec_osPid c = word_of_int client \<and> rec_childOsPid c = word_of_nat pid"
  shows "\<exists>p. accepted_report (monitoredStartPids rs) (breakawayAuthContext rs) f = Some p \<and>
    rp_daemon p = word_of_nat pid \<and> rp_client p = word_of_int client \<and> rp_reads p = [path]"
proof -
  let ?p = "empty_report\<lparr>rp_client := word_of_int client, rp_daemon := word_of_nat pid, rp_run := run,
       rp_complete := True, rp_sawClient := True, rp_sawDaemon := True, rp_sawRun := True, rp_reads := [path]\<rparr>"
  have "parse_report (split_lines (report_text (Some run) client pid path)) empty_report = Some ?p"
    by (rule parse_report_text) (use assms(1-6) in simp_all)
  moreover have "has_magic (split_lines (report_text (Some run) client pid path))"
    unfolding report_text_lines [OF assms(1,2)] by (simp add: BreakawayReportMagic_def strip_def isWhitespace_def)
  moreover have "report_authentic (monitoredStartPids rs) (breakawayAuthContext rs) ?p"
  proof -
    have nz: "(word_of_int client :: u64) \<noteq> 0" "(word_of_nat pid :: u64) \<noteq> 0"
      using assms(3-6) by (simp_all add: word_of_int_eq_0_iff word_of_nat_eq_0_iff zdvd_not_zless nat_dvd_not_less)
    have "path \<noteq> []" "run \<noteq> []" using assms(1,2) by (simp_all add: line_path_def is_word_def)
    with nz show ?thesis using assms(10-12)
      by (simp add: report_authentic_def in_monitored in_connectedPeers empty_report_def)
  qed
  ultimately have "accepted_report (monitoredStartPids rs) (breakawayAuthContext rs) f = Some ?p"
    using assms(7-9) by (simp add: accepted_report_def)
  then show ?thesis by simp
qed

end
