(* ===== verification/Merge_Facts.thy ===== *)
theory Merge_Facts
  imports Merge_Check_Facts Fold_Facts Breakaway_Facts
begin

text \<open>
  The merge as a whole: which inputs leave no loss behind, what the judgement adds to the gathered
  records, and what the reports contribute.
\<close>

section \<open>From gathered records to the depfile\<close>

text \<open>
  The merge only adds losses, profile and gap records, stamps the profile and numbers the records.
  What the checks read is the multiset of the remaining records, without their numbers.
\<close>

definition nosq :: "MonitorRecord \<Rightarrow> MonitorRecord" where
  "nosq r = r\<lparr>rec_seq := 0\<rparr>"

definition judged :: "MonitorRecord \<Rightarrow> bool" where
  "judged r \<longleftrightarrow> rec_kind r \<notin> {mrEventLoss, mrBackendProfile, mrCapabilityGap}"

lemma nosq_simps [simp]:
  "rec_kind (nosq r) = rec_kind r" "rec_detail (nosq r) = rec_detail r" "rec_path (nosq r) = rec_path r"
  "rec_osPid (nosq r) = rec_osPid r" "rec_childOsPid (nosq r) = rec_childOsPid r"
  "rec_observationKind (nosq r) = rec_observationKind r" "nosq (nosq r) = nosq r"
  "nosq (r\<lparr>rec_seq := n\<rparr>) = nosq r" "rec_threadId (nosq r) = rec_threadId r"
  by (simp_all add: nosq_def)

definition core :: "MonitorRecord list \<Rightarrow> MonitorRecord list" where
  "core rs = map nosq (filter judged rs)"

lemma core_append [simp]: "core (xs @ ys) = core xs @ core ys"
  by (simp add: core_def)

lemma in_core: "r \<in> set (core rs) \<longleftrightarrow> (\<exists>q \<in> set rs. judged q \<and> r = nosq q)"
  by (auto simp: core_def)

lemma set_core: "set (core rs) = nosq ` {r \<in> set rs. judged r}"
  by (auto simp: core_def)

lemma judged_nosq [simp]: "judged (nosq r) = judged r"
  by (simp add: judged_def)

definition tree_accounted :: "MonitorRecord list \<Rightarrow> u64 set \<Rightarrow> bool" where
  "tree_accounted records trusted \<longleftrightarrow>
     (\<forall>r \<in> set records.
        (names_child r \<longrightarrow> child_started records r \<and> last_image_started records (rec_childOsPid r)) \<and>
        (rec_kind r = mrIpcConnect \<longrightarrow> peer_known records trusted r) \<and>
        (rec_kind r = mrExternalContent \<longrightarrow> unpaired_key records r = [] \<or> peer_known records trusted r))"

lemma started_as_core: "started_as (core rs) pid start = started_as rs pid start"
  unfolding started_as_def Bex_def in_core judged_def by force

lemma count_of_core:
  assumes "\<And>r. P r \<Longrightarrow> judged r" "\<And>r. P (nosq r) = P r"
  shows "count_of P (core rs) pid = count_of P rs pid"
proof -
  have "filter (\<lambda>r. P r \<and> rec_osPid r = pid) (core rs) =
      map nosq (filter (\<lambda>r. judged r \<and> P r \<and> rec_osPid r = pid) rs)"
    by (simp add: core_def filter_map comp_def assms(2) conj_commute)
  moreover have "filter (\<lambda>r. judged r \<and> P r \<and> rec_osPid r = pid) rs = filter (\<lambda>r. P r \<and> rec_osPid r = pid) rs"
    using assms(1) by (intro filter_cong) auto
  ultimately show ?thesis by (simp add: count_of_def)
qed

lemma failed_exec_nosq [simp]: "failed_exec (nosq r) = failed_exec r"
  by (simp add: failed_exec_def)

lemma last_image_core: "last_image_started (core rs) pid = last_image_started rs pid"
proof -
  have "startCount (core rs) pid = startCount rs pid" "execCount (core rs) pid = execCount rs pid"
    "execFailedCount (core rs) pid = execFailedCount rs pid"
    unfolding startCount_def execCount_def execFailedCount_def
    by (rule count_of_core; auto simp: judged_def)+
  then show ?thesis by (simp add: last_image_started_def)
qed

lemma names_child_nosq [simp]: "names_child (nosq r) = names_child r"
  by (simp add: names_child_def)

lemma names_child_judged: "names_child r \<Longrightarrow> judged r"
  by (simp add: names_child_def judged_def)

lemma channel_nosq [simp]: "channel (nosq r) = channel r"
  by (simp add: channel_def)

lemma in_channel_paths:
  "p \<in> channel_paths cr rs \<longleftrightarrow> (\<exists>r \<in> set rs. rec_kind r = mrExternalContent \<and> channel r = cr \<and> rec_path r = p)"
  unfolding channel_paths_def by (subst fold_if_insert) auto

lemma channel_paths_core: "channel_paths cr (core rs) = channel_paths cr rs"
  unfolding set_eq_iff in_channel_paths Bex_def in_core judged_def by force

lemma unpaired_core: "unpaired_key (core rs) (nosq r) = unpaired_key rs r"
  by (simp add: unpaired_key_def channel_paths_core)

lemma peer_known_core: "peer_known (core rs) trusted (nosq r) = peer_known rs trusted r"
  by (simp add: peer_known_def started_as_core)

lemma child_started_core: "child_started (core rs) (nosq r) = child_started rs r"
  by (simp add: child_started_def started_as_core)

lemma tree_accounted_core: "tree_accounted (core rs) trusted = tree_accounted rs trusted"
proof -
  have j: "names_child r \<or> rec_kind r = mrIpcConnect \<or> rec_kind r = mrExternalContent \<Longrightarrow> judged r" for r
    using names_child_judged by (auto simp: judged_def)
  have "tree_accounted (core rs) trusted \<longleftrightarrow> (\<forall>r \<in> set rs. judged r \<longrightarrow>
        (names_child r \<longrightarrow> child_started rs r \<and> last_image_started rs (rec_childOsPid r)) \<and>
        (rec_kind r = mrIpcConnect \<longrightarrow> peer_known rs trusted r) \<and>
        (rec_kind r = mrExternalContent \<longrightarrow> unpaired_key rs r = [] \<or> peer_known rs trusted r))"
    unfolding tree_accounted_def set_core
    by (simp add: child_started_core last_image_core peer_known_core unpaired_core) blast
  also have "\<dots> \<longleftrightarrow> tree_accounted rs trusted"
    unfolding tree_accounted_def by (intro ball_cong refl) (use j in blast)
  finally show ?thesis .
qed

lemma count_of_mset:
  assumes "mset xs = mset ys"
  shows "count_of P xs pid = count_of P ys pid"
proof -
  have "length (filter Q xs) = length (filter Q ys)" for Q
    using assms by (intro mset_eq_length) simp
  then show ?thesis by (simp add: count_of_def)
qed

lemma tree_accounted_mset:
  assumes "mset xs = mset ys"
  shows "tree_accounted xs trusted = tree_accounted ys trusted"
proof -
  have s: "set xs = set ys" using assms by (metis set_mset_mset)
  have st: "started_as xs = started_as ys" by (simp add: started_as_def fun_eq_iff s)
  have "last_image_started xs = last_image_started ys"
    by (simp add: last_image_started_def fun_eq_iff startCount_def execCount_def execFailedCount_def
        count_of_mset [OF assms])
  moreover have "channel_paths cr xs = channel_paths cr ys" for cr
    by (simp add: set_eq_iff in_channel_paths s)
  then have "unpaired_key xs = unpaired_key ys" by (simp add: unpaired_key_def fun_eq_iff)
  moreover have "child_started xs = child_started ys" "peer_known xs = peer_known ys"
    by (simp_all add: child_started_def peer_known_def fun_eq_iff st)
  ultimately show ?thesis by (simp add: tree_accounted_def s)
qed

lemma tree_accounted_cong:
  "mset (core xs) = mset (core ys) \<Longrightarrow> tree_accounted xs trusted = tree_accounted ys trusted"
  by (metis tree_accounted_core tree_accounted_mset)

lemma started_as_cong:
  "mset (core xs) = mset (core ys) \<Longrightarrow> started_as xs pid start = started_as ys pid start"
  by (metis started_as_core started_as_def set_mset_mset)

lemma map_nosq_canonical: "mset (map nosq (canonical_records rs)) = mset (map nosq rs)"
proof -
  have "map nosq (renumber xs) = map nosq xs" for xs
    by (rule nth_equalityI) (simp_all add: renumber_def)
  moreover have "mset (sort_by canonicalOrder rs) = mset rs" by (simp add: canonical_sort)
  ultimately show ?thesis by (simp add: canonical_records_def)
qed

lemma core_canonical: "mset (core (canonical_records rs)) = mset (core rs)"
proof -
  have "core xs = filter judged (map nosq xs)" for xs
    by (simp add: core_def filter_map comp_def)
  then show ?thesis using map_nosq_canonical [of rs] by (metis mset_filter)
qed

lemma core_stamp [simp]: "core (stamp_profiles token rs) = core rs"
  by (induction rs) (auto simp: core_def stamp_profiles_def judged_def)

lemma profile_kinds [simp]:
  "rec_kind (backendProfileRecord p) = mrBackendProfile" "rec_kind (capabilityGapRecord g) = mrCapabilityGap"
  by (simp_all add: backendProfileRecord_def capabilityGapRecord_def meta_record_def)

lemma core_losses [simp]:
  "core (map (\<lambda>x. event_loss p t (f x)) xs) = []" "core (replicate n (event_loss p t d)) = []"
  "core (profileRecords profile) = []"
  by (auto simp: core_def event_loss_def judged_def profileRecords_def filter_empty_conv)

lemma core_judge [simp]: "core (judge_records mh I E rs trusted) = core rs"
  by (simp add: judge_records_def Let_def)

lemma is_loss_nosq [simp]: "is_loss (nosq r) = is_loss r" "is_loss (r\<lparr>rec_seq := n\<rparr>) = is_loss r"
  by (simp_all add: is_loss_def)

definition loss_free :: "MonitorRecord list \<Rightarrow> bool" where
  "loss_free rs \<longleftrightarrow> (\<forall>r \<in> set rs. \<not> is_loss r)"

lemma loss_free_canonical [simp]: "loss_free (canonical_records rs) = loss_free rs"
proof -
  have "nosq ` set (canonical_records rs) = nosq ` set rs"
    using map_nosq_canonical [of rs] by (metis list.set_map set_mset_mset)
  moreover have "loss_free xs \<longleftrightarrow> (\<forall>r \<in> nosq ` set xs. \<not> is_loss r)" for xs by (auto simp: loss_free_def)
  ultimately show ?thesis by metis
qed

lemma loss_free_stamp [simp]: "loss_free (stamp_profiles token rs) = loss_free rs"
proof -
  have "is_loss (if b then r\<lparr>rec_detail := d\<rparr> else r) = is_loss r" for b r d by (simp add: is_loss_def)
  then show ?thesis unfolding stamp_profiles_def loss_free_def set_map ball_simps(9) by (simp only:)
qed

lemma is_loss_event_loss [simp]: "is_loss (event_loss p t d)"
  by (simp add: is_loss_def event_loss_def)

lemma loss_free_simps [simp]:
  "loss_free (xs @ ys) \<longleftrightarrow> loss_free xs \<and> loss_free ys"
  "loss_free (map (\<lambda>x. event_loss p t (f x)) zs) \<longleftrightarrow> zs = []"
  "loss_free (replicate n (event_loss p t d)) \<longleftrightarrow> n = 0"
  by (auto simp: loss_free_def)

lemma loss_free_profile [simp]: "loss_free (profileRecords profile)"
  by (auto simp: loss_free_def profileRecords_def is_loss_def backendProfileRecord_def capabilityGapRecord_def
      meta_record_def)

lemma judge_loss_free:
  assumes "lists_all (mh_order mh)"
  shows "loss_free (judge_records mh I E rs trusted) \<longleftrightarrow> loss_free rs \<and> tree_accounted rs trusted"
proof -
  let ?s = "unmonitoredSubtreeLossDetails (mh_order mh) rs trusted"
  let ?rs = "rs @ map (\<lambda>loss. event_loss 0 0 (subtree_detail loss)) ?s"
  have "loss_free (judge_records mh I E rs trusted) \<longleftrightarrow>
      loss_free rs \<and> ?s = [] \<and> externalContentLossCount ?rs trusted = 0"
    by (simp add: judge_records_def Let_def)
  also have "\<dots> \<longleftrightarrow> loss_free rs \<and> ?s = [] \<and> externalContentLossCount rs trusted = 0" by auto
  finally show ?thesis
    unfolding subtree_losses_Nil [OF assms] external_losses_0 tree_accounted_def by blast
qed

section \<open>What the gathered records say of the inputs\<close>

lemma decoded_payload_ok: "decodeRecordPayload p = Inr r \<Longrightarrow> payload_ok r"
  by (simp add: payload.dec_iff)

lemma tolerant_payload_ok:
  "r \<in> set (fst (tolerant_from bs pos)) \<Longrightarrow> payload_ok r"
proof (induction bs pos rule: tolerant_from.induct)
  case (1 bs pos)
  show ?case using "1.prems"
    by (subst (asm) tolerant_from.simps)
      (auto split: if_splits sum.splits prod.splits dest: decoded_payload_ok intro: "1.IH")
qed

lemma payload_ok_small: "payload_ok r \<Longrightarrow> dep_small r"
  by (simp add: payload_ok_def dep_small_def dep_ok_def)

text \<open>The fragment pass.\<close>

definition fragment_read :: "dir_entry \<Rightarrow> MonitorRecord list" where
  "fragment_read e =
     (if ends_with (de_path e) FragmentExt
      then (case de_state e of FragBytes raw \<Rightarrow> fst (decodeFramesTolerant raw) | _ \<Rightarrow> [])
      else [])"

definition fragment_intact :: "dir_entry \<Rightarrow> bool" where
  "fragment_intact e \<longleftrightarrow>
     (ends_with (de_path e) FragmentExt \<longrightarrow>
        (case de_state e of FragBytes raw \<Rightarrow> snd (decodeFramesTolerant raw) | FragUnreadable \<Rightarrow> False | FragVanished \<Rightarrow> True))"

lemma collect_pass:
  "\<exists>c u. fold collect_step es (rs, c0, u0) = (rs @ concat (map fragment_read es), c0 + c, u0 + u) \<and>
     (c = 0 \<and> u = 0 \<longleftrightarrow> (\<forall>e \<in> set es. fragment_intact e))"
proof (induction es arbitrary: rs c0 u0)
  case Nil
  then show ?case by simp
next
  case (Cons e es)
  have "\<exists>c1 u1. collect_step e (rs, c0, u0) = (rs @ fragment_read e, c0 + c1, u0 + u1) \<and>
      (c1 = 0 \<and> u1 = 0 \<longleftrightarrow> fragment_intact e)"
  proof (cases "ends_with (de_path e) FragmentExt")
    case False
    then show ?thesis
      by (intro exI [of _ 0]) (simp add: collect_step_def fragment_read_def fragment_intact_def)
  next
    case True
    then show ?thesis
    proof (cases "de_state e")
      case (FragBytes raw)
      then show ?thesis using True
        by (intro exI [of _ "if snd (decodeFramesTolerant raw) then 0 else 1"] exI [of _ 0])
          (simp add: collect_step_def fragment_read_def fragment_intact_def case_prod_beta)
    next
      case FragUnreadable
      then show ?thesis using True
        by (intro exI [of _ 0] exI [of _ 1]) (simp add: collect_step_def fragment_read_def fragment_intact_def)
    next
      case FragVanished
      then show ?thesis using True
        by (intro exI [of _ 0]) (simp add: collect_step_def fragment_read_def fragment_intact_def)
    qed
  qed
  then obtain c1 u1 where s: "collect_step e (rs, c0, u0) = (rs @ fragment_read e, c0 + c1, u0 + u1)"
    "c1 = 0 \<and> u1 = 0 \<longleftrightarrow> fragment_intact e" by blast
  obtain c u where r: "fold collect_step es (rs @ fragment_read e, c0 + c1, u0 + u1) =
      ((rs @ fragment_read e) @ concat (map fragment_read es), c0 + c1 + c, u0 + u1 + u)"
    "c = 0 \<and> u = 0 \<longleftrightarrow> (\<forall>e \<in> set es. fragment_intact e)"
    using Cons.IH by blast
  show ?case
    by (rule exI [of _ "c1 + c"], rule exI [of _ "u1 + u"]) (use s r in \<open>auto simp: add.assoc\<close>)
qed

definition dir_entries :: "dir_entry list option \<Rightarrow> dir_entry list" where
  "dir_entries dir = (case dir of None \<Rightarrow> [] | Some es \<Rightarrow> es)"

lemma collect_fragments_eq:
  "\<exists>c u. collect_fragments dir = (concat (map fragment_read (dir_entries dir)), c, u) \<and>
     (c = 0 \<and> u = 0 \<longleftrightarrow> (\<forall>e \<in> set (dir_entries dir). fragment_intact e))"
  using collect_pass [of "dir_entries dir" "[]" 0 0]
  by (cases dir) (auto simp: collect_fragments_def dir_entries_def)

lemma killed_readers_0: "killed_readers dir = 0 \<longleftrightarrow> (\<forall>e \<in> set (dir_entries dir). \<not> is_sentinel e)"
  by (cases dir) (auto simp: killed_readers_def dir_entries_def filter_empty_conv)

lemma fragment_read_small:
  assumes "r \<in> set (fragment_read e)"
  shows "dep_small r"
proof -
  have "\<exists>raw. fragment_read e = fst (tolerant_from raw 0) \<or> fragment_read e = []"
    by (cases "de_state e") (auto simp: fragment_read_def decodeFramesTolerant_def)
  then obtain raw where "r \<in> set (fst (tolerant_from raw 0))" using assms by (metis empty_iff list.set(1))
  from payload_ok_small [OF tolerant_payload_ok [OF this]] show ?thesis .
qed

text \<open>Read-tail markers.\<close>

definition is_marker :: "MonitorRecord \<Rightarrow> bool" where
  "is_marker r \<longleftrightarrow> is_pending r \<or> is_committed r"

definition tails_closed :: "MonitorRecord list \<Rightarrow> bool" where
  "tails_closed rs \<longleftrightarrow> (\<forall>key. marker_count is_pending rs key \<le> marker_count is_committed rs key)"

definition only_marker_losses :: "MonitorRecord list \<Rightarrow> bool" where
  "only_marker_losses rs \<longleftrightarrow> (\<forall>r \<in> set rs. is_loss r \<longrightarrow> is_marker r)"

lemma marker_kind: "is_marker r \<Longrightarrow> rec_kind r = mrEventLoss"
  by (auto simp: is_marker_def is_pending_def is_committed_def)

lemma read_tail_net_loss_free:
  assumes "lists_all order"
  shows "loss_free (read_tail_net order rs) \<longleftrightarrow> only_marker_losses rs \<and> tails_closed rs"
proof -
  let ?keys = "remdups (map thread_of (filter is_pending rs))"
  let ?closed = "\<lambda>key. marker_count is_pending rs key \<le> marker_count is_committed rs key"
  have c: "loss_free (concat (map (tail_losses rs) ks)) \<longleftrightarrow> (\<forall>key \<in> set ks. ?closed key)" for ks
  proof (induction ks)
    case Nil
    then show ?case by (simp add: loss_free_def)
  next
    case (Cons k ks)
    then show ?case by (simp add: tail_losses_def Let_def)
  qed
  have s: "set (order ?keys) = thread_of ` {r \<in> set rs. is_pending r}"
    using assms by (auto simp: lists_all_def)
  have z: "marker_count is_pending rs key = 0" if "key \<notin> thread_of ` {r \<in> set rs. is_pending r}" for key
    using that by (auto simp: marker_count_def filter_empty_conv)
  have "?closed key" if "key \<notin> set (order ?keys)" for key using z that unfolding s by simp
  then have "loss_free (concat (map (tail_losses rs) (order ?keys))) \<longleftrightarrow> tails_closed rs"
    unfolding tails_closed_def c by blast
  moreover have "loss_free (filter (\<lambda>r. \<not> is_pending r \<and> \<not> is_committed r) rs) \<longleftrightarrow> only_marker_losses rs"
    by (auto simp: loss_free_def only_marker_losses_def is_marker_def)
  ultimately show ?thesis by (simp add: read_tail_net_def)
qed

lemma not_marker [simp]:
  "\<not> is_marker (event_loss p t (corrupt_detail d))"
  "\<not> is_marker (event_loss p t (unreadable_detail d))"
  "\<not> is_marker (event_loss p t (ambiguous_detail d))"
  "\<not> is_marker (event_loss p t (duplicate_detail d))"
  by (simp_all add: is_marker_def is_pending_def is_committed_def event_loss_def starts_with_def
      corrupt_detail_def unreadable_detail_def ambiguous_detail_def duplicate_detail_def ReadTailPendingDetail_def ReadTailCommittedDetail_def)

lemma only_marker_simps [simp]:
  "only_marker_losses (xs @ ys) \<longleftrightarrow> only_marker_losses xs \<and> only_marker_losses ys"
  "\<not> is_marker (event_loss p t d) \<Longrightarrow> only_marker_losses (replicate n (event_loss p t d)) \<longleftrightarrow> n = 0"
  "\<not> is_marker (event_loss 0 t d) \<Longrightarrow> only_marker_losses (map (\<lambda>pid. event_loss pid t d) ps) \<longleftrightarrow> ps = []"
  by (auto simp: only_marker_losses_def is_marker_def is_pending_def is_committed_def event_loss_def is_loss_def neq_Nil_conv)

lemma marker_count_append [simp]:
  "marker_count P (xs @ ys) key = marker_count P xs key + marker_count P ys key"
  by (simp add: marker_count_def)

lemma marker_count_none:
  "\<forall>r \<in> set xs. \<not> P r \<Longrightarrow> marker_count P xs key = 0"
  by (auto simp: marker_count_def filter_empty_conv)

lemma tails_closed_append:
  "\<forall>r \<in> set ys. \<not> is_marker r \<Longrightarrow> tails_closed (xs @ ys) = tails_closed xs"
  by (simp add: tails_closed_def is_marker_def marker_count_none)

section \<open>Gathering\<close>

text \<open>The input of a merge, the verdict of the run scope on it, and what the scope keeps.\<close>

definition merge_input :: "merge_host \<Rightarrow> string \<Rightarrow> MonitorRecord list \<Rightarrow> MonitorRecord list" where
  "merge_input mh fragmentDir setRecords =
     concat (map fragment_read (dir_entries (mh_dir mh fragmentDir))) @ setRecords"

definition run_of :: "merge_host \<Rightarrow> string \<Rightarrow> string" where
  "run_of mh currentRunId =
     (if length currentRunId > 0 then currentRunId else mh_env mh ''REPRO_MONITOR_SESSION'')"

definition in_scope :: "string \<Rightarrow> MonitorRecord list \<Rightarrow> MonitorRecord list" where
  "in_scope run rs = filter (\<lambda>r. run_scope (fragmentRunIds rs) run r = KeepRecord) rs"

definition unambiguous :: "string \<Rightarrow> MonitorRecord list \<Rightarrow> bool" where
  "unambiguous run rs \<longleftrightarrow>
     (\<forall>r \<in> set rs. run_scope (fragmentRunIds rs) run r \<noteq> DuplicateIdentity \<and>
        run_scope (fragmentRunIds rs) run r \<noteq> AmbiguousRecord)"

definition merge_folded :: "string \<Rightarrow> MonitorRecord list \<Rightarrow> MonitorRecord list" where
  "merge_folded run rs =
     filter (\<lambda>r. \<not> is_fact r) (in_scope run rs) @ folded_facts (in_scope run rs)"

lemma pids_with_Nil: "pids_with P rs = [] \<longleftrightarrow> (\<forall>r \<in> set rs. \<not> P r)"
  by (simp add: pids_with_def filter_empty_conv)

lemma lists_all_Nil: "lists_all order \<Longrightarrow> order xs = [] \<longleftrightarrow> xs = []"
  by (metis lists_all_def set_empty)

text \<open>The losses the run scope adds, none of them a read-tail marker.\<close>

lemma drop_stale_parts:
  assumes "lists_all order"
  shows "\<exists>ls. dropStaleRunRecords order rs run = in_scope run rs @ ls \<and>
    (\<forall>r \<in> set ls. is_loss r \<and> \<not> is_marker r \<and> \<not> is_fact r \<and> \<not> judged r) \<and> (ls = [] \<longleftrightarrow> unambiguous run rs)"
proof -
  let ?v = "run_scope (fragmentRunIds rs) run"
  have loss: "is_loss (event_loss p t d) \<and> \<not> is_fact (event_loss p t d) \<and> \<not> judged (event_loss p t d)" for p t d
    by (simp add: event_loss_def depIdentityKeepsIncarnation_def is_loss_def judged_def)
  have em: "run = [] \<Longrightarrow> ?v r \<noteq> AmbiguousRecord" for r by (simp add: run_scope_def)
  show ?thesis
  proof (cases "run = []")
    case True
    let ?ls = "map (\<lambda>pid. event_loss pid 0 (duplicate_detail run))
        (order (pids_with (\<lambda>r. ?v r = DuplicateIdentity) rs))"
    have "dropStaleRunRecords order rs run = in_scope run rs @ ?ls"
      using True by (simp add: dropStaleRunRecords_def in_scope_def Let_def)
    moreover have "\<forall>r \<in> set ?ls. is_loss r \<and> \<not> is_marker r \<and> \<not> is_fact r \<and> \<not> judged r" using loss by auto
    moreover have "?ls = [] \<longleftrightarrow> unambiguous run rs"
      using assms em [OF True] by (simp add: lists_all_Nil pids_with_Nil unambiguous_def)
    ultimately show ?thesis by blast
  next
    case False
    let ?ls = "map (\<lambda>pid. event_loss pid 0 (ambiguous_detail run))
        (order (pids_with (\<lambda>r. ?v r = AmbiguousRecord) rs)) @
      map (\<lambda>pid. event_loss pid 0 (duplicate_detail run))
        (order (pids_with (\<lambda>r. ?v r = DuplicateIdentity) rs))"
    have "dropStaleRunRecords order rs run = in_scope run rs @ ?ls"
      using False by (simp add: dropStaleRunRecords_def in_scope_def Let_def)
    moreover have "\<forall>r \<in> set ?ls. is_loss r \<and> \<not> is_marker r \<and> \<not> is_fact r \<and> \<not> judged r" using loss not_marker by auto
    moreover have "?ls = [] \<longleftrightarrow> unambiguous run rs"
      using assms by (auto simp: lists_all_Nil pids_with_Nil unambiguous_def)
    ultimately show ?thesis by blast
  qed
qed

lemma merge_input_small:
  assumes "\<forall>r \<in> set setRecords. dep_small r"
  shows "\<forall>r \<in> set (merge_input mh fragmentDir setRecords). dep_small r"
  using assms fragment_read_small by (auto simp: merge_input_def)

lemma folded_after_losses:
  assumes "\<forall>r \<in> set (in_scope run rs). dep_small r" "\<forall>r \<in> set ls. \<not> is_fact r"
  shows "\<exists>xs. foldObservationIdentity img (in_scope run rs @ ls) = Inr xs \<and>
    mset xs = mset (merge_folded run rs @ ls)"
proof -
  let ?k = "in_scope run rs"
  have e: "foldObservationIdentity img (?k @ ls) = Inr (filter (\<lambda>r. \<not> is_fact r) (?k @ ls) @ folded_facts (?k @ ls))"
    using assms by (intro fold_identity_eq) auto
  have "{r \<in> set (?k @ ls). is_fact r} = {r \<in> set ?k. is_fact r}" using assms(2) by auto
  then have "folded_facts (?k @ ls) = folded_facts ?k" by (simp add: folded_facts_def)
  moreover have "filter (\<lambda>r. \<not> is_fact r) ls = ls" using assms(2) by (simp add: filter_id_conv)
  ultimately show ?thesis using e by (auto simp: merge_folded_def)
qed

text \<open>Counting and losses do not depend on the order of the records.\<close>

lemma marker_count_mset: "mset xs = mset ys \<Longrightarrow> marker_count P xs key = marker_count P ys key"
  unfolding marker_count_def by (rule mset_eq_length) simp

lemma tails_closed_mset:
  assumes "mset xs = mset ys"
  shows "tails_closed xs = tails_closed ys"
  unfolding tails_closed_def marker_count_mset [OF assms] ..

lemma only_marker_mset: "mset xs = mset ys \<Longrightarrow> only_marker_losses xs = only_marker_losses ys"
  unfolding only_marker_losses_def by (drule mset_eq_setD) simp

lemma tails_closed_folded:
  assumes "\<forall>r \<in> set (in_scope run rs). dep_small r"
  shows "tails_closed (merge_folded run rs) = tails_closed (in_scope run rs)"
proof -
  let ?k = "in_scope run rs"
  have m: "marker_count P (filter (\<lambda>r. \<not> is_fact r) ?k) key = marker_count P ?k key"
    if "\<And>r. P r \<Longrightarrow> rec_kind r = mrEventLoss" for P key
  proof -
    have "filter (\<lambda>r. P r \<and> thread_of r = key) (filter (\<lambda>r. \<not> is_fact r) ?k) =
        filter (\<lambda>r. P r \<and> thread_of r = key) ?k"
      using that by (auto simp: depIdentityKeepsIncarnation_def intro!: filter_cong)
    then show ?thesis by (simp add: marker_count_def)
  qed
  have "marker_count is_pending (filter (\<lambda>r. \<not> is_fact r) ?k) = marker_count is_pending ?k"
    "marker_count is_committed (filter (\<lambda>r. \<not> is_fact r) ?k) = marker_count is_committed ?k"
    by (rule ext, rule m, simp add: is_pending_def is_committed_def)+
  then have "tails_closed (filter (\<lambda>r. \<not> is_fact r) ?k) = tails_closed ?k"
    by (simp only: tails_closed_def)
  moreover have "\<forall>r \<in> set (folded_facts ?k). \<not> is_marker r"
    using set_folded_facts [of ?k] assms marker_kind
    by (force simp: depIdentityKeepsIncarnation_def)
  ultimately show ?thesis by (simp add: merge_folded_def tails_closed_append)
qed

lemma only_marker_folded:
  assumes "\<forall>r \<in> set (in_scope run rs). dep_small r"
  shows "only_marker_losses (merge_folded run rs) = only_marker_losses (in_scope run rs)"
proof -
  let ?k = "in_scope run rs"
  have "set (folded_facts ?k) = keyed True 0 ` {r \<in> set ?k. is_fact r}"
    using set_folded_facts [of ?k] assms by blast
  moreover have "is_loss (keyed True 0 r) = is_loss r" "is_marker (keyed True 0 r) = is_marker r" for r
    by (simp_all add: is_loss_def is_marker_def is_pending_def is_committed_def keyed_def)
  ultimately show ?thesis by (auto simp: merge_folded_def only_marker_losses_def; blast)
qed

section \<open>Reports\<close>

definition accepted_reports :: "u64 set \<Rightarrow> BreakawayAuthContext \<Rightarrow> report_file list \<Rightarrow> report list" where
  "accepted_reports monitored auth files = List.map_filter (accepted_report monitored auth) files"

lemma fold_reports:
  "fold (fold_report monitored auth) files b =
     \<lparr>bf_reads = bf_reads b @ concat (map (\<lambda>p. map (reported_read p) (filter (\<lambda>rp. length rp \<noteq> 0) (rp_reads p)))
        (accepted_reports monitored auth files)),
      bf_trustedPeerPids = bf_trustedPeerPids b \<union> rp_daemon ` set (accepted_reports monitored auth files)\<rparr>"
proof (induction files arbitrary: b)
  case Nil
  then show ?case by (cases b) (simp add: accepted_reports_def map_filter_simps)
next
  case (Cons f files)
  then show ?case
    by (cases "accepted_report monitored auth f")
      (auto simp: fold_report_def accepted_reports_def map_filter_simps)
qed

lemma load_reports_eq:
  "loadBreakawayReports dir listing monitored auth =
     (let ps = (if length dir = 0 then [] else accepted_reports monitored auth (case listing of None \<Rightarrow> [] | Some fs \<Rightarrow> fs))
      in \<lparr>bf_reads = concat (map (\<lambda>p. map (reported_read p) (filter (\<lambda>rp. length rp \<noteq> 0) (rp_reads p))) ps),
          bf_trustedPeerPids = rp_daemon ` set ps\<rparr>)"
  by (cases listing)
    (simp_all add: loadBreakawayReports_def Let_def fold_reports, simp_all add: accepted_reports_def map_filter_simps)

lemma in_accepted:
  "p \<in> set (accepted_reports monitored auth files) \<longleftrightarrow> (\<exists>f \<in> set files. accepted_report monitored auth f = Some p)"
  by (force simp: accepted_reports_def List.map_filter_def image_iff)

lemma reads_loss_free [simp]: "loss_free (bf_reads (loadBreakawayReports dir listing monitored auth))"
  by (auto simp: load_reports_eq Let_def loss_free_def reported_read_def is_loss_def)

section \<open>The gathered records\<close>

definition report_dir :: "merge_host \<Rightarrow> string \<Rightarrow> string" where
  "report_dir mh breakawayReportDir =
     (if length breakawayReportDir > 0 then breakawayReportDir else mh_env mh ''IO_MON_BREAKAWAY_REPORT_DIR'')"

text \<open>The records ahead of the reports.\<close>

definition before_reports :: "merge_host \<Rightarrow> string \<Rightarrow> u64 \<Rightarrow> nat \<Rightarrow> nat \<Rightarrow> MonitorRecord list \<Rightarrow> MonitorRecord list" where
  "before_reports mh fragmentDir root c u xs =
     read_tail_net (mh_thread_order mh)
       (xs @ replicate c (event_loss 0 0 (corrupt_detail fragmentDir)) @
        replicate u (event_loss 0 0 (unreadable_detail fragmentDir))) @
     replicate (killed_readers (mh_dir mh fragmentDir)) (event_loss 0 0 killed_detail) @
     (if root \<noteq> 0 then [root_spawn root] else [])"

definition peers_of :: "merge_host \<Rightarrow> string \<Rightarrow> MonitorRecord list \<Rightarrow> BreakawayFold" where
  "peers_of mh dir rs =
     loadBreakawayReports dir (mh_reports mh dir) (monitoredStartPids rs) (breakawayAuthContext rs)"

lemma gather_eq:
  assumes "collect_fragments (mh_dir mh fragmentDir) = (rs0, c, u)"
    and "foldObservationIdentity (mh_image mh)
      (dropStaleRunRecords (mh_order mh) (rs0 @ setRecords) (run_of mh currentRunId)) = Inr xs"
  shows "gather_records mh fragmentDir reportDir root currentRunId setRecords =
    (let rs = before_reports mh fragmentDir root c u xs; b = peers_of mh (report_dir mh reportDir) rs
     in Inr (rs @ bf_reads b, bf_trustedPeerPids b))"
proof -
  have none: "length (report_dir mh reportDir) = 0 \<Longrightarrow> peers_of mh (report_dir mh reportDir) rs =
      \<lparr>bf_reads = [], bf_trustedPeerPids = {}\<rparr>" for rs
    by (simp add: peers_of_def load_reports_eq)
  show ?thesis
    unfolding gather_records_def assms(1) prod.case Let_def run_of_def [symmetric] assms(2) res_bind.simps
      report_dir_def [symmetric]
    using none by (auto simp: before_reports_def peers_of_def)
qed

definition fragments_accounted :: "merge_host \<Rightarrow> string \<Rightarrow> bool" where
  "fragments_accounted mh fragmentDir \<longleftrightarrow>
     (\<forall>e \<in> set (dir_entries (mh_dir mh fragmentDir)). fragment_intact e \<and> \<not> is_sentinel e)"

lemma root_not_loss [simp]: "loss_free [root_spawn root]" "loss_free []"
  by (simp_all add: loss_free_def root_spawn_def is_loss_def)

lemma core_mset: "mset xs = mset ys \<Longrightarrow> mset (core xs) = mset (core ys)"
  by (simp add: core_def)

lemma core_read_tail [simp]: "core (read_tail_net order rs) = core rs"
proof -
  have "core (tail_losses rs key) = []" for key by (simp add: tail_losses_def Let_def)
  then have "core (concat (map (tail_losses rs) ks)) = []" for ks by (induction ks) (simp_all add: core_def)
  moreover have "core (filter (\<lambda>r. \<not> is_pending r \<and> \<not> is_committed r) rs) = core rs"
    unfolding core_def filter_filter
    by (intro arg_cong [where f = "map nosq"] filter_cong refl)
      (auto simp: judged_def is_pending_def is_committed_def)
  ultimately show ?thesis by (simp add: read_tail_net_def)
qed

lemma core_root: "core (if b then [root_spawn root] else []) = (if b then [root_spawn root] else [])"
  by (simp add: core_def judged_def root_spawn_def nosq_def)

lemma gather_loss_free:
  fixes mh :: merge_host and currentRunId fragmentDir :: string and setRecords :: "MonitorRecord list"
  assumes "lists_all (mh_order mh)" "lists_all (mh_thread_order mh)" "\<forall>r \<in> set setRecords. dep_small r"
  defines "run \<equiv> run_of mh currentRunId" and "input \<equiv> merge_input mh fragmentDir setRecords"
  shows "\<exists>rs. gather_records mh fragmentDir reportDir root currentRunId setRecords =
      Inr (rs @ bf_reads (peers_of mh (report_dir mh reportDir) rs),
           bf_trustedPeerPids (peers_of mh (report_dir mh reportDir) rs)) \<and>
    mset (core rs) = mset (core (merge_folded run input) @ (if root \<noteq> 0 then [root_spawn root] else [])) \<and>
    (loss_free rs \<longleftrightarrow> fragments_accounted mh fragmentDir \<and> unambiguous run input \<and>
       only_marker_losses (in_scope run input) \<and> tails_closed (in_scope run input))"
proof -
  obtain c u where cu: "collect_fragments (mh_dir mh fragmentDir) =
      (concat (map fragment_read (dir_entries (mh_dir mh fragmentDir))), c, u)"
    "c = 0 \<and> u = 0 \<longleftrightarrow> (\<forall>e \<in> set (dir_entries (mh_dir mh fragmentDir)). fragment_intact e)"
    using collect_fragments_eq by blast
  obtain ls where ls: "dropStaleRunRecords (mh_order mh) input run = in_scope run input @ ls"
    "\<forall>r \<in> set ls. is_loss r \<and> \<not> is_marker r \<and> \<not> is_fact r \<and> \<not> judged r" "ls = [] \<longleftrightarrow> unambiguous run input"
    using drop_stale_parts [OF assms(1)] by blast
  have small: "\<forall>r \<in> set (in_scope run input). dep_small r"
    using merge_input_small [OF assms(3)] by (auto simp: in_scope_def input_def)
  obtain xs where xs: "foldObservationIdentity (mh_image mh) (in_scope run input @ ls) = Inr xs"
    "mset xs = mset (merge_folded run input @ ls)"
    using folded_after_losses [OF small] ls(2) by blast
  let ?cl = "replicate c (event_loss 0 0 (corrupt_detail fragmentDir))"
  let ?ul = "replicate u (event_loss 0 0 (unreadable_detail fragmentDir))"
  have om: "only_marker_losses xs \<longleftrightarrow> only_marker_losses (in_scope run input) \<and> unambiguous run input"
  proof -
    have "only_marker_losses ls \<longleftrightarrow> ls = []" using ls(2) by (cases ls) (auto simp: only_marker_losses_def)
    then show ?thesis
      using only_marker_mset [OF xs(2)] only_marker_folded [OF small] ls(3) by simp
  qed
  have tc: "tails_closed (xs @ ?cl @ ?ul) \<longleftrightarrow> tails_closed (in_scope run input)"
  proof -
    have "tails_closed (xs @ ?cl @ ?ul) = tails_closed xs" by (intro tails_closed_append) auto
    also have "\<dots> = tails_closed (merge_folded run input @ ls)" by (rule tails_closed_mset [OF xs(2)])
    also have "\<dots> = tails_closed (merge_folded run input)" using ls(2) by (intro tails_closed_append) blast
    finally show ?thesis using tails_closed_folded [OF small] by simp
  qed
  let ?rs = "before_reports mh fragmentDir root c u xs"
  have "loss_free ?rs \<longleftrightarrow> only_marker_losses xs \<and> c = 0 \<and> u = 0 \<and> tails_closed (in_scope run input) \<and>
      killed_readers (mh_dir mh fragmentDir) = 0"
    by (auto simp: before_reports_def read_tail_net_loss_free [OF assms(2)] tc)
  then have "loss_free ?rs \<longleftrightarrow> fragments_accounted mh fragmentDir \<and> unambiguous run input \<and>
       only_marker_losses (in_scope run input) \<and> tails_closed (in_scope run input)"
    using om cu(2) by (auto simp: fragments_accounted_def killed_readers_0)
  moreover have "mset (core ?rs) = mset (core (merge_folded run input) @ (if root \<noteq> 0 then [root_spawn root] else []))"
  proof -
    have "mset (core xs) = mset (core (merge_folded run input @ ls))" using xs(2) by (rule core_mset)
    moreover have "core ls = []" using ls(2) by (auto simp: core_def filter_empty_conv)
    ultimately show ?thesis by (simp add: before_reports_def core_root)
  qed
  moreover have "gather_records mh fragmentDir reportDir root currentRunId setRecords =
      Inr (?rs @ bf_reads (peers_of mh (report_dir mh reportDir) ?rs),
           bf_trustedPeerPids (peers_of mh (report_dir mh reportDir) ?rs))"
    using gather_eq [OF cu(1), of setRecords currentRunId xs] ls(1) xs(1)
    by (simp add: run_def input_def merge_input_def Let_def)
  ultimately show ?thesis by blast
qed

section \<open>The returned depfile\<close>

lemma merge_returned:
  assumes "mergeFragments mh fragmentDir out reportDir root currentRunId setRecords I E = (Inr dep, file, dir')"
  obtains rs trusted where "gather_records mh fragmentDir reportDir root currentRunId setRecords = Inr (rs, trusted)"
    "dep = depFileFromOwnedRecords (mh_host mh) (canonical_records (judge_records mh I E rs trusted))"
  using assms by (auto simp: mergeFragments_def canonical_records_def Let_def split: sum.splits option.splits prod.splits)

lemma dep_records_owned [simp]: "dep_records (depFileFromOwnedRecords host rs) = rs"
  by (simp add: depFileFromOwnedRecords_def Let_def split: prod.splits)

lemma dep_summary_owned [simp]: "dep_summary (depFileFromOwnedRecords host rs) = summarizeRecords rs"
  by (simp add: depFileFromOwnedRecords_def Let_def split: prod.splits)

lemma no_losses_iff:
  assumes "length rs < 2 ^ 64"
  shows "sum_eventLossCount (summarizeRecords rs) = 0 \<longleftrightarrow> loss_free rs"
proof -
  let ?n = "length (filter is_loss rs)"
  have "?n < 2 ^ 64" by (rule le_less_trans [OF length_filter_le assms])
  then have "unat (word_of_nat ?n :: u64) = ?n" by (simp add: unat_of_nat)
  then have "(word_of_nat ?n :: u64) = 0 \<longleftrightarrow> ?n = 0"
    using unsigned_eq_0_iff [of "word_of_nat ?n :: u64", where ?'a = nat] by (simp only:)
  then show ?thesis by (simp add: summary_losses loss_free_def filter_empty_conv)
qed

lemma complete_no_losses:
  "dep_completeness (depFileFromOwnedRecords host rs) = mcComplete \<Longrightarrow> sum_eventLossCount (summarizeRecords rs) = 0"
  by (auto simp: depFileFromOwnedRecords_def Let_def split: prod.splits if_splits)

lemma merged:
  fixes mh :: merge_host and fragmentDir currentRunId :: string and setRecords :: "MonitorRecord list"
  assumes "mergeFragments mh fragmentDir out reportDir root currentRunId setRecords I E = (Inr dep, file, dir')"
    and "lists_all (mh_order mh)" "lists_all (mh_thread_order mh)" "\<forall>r \<in> set setRecords. dep_small r"
    and "length (dep_records dep) < 2 ^ 64"
  defines "run \<equiv> run_of mh currentRunId" and "input \<equiv> merge_input mh fragmentDir setRecords"
  obtains rs where
    "gather_records mh fragmentDir reportDir root currentRunId setRecords =
      Inr (rs @ bf_reads (peers_of mh (report_dir mh reportDir) rs),
           bf_trustedPeerPids (peers_of mh (report_dir mh reportDir) rs))"
    "mset (core rs) = mset (core (merge_folded run input) @ (if root \<noteq> 0 then [root_spawn root] else []))"
    "mset (core (dep_records dep)) = mset (core (rs @ bf_reads (peers_of mh (report_dir mh reportDir) rs)))"
    "sum_eventLossCount (dep_summary dep) = 0 \<longleftrightarrow>
       (fragments_accounted mh fragmentDir \<and> unambiguous run input \<and>
        only_marker_losses (in_scope run input) \<and> tails_closed (in_scope run input)) \<and>
       tree_accounted (dep_records dep) (bf_trustedPeerPids (peers_of mh (report_dir mh reportDir) rs))"
proof -
  obtain rs where g: "gather_records mh fragmentDir reportDir root currentRunId setRecords =
      Inr (rs @ bf_reads (peers_of mh (report_dir mh reportDir) rs),
           bf_trustedPeerPids (peers_of mh (report_dir mh reportDir) rs))"
    "mset (core rs) = mset (core (merge_folded run input) @ (if root \<noteq> 0 then [root_spawn root] else []))"
    "loss_free rs \<longleftrightarrow> fragments_accounted mh fragmentDir \<and> unambiguous run input \<and>
       only_marker_losses (in_scope run input) \<and> tails_closed (in_scope run input)"
    using gather_loss_free [OF assms(2,3,4), of fragmentDir reportDir root currentRunId]
    unfolding run_def [symmetric] input_def [symmetric] by blast
  let ?b = "peers_of mh (report_dir mh reportDir) rs" let ?rs = "rs @ bf_reads ?b"
  have d: "dep = depFileFromOwnedRecords (mh_host mh)
      (canonical_records (judge_records mh I E ?rs (bf_trustedPeerPids ?b)))"
    using assms(1) g(1) by (elim merge_returned) auto
  have c: "mset (core (dep_records dep)) = mset (core ?rs)"
    unfolding d using core_canonical [of "judge_records mh I E ?rs (bf_trustedPeerPids ?b)"] by simp
  have "sum_eventLossCount (dep_summary dep) = 0 \<longleftrightarrow> loss_free (judge_records mh I E ?rs (bf_trustedPeerPids ?b))"
    using assms(5) no_losses_iff by (simp add: d)
  also have "\<dots> \<longleftrightarrow> loss_free rs \<and> tree_accounted ?rs (bf_trustedPeerPids ?b)"
    using judge_loss_free [OF assms(2)] by (simp add: peers_of_def)
  finally show ?thesis using that [OF g(1,2) c] g(3) tree_accounted_cong [OF c] by metis
qed

lemma started_record:
  "started_as rs pid start \<Longrightarrow> \<exists>s \<in> set rs. rec_kind s = mrProcessStart \<and> rec_osPid s = pid"
  by (auto simp: started_as_def)

lemma accounted_starts:
  assumes "tree_accounted rs trusted" "r \<in> set rs"
  shows "names_child r \<Longrightarrow> \<exists>s \<in> set rs. rec_kind s = mrProcessStart \<and> rec_osPid s = rec_childOsPid r"
    "rec_kind r = mrIpcConnect \<Longrightarrow> rec_childOsPid r \<in> trusted \<or>
       (\<exists>s \<in> set rs. rec_kind s = mrProcessStart \<and> rec_osPid s = rec_childOsPid r)"
  using assms started_record by (auto simp: tree_accounted_def child_started_def peer_known_def)

lemma root_named:
  assumes "root_spawn root \<in> set (core rs)" "root \<noteq> 0"
  shows "\<exists>r \<in> set rs. names_child r \<and> rec_childOsPid r = root"
proof -
  obtain q where q: "q \<in> set rs" "root_spawn root = nosq q" using assms(1) by (auto simp: in_core)
  have "names_child (nosq q) \<and> rec_childOsPid (nosq q) = root"
    unfolding q(2) [symmetric] using assms(2) by (simp add: names_child_def root_spawn_def)
  then show ?thesis using q(1) by auto
qed

lemma intact_listing:
  "fragments_accounted mh fragmentDir \<Longrightarrow> e \<in> set (dir_entries (mh_dir mh fragmentDir)) \<Longrightarrow>
     \<not> ends_with (de_path e) ReadingSentinelExt \<and>
     (ends_with (de_path e) FragmentExt \<longrightarrow> de_state e \<noteq> FragUnreadable \<and>
        (\<forall>raw. de_state e = FragBytes raw \<longrightarrow> snd (decodeFramesTolerant raw)))"
  by (auto simp: fragments_accounted_def is_sentinel_def fragment_intact_def)

lemma merge_eq:
  assumes "gather_records mh fragmentDir reportDir root currentRunId setRecords = Inr (rs, trusted)"
  shows "mergeFragments mh fragmentDir out reportDir root currentRunId setRecords I E =
    (let js = judge_records mh I E rs trusted
     in if \<not> mh_can_open mh
        then (Inl (MergeWrite \<lparr>ee_kind = eeMalformed, ee_msg = ''cannot open iomon depfile for write: '' @ out\<rparr>),
              None, remove_sentinels (mh_dir mh fragmentDir))
        else if length (encodeCanonical js) \<le> mh_budget mh
        then (Inr (depFileFromOwnedRecords (mh_host mh) (canonical_records js)),
              Some (encodeCanonical js), remove_sentinels (mh_dir mh fragmentDir))
        else (Inl (MergeWrite \<lparr>ee_kind = eeMalformed, ee_msg = ''short write to iomon depfile''\<rparr>),
              Some (take (mh_budget mh) (encodeCanonical js)), remove_sentinels (mh_dir mh fragmentDir)))"
proof -
  have e: "concat (canonical_chunks js) = encodeCanonical js" for js
    by (simp add: concat_canonical_chunks encodeCanonical_eq)
  show ?thesis
    using write_chunks_room [of "canonical_chunks (judge_records mh I E rs trusted)" "mh_budget mh" "[]"]
      write_chunks_short [of "mh_budget mh" "canonical_chunks (judge_records mh I E rs trusted)" "[]"]
    by (auto simp: mergeFragments_def assms writeCanonicalInPlace_def canonical_records_def e Let_def)
qed

lemma gather_returns:
  assumes "lists_all (mh_order mh)" "lists_all (mh_thread_order mh)" "\<forall>r \<in> set setRecords. dep_small r"
  shows "\<exists>rs trusted. gather_records mh fragmentDir reportDir root currentRunId setRecords = Inr (rs, trusted)"
  using gather_loss_free [OF assms] by blast

lemma gather_split:
  assumes "gather_records mh fragmentDir reportDir root currentRunId setRecords = Inr (gathered, trusted)"
  obtains rs where "gathered = rs @ bf_reads (peers_of mh (report_dir mh reportDir) rs)"
    "trusted = bf_trustedPeerPids (peers_of mh (report_dir mh reportDir) rs)"
proof -
  obtain rs0 c u where c: "collect_fragments (mh_dir mh fragmentDir) = (rs0, c, u)" by (cases rule: prod_cases3)
  obtain xs where "foldObservationIdentity (mh_image mh)
      (dropStaleRunRecords (mh_order mh) (rs0 @ setRecords) (run_of mh currentRunId)) = Inr xs"
    using assms by (cases "foldObservationIdentity (mh_image mh)
      (dropStaleRunRecords (mh_order mh) (rs0 @ setRecords) (run_of mh currentRunId))")
      (auto simp: gather_records_def c run_of_def)
  from gather_eq [OF c this, of reportDir root] assms show ?thesis using that by (simp add: Let_def)
qed

lemma in_reads:
  "reported_read p path \<in> set (bf_reads (loadBreakawayReports dir listing monitored auth))"
  if "f \<in> set files" "listing = Some files" "dir \<noteq> []" "accepted_report monitored auth f = Some p"
    "path \<in> set (rp_reads p)" "path \<noteq> []"
  using that by (auto simp: load_reports_eq Let_def in_accepted intro!: bexI [of _ p])

lemma authenticates_mono: "authenticates rs f p \<Longrightarrow> \<forall>q \<in> set qs. rec_observationKind q \<noteq> moFileWrite \<Longrightarrow>
    authenticates (rs @ qs) f p"
  by (auto simp: authenticates_def)

lemma reads_not_written:
  "q \<in> set (bf_reads (loadBreakawayReports dir listing monitored auth)) \<Longrightarrow> rec_observationKind q = moFileRead"
  by (auto simp: load_reports_eq Let_def reported_read_def)

definition of_other_run :: "string \<Rightarrow> MonitorRecord \<Rightarrow> bool" where
  "of_other_run run r \<longleftrightarrow> \<not> hasDuplicateIdentityToken (rec_detail r) \<and>
     trustedDetailToken (rec_detail r) RunIdToken \<notin> {[], run}"

lemma fragmentRunIds_eq:
  "fragmentRunIds rs pid = {run. run \<noteq> [] \<and> (\<exists>r \<in> set rs. rec_kind r = mrProcessStart \<and> rec_osPid r = pid \<and>
     \<not> hasDuplicateIdentityToken (rec_detail r) \<and> trustedDetailToken (rec_detail r) RunIdToken = run)}"
proof -
  have "fold (\<lambda>r runs.
       let run = trustedDetailToken (rec_detail r) RunIdToken
       in if rec_kind r = mrProcessStart \<and> \<not> hasDuplicateIdentityToken (rec_detail r) \<and> length run > 0
          then runs(rec_osPid r := insert run (runs (rec_osPid r)))
          else runs) rs F pid = F pid \<union> {run. run \<noteq> [] \<and> (\<exists>r \<in> set rs. rec_kind r = mrProcessStart \<and> rec_osPid r = pid \<and>
     \<not> hasDuplicateIdentityToken (rec_detail r) \<and> trustedDetailToken (rec_detail r) RunIdToken = run)}" for F
    by (induction rs arbitrary: F) (auto simp: Let_def)
  then show ?thesis by (simp add: fragmentRunIds_def)
qed

lemma other_run_stale: "of_other_run run r \<Longrightarrow> run \<noteq> [] \<Longrightarrow> run_scope F run r = StaleRecord"
  by (auto simp: of_other_run_def run_scope_def Let_def)

lemma run_scope_stable:
  assumes "\<not> of_other_run run r"
    and "\<And>s. s \<in> set rs \<Longrightarrow> of_other_run run s \<Longrightarrow> rec_kind s = mrProcessStart \<Longrightarrow> rec_osPid s = rec_osPid r \<Longrightarrow>
       trustedDetailToken (rec_detail r) RunIdToken \<noteq> []"
  shows "run_scope (fragmentRunIds rs) run r = run_scope (fragmentRunIds (filter (\<lambda>s. \<not> of_other_run run s) rs)) run r"
proof (cases "hasDuplicateIdentityToken (rec_detail r) \<or> trustedDetailToken (rec_detail r) RunIdToken \<noteq> []")
  case True
  then show ?thesis by (auto simp: run_scope_def Let_def)
next
  case False
  then have "fragmentRunIds rs (rec_osPid r) = fragmentRunIds (filter (\<lambda>s. \<not> of_other_run run s) rs) (rec_osPid r)"
    using assms(2) by (auto simp: fragmentRunIds_eq)
  then show ?thesis by (simp add: run_scope_def)
qed

lemma ends_with_append [simp]: "ends_with (s @ t) t"
  by (simp add: ends_with_def)

end
