(* ===== verification/Merge_Properties.thy ===== *)
theory Merge_Properties
  imports Merge_Facts Depfile_Properties
begin

text \<open>
  What the merge of \<^verbatim>\<open>src/io_mon/writer.nim\<close> guarantees of the depfile it returns, and of the reports
  it trusts.  A run is a list of fragments and set records; its surroundings are a \<open>merge_host\<close>.
\<close>

section \<open>A small run\<close>

text \<open>
  One process writes its process-start into a fragment; the other host adds the connection to a
  daemon and the daemon's report.
\<close>

definition start_rec :: "u64 \<Rightarrow> MonitorRecord" where
  "start_rec pid =
     \<lparr>rec_kind = mrProcessStart, rec_observationKind = moExecute, rec_seq = 0, rec_osPid = pid,
      rec_parentOsPid = 1, rec_threadId = pid, rec_childOsPid = 0, rec_result = 0, rec_flags = 0,
      rec_probeResult = prUnknown, rec_path = ''/bin/cc'', rec_detail = ''run=r7 start=55''\<rparr>"

definition demo_fragment :: dir_entry where
  "demo_fragment = \<lparr>de_path = ''/f/100.iomon-frag'', de_state = FragBytes (encodeFrame (start_rec 100)), de_removable = True\<rparr>"

definition demo_host :: "nat \<Rightarrow> merge_host" where
  "demo_host n = \<lparr>mh_host = HostLinux, mh_order = id, mh_thread_order = id, mh_image = ''/bin/cc'',
     mh_env = (\<lambda>_. []), mh_dir = (\<lambda>_. Some [demo_fragment]), mh_reports = (\<lambda>_. None),
     mh_can_open = True, mh_budget = n\<rparr>"

definition demo_judged :: "MonitorRecord list" where
  "demo_judged = judge_records (demo_host 0) {} esFull [start_rec 100, root_spawn 100] {}"

lemma demo_gather: "gather_records (demo_host n) ''/f'' [] 100 ''r7'' [] = Inr ([start_rec 100, root_spawn 100], {})"
proof -
  have "gather_records (demo_host 0) ''/f'' [] 100 ''r7'' [] = Inr ([start_rec 100, root_spawn 100], {})"
    by code_simp
  then show ?thesis by (simp add: gather_records_def demo_host_def)
qed

lemma demo_complete: "dep_completeness (depFileFromOwnedRecords HostLinux (canonical_records demo_judged)) = mcComplete"
  by code_simp

lemma demo_length: "length demo_judged = 12"
  by code_simp

lemma lists_all_id [simp]: "lists_all id"
  by (simp add: lists_all_def)

lemma demo_orders: "lists_all (mh_order (demo_host n))" "lists_all (mh_thread_order (demo_host n))"
  "mh_host (demo_host n) = HostLinux" "mh_can_open (demo_host n)" "mh_budget (demo_host n) = n"
  by (simp_all add: demo_host_def)

lemma demo_judge: "judge_records (demo_host n) {} esFull [start_rec 100, root_spawn 100] {} = demo_judged"
  by (simp add: demo_judged_def judge_records_def demo_host_def)

lemma demo_merge:
  "mergeFragments (demo_host (length (encodeCanonical demo_judged))) ''/f'' ''out'' [] 100 ''r7'' [] {} esFull =
    (Inr (depFileFromOwnedRecords HostLinux (canonical_records demo_judged)), Some (encodeCanonical demo_judged),
     Some [demo_fragment])"
  unfolding merge_eq [OF demo_gather]
  by (simp add: demo_judge demo_orders Let_def remove_sentinels_def is_sentinel_def) 
    (simp add: demo_host_def demo_fragment_def ends_with_def ReadingSentinelExt_def)

definition connect_rec :: "u64 \<Rightarrow> u64 \<Rightarrow> MonitorRecord" where
  "connect_rec pid peer = (start_rec pid)\<lparr>rec_kind := mrIpcConnect, rec_observationKind := moIpcConnect, rec_childOsPid := peer,
     rec_path := ''/tmp/d.sock'', rec_detail := ''run=r7 peerstart=9''\<rparr>"

definition daemon_report :: report_file where
  "daemon_report = \<lparr>rf_path = report_path ''/r'' 100 200 0, rf_real = None, rf_ident = None,
     rf_content = Some (report_text (Some ''r7'') 100 200 ''/etc/x'')\<rparr>"



section \<open>The depfile\<close>

text \<open>
  C9. A merged depfile counts no loss exactly when every fragment was read to its end, no process
  left a reading sentinel, no record of the run has an ambiguous identity, the only loss records the
  processes wrote are read-tail markers and each pending one was committed, and in the depfile every
  spawned child, execed image, IPC peer and content channel is accounted for.
\<close>

theorem merge_loss_free_iff_accounted:
  assumes "mergeFragments mh fragmentDir out reportDir root currentRunId setRecords I E = (Inr dep, file, dir')"
    and "lists_all (mh_order mh)" "lists_all (mh_thread_order mh)" "\<forall>r \<in> set setRecords. dep_small r"
    and "length (dep_records dep) < 2 ^ 64"
  shows "\<exists>gathered trusted. gather_records mh fragmentDir reportDir root currentRunId setRecords = Inr (gathered, trusted) \<and>
    (sum_eventLossCount (dep_summary dep) = 0 \<longleftrightarrow>
      (\<forall>e \<in> set (dir_entries (mh_dir mh fragmentDir)). fragment_intact e \<and> \<not> is_sentinel e) \<and>
      unambiguous (run_of mh currentRunId) (merge_input mh fragmentDir setRecords) \<and>
      only_marker_losses (in_scope (run_of mh currentRunId) (merge_input mh fragmentDir setRecords)) \<and>
      tails_closed (in_scope (run_of mh currentRunId) (merge_input mh fragmentDir setRecords)) \<and>
      tree_accounted (dep_records dep) trusted)"
  by (rule merged [OF assms]) (simp add: fragments_accounted_def)

theorem merge_loss_free_iff_accounted_witness:
  "\<exists>dep file dir' gathered trusted.
    mergeFragments (demo_host (length (encodeCanonical demo_judged))) ''/f'' ''out'' [] 100 ''r7'' [] {} esFull =
      (Inr dep, file, dir') \<and>
    (sum_eventLossCount (dep_summary dep) = 0 \<longleftrightarrow>
      fragment_intact demo_fragment \<and> \<not> is_sentinel demo_fragment \<and>
      unambiguous ''r7'' [start_rec 100] \<and> only_marker_losses (in_scope ''r7'' [start_rec 100]) \<and>
      tails_closed (in_scope ''r7'' [start_rec 100]) \<and> tree_accounted (dep_records dep) trusted)"
proof -
  have l: "length (dep_records (depFileFromOwnedRecords HostLinux (canonical_records demo_judged))) < 2 ^ 64"
    by (simp add: demo_length)
  have f: "fragment_read demo_fragment = [start_rec 100]" by code_simp
  have i: "run_of (demo_host n) ''r7'' = ''r7''" "merge_input (demo_host n) ''/f'' [] = [start_rec 100]"
    "dir_entries (mh_dir (demo_host n) ''/f'') = [demo_fragment]" for n
    by (simp_all add: run_of_def merge_input_def demo_host_def dir_entries_def f)
  from merge_loss_free_iff_accounted [OF demo_merge demo_orders(1,2) _ l] demo_merge show ?thesis
    unfolding i by fastforce
qed

text \<open>
  C10. A merged depfile that says it is complete holds a process-start for the launched root and for
  every spawned child, each IPC peer is started in the tree or vouched for by an authenticated report,
  and every fragment of the directory was read to its end, with no reader killed before its flush.
\<close>

theorem complete_merge_is_earned:
  assumes "mergeFragments mh fragmentDir out reportDir root currentRunId setRecords I E = (Inr dep, file, dir')"
    and "lists_all (mh_order mh)" "lists_all (mh_thread_order mh)" "\<forall>r \<in> set setRecords. dep_small r"
    and "length (dep_records dep) < 2 ^ 64" "dep_completeness dep = mcComplete"
  shows "\<exists>gathered trusted. gather_records mh fragmentDir reportDir root currentRunId setRecords = Inr (gathered, trusted) \<and>
    (root \<noteq> 0 \<longrightarrow> (\<exists>s \<in> set (dep_records dep). rec_kind s = mrProcessStart \<and> rec_osPid s = root)) \<and>
    (\<forall>r \<in> set (dep_records dep). names_child r \<longrightarrow>
       (\<exists>s \<in> set (dep_records dep). rec_kind s = mrProcessStart \<and> rec_osPid s = rec_childOsPid r)) \<and>
    (\<forall>r \<in> set (dep_records dep). rec_kind r = mrIpcConnect \<longrightarrow> rec_childOsPid r \<in> trusted \<or>
       (\<exists>s \<in> set (dep_records dep). rec_kind s = mrProcessStart \<and> rec_osPid s = rec_childOsPid r)) \<and>
    (\<forall>e \<in> set (dir_entries (mh_dir mh fragmentDir)).
       \<not> ends_with (de_path e) ReadingSentinelExt \<and>
       (ends_with (de_path e) FragmentExt \<longrightarrow> de_state e \<noteq> FragUnreadable \<and>
          (\<forall>raw. de_state e = FragBytes raw \<longrightarrow> snd (decodeFramesTolerant raw))))"
proof (rule merged [OF assms(1-5)])
  fix rs
  let ?b = "peers_of mh (report_dir mh reportDir) rs" let ?t = "bf_trustedPeerPids ?b"
  assume g: "gather_records mh fragmentDir reportDir root currentRunId setRecords = Inr (rs @ bf_reads ?b, ?t)"
    and c: "mset (core rs) = mset (core (merge_folded (run_of mh currentRunId) (merge_input mh fragmentDir setRecords)) @
        (if root \<noteq> 0 then [root_spawn root] else []))"
      "mset (core (dep_records dep)) = mset (core (rs @ bf_reads ?b))"
    and "sum_eventLossCount (dep_summary dep) = 0 \<longleftrightarrow>
       (fragments_accounted mh fragmentDir \<and> unambiguous (run_of mh currentRunId) (merge_input mh fragmentDir setRecords) \<and>
        only_marker_losses (in_scope (run_of mh currentRunId) (merge_input mh fragmentDir setRecords)) \<and>
        tails_closed (in_scope (run_of mh currentRunId) (merge_input mh fragmentDir setRecords))) \<and>
       tree_accounted (dep_records dep) ?t"
  moreover have "sum_eventLossCount (dep_summary dep) = 0"
  proof -
    obtain xs where "dep = depFileFromOwnedRecords (mh_host mh) xs" using assms(1) by (elim merge_returned) blast
    then show ?thesis using assms(6) complete_no_losses by simp
  qed
  ultimately have a: "fragments_accounted mh fragmentDir" "tree_accounted (dep_records dep) ?t" by blast+
  have "\<exists>s \<in> set (dep_records dep). rec_kind s = mrProcessStart \<and> rec_osPid s = root" if "root \<noteq> 0"
  proof -
    have "root_spawn root \<in> set (core (dep_records dep))"
      using that mset_eq_setD [OF c(1)] mset_eq_setD [OF c(2)] by simp
    then show ?thesis using root_named [OF _ that] accounted_starts(1) [OF a(2)] by metis
  qed
  then show ?thesis using g accounted_starts [OF a(2)] intact_listing [OF a(1)] by blast
qed

theorem complete_merge_is_earned_witness:
  "\<exists>dep file dir'.
    mergeFragments (demo_host (length (encodeCanonical demo_judged))) ''/f'' ''out'' [] 100 ''r7'' [] {} esFull =
      (Inr dep, file, dir') \<and> dep_completeness dep = mcComplete \<and>
    (\<exists>s \<in> set (dep_records dep). rec_kind s = mrProcessStart \<and> rec_osPid s = 100)"
proof -
  have l: "length (dep_records (depFileFromOwnedRecords HostLinux (canonical_records demo_judged))) < 2 ^ 64"
    by (simp add: demo_length)
  from complete_merge_is_earned [OF demo_merge demo_orders(1,2) _ l demo_complete]
  have "\<exists>s \<in> set (dep_records (depFileFromOwnedRecords HostLinux (canonical_records demo_judged))).
      rec_kind s = mrProcessStart \<and> rec_osPid s = 100" by auto
  with demo_merge demo_complete show ?thesis by blast
qed





text \<open>
  C18. The merge always returns: whatever the fragment directory holds, no defect is raised, and with
  room for the output file it returns a depfile, the file holds its canonical form, and reading that
  file gives the returned depfile back.
\<close>

theorem merge_returns_what_it_writes:
  assumes "lists_all (mh_order mh)" "lists_all (mh_thread_order mh)" "\<forall>r \<in> set setRecords. dep_small r"
  shows "\<exists>rs trusted. gather_records mh fragmentDir reportDir root currentRunId setRecords = Inr (rs, trusted) \<and>
    (let js = judge_records mh I E rs trusted
     in mh_can_open mh \<and> length (encodeCanonical js) \<le> mh_budget mh \<longrightarrow>
        (\<exists>dep. mergeFragments mh fragmentDir out reportDir root currentRunId setRecords I E =
           (Inr dep, Some (encodeCanonical js), remove_sentinels (mh_dir mh fragmentDir)) \<and>
         ((\<forall>r \<in> set js. encodable r) \<and> length (encodeCanonical js) < 2 ^ 63 \<and>
            word_of_nat (length js) \<le> opt_maxObservationCount options \<longrightarrow>
          readMonitorDepFile [out \<mapsto> encodeCanonical js] (mh_host mh) out options = Inr dep)))"
proof -
  obtain rs trusted where g: "gather_records mh fragmentDir reportDir root currentRunId setRecords = Inr (rs, trusted)"
    using gather_returns [OF assms] by blast
  show ?thesis
    by (intro exI [of _ rs] exI [of _ trusted])
      (simp add: g merge_eq [OF g] Let_def canonical_records_def readMonitorDepFile_canonical)
qed

theorem merge_returns_what_it_writes_witness:
  "\<exists>dep. mergeFragments (demo_host (length (encodeCanonical demo_judged))) ''/f'' ''out'' [] 100 ''r7'' [] {} esFull =
      (Inr dep, Some (encodeCanonical demo_judged), remove_sentinels (Some [demo_fragment]))"
  using merge_returns_what_it_writes [OF demo_orders(1,2), of "[]" "length (encodeCanonical demo_judged)" "''/f''" "[]"
      100 "''r7''" "{}" esFull "''out''" defaultMonitorDepFileReaderOptions]
  by (auto simp: demo_gather demo_judge demo_orders Let_def) (auto simp: demo_host_def)

text \<open>
  C32. Folding by observation identity keeps every record of the other kinds as it was, leaves each
  fact exactly once, loses none, and folding again changes nothing.
\<close>

theorem folding_keeps_each_fact_once:
  assumes "\<forall>r \<in> set rs. is_fact r \<longrightarrow> dep_small r"
  shows "\<exists>facts. foldObservationIdentity img rs = Inr (filter (\<lambda>r. \<not> is_fact r) rs @ facts) \<and>
    distinct facts \<and> set facts = keyed True 0 ` {r \<in> set rs. is_fact r} \<and>
    foldObservationIdentity img (filter (\<lambda>r. \<not> is_fact r) rs @ facts) = Inr (filter (\<lambda>r. \<not> is_fact r) rs @ facts)"
proof (intro exI conjI)
  let ?out = "filter (\<lambda>r. \<not> is_fact r) rs @ folded_facts rs"
  show "foldObservationIdentity img rs = Inr ?out" by (rule fold_identity_eq [OF assms])
  show "distinct (folded_facts rs)" by (rule distinct_folded_facts [OF assms])
  show s: "set (folded_facts rs) = keyed True 0 ` {r \<in> set rs. is_fact r}" by (rule set_folded_facts [OF assms])
  have k: "is_fact (keyed True 0 r) = is_fact r" for r by (simp add: keyed_def)
  have "\<forall>r \<in> set ?out. is_fact r \<longrightarrow> dep_small r" using s assms dep_small_keyed by auto
  then have "foldObservationIdentity img ?out = Inr (filter (\<lambda>r. \<not> is_fact r) ?out @ folded_facts ?out)"
    by (rule fold_identity_eq)
  moreover have "filter (\<lambda>r. \<not> is_fact r) (folded_facts rs) = []" using s k by (auto simp: filter_empty_conv)
  ultimately show "foldObservationIdentity img ?out = Inr ?out" using folded_facts_again [OF assms] by simp
qed

theorem folding_keeps_each_fact_once_witness:
  "\<exists>facts. foldObservationIdentity [] [(start_rec 100)\<lparr>rec_kind := mrEnvRead\<rparr>, (start_rec 200)\<lparr>rec_kind := mrEnvRead\<rparr>] = Inr facts \<and>
    distinct facts \<and> set facts = {keyed True 0 ((start_rec 100)\<lparr>rec_kind := mrEnvRead\<rparr>)}"
proof -
  let ?a = "(start_rec 100)\<lparr>rec_kind := mrEnvRead\<rparr>" let ?b = "(start_rec 200)\<lparr>rec_kind := mrEnvRead\<rparr>"
  have d: "dep_small ?a" "dep_small ?b" by (simp_all add: dep_small_def dep_ok_def start_rec_def is_int64_def)
  have f: "is_fact ?a" "is_fact ?b" by (simp_all add: depIdentityKeepsIncarnation_def)
  have e: "keyed True 0 ?a = keyed True 0 ?b"
    by (simp add: keyed_def start_rec_def identityNormalizedOutcome_def)
  have s: "{r \<in> set [?a, ?b]. is_fact r} = {?a, ?b}" using f by auto
  from folding_keeps_each_fact_once [of "[?a, ?b]" "[]"] obtain facts where
    "foldObservationIdentity [] [?a, ?b] = Inr (filter (\<lambda>r. \<not> is_fact r) [?a, ?b] @ facts)" "distinct facts"
    "set facts = keyed True 0 ` {r \<in> set [?a, ?b]. is_fact r}" using d by auto
  then show ?thesis using f e unfolding s by simp
qed



text \<open>
  C32. The report \<^verbatim>\<open>trusted_daemon.c\<close> writes for a client is accepted by the merge of the run the
  client belongs to, and the accepted report names the served file as its one read.
\<close>

theorem cooperating_daemon_is_trusted:
  assumes "is_word run" "line_path path" "0 < client" "client < 2 ^ 64" "0 < pid" "pid < 2 ^ 64"
    and "rf_content f = Some (report_text (Some run) client pid path)"
    and "rf_path f = report_path reportdir client pid n" "length (rf_path f) < 8191"
    and "\<not> reportAuthoredInTree f (breakawayAuthContext rs)" "ba_runId (breakawayAuthContext rs) = run"
    and "\<exists>s \<in> set rs. rec_kind s = mrProcessStart \<and> rec_osPid s = word_of_int client"
    and "\<exists>c \<in> set rs. rec_kind c = mrIpcConnect \<and> rec_osPid c = word_of_int client \<and> rec_childOsPid c = word_of_nat pid"
  shows "\<exists>p. accepted_report (monitoredStartPids rs) (breakawayAuthContext rs) f = Some p \<and>
    rp_daemon p = word_of_nat pid \<and> rp_client p = word_of_int client \<and> rp_reads p = [path]"
proof -
  let ?s = "reportdir @ ''/report-'' @ int_text client @ ''-'' @ nat_text pid @ ''-'' @ nat_text n @ ''.io-mon-report''"
  have "rf_path f = ?s" using assms(9) unfolding assms(8) report_path_def by (cases "8191 \<le> length ?s") auto
  then have "ends_with (rf_path f) BreakawayReportExt"
    using ends_with_append [of "reportdir @ ''/report-'' @ int_text client @ ''-'' @ nat_text pid @ ''-'' @ nat_text n"]
    by (simp add: BreakawayReportExt_def)
  from report_text_accepted [OF assms(1-7) this assms(10-13)] show ?thesis .
qed

theorem cooperating_daemon_is_trusted_witness:
  "\<exists>p. accepted_report (monitoredStartPids [start_rec 100, connect_rec 100 200])
      (breakawayAuthContext [start_rec 100, connect_rec 100 200]) daemon_report = Some p \<and>
    rp_daemon p = word_of_nat 200 \<and> rp_client p = word_of_int 100 \<and> rp_reads p = [''/etc/x'']"
proof (rule cooperating_daemon_is_trusted [where run = "''r7''" and reportdir = "''/r''" and n = 0])
  show "is_word ''r7''" "line_path ''/etc/x''" by code_simp+
  show "length (rf_path daemon_report) < 8191" by code_simp
  show "\<not> reportAuthoredInTree daemon_report (breakawayAuthContext [start_rec 100, connect_rec 100 200])" by code_simp
  show "ba_runId (breakawayAuthContext [start_rec 100, connect_rec 100 200]) = ''r7''" by code_simp
qed (simp_all add: daemon_report_def start_rec_def connect_rec_def)

text \<open>
  C33. The report \<^verbatim>\<open>malicious_client.c\<close> forges is never accepted, whatever the shims observed.
\<close>

theorem forged_report_is_rejected:
  assumes "rf_content f = Some (forged_report pid peer)"
  shows "accepted_report monitored auth f = None"
  using incomplete_not_accepted [OF assms forged_never_complete] .

theorem forged_report_is_rejected_witness:
  "accepted_report {100} (breakawayAuthContext [start_rec 100, connect_rec 100 200])
     (daemon_report\<lparr>rf_content := Some (forged_report 100 200)\<rparr>) = None"
  by (rule forged_report_is_rejected [where pid = 100 and peer = 200]) simp

end
