(* ===== verification/Fragment_Facts.thy ===== *)
theory Fragment_Facts
  imports Fragment_Slot Merge_Facts
begin

text \<open>
  What the operations of a fragment slot do on a system that takes every write: the frames they add
  to the file and the slot they leave.  The monitored program may take the handle away at any time.
\<close>

section \<open>A healthy system\<close>

lemma set_slot_simps [simp]:
  "cp_slot (set_slot t f c) t = f (cp_slot c t)" "cp_files (set_slot t f c) = cp_files c"
  "cp_writes (set_slot t f c) = cp_writes c" "cp_opens (set_slot t f c) = cp_opens c"
  "cp_infos (set_slot t f c) = cp_infos c" "cp_dirs (set_slot t f c) = cp_dirs c"
  "cp_runToken (set_slot t f c) = cp_runToken c" "cp_env (set_slot t f c) = cp_env c"
  "cp_flags (set_slot t f c) = cp_flags c" "cp_diag (set_slot t f c) = cp_diag c"
  "cp_fragmentByteCap (set_slot t f c) = cp_fragmentByteCap c" "cp_setAttached (set_slot t f c) = cp_setAttached c"
  "cp_capResolved (set_slot t f c) = cp_capResolved c" "cp_registry (set_slot t f c) = cp_registry c"
  by (simp_all add: set_slot_def)

lemma then_do_None [simp]: "f c = (None, c') \<Longrightarrow> then_do f g c = g c'"
  by (simp add: then_do_def)

text \<open>The system takes every write and opens every file; the handle may go stale at any time.\<close>

definition healthy :: "capture \<Rightarrow> bool" where
  "healthy c \<longleftrightarrow> cp_writes c = [] \<and> cp_dirs c = [] \<and> cp_opens c = [] \<and> cp_infos c = [] \<and> \<not> cp_setAttached c"

definition marker_text :: "nat \<Rightarrow> capture \<Rightarrow> string \<Rightarrow> string" where
  "marker_text t c d = d @ cp_runToken c @ killDiagContextForMarker (killDiagIsOn (cp_env c) (cp_flags c)) (cp_diag c t)"

lemma killDiagIsOn_again [simp]: "killDiagIsOn env (killDiagIsOn env f) = killDiagIsOn env f"
  by (simp add: killDiagIsOn_def Let_def)

text \<open>What no operation of the writer changes.\<close>

definition steady :: "nat \<Rightarrow> capture \<Rightarrow> capture \<Rightarrow> bool" where
  "steady t c c' \<longleftrightarrow> healthy c' \<and> marker_text t c' = marker_text t c \<and>
     (cp_capResolved c \<longrightarrow> cp_fragmentByteCap c' = cp_fragmentByteCap c \<and> cp_capResolved c')"

lemma steady_trans: "steady t a b \<Longrightarrow> steady t b c \<Longrightarrow> steady t a c"
  by (auto simp: steady_def)

lemma steady_refl: "healthy c \<Longrightarrow> steady t c c"
  by (simp add: steady_def)

lemma steady_set_slot [simp]: "steady t c (set_slot t f c') = steady t c c'"
  by (simp add: steady_def healthy_def marker_text_def fun_eq_iff)

lemma unregister_simps [simp]:
  "cp_files (unregisterFragmentSlot t c) = cp_files c"
  "cp_slot (unregisterFragmentSlot t c) t = (cp_slot c t)\<lparr>sl_registryIndex := 0\<rparr>"
  "steady t c0 (unregisterFragmentSlot t c) = steady t c0 c"
  by (auto simp: unregisterFragmentSlot_def Let_def steady_def healthy_def marker_text_def fun_eq_iff set_slot_def)

section \<open>An open slot\<close>

definition slot_path :: "FragmentSlot \<Rightarrow> string" where
  "slot_path s = fragmentPath (sl_fragmentDir s) (sl_osPid s) (sl_threadId s)"

definition ready :: "nat \<Rightarrow> capture \<Rightarrow> bool" where
  "ready t c \<longleftrightarrow> healthy c \<and> sl_isOpen (cp_slot c t) \<and> sl_file (cp_slot c t) = OpenFile (slot_path (cp_slot c t))"

text \<open>The state after some frames went to the slot's file and nothing else changed.\<close>

definition put :: "nat \<Rightarrow> capture \<Rightarrow> bytes \<Rightarrow> capture \<Rightarrow> bool" where
  "put t c bs c' \<longleftrightarrow> cp_slot c' t = cp_slot c t \<and> steady t c c' \<and>
     cp_files c' = (cp_files c)(slot_path (cp_slot c t) := cp_files c (slot_path (cp_slot c t)) @ bs)"

lemma put_ready: "ready t c \<Longrightarrow> put t c bs c' \<Longrightarrow> ready t c'"
  by (simp add: ready_def put_def steady_def)

lemma handle_ready_ok:
  assumes "ready t c"
  shows "\<exists>c'. handle_ready t c = (True, c') \<and> put t c [] c'"
proof -
  let ?cur = "fst (next_answer True (cp_current c))"
  let ?c = "c\<lparr>cp_current := snd (next_answer True (cp_current c))\<rparr>"
  have f: "fragmentHandleIsCurrent t c = (?cur, ?c)"
    using assms by (simp add: fragmentHandleIsCurrent_def ready_def case_prod_beta)
  show ?thesis
  proof (cases ?cur)
    case True
    have "put t c [] ?c" using assms by (simp add: put_def steady_def healthy_def ready_def marker_text_def fun_eq_iff)
    moreover have "handle_ready t c = (True, ?c)" using True by (simp add: handle_ready_def f)
    ultimately show ?thesis by blast
  next
    case False
    have r: "handle_ready t c = reopenFragmentHandle t ?c" using False by (simp add: handle_ready_def f)
    have "\<exists>c'. reopenFragmentHandle t ?c = (True, c') \<and> put t c [] c'"
      using assms by (auto simp: reopenFragmentHandle_def ready_def healthy_def next_answer_def put_def steady_def
          marker_text_def slot_path_def fun_eq_iff Let_def set_slot_def)
    then show ?thesis unfolding r .
  qed
qed

lemma writeBuffer_ok:
  assumes "ready t c"
  shows "\<exists>c'. writeBuffer t bs c = (Inr (length bs), c') \<and> put t c bs c'"
  using assms by (simp add: writeBuffer_def ready_def healthy_def next_answer_def put_def steady_def marker_text_def fun_eq_iff)

lemma put_trans: "put t a xs b \<Longrightarrow> put t b ys c \<Longrightarrow> put t a (xs @ ys) c"
  by (auto simp: put_def intro: steady_trans)

definition slot_marker :: "nat \<Rightarrow> capture \<Rightarrow> string \<Rightarrow> MonitorRecord" where
  "slot_marker t c d = marker_record (sl_osPid (cp_slot c t)) (sl_threadId (cp_slot c t)) (marker_text t c d)"

lemma marker_ok:
  assumes "ready t c"
  shows "\<exists>c'. writeReadTailMarker t d c = (None, c') \<and> put t c (frames [slot_marker t c d]) c'"
proof -
  obtain c1 where c1: "handle_ready t c = (True, c1)" "put t c [] c1" using handle_ready_ok [OF assms] by blast
  let ?c2 = "c1\<lparr>cp_flags := killDiagIsOn (cp_env c1) (cp_flags c1)\<rparr>"
  have r1: "ready t c1" by (rule put_ready [OF assms c1(2)])
  have p2: "put t c1 [] ?c2"
    using r1 by (simp add: put_def steady_def healthy_def ready_def marker_text_def fun_eq_iff)
  let ?m = "slot_marker t c d"
  have "marker_record (sl_osPid (cp_slot ?c2 t)) (sl_threadId (cp_slot ?c2 t))
      (d @ cp_runToken ?c2 @ killDiagContextForMarker (killDiagIsOn (cp_env c1) (cp_flags c1)) (cp_diag ?c2 t)) = ?m"
    using c1(2) by (auto simp: slot_marker_def put_def steady_def marker_text_def fun_eq_iff)
  then have m: "marker_record (sl_osPid (cp_slot c1 t)) (sl_threadId (cp_slot c1 t))
      (d @ cp_runToken c1 @ killDiagContextForMarker (killDiagIsOn (cp_env c1) (cp_flags c1)) (cp_diag c1 t)) = ?m"
    by simp
  obtain c3 where c3: "writeBuffer t (encodeFrame ?m) ?c2 = (Inr (length (encodeFrame ?m)), c3)" "put t ?c2 (encodeFrame ?m) c3"
    using writeBuffer_ok [OF put_ready [OF r1 p2]] by blast
  have "writeReadTailMarker t d c = (None, c3)"
    using assms by (simp add: writeReadTailMarker_def ready_def c1(1) Let_def m c3(1) del: length_encodeFrame)
  moreover have "put t c (frames [?m]) c3" using put_trans [OF put_trans [OF c1(2) p2] c3(2)] by simp
  ultimately show ?thesis by blast
qed

section \<open>What one operation adds to the file\<close>

definition effect :: "nat \<Rightarrow> capture \<Rightarrow> MonitorRecord list \<Rightarrow> FragmentSlot \<Rightarrow> capture \<Rightarrow> bool" where
  "effect t c K s c' \<longleftrightarrow> cp_slot c' t = s \<and> steady t c c' \<and>
     cp_files c' (slot_path (cp_slot c t)) = cp_files c (slot_path (cp_slot c t)) @ frames K"

lemma put_effect: "put t c (frames K) c' \<Longrightarrow> effect t c K (cp_slot c t) c'"
  by (simp add: put_def effect_def)

lemma effect_trans:
  "effect t a K b_slot b \<Longrightarrow> slot_path b_slot = slot_path (cp_slot a t) \<Longrightarrow> effect t b K' s c \<Longrightarrow> effect t a (K @ K') s c"
  by (auto simp: effect_def intro: steady_trans)

lemma effect_set_slot: "effect t a K s b \<Longrightarrow> effect t a K (f s) (set_slot t f b)"
  by (simp add: effect_def)

lemma clear_ok:
  assumes "ready t c"
  shows "\<exists>c'. clearReadingSentinel t c = (None, c') \<and>
    effect t c (if sl_readingSentinelActive (cp_slot c t) then [slot_marker t c ReadTailCommittedDetail] else [])
      ((cp_slot c t)\<lparr>sl_readingSentinelActive := False\<rparr>) c'"
proof (cases "sl_readingSentinelActive (cp_slot c t)")
  case True
  obtain c1 where c1: "writeReadTailMarker t ReadTailCommittedDetail c = (None, c1)"
    "put t c (frames [slot_marker t c ReadTailCommittedDetail]) c1" using marker_ok [OF assms] by blast
  have "clearReadingSentinel t c = (None, set_slot t (\<lambda>s. s\<lparr>sl_readingSentinelActive := False\<rparr>) c1)"
    using True by (simp add: clearReadingSentinel_def c1(1))
  moreover have "effect t c [slot_marker t c ReadTailCommittedDetail] ((cp_slot c t)\<lparr>sl_readingSentinelActive := False\<rparr>)
      (set_slot t (\<lambda>s. s\<lparr>sl_readingSentinelActive := False\<rparr>) c1)"
    using effect_set_slot [OF put_effect [OF c1(2)], of "\<lambda>s. s\<lparr>sl_readingSentinelActive := False\<rparr>"] by simp
  ultimately show ?thesis using True by auto
next
  case False
  have "effect t c [] (cp_slot c t) c" using assms by (simp add: effect_def ready_def steady_refl)
  moreover have eq: "(cp_slot c t)\<lparr>sl_readingSentinelActive := False\<rparr> = cp_slot c t" using False by simp
  ultimately show ?thesis unfolding eq using False by (simp add: clearReadingSentinel_def)
qed

text \<open>The identity and the read-tail state of a slot.\<close>

definition same_slot :: "FragmentSlot \<Rightarrow> FragmentSlot \<Rightarrow> bool" where
  "same_slot s s' \<longleftrightarrow> sl_fragmentDir s' = sl_fragmentDir s \<and> sl_osPid s' = sl_osPid s \<and> sl_threadId s' = sl_threadId s"

lemma same_slot_path: "same_slot s s' \<Longrightarrow> slot_path s' = slot_path s"
  by (simp add: same_slot_def slot_path_def)

lemma account_ok:
  assumes "ready t c" "\<not> sl_overCap (cp_slot c t)" "\<not> sl_readingSentinelActive (cp_slot c t)"
    "sl_batch (cp_slot c t) = []"
  shows "\<exists>c' s K. accountFragmentBytes t n c = (None, c') \<and> effect t c K s c' \<and> same_slot (cp_slot c t) s \<and>
    sl_batch s = [] \<and> \<not> sl_readingSentinelActive s \<and>
    (K = [] \<and> \<not> sl_overCap s \<and> sl_isOpen s \<and> sl_file s = sl_file (cp_slot c t) \<and>
       sl_fragmentBytes (cp_slot c t) + int n < cp_fragmentByteCap c \<or>
     K = [slot_marker t c FragmentCapReachedDetail] \<and> sl_overCap s \<and> \<not> sl_isOpen s \<and> sl_file s = ClosedFile \<and>
       \<not> sl_fragmentBytes (cp_slot c t) + int n < cp_fragmentByteCap c)"
proof -
  let ?f = "\<lambda>s. s\<lparr>sl_fragmentBytes := sl_fragmentBytes s + int n\<rparr>"
  let ?c = "set_slot t ?f c" let ?s = "?f (cp_slot c t)"
  have open_: "sl_isOpen (cp_slot c t)" using assms(1) by (simp add: ready_def)
  have r: "ready t ?c" using assms(1) by (simp add: ready_def slot_path_def healthy_def)
  have e: "effect t c [] ?s ?c" using assms(1) by (simp add: effect_def ready_def steady_refl)
  show ?thesis
  proof (cases "sl_fragmentBytes ?s < cp_fragmentByteCap c")
    case True
    then have "accountFragmentBytes t n c = (None, ?c)"
      using assms(2) open_ by (simp add: accountFragmentBytes_def Let_def)
    then show ?thesis using e assms open_ True by (intro exI [of _ ?c] exI [of _ ?s] exI [of _ "[]"]) (simp add: same_slot_def)
  next
    case False
    have m: "slot_marker t ?c FragmentCapReachedDetail = slot_marker t c FragmentCapReachedDetail"
      by (simp add: slot_marker_def marker_text_def)
    obtain c1 where c1: "writeReadTailMarker t FragmentCapReachedDetail ?c = (None, c1)"
      "put t ?c (frames [slot_marker t c FragmentCapReachedDetail]) c1" using marker_ok [OF r, of FragmentCapReachedDetail] unfolding m by blast
    let ?close = "\<lambda>s. s\<lparr>sl_isOpen := False, sl_batch := [],
                  sl_batchOpenedAtNs := 0, sl_batchProbeCountdown := 0, sl_readingSentinelActive := False\<rparr>"
    let ?c2 = "set_slot t (\<lambda>s. s\<lparr>sl_overCap := True\<rparr>) c1"
    let ?c4 = "set_slot t ?close (set_slot t (\<lambda>s. s\<lparr>sl_file := ClosedFile\<rparr>) ?c2)"
    have s1: "cp_slot c1 t = ?s" using c1(2) by (simp add: put_def)
    have "clearReadingSentinel t ?c2 = (None, ?c2)" using assms(3) by (simp add: clearReadingSentinel_def s1)
    moreover have "close_file t ?c2 = (None, set_slot t (\<lambda>s. s\<lparr>sl_file := ClosedFile\<rparr>) ?c2)"
      using assms(1) by (simp add: close_file_def s1 ready_def)
    ultimately have a: "accountFragmentBytes t n c = (None, unregisterFragmentSlot t ?c4)"
      using False assms(2) open_ by (simp add: accountFragmentBytes_def Let_def c1(1) then_do_def)
    have "effect t c ([] @ [slot_marker t c FragmentCapReachedDetail]) (cp_slot ?c t) c1"
      by (rule effect_trans [OF e]) (use put_effect [OF c1(2)] in \<open>simp_all add: slot_path_def\<close>)
    then have "effect t c [slot_marker t c FragmentCapReachedDetail]
        (cp_slot (unregisterFragmentSlot t ?c4) t) (unregisterFragmentSlot t ?c4)"
      by (simp add: effect_def)
    then show ?thesis using a False
      by (intro exI) (rule conjI, assumption, rule conjI, assumption, simp add: s1 same_slot_def)
  qed
qed

lemma flush_ok:
  assumes "ready t c" "\<not> sl_overCap (cp_slot c t)" "sl_batch (cp_slot c t) = frames B" "frames B \<noteq> []"
  shows "\<exists>c' s K. flushFragmentBatch t c = (None, c') \<and>
    effect t c (B @ (if sl_readingSentinelActive (cp_slot c t) then [slot_marker t c ReadTailCommittedDetail] else []) @ K) s c' \<and>
    same_slot (cp_slot c t) s \<and> sl_batch s = [] \<and> \<not> sl_readingSentinelActive s \<and>
    (K = [] \<and> \<not> sl_overCap s \<and> sl_isOpen s \<and> sl_file s = sl_file (cp_slot c t) \<or>
     K = [slot_marker t c FragmentCapReachedDetail] \<and> sl_overCap s \<and> \<not> sl_isOpen s) \<and>
    (cp_capResolved c \<and> \<not> sl_fragmentBytes (cp_slot c t) + int (length (frames B)) < cp_fragmentByteCap c \<longrightarrow>
       \<not> sl_isOpen s \<and> sl_file s = ClosedFile)"
proof -
  obtain c1 where c1: "handle_ready t c = (True, c1)" "put t c [] c1" using handle_ready_ok [OF assms(1)] by blast
  have r1: "ready t c1" by (rule put_ready [OF assms(1) c1(2)])
  have s1: "cp_slot c1 t = cp_slot c t" using c1(2) by (simp add: put_def)
  obtain c2 where c2: "writeBuffer t (frames B) c1 = (Inr (length (frames B)), c2)" "put t c1 (frames B) c2"
    using writeBuffer_ok [OF r1] by blast
  have p2: "put t c (frames B) c2" using put_trans [OF c1(2) c2(2)] by simp
  let ?f = "\<lambda>s. s\<lparr>sl_batch := [], sl_batchOpenedAtNs := 0, sl_batchProbeCountdown := 0\<rparr>"
  let ?c3 = "set_slot t ?f (count_write c2)"
  have cw: "ready t (count_write c2) \<and> effect t c B (cp_slot c t) (count_write c2)"
    using put_effect [OF p2] put_ready [OF assms(1) p2]
    by (simp add: count_write_def ready_def effect_def steady_def healthy_def marker_text_def fun_eq_iff)
  have r3: "ready t ?c3" using cw by (simp add: ready_def healthy_def slot_path_def)
  have e3: "effect t c B (?f (cp_slot c t)) ?c3" using effect_set_slot [of t c B "cp_slot c t" "count_write c2" ?f] cw by simp
  have s3: "cp_slot ?c3 t = ?f (cp_slot c t)" using e3 by (simp add: effect_def)
  have m3: "slot_marker t ?c3 d = slot_marker t c d" for d
    using e3 by (simp add: slot_marker_def effect_def steady_def)
  obtain c4 where c4: "clearReadingSentinel t ?c3 = (None, c4)"
    "effect t ?c3 (if sl_readingSentinelActive (cp_slot c t) then [slot_marker t c ReadTailCommittedDetail] else [])
      ((?f (cp_slot c t))\<lparr>sl_readingSentinelActive := False\<rparr>) c4"
    using clear_ok [OF r3] unfolding s3 m3 by auto
  let ?C = "if sl_readingSentinelActive (cp_slot c t) then [slot_marker t c ReadTailCommittedDetail] else []"
  have e4: "effect t c (B @ ?C) ((?f (cp_slot c t))\<lparr>sl_readingSentinelActive := False\<rparr>) c4"
    by (rule effect_trans [OF e3 _ c4(2)]) (simp add: slot_path_def)
  have s4: "cp_slot c4 t = (?f (cp_slot c t))\<lparr>sl_readingSentinelActive := False\<rparr>" using e4 by (simp add: effect_def)
  have r4: "ready t c4" using e4 assms(1) by (simp add: ready_def effect_def steady_def slot_path_def)
  have m4: "slot_marker t c4 d = slot_marker t c d" for d
    using e4 by (simp add: slot_marker_def effect_def steady_def)
  obtain c5 s K where c5: "accountFragmentBytes t (length (frames B)) c4 = (None, c5)" "effect t c4 K s c5"
    "same_slot (cp_slot c4 t) s" "sl_batch s = []" "\<not> sl_readingSentinelActive s"
    "K = [] \<and> \<not> sl_overCap s \<and> sl_isOpen s \<and> sl_file s = sl_file (cp_slot c4 t) \<and>
       sl_fragmentBytes (cp_slot c4 t) + int (length (frames B)) < cp_fragmentByteCap c4 \<or>
     K = [slot_marker t c FragmentCapReachedDetail] \<and> sl_overCap s \<and> \<not> sl_isOpen s \<and> sl_file s = ClosedFile"
    using account_ok [OF r4, of "length (frames B)"] assms(2) unfolding m4 by (auto simp: s4)
  have "flushFragmentBatch t c = (None, c5)"
    using assms(1,3,4) by (simp add: flushFragmentBatch_def ready_def c1(1) s1 c2(1) c4(1) c5(1) Let_def)
  moreover have "effect t c ((B @ ?C) @ K) s c5"
    by (rule effect_trans [OF e4 _ c5(2)]) (simp add: slot_path_def)
  moreover have "cp_capResolved c \<longrightarrow> cp_fragmentByteCap c4 = cp_fragmentByteCap c" using e4 by (simp add: effect_def steady_def)
  ultimately show ?thesis using c5(3-6) by (intro exI [of _ c5] exI [of _ s] exI [of _ K]) (auto simp: s4 same_slot_def)
qed

end
