(* ===== verification/Fragment_Invariant.thy ===== *)
theory Fragment_Invariant
  imports Fragment_Facts "HOL-Library.Sublist"
begin

text \<open>
  The invariant of a fragment: at every byte of every append the file either says that something was
  lost, has an unmatched read tail, or holds every captured record.
\<close>

section \<open>What the file owes\<close>

definition captured :: "MonitorRecord \<Rightarrow> bool" where
  "captured r \<longleftrightarrow> kindCarriesCapturedDependency (rec_kind r) \<and> \<not> recordSuppressesOnlyADowngrade r"

text \<open>
  A file without a loss and with every read tail closed holds all the captured records.  A file with
  a loss of its own owes nothing more: it makes its depfile incomplete.
\<close>

definition accounts_for :: "MonitorRecord list \<Rightarrow> MonitorRecord list \<Rightarrow> bool" where
  "accounts_for M done \<longleftrightarrow>
     (only_marker_losses M \<and> tails_closed M \<longrightarrow> (\<forall>r \<in> set done. captured r \<longrightarrow> r \<in> set M))"

definition lost :: "MonitorRecord list \<Rightarrow> bool" where
  "lost M \<longleftrightarrow> (\<exists>r \<in> set M. is_loss r \<and> \<not> is_marker r)"

lemma lost_accounts [simp]: "lost M \<Longrightarrow> accounts_for (M @ N) done"
  by (auto simp: lost_def accounts_for_def only_marker_losses_def)

lemma lost_append [simp]: "lost (M @ N) \<longleftrightarrow> lost M \<or> lost N"
  by (auto simp: lost_def)

definition unmatched :: "u64 \<times> u64 \<Rightarrow> MonitorRecord list \<Rightarrow> bool" where
  "unmatched key M \<longleftrightarrow> marker_count is_committed M key < marker_count is_pending M key"

lemma unmatched_accounts [simp]: "unmatched key M \<Longrightarrow> accounts_for M done"
  unfolding unmatched_def accounts_for_def tails_closed_def by (meson not_le)

lemma marker_count_unmarked [simp]:
  "\<forall>r \<in> set B. \<not> is_marker r \<Longrightarrow> marker_count is_pending B key = 0"
  "\<forall>r \<in> set B. \<not> is_marker r \<Longrightarrow> marker_count is_committed B key = 0"
  by (auto simp: marker_count_def is_marker_def filter_empty_conv)

section \<open>The invariant of a slot\<close>

definition tail_state :: "u64 \<times> u64 \<Rightarrow> FragmentSlot \<Rightarrow> MonitorRecord list \<Rightarrow> bool" where
  "tail_state key s L \<longleftrightarrow>
     marker_count is_pending L key = (if sl_readingSentinelActive s then 1 else 0) + marker_count is_committed L key"

text \<open>
  The records of the file and the batch of the slot: either the file says that something was lost, or
  every captured record is in the file or in the batch, and in the file if no read tail is pending.
\<close>

definition slot_inv :: "u64 \<times> u64 \<Rightarrow> MonitorRecord list \<Rightarrow> FragmentSlot \<Rightarrow> MonitorRecord list \<Rightarrow> bool" where
  "slot_inv key done s L \<longleftrightarrow>
     (\<forall>r \<in> set L. encodable r \<and> (is_marker r \<longrightarrow> thread_of r = key)) \<and> (sl_overCap s \<longrightarrow> lost L) \<and>
     (\<exists>B. sl_batch s = frames B \<and> (\<forall>r \<in> set B. encodable r \<and> \<not> is_marker r) \<and>
        (lost L \<or>
         (\<forall>r \<in> set done. captured r \<longrightarrow> r \<in> set L \<or> r \<in> set B) \<and> tail_state key s L \<and>
         (\<not> sl_readingSentinelActive s \<longrightarrow> (\<forall>r \<in> set B. \<not> captured r)) \<and>
         (\<not> sl_isOpen s \<longrightarrow> B = [] \<and> \<not> sl_readingSentinelActive s)))"

lemma slot_inv_accounts:
  assumes "slot_inv key done s L"
  shows "accounts_for L done"
proof (cases "lost L \<or> sl_readingSentinelActive s")
  case True
  then show ?thesis
  proof
    assume "lost L" then show ?thesis using lost_accounts [of L "[]"] by simp
  next
    assume a: "sl_readingSentinelActive s"
    from assms have "lost L \<or> tail_state key s L" by (auto simp: slot_inv_def)
    then show ?thesis
    proof
      assume "lost L" then show ?thesis using lost_accounts [of L "[]"] by simp
    next
      assume "tail_state key s L"
      then have "unmatched key L" using a by (simp add: tail_state_def unmatched_def)
      then show ?thesis by simp
    qed
  qed
next
  case False
  then show ?thesis using assms by (auto simp: slot_inv_def accounts_for_def)
qed

section \<open>Prefixes of what is written\<close>

definition prefixes_account :: "MonitorRecord list \<Rightarrow> MonitorRecord list \<Rightarrow> MonitorRecord list \<Rightarrow> bool" where
  "prefixes_account L K done \<longleftrightarrow> (\<forall>n. accounts_for (L @ take n K) done)"

lemma prefixes_append:
  assumes "prefixes_account L K done" "prefixes_account (L @ K) K' done"
  shows "prefixes_account L (K @ K') done"
  unfolding prefixes_account_def
proof
  fix n
  show "accounts_for (L @ take n (K @ K')) done"
  proof (cases "n \<le> length K")
    case True
    then show ?thesis using assms(1) by (simp add: prefixes_account_def)
  next
    case False
    then have "L @ take n (K @ K') = (L @ K) @ take (n - length K) K'" by simp
    then show ?thesis using assms(2) unfolding prefixes_account_def by metis
  qed
qed

lemma prefixes_single: "accounts_for L done \<Longrightarrow> accounts_for (L @ [r]) done \<Longrightarrow> prefixes_account L [r] done"
  by (auto simp: prefixes_account_def take_Cons')

lemma prefixes_Nil: "accounts_for L done \<Longrightarrow> prefixes_account L [] done"
  by (simp add: prefixes_account_def)

text \<open>Writing the batch: until its committed marker is there the tail stays unmatched.\<close>

lemma batch_prefixes:
  assumes "slot_inv key done s L" "sl_batch s = frames B" "\<forall>r \<in> set B. encodable r \<and> \<not> is_marker r"
    and "lost L \<or> (\<forall>r \<in> set done. captured r \<longrightarrow> r \<in> set L \<or> r \<in> set B) \<and> tail_state key s L \<and>
         (\<not> sl_readingSentinelActive s \<longrightarrow> (\<forall>r \<in> set B. \<not> captured r))"
  shows "prefixes_account L B done"
  unfolding prefixes_account_def
proof
  fix n
  have nm: "\<forall>r \<in> set (take n B). \<not> is_marker r" using assms(3) by (meson in_set_takeD)
  consider "lost L" | "sl_readingSentinelActive s" "tail_state key s L"
    | "\<not> sl_readingSentinelActive s" "\<forall>r \<in> set done. captured r \<longrightarrow> r \<in> set L" "\<not> lost L"
    using assms(4) by blast
  then show "accounts_for (L @ take n B) done"
  proof cases
    case 1
    then show ?thesis by simp
  next
    case 2
    then have "unmatched key (L @ take n B)" using nm by (simp add: unmatched_def tail_state_def)
    then show ?thesis by simp
  next
    case 3
    then show ?thesis by (auto simp: accounts_for_def)
  qed
qed

section \<open>Markers\<close>

lemma marker_kinds [simp]:
  "is_loss (marker_record p t d)" "rec_kind (marker_record p t d) = mrEventLoss"
  "thread_of (marker_record p t d) = (p, t)" "rec_detail (marker_record p t d) = d"
  "is_pending (marker_record p t (marker_text u c ReadTailPendingDetail))"
  "\<not> is_committed (marker_record p t (marker_text u c ReadTailPendingDetail))"
  "is_committed (marker_record p t (marker_text u c ReadTailCommittedDetail))"
  "\<not> is_pending (marker_record p t (marker_text u c ReadTailCommittedDetail))"
  "\<not> is_marker (marker_record p t (marker_text u c FragmentCapReachedDetail))"
  by (simp_all add: marker_record_def is_loss_def thread_of_def is_pending_def is_committed_def is_marker_def
      marker_text_def starts_with_def ReadTailPendingDetail_def ReadTailCommittedDetail_def FragmentCapReachedDetail_def)

lemma encodable_marker: "168 + length (marker_text u c []) < 2 ^ 32 \<Longrightarrow> length d \<le> 100 \<Longrightarrow>
    encodable (marker_record p t (marker_text u c d))"
  by (simp add: encodable_def marker_record_def is_int64_def marker_text_def)

lemma marker_count_single:
  "marker_count P [r] key = (if P r \<and> thread_of r = key then 1 else 0)"
  by (simp add: marker_count_def)

section \<open>The invariant of the writer\<close>

definition names :: "string \<Rightarrow> u64 \<Rightarrow> u64 \<Rightarrow> FragmentSlot \<Rightarrow> bool" where
  "names dir pid tid s \<longleftrightarrow> sl_fragmentDir s = dir \<and> sl_osPid s = pid \<and> sl_threadId s = tid"

lemma names_path: "names dir pid tid s \<Longrightarrow> slot_path s = fragmentPath dir pid tid"
  by (simp add: names_def slot_path_def)

definition cap_inv :: "nat \<Rightarrow> string \<Rightarrow> u64 \<Rightarrow> u64 \<Rightarrow> MonitorRecord list \<Rightarrow> capture \<Rightarrow> MonitorRecord list \<Rightarrow> bool" where
  "cap_inv t dir pid tid done c L \<longleftrightarrow>
     healthy c \<and> cp_files c (fragmentPath dir pid tid) = frames L \<and> 168 + length (marker_text t c []) < 2 ^ 32 \<and>
     slot_inv (pid, tid) done (cp_slot c t) L \<and>
     (sl_isOpen (cp_slot c t) \<or> sl_overCap (cp_slot c t) \<longrightarrow> names dir pid tid (cp_slot c t)) \<and>
     (sl_isOpen (cp_slot c t) \<longrightarrow> sl_file (cp_slot c t) = OpenFile (fragmentPath dir pid tid)) \<and>
     (sl_overCap (cp_slot c t) \<longrightarrow> \<not> sl_isOpen (cp_slot c t))"

lemma cap_inv_ready: "cap_inv t dir pid tid done c L \<Longrightarrow> sl_isOpen (cp_slot c t) \<Longrightarrow> ready t c"
  by (auto simp: cap_inv_def ready_def dest: names_path)

lemma markers_encodable:
  assumes "168 + length (marker_text t c []) < 2 ^ 32"
  shows "encodable (slot_marker t c ReadTailPendingDetail)" "encodable (slot_marker t c ReadTailCommittedDetail)"
    "encodable (slot_marker t c FragmentCapReachedDetail)"
  unfolding slot_marker_def
  by (rule encodable_marker [OF assms];
      simp add: ReadTailPendingDetail_def ReadTailCommittedDetail_def FragmentCapReachedDetail_def)+

lemma flush_slot_inv:
  assumes i: "slot_inv key done s L" and B: "sl_batch s = frames B" "\<forall>r \<in> set B. encodable r \<and> \<not> is_marker r"
    and owe: "lost L \<or> (\<forall>r \<in> set done. captured r \<longrightarrow> r \<in> set L \<or> r \<in> set B) \<and> tail_state key s L \<and>
         (\<not> sl_readingSentinelActive s \<longrightarrow> (\<forall>r \<in> set B. \<not> captured r))"
    and m: "encodable cm" "is_committed cm" "thread_of cm = key" "encodable km" "is_loss km" "\<not> is_marker km"
    and s': "sl_batch s' = []" "\<not> sl_readingSentinelActive s'" "K = [] \<and> \<not> sl_overCap s' \<or> K = [km]"
  defines "C \<equiv> if sl_readingSentinelActive s then [cm] else []"
  shows "slot_inv key done s' (L @ B @ C @ K)" "prefixes_account L (B @ C @ K) done"
proof -
  have cp: "\<not> is_pending cm" using m(2) by (simp add: is_committed_def)
  have after: "lost L \<or> (\<forall>r \<in> set done. captured r \<longrightarrow> r \<in> set (L @ B @ C)) \<and>
      marker_count is_pending (L @ B @ C) key = marker_count is_committed (L @ B @ C) key"
    using owe m(2,3) cp B(2) by (auto simp: tail_state_def C_def marker_count_single)
  have enc: "\<forall>r \<in> set (L @ B @ C @ K). encodable r \<and> (is_marker r \<longrightarrow> thread_of r = key)"
    using i B(2) m(1,3,4,6) s'(3) by (auto simp: slot_inv_def C_def)
  have lk: "K = [km] \<Longrightarrow> lost K" using m(5,6) by (simp add: lost_def)
  show "slot_inv key done s' (L @ B @ C @ K)"
    unfolding slot_inv_def
  proof (intro conjI enc exI [of _ "[]"])
    show "sl_overCap s' \<longrightarrow> lost (L @ B @ C @ K)" using s'(3) lk by auto
    show "lost (L @ B @ C @ K) \<or> (\<forall>r\<in>set done. captured r \<longrightarrow> r \<in> set (L @ B @ C @ K) \<or> r \<in> set []) \<and>
      tail_state key s' (L @ B @ C @ K) \<and> (\<not> sl_readingSentinelActive s' \<longrightarrow> (\<forall>r\<in>set []. \<not> captured r)) \<and>
      (\<not> sl_isOpen s' \<longrightarrow> [] = [] \<and> \<not> sl_readingSentinelActive s')"
      using after s' lk by (auto simp: tail_state_def)
  qed (use s'(1) in auto)
  have pB: "prefixes_account L B done" by (rule batch_prefixes [OF i B owe])
  then have "accounts_for (L @ take (length B) B) done" unfolding prefixes_account_def by blast
  then have aB: "accounts_for (L @ B) done" by simp
  have aC: "accounts_for ((L @ B) @ C) done"
  proof (cases "lost L")
    case True
    then show ?thesis by simp
  next
    case False
    then show ?thesis using after by (simp add: accounts_for_def)
  qed
  have pC: "prefixes_account (L @ B) C done"
  proof (cases "sl_readingSentinelActive s")
    case True
    then show ?thesis using prefixes_single [OF aB] aC by (simp add: C_def)
  next
    case False
    then show ?thesis using prefixes_Nil [OF aB] by (simp add: C_def)
  qed
  have pK: "prefixes_account ((L @ B) @ C) K done"
  proof (cases "K = []")
    case True
    then show ?thesis using prefixes_Nil [OF aC] by simp
  next
    case False
    then have "K = [km]" using s'(3) by blast
    moreover have "accounts_for (((L @ B) @ C) @ [km]) done"
      using lk lost_accounts [of "((L @ B) @ C) @ [km]" "[]"] calculation by simp
    ultimately show ?thesis using prefixes_single [OF aC] by simp
  qed
  show "prefixes_account L (B @ C @ K) done"
    using prefixes_append [OF pB prefixes_append [OF pC pK]] by simp
qed

lemma flush_inv:
  assumes "cap_inv t dir pid tid done c L" "sl_isOpen (cp_slot c t)"
  shows "\<exists>c' K. flushFragmentBatch t c = (None, c') \<and> cap_inv t dir pid tid done c' (L @ K) \<and>
    prefixes_account L K done \<and> names dir pid tid (cp_slot c' t) \<and>
    (sl_isOpen (cp_slot c' t) \<or> lost (L @ K)) \<and> sl_batch (cp_slot c' t) = []"
proof (cases "sl_batch (cp_slot c t) = []")
  case True
  then have "flushFragmentBatch t c = (None, c)" by (simp add: flushFragmentBatch_def)
  then show ?thesis using assms True prefixes_Nil [OF slot_inv_accounts]
    by (intro exI [of _ c] exI [of _ "[]"]) (auto simp: cap_inv_def)
next
  case False
  let ?s = "cp_slot c t"
  have r: "ready t c" by (rule cap_inv_ready [OF assms])
  from assms obtain B where B: "sl_batch ?s = frames B" "\<forall>r \<in> set B. encodable r \<and> \<not> is_marker r"
    "lost L \<or> (\<forall>r \<in> set done. captured r \<longrightarrow> r \<in> set L \<or> r \<in> set B) \<and> tail_state (pid, tid) ?s L \<and>
         (\<not> sl_readingSentinelActive ?s \<longrightarrow> (\<forall>r \<in> set B. \<not> captured r))"
    by (auto simp: cap_inv_def slot_inv_def)
  have i: "slot_inv (pid, tid) done ?s L" and nm: "names dir pid tid ?s"
    and oc: "\<not> sl_overCap ?s" and mt: "168 + length (marker_text t c []) < 2 ^ 32"
    using assms by (auto simp: cap_inv_def)
  have bne: "frames B \<noteq> []" using B(1) False by simp
  obtain c' s K where f: "flushFragmentBatch t c = (None, c')"
    "effect t c (B @ (if sl_readingSentinelActive ?s then [slot_marker t c ReadTailCommittedDetail] else []) @ K) s c'"
    "same_slot ?s s" "sl_batch s = []" "\<not> sl_readingSentinelActive s"
    "K = [] \<and> \<not> sl_overCap s \<and> sl_isOpen s \<and> sl_file s = sl_file ?s \<or>
     K = [slot_marker t c FragmentCapReachedDetail] \<and> sl_overCap s \<and> \<not> sl_isOpen s"
    using flush_ok [OF r oc B(1) bne] by blast
  let ?C = "if sl_readingSentinelActive ?s then [slot_marker t c ReadTailCommittedDetail] else []"
  have km: "is_loss (slot_marker t c FragmentCapReachedDetail)" "\<not> is_marker (slot_marker t c FragmentCapReachedDetail)"
    "is_committed (slot_marker t c ReadTailCommittedDetail)" "thread_of (slot_marker t c ReadTailCommittedDetail) = (pid, tid)"
    using nm by (simp_all add: slot_marker_def names_def)
  note flushed = flush_slot_inv [OF i B markers_encodable(2) [OF mt] km(3,4) markers_encodable(3) [OF mt] km(1,2) f(4,5), of K]
  have "slot_inv (pid, tid) done s (L @ B @ ?C @ K)" "prefixes_account L (B @ ?C @ K) done"
    using flushed f(6) by blast+
  moreover have s: "cp_slot c' t = s" "steady t c c'" using f(2) by (simp_all add: effect_def)
  moreover have fl: "cp_files c' (fragmentPath dir pid tid) = frames (L @ B @ ?C @ K)"
    using f(2) assms(1) by (simp add: effect_def names_path [OF nm] cap_inv_def)
  moreover have ns: "names dir pid tid s" using nm f(3) by (simp add: names_def same_slot_def)
  moreover have op: "sl_isOpen s \<Longrightarrow> sl_file s = OpenFile (fragmentPath dir pid tid)" "sl_overCap s \<longrightarrow> \<not> sl_isOpen s"
    using f(6) assms by (auto simp: cap_inv_def)
  moreover have "sl_isOpen s \<or> lost (L @ B @ ?C @ K)" using f(6) km(1,2) by (auto simp: lost_def)
  ultimately show ?thesis using f(1,4) mt
    by (intro exI [of _ c'] exI [of _ "B @ ?C @ K"]) (simp add: cap_inv_def steady_def)
qed

lemma inlined_frame_eq: "inlined_frame r = encodeFrame r"
proof -
  have n: "word_of_nat (length (encodeRecordPayload r)) =
      (word_of_nat (60 + 4 + length (rec_path r) + 4 + length (rec_detail r)) :: u32)"
    by (simp add: encodeRecordPayload_eq)
  show ?thesis
    unfolding encodeFrame_eq n unfolding encodeRecordPayload_eq payload_bytes_def header_bytes_def inlined_frame_def
    by (simp add: Let_def writeU16Le_eq writeU32Le_eq writeU64Le_eq writeString_eq string_bytes_def)
qed

text \<open>Fields the invariant does not read.\<close>

lemma slot_inv_cong:
  "sl_batch s' = sl_batch s \<Longrightarrow> sl_readingSentinelActive s' = sl_readingSentinelActive s \<Longrightarrow>
   sl_overCap s' = sl_overCap s \<Longrightarrow> sl_isOpen s' = sl_isOpen s \<Longrightarrow> slot_inv key done s' L = slot_inv key done s L"
  by (simp add: slot_inv_def tail_state_def)

lemma cap_inv_cong:
  assumes "cap_inv t dir pid tid done c L" "steady t c c'" "cp_files c' = cp_files c"
    and "sl_batch (cp_slot c' t) = sl_batch (cp_slot c t)"
    "sl_readingSentinelActive (cp_slot c' t) = sl_readingSentinelActive (cp_slot c t)"
    "sl_overCap (cp_slot c' t) = sl_overCap (cp_slot c t)" "sl_isOpen (cp_slot c' t) = sl_isOpen (cp_slot c t)"
    "sl_file (cp_slot c' t) = sl_file (cp_slot c t)" "same_slot (cp_slot c t) (cp_slot c' t)"
  shows "cap_inv t dir pid tid done c' L"
proof -
  have "slot_inv (pid, tid) done (cp_slot c' t) L = slot_inv (pid, tid) done (cp_slot c t) L"
    using assms(4-7) by (rule slot_inv_cong)
  then show ?thesis using assms(1-3,6-9) by (simp add: cap_inv_def steady_def names_def same_slot_def)
qed

lemma make_room_inv:
  assumes "cap_inv t dir pid tid done c L" "sl_isOpen (cp_slot c t)"
  shows "\<exists>c' K. make_room t n c = (None, c') \<and> cap_inv t dir pid tid done c' (L @ K) \<and>
    prefixes_account L K done \<and> names dir pid tid (cp_slot c' t) \<and> (sl_isOpen (cp_slot c' t) \<or> lost (L @ K))"
proof -
  have h: "healthy c" "names dir pid tid (cp_slot c t)" using assms by (auto simp: cap_inv_def)
  have stay: ?thesis if "make_room t n c = (None, c')" "steady t c c'" "cp_files c' = cp_files c"
    "cp_slot c' t = (cp_slot c t)\<lparr>sl_batchProbeCountdown := k\<rparr>" for c' k
  proof -
    have "cap_inv t dir pid tid done c' L"
      by (rule cap_inv_cong [OF assms(1) that(2,3)]) (simp_all add: that(4) same_slot_def)
    moreover have "names dir pid tid (cp_slot c' t)" "sl_isOpen (cp_slot c' t)"
      using that(4) h(2) assms(2) by (auto simp: names_def)
    ultimately show ?thesis using that(1) prefixes_Nil [OF slot_inv_accounts] assms(1)
      by (intro exI [of _ c'] exI [of _ "[]"]) (auto simp: cap_inv_def)
  qed
  let ?s = "cp_slot c t"
  consider "length (sl_batch ?s) + n > FragmentBatchBufLen"
    | "\<not> length (sl_batch ?s) + n > FragmentBatchBufLen" "sl_batch ?s = []"
    | "\<not> length (sl_batch ?s) + n > FragmentBatchBufLen" "sl_batch ?s \<noteq> []" "\<not> sl_batchProbeCountdown ?s \<le> 0"
    | "\<not> length (sl_batch ?s) + n > FragmentBatchBufLen" "sl_batch ?s \<noteq> []" "sl_batchProbeCountdown ?s \<le> 0"
    by blast
  then show ?thesis
  proof cases
    case 1
    then have "make_room t n c = flushFragmentBatch t c" by (simp add: make_room_def Let_def)
    then show ?thesis using flush_inv [OF assms] by auto
  next
    case 2
    then have "make_room t n c = (None, c)" by (simp add: make_room_def Let_def)
    then show ?thesis by (rule stay [where k = "sl_batchProbeCountdown ?s"]) (simp_all add: steady_refl [OF h(1)])
  next
    case 3
    then have "make_room t n c = (None, set_slot t (\<lambda>s. s\<lparr>sl_batchProbeCountdown := sl_batchProbeCountdown s - 1\<rparr>) c)"
      by (simp add: make_room_def Let_def)
    then show ?thesis
      by (rule stay) (simp_all add: steady_refl [OF h(1)])
  next
    case 4
    let ?now = "fst (next_answer 0 (cp_clock c))" let ?c = "c\<lparr>cp_clock := snd (next_answer 0 (cp_clock c))\<rparr>"
    have st: "steady t c ?c" using h(1) by (simp add: steady_def healthy_def marker_text_def fun_eq_iff)
    have i: "cap_inv t dir pid tid done ?c L"
      by (rule cap_inv_cong [OF assms(1) st]) (simp_all add: same_slot_def)
    show ?thesis
    proof (cases "?now - sl_batchOpenedAtNs ?s > FragmentBatchMaxAgeNs")
      case True
      then have "make_room t n c = flushFragmentBatch t ?c" using 4 by (simp add: make_room_def Let_def case_prod_beta)
      then show ?thesis using flush_inv [OF i] assms(2) by auto
    next
      case False
      then have "make_room t n c = (None, set_slot t (\<lambda>s. s\<lparr>sl_batchProbeCountdown := BatchStalenessProbeInterval\<rparr>) ?c)"
        using 4 by (simp add: make_room_def Let_def case_prod_beta)
      then show ?thesis
        by (rule stay) (simp_all add: st)
    qed
  qed
qed

section \<open>Putting a record into the batch\<close>

lemma batch_slot_inv:
  assumes "slot_inv key done s L" "encodable r" "\<not> is_marker r" "sl_isOpen s \<or> lost L"
    and "sl_batch s' = sl_batch s @ encodeFrame r" "sl_overCap s' = sl_overCap s" "sl_isOpen s' = sl_isOpen s"
    and "\<forall>q \<in> set K. encodable q \<and> (is_marker q \<longrightarrow> thread_of q = key)"
    and "lost L \<or> tail_state key s' (L @ K) \<and> (captured r \<longrightarrow> sl_readingSentinelActive s') \<and>
       (sl_readingSentinelActive s \<longrightarrow> sl_readingSentinelActive s')"
  shows "slot_inv key (done @ [r]) s' (L @ K)"
proof -
  from assms(1) obtain B where B: "sl_batch s = frames B" "\<forall>q \<in> set B. encodable q \<and> \<not> is_marker q"
    "lost L \<or> (\<forall>q \<in> set done. captured q \<longrightarrow> q \<in> set L \<or> q \<in> set B) \<and> tail_state key s L \<and>
         (\<not> sl_readingSentinelActive s \<longrightarrow> (\<forall>q \<in> set B. \<not> captured q)) \<and>
         (\<not> sl_isOpen s \<longrightarrow> B = [] \<and> \<not> sl_readingSentinelActive s)"
    unfolding slot_inv_def by blast
  have "lost L \<or> ((\<forall>q \<in> set (done @ [r]). captured q \<longrightarrow> q \<in> set (L @ K) \<or> q \<in> set (B @ [r])) \<and>
         tail_state key s' (L @ K) \<and>
         (\<not> sl_readingSentinelActive s' \<longrightarrow> (\<forall>q \<in> set (B @ [r]). \<not> captured q)) \<and> sl_isOpen s')"
    using B(3) assms(4,7,9) by auto
  then show ?thesis
    unfolding slot_inv_def using assms(1,2,3,5,6,8) B(1,2)
    by (intro conjI exI [of _ "B @ [r]"]) (auto simp: slot_inv_def)
qed

lemma mark_inv:
  assumes "cap_inv t dir pid tid done c L" "names dir pid tid (cp_slot c t)" "sl_isOpen (cp_slot c t) \<or> lost L"
    and "encodable r" "\<not> is_marker r"
  shows "\<exists>c' K. markReadingSentinel t r (set_slot t (\<lambda>s. s\<lparr>sl_batch := sl_batch s @ inlined_frame r\<rparr>) (start_batch t c)) = (None, c') \<and>
    cap_inv t dir pid tid (done @ [r]) c' (L @ K) \<and> prefixes_account L K done"
proof -
  let ?s = "cp_slot c t"
  let ?c = "set_slot t (\<lambda>s. s\<lparr>sl_batch := sl_batch s @ inlined_frame r\<rparr>) (start_batch t c)" let ?u = "cp_slot ?c t"
  have h: "healthy c" "slot_inv (pid, tid) done ?s L" using assms(1) by (simp_all add: cap_inv_def)
  have sb: "steady t c ?c" "cp_files ?c = cp_files c"
    using h(1) by (auto simp: start_batch_def steady_def healthy_def marker_text_def fun_eq_iff case_prod_beta)
  have u: "sl_batch ?u = sl_batch ?s @ encodeFrame r" "sl_overCap ?u = sl_overCap ?s" "sl_isOpen ?u = sl_isOpen ?s"
    "sl_readingSentinelActive ?u = sl_readingSentinelActive ?s" "sl_file ?u = sl_file ?s" "names dir pid tid ?u"
    using assms(2) by (auto simp: start_batch_def inlined_frame_eq case_prod_beta names_def)
  have acc: "accounts_for L done" by (rule slot_inv_accounts [OF h(2)])
  show ?thesis
  proof (cases "captured r \<and> \<not> sl_readingSentinelActive ?s \<and> sl_isOpen ?s")
    case False
    have "markReadingSentinel t r ?c = (None, ?c)"
      using False u(3,4) by (auto simp: markReadingSentinel_def captured_def)
    moreover have "slot_inv (pid, tid) (done @ [r]) ?u (L @ [])"
    proof (rule batch_slot_inv [OF h(2) assms(4,5,3) u(1-3)])
      have "lost L \<or> tail_state (pid, tid) ?s L \<and> sl_isOpen ?s" using h(2) assms(3) by (auto simp: slot_inv_def)
      then show "lost L \<or> tail_state (pid, tid) ?u (L @ []) \<and> (captured r \<longrightarrow> sl_readingSentinelActive ?u) \<and>
          (sl_readingSentinelActive ?s \<longrightarrow> sl_readingSentinelActive ?u)"
        using False u(4) by (auto simp: tail_state_def)
    qed simp
    ultimately show ?thesis using assms(1) sb u prefixes_Nil [OF acc]
      by (intro exI [of _ ?c] exI [of _ "[]"]) (simp add: cap_inv_def steady_def)
  next
    case True
    have r: "ready t ?c" using sb u assms(1) True names_path [OF u(6)] by (simp add: ready_def steady_def cap_inv_def)
    let ?m = "slot_marker t ?c ReadTailPendingDetail"
    obtain c1 where c1: "writeReadTailMarker t ReadTailPendingDetail ?c = (None, c1)" "put t ?c (frames [?m]) c1"
      using marker_ok [OF r] by blast
    let ?f = "\<lambda>s. s\<lparr>sl_readingSentinelActive := True\<rparr>" let ?c2 = "set_slot t ?f c1"
    have s1: "cp_slot c1 t = ?u" using c1(2) by (simp add: put_def)
    have mk: "markReadingSentinel t r ?c = (None, ?c2)"
      using True u(3,4) by (simp add: markReadingSentinel_def captured_def c1(1))
    have mt: "168 + length (marker_text t ?c []) < 2 ^ 32" using assms(1) sb(1) by (simp add: cap_inv_def steady_def)
    have m: "is_pending ?m" "\<not> is_committed ?m" "thread_of ?m = (pid, tid)" "encodable ?m"
      using u(6) markers_encodable(1) [OF mt] by (simp_all add: slot_marker_def names_def)
    have un: "lost L \<or> tail_state (pid, tid) (?f ?u) (L @ [?m])"
      using h(2) True m by (auto simp: slot_inv_def tail_state_def marker_count_single)
    then have "lost L \<or> unmatched (pid, tid) (L @ [?m])" by (auto simp: tail_state_def unmatched_def)
    then have "accounts_for (L @ [?m]) done" by auto
    then have "prefixes_account L [?m] done" by (rule prefixes_single [OF acc])
    moreover have "slot_inv (pid, tid) (done @ [r]) (?f ?u) (L @ [?m])"
      by (rule batch_slot_inv [OF h(2) assms(4,5,3)]) (use u m(3,4) un in simp_all)
    moreover have "steady t c c1" using steady_trans [OF sb(1)] c1(2) by (simp add: put_def)
    then have "steady t c ?c2" by simp
    moreover have "cp_files ?c2 (fragmentPath dir pid tid) = frames (L @ [?m])"
      using c1(2) sb(2) assms(1) names_path [OF u(6)] by (simp add: put_def cap_inv_def)
    ultimately show ?thesis using mk assms(1) u True
      by (intro exI [of _ ?c2] exI [of _ "[?m]"]) (simp add: cap_inv_def steady_def s1 names_def)
  qed
qed

lemma register_simps [simp]:
  "cp_files (registerFragmentSlot t c) = cp_files c"
  "steady t c0 (registerFragmentSlot t c) = steady t c0 c"
  "sl_batch (cp_slot (registerFragmentSlot t c) t) = sl_batch (cp_slot c t)"
  "sl_isOpen (cp_slot (registerFragmentSlot t c) t) = sl_isOpen (cp_slot c t)"
  "sl_file (cp_slot (registerFragmentSlot t c) t) = sl_file (cp_slot c t)"
  "sl_overCap (cp_slot (registerFragmentSlot t c) t) = sl_overCap (cp_slot c t)"
  "sl_readingSentinelActive (cp_slot (registerFragmentSlot t c) t) = sl_readingSentinelActive (cp_slot c t)"
  "names dir pid tid (cp_slot (registerFragmentSlot t c) t) = names dir pid tid (cp_slot c t)"
  by (auto simp: registerFragmentSlot_def steady_def healthy_def marker_text_def fun_eq_iff set_slot_def names_def
      split: option.split)

lemma precompute_simps [simp]:
  "sl_batch (precomputeSigSafeCommittedFrame tok s) = sl_batch s"
  "sl_isOpen (precomputeSigSafeCommittedFrame tok s) = sl_isOpen s"
  "sl_file (precomputeSigSafeCommittedFrame tok s) = sl_file s"
  "sl_overCap (precomputeSigSafeCommittedFrame tok s) = sl_overCap s"
  "sl_readingSentinelActive (precomputeSigSafeCommittedFrame tok s) = sl_readingSentinelActive s"
  "names dir pid tid (precomputeSigSafeCommittedFrame tok s) = names dir pid tid s"
  by (simp_all add: precomputeSigSafeCommittedFrame_def Let_def names_def)

lemma resolve_cap_simps [simp]:
  "cp_files (resolveFragmentByteCap c) = cp_files c" "cp_slot (resolveFragmentByteCap c) = cp_slot c"
  "cp_runToken (resolveFragmentByteCap c) = cp_runToken c"
  by (simp_all add: resolveFragmentByteCap_def Let_def split: option.split)

lemma steady_resolve: "steady t c0 c \<Longrightarrow> steady t c0 (resolveFragmentByteCap c)"
  by (auto simp: resolveFragmentByteCap_def Let_def steady_def healthy_def marker_text_def fun_eq_iff split: option.split)

lemma open_ok:
  assumes "healthy c" "length dir < FragmentDirBufLen" "\<not> sl_overCap (cp_slot c t)"
  shows "\<exists>c'. openFragmentSlot t dir pid tid path c = (True, c') \<and> steady t c c' \<and> cp_files c' = cp_files c \<and>
    sl_isOpen (cp_slot c' t) \<and> sl_file (cp_slot c' t) = OpenFile path \<and> sl_batch (cp_slot c' t) = [] \<and>
    \<not> sl_readingSentinelActive (cp_slot c' t) \<and> \<not> sl_overCap (cp_slot c' t) \<and> names dir pid tid (cp_slot c' t)"
proof -
  let ?open = "\<lambda>s. s\<lparr>sl_file := OpenFile path, sl_fragmentDir := dir, sl_isOpen := True,
      sl_osPid := pid, sl_threadId := tid, sl_batch := [], sl_batchOpenedAtNs := 0,
      sl_batchProbeCountdown := 0, sl_readingSentinelActive := False\<rparr>"
  let ?s = "cp_slot c t"
  let ?same = "sl_fragmentDir ?s = dir \<and> sl_osPid ?s = pid \<and> sl_threadId ?s = tid"
  let ?c1 = "resolveFragmentByteCap (set_slot t ?open (c\<lparr>cp_opens := [], cp_infos := []\<rparr>))"
  let ?c2 = "if \<not> ?same then set_slot t (\<lambda>s. s\<lparr>sl_fragmentBytes := 0, sl_overCap := False\<rparr>) ?c1 else ?c1"
  let ?c3 = "registerFragmentSlot t (set_slot t (precomputeSigSafeCommittedFrame (cp_runToken ?c2)) ?c2)"
  let ?c4 = "?c3\<lparr>cp_openCount := cp_openCount ?c3 + 1\<rparr>"
  have st0: "steady t c (set_slot t ?open (c\<lparr>cp_opens := [], cp_infos := []\<rparr>))"
    using assms(1) by (simp add: steady_def healthy_def marker_text_def fun_eq_iff)
  have st1: "steady t c ?c1" by (rule steady_resolve [OF st0])
  then have "steady t c ?c3" by simp
  then have st: "steady t c ?c4" by (simp add: steady_def healthy_def marker_text_def fun_eq_iff)
  have o: "openFragmentSlot t dir pid tid path c = (True, ?c4)"
    using assms(1,2) by (simp add: openFragmentSlot_def healthy_def next_answer_def Let_def)
  have s2: "cp_slot ?c2 t = ?open ?s \<or> cp_slot ?c2 t = (?open ?s)\<lparr>sl_fragmentBytes := 0, sl_overCap := False\<rparr>"
    by auto
  then have "sl_isOpen (cp_slot ?c2 t) \<and> sl_file (cp_slot ?c2 t) = OpenFile path \<and> sl_batch (cp_slot ?c2 t) = [] \<and>
      \<not> sl_readingSentinelActive (cp_slot ?c2 t) \<and> \<not> sl_overCap (cp_slot ?c2 t) \<and> names dir pid tid (cp_slot ?c2 t)"
    using assms(3) by (auto simp: names_def)
  then have "sl_isOpen (cp_slot ?c4 t) \<and> sl_file (cp_slot ?c4 t) = OpenFile path \<and> sl_batch (cp_slot ?c4 t) = [] \<and>
      \<not> sl_readingSentinelActive (cp_slot ?c4 t) \<and> \<not> sl_overCap (cp_slot ?c4 t) \<and> names dir pid tid (cp_slot ?c4 t)"
    by simp
  moreover have "cp_files ?c4 = cp_files c" by simp
  ultimately show ?thesis using o st by blast
qed

text \<open>The records one thread writes.\<close>

definition writes_to :: "u64 \<Rightarrow> u64 \<Rightarrow> MonitorRecord \<Rightarrow> bool" where
  "writes_to pid tid r \<longleftrightarrow> rec_osPid r = pid \<and> rec_threadId r = tid \<and> is_int64 (rec_result r) \<and> \<not> is_marker r \<and>
     72 + length (rec_path r) + length (rec_detail r) \<le> FragmentBatchBufLen"

lemma writes_to_encodable: "writes_to pid tid r \<Longrightarrow> encodable r"
  by (simp add: writes_to_def encodable_def FragmentBatchBufLen_def)

lemma ensure_inv:
  assumes "cap_inv t dir pid tid done c L" "\<not> sl_overCap (cp_slot c t)" "writes_to pid tid r"
    "length dir < FragmentDirBufLen"
  shows "\<exists>c'. ensure_slot t dir r c = (None, c') \<and> cap_inv t dir pid tid done c' L \<and> sl_isOpen (cp_slot c' t) \<and>
    names dir pid tid (cp_slot c' t)"
proof (cases "sl_isOpen (cp_slot c t)")
  case True
  then have "names dir pid tid (cp_slot c t)" using assms(1) by (simp add: cap_inv_def)
  then have "ensure_slot t dir r c = (None, c)"
    using True assms(3) by (simp add: ensure_slot_def names_slot_def names_def writes_to_def)
  then show ?thesis using assms(1) True \<open>names dir pid tid (cp_slot c t)\<close> by blast
next
  case False
  let ?c = "c\<lparr>cp_dirs := []\<rparr>" let ?p = "fragmentPath dir pid tid"
  have h: "healthy c" using assms(1) by (simp add: cap_inv_def)
  then have "c\<lparr>cp_dirs := []\<rparr> = c" by (cases c) (simp add: healthy_def)
  then obtain c' where c': "openFragmentSlot t dir pid tid ?p ?c = (True, c')" "steady t c c'" "cp_files c' = cp_files c"
    "sl_isOpen (cp_slot c' t)" "sl_file (cp_slot c' t) = OpenFile ?p" "sl_batch (cp_slot c' t) = []"
    "\<not> sl_readingSentinelActive (cp_slot c' t)" "\<not> sl_overCap (cp_slot c' t)" "names dir pid tid (cp_slot c' t)"
    using open_ok [OF h assms(4,2), of pid tid ?p] by auto
  have "ensure_slot t dir r c = (None, c')"
    using False h assms(3) c'(1)
    by (simp add: ensure_slot_def leave_slot_def enter_slot_def then_do_def healthy_def next_answer_def writes_to_def)
  moreover have "slot_inv (pid, tid) done (cp_slot c' t) L"
    using assms(1) False c'(4-8) by (auto simp: cap_inv_def slot_inv_def tail_state_def intro!: exI [of _ "[]"])
  ultimately show ?thesis using assms(1) c' by (simp add: cap_inv_def steady_def)
qed

lemma append_inv:
  assumes "cap_inv t dir pid tid done c L" "writes_to pid tid r" "length dir < FragmentDirBufLen"
  shows "\<exists>c' K. append_to_file t dir r c = (None, c') \<and> cap_inv t dir pid tid (done @ [r]) c' (L @ K) \<and>
    prefixes_account L K done"
proof (cases "sl_overCap (cp_slot c t)")
  case True
  then have n: "names_slot dir r (cp_slot c t)" and l: "lost L"
    using assms(1,2) by (auto simp: cap_inv_def slot_inv_def names_def names_slot_def writes_to_def)
  have "append_to_file t dir r c = (None, c)" using True n by (simp add: append_to_file_def)
  moreover have "cap_inv t dir pid tid (done @ [r]) c (L @ [])" using assms(1) l by (auto simp: cap_inv_def slot_inv_def)
  moreover have "prefixes_account L [] done" using lost_accounts [OF l, of "[]"] by (intro prefixes_Nil) simp
  ultimately show ?thesis by blast
next
  case False
  let ?n = "4 + (60 + 4 + length (rec_path r) + 4 + length (rec_detail r))"
  have "\<exists>c1. (if sl_isOpen (cp_slot c t) then handle_ready t c else (True, c)) = (True, c1) \<and>
      cap_inv t dir pid tid done c1 L \<and> \<not> sl_overCap (cp_slot c1 t)"
  proof (cases "sl_isOpen (cp_slot c t)")
    case True
    obtain c1 where c1: "handle_ready t c = (True, c1)" "put t c [] c1"
      using handle_ready_ok [OF cap_inv_ready [OF assms(1) True]] by blast
    have "cap_inv t dir pid tid done c1 L"
      by (rule cap_inv_cong [OF assms(1)]) (use c1(2) in \<open>simp_all add: put_def same_slot_def\<close>)
    then show ?thesis using c1 True False by (simp add: put_def)
  qed (use assms(1) False in simp)
  then obtain c1 where c1: "(if sl_isOpen (cp_slot c t) then handle_ready t c else (True, c)) = (True, c1)"
    "cap_inv t dir pid tid done c1 L" "\<not> sl_overCap (cp_slot c1 t)" by blast
  obtain c2 where c2: "ensure_slot t dir r c1 = (None, c2)" "cap_inv t dir pid tid done c2 L" "sl_isOpen (cp_slot c2 t)"
    using ensure_inv [OF c1(2,3) assms(2,3)] by blast
  obtain c3 K where c3: "make_room t ?n c2 = (None, c3)" "cap_inv t dir pid tid done c3 (L @ K)"
    "prefixes_account L K done" "names dir pid tid (cp_slot c3 t)" "sl_isOpen (cp_slot c3 t) \<or> lost (L @ K)"
    using make_room_inv [OF c2(2,3)] by blast
  have nm: "\<not> is_marker r" using assms(2) by (simp add: writes_to_def)
  obtain c4 K' where c4: "markReadingSentinel t r
      (set_slot t (\<lambda>s. s\<lparr>sl_batch := sl_batch s @ inlined_frame r\<rparr>) (start_batch t c3)) = (None, c4)"
    "cap_inv t dir pid tid (done @ [r]) c4 ((L @ K) @ K')" "prefixes_account (L @ K) K' done"
    using mark_inv [OF c3(2,4,5) writes_to_encodable [OF assms(2)] nm] by blast
  have fits: "\<not> ?n > FragmentBatchBufLen" using assms(2) by (simp add: writes_to_def)
  have "append_to_file t dir r c = (None, c4)"
    unfolding append_to_file_def c1(1) using False fits c2(1) c3(1) c4(1) by (simp add: Let_def then_do_def)
  then show ?thesis using c4(2) prefixes_append [OF c3(3) c4(3)] by auto
qed

fun append_all :: "bytes \<Rightarrow> nat \<Rightarrow> string \<Rightarrow> MonitorRecord list \<Rightarrow> slot_op" where
  "append_all recBuf t dir [] c = (None, c)"
| "append_all recBuf t dir (r # rs) c = then_do (appendFragmentRecord recBuf t dir r) (append_all recBuf t dir rs) c"

text \<open>A thread that has written nothing yet.\<close>

definition fresh_slot :: "nat \<Rightarrow> string \<Rightarrow> u64 \<Rightarrow> u64 \<Rightarrow> capture \<Rightarrow> bool" where
  "fresh_slot t dir pid tid c \<longleftrightarrow>
     cp_files c (fragmentPath dir pid tid) = [] \<and> length dir < FragmentDirBufLen \<and>
     168 + length (marker_text t c []) < 2 ^ 32 \<and> \<not> sl_isOpen (cp_slot c t) \<and> \<not> sl_overCap (cp_slot c t) \<and>
     sl_batch (cp_slot c t) = [] \<and> \<not> sl_readingSentinelActive (cp_slot c t)"

lemma append_file: "healthy c \<Longrightarrow> appendFragmentRecord recBuf t dir r c = append_to_file t dir r c"
  by (simp add: appendFragmentRecord_def healthy_def)

lemma fresh_inv: "healthy c \<Longrightarrow> fresh_slot t dir pid tid c \<Longrightarrow> cap_inv t dir pid tid [] c []"
  by (auto simp: cap_inv_def fresh_slot_def slot_inv_def tail_state_def marker_count_def intro!: exI [of _ "[]"])

lemma append_all_inv:
  assumes "cap_inv t dir pid tid done c L" "\<forall>r \<in> set rs. writes_to pid tid r" "length dir < FragmentDirBufLen"
  shows "\<exists>c' K. append_all recBuf t dir rs c = (None, c') \<and> cap_inv t dir pid tid (done @ rs) c' (L @ K)"
  using assms(1,2)
proof (induction rs arbitrary: c "done" L)
  case Nil
  then show ?case by (intro exI [of _ c] exI [of _ "[]"]) simp
next
  case (Cons r rs)
  obtain c1 K where c1: "append_to_file t dir r c = (None, c1)" "cap_inv t dir pid tid (done @ [r]) c1 (L @ K)"
    using append_inv [OF Cons.prems(1) _ assms(3), of r] Cons.prems(2) by auto
  obtain c2 K' where "append_all recBuf t dir rs c1 = (None, c2)" "cap_inv t dir pid tid ((done @ [r]) @ rs) c2 ((L @ K) @ K')"
    using Cons.IH [OF c1(2)] Cons.prems(2) by auto
  moreover have "appendFragmentRecord recBuf t dir r c = (None, c1)"
    using c1(1) append_file Cons.prems(1) by (simp add: cap_inv_def)
  ultimately show ?case by (intro exI [of _ c2] exI [of _ "K @ K'"]) simp
qed

lemma cut_between:
  assumes "\<forall>r \<in> set (L @ K). encodable r" "prefix (frames L) p" "prefix p (frames (L @ K))"
    "decodeFramesTolerant p = (ds, True)"
  shows "\<exists>n. ds = L @ take n K"
proof -
  from assms(3) have pn: "p = take (length p) (frames (L @ K))" "length p \<le> length (frames (L @ K))"
    unfolding prefix_def by (metis append_eq_conv_conj, metis prefix_def prefix_length_le)
  obtain k where k: "k \<le> length (L @ K)" "decodeFramesTolerant (take (length p) (frames (L @ K))) =
      (take k (L @ K), length p = length (frames (take k (L @ K))))"
    "k < length (L @ K) \<longrightarrow> length p < length (frames (take (Suc k) (L @ K)))"
    using tolerant_cut [OF assms(1) pn(2)] by blast
  have ds: "ds = take k (L @ K)" "length p = length (frames (take k (L @ K)))"
    using k(2) assms(4) pn(1) by simp_all
  have "length L \<le> k"
  proof (rule ccontr)
    assume "\<not> length L \<le> k"
    then have "frames L = frames (take (Suc k) L) @ frames (drop (Suc k) L)" "take (Suc k) (L @ K) = take (Suc k) L" "k < length (L @ K)"
      by (simp_all add: frames_simps(3) [symmetric] del: frames_simps)
    then have "length p < length (frames L)" using k(3) by auto
    moreover have "length (frames L) \<le> length p" using assms(2) by (rule prefix_length_le)
    ultimately show False by simp
  qed
  then show ?thesis using ds(1) by auto
qed

section \<open>Closing\<close>

lemma frames_Nil [simp]: "[] = frames B \<longleftrightarrow> B = []"
proof (cases B)
  case (Cons r B')
  then have "length (frames B) \<noteq> 0" by simp
  then show ?thesis using Cons by (metis length_0_conv list.distinct(1))
qed simp

lemma close_inv:
  assumes "cap_inv t dir pid tid done c L"
  shows "\<exists>c' K. closeFragmentSlot False t c = (None, c') \<and> cp_files c' (fragmentPath dir pid tid) = frames (L @ K) \<and>
    (\<forall>q \<in> set (L @ K). encodable q \<and> (is_marker q \<longrightarrow> thread_of q = (pid, tid))) \<and> \<not> sl_isOpen (cp_slot c' t) \<and>
    (lost (L @ K) \<or> (\<forall>q \<in> set done. captured q \<longrightarrow> q \<in> set (L @ K)) \<and>
       marker_count is_pending (L @ K) (pid, tid) = marker_count is_committed (L @ K) (pid, tid))"
proof (cases "sl_isOpen (cp_slot c t)")
  case False
  then have "closeFragmentSlot False t c = (None, unregisterFragmentSlot t c)" by (simp add: closeFragmentSlot_def)
  then show ?thesis using assms False
    by (intro exI [of _ "unregisterFragmentSlot t c"] exI [of _ "[]"]) (auto simp: cap_inv_def slot_inv_def tail_state_def)
next
  case True
  obtain c1 where c1: "handle_ready t c = (True, c1)" "put t c [] c1"
    using handle_ready_ok [OF cap_inv_ready [OF assms True]] by blast
  have i1: "cap_inv t dir pid tid done c1 L"
    by (rule cap_inv_cong [OF assms]) (use c1(2) in \<open>simp_all add: put_def same_slot_def\<close>)
  have o1: "sl_isOpen (cp_slot c1 t)" using c1(2) True by (simp add: put_def)
  obtain c2 K where c2: "flushFragmentBatch t c1 = (None, c2)" "cap_inv t dir pid tid done c2 (L @ K)"
    "sl_isOpen (cp_slot c2 t) \<or> lost (L @ K)" "sl_batch (cp_slot c2 t) = []" using flush_inv [OF i1 o1] by blast
  have i2: "slot_inv (pid, tid) done (cp_slot c2 t) (L @ K)" using c2(2) by (simp add: cap_inv_def)
  have owe: "lost (L @ K) \<or> (\<forall>q \<in> set done. captured q \<longrightarrow> q \<in> set (L @ K)) \<and> tail_state (pid, tid) (cp_slot c2 t) (L @ K)"
    using i2 c2(4) by (auto simp: slot_inv_def)
  let ?act = "sl_readingSentinelActive (cp_slot c2 t) \<and> sl_isOpen (cp_slot c2 t)"
  let ?C = "if ?act then [slot_marker t c2 ReadTailCommittedDetail] else []"
  have "\<exists>c3. clearReadingSentinel t c2 = (None, c3) \<and> sl_isOpen (cp_slot c3 t) = sl_isOpen (cp_slot c2 t) \<and>
      sl_file (cp_slot c3 t) = sl_file (cp_slot c2 t) \<and> cp_files c3 (fragmentPath dir pid tid) = frames (L @ K @ ?C)"
  proof (cases "sl_isOpen (cp_slot c2 t)")
    case True
    have "slot_path (cp_slot c2 t) = fragmentPath dir pid tid" using c2(2) True names_path by (auto simp: cap_inv_def)
    then show ?thesis
      using clear_ok [OF cap_inv_ready [OF c2(2) True]] c2(2) True by (auto simp: effect_def cap_inv_def)
  next
    case False
    then show ?thesis using c2(2) by (auto simp: clearReadingSentinel_def writeReadTailMarker_def then_do_def cap_inv_def)
  qed
  then obtain c3 where c3: "clearReadingSentinel t c2 = (None, c3)" "sl_isOpen (cp_slot c3 t) = sl_isOpen (cp_slot c2 t)"
    "sl_file (cp_slot c3 t) = sl_file (cp_slot c2 t)" "cp_files c3 (fragmentPath dir pid tid) = frames (L @ K @ ?C)" by blast
  have cm: "encodable (slot_marker t c2 ReadTailCommittedDetail)" "is_committed (slot_marker t c2 ReadTailCommittedDetail)"
    "\<not> is_pending (slot_marker t c2 ReadTailCommittedDetail)"
    "?act \<Longrightarrow> thread_of (slot_marker t c2 ReadTailCommittedDetail) = (pid, tid)"
    using c2(2) markers_encodable(2) [of t c2] by (auto simp: slot_marker_def cap_inv_def names_def)
  have "\<exists>c4. (if sl_isOpen (cp_slot c3 t) then close_file t c3 else (None, c3)) = (None, c4) \<and> cp_files c4 = cp_files c3"
    using c2(2) c3(2,3) by (auto simp: close_file_def cap_inv_def)
  then obtain c4 where c4: "(if sl_isOpen (cp_slot c3 t) then close_file t c3 else (None, c3)) = (None, c4)"
    "cp_files c4 = cp_files c3" by blast
  have d: "discarding (flushFragmentBatch t) c1 = (None, c2)" by (simp add: discarding_def c2(1))
  have cl: "\<exists>c'. closeFragmentSlot False t c = (None, c') \<and> cp_files c' = cp_files c4 \<and> \<not> sl_isOpen (cp_slot c' t)"
    unfolding closeFragmentSlot_def using True by (simp add: c1(1) then_do_def d c3(1) c4(1) Let_def)
  have enc: "\<forall>q \<in> set (L @ K @ ?C). encodable q \<and> (is_marker q \<longrightarrow> thread_of q = (pid, tid))"
    using i2 cm by (auto simp: slot_inv_def)
  have "lost (L @ K @ ?C) \<or> (\<forall>q \<in> set done. captured q \<longrightarrow> q \<in> set (L @ K @ ?C)) \<and>
       marker_count is_pending (L @ K @ ?C) (pid, tid) = marker_count is_committed (L @ K @ ?C) (pid, tid)"
    using owe cm c2(3) by (auto simp: tail_state_def marker_count_single)
  with cl c3(4) c4(2) enc show ?thesis by (metis append_assoc)
qed

end
