(* ===== verification/Fragment_Bounds.thy ===== *)
theory Fragment_Bounds
  imports Fragment_Invariant
begin

text \<open>
  The fixed buffers of a slot are never overrun, whatever the system answers.
\<close>

section \<open>Buffers\<close>

text \<open>The fixed buffers of a slot hold what its lengths say, whatever the system answers.\<close>

definition in_bounds :: "FragmentSlot \<Rightarrow> bool" where
  "in_bounds s \<longleftrightarrow> length (sl_batch s) \<le> FragmentBatchBufLen \<and> length (sl_committedFrame s) \<le> SigSafeCommittedBufLen \<and>
     length (sl_fragmentDir s) < FragmentDirBufLen"

text \<open>An operation that leaves the buffers of a slot alone, except that it may empty the batch.\<close>

definition keeps :: "nat \<Rightarrow> capture \<Rightarrow> capture \<Rightarrow> bool" where
  "keeps t c c' \<longleftrightarrow> sl_committedFrame (cp_slot c' t) = sl_committedFrame (cp_slot c t) \<and>
     sl_fragmentDir (cp_slot c' t) = sl_fragmentDir (cp_slot c t) \<and>
     (sl_batch (cp_slot c' t) = sl_batch (cp_slot c t) \<or> sl_batch (cp_slot c' t) = [])"

lemma keeps_refl [simp]: "keeps t c c"
  by (simp add: keeps_def)

lemma keeps_trans: "keeps t a b \<Longrightarrow> keeps t b c \<Longrightarrow> keeps t a c"
  by (auto simp: keeps_def)

lemma keeps_bounds: "keeps t c c' \<Longrightarrow> in_bounds (cp_slot c t) \<Longrightarrow> in_bounds (cp_slot c' t)"
  by (auto simp: keeps_def in_bounds_def)

lemma keeps_slot: "cp_slot c' t = cp_slot c t \<Longrightarrow> keeps t c c'"
  by (simp add: keeps_def)

lemma keeps_then:
  assumes "\<And>c. keeps t c (snd (f c))" "\<And>c. keeps t c (snd (g c))"
  shows "keeps t c (snd (then_do f g c))"
  using assms(1) [of c] assms(2) keeps_trans by (auto simp: then_do_def split: prod.splits option.splits)

lemma keeps_set_slot [simp]:
  "keeps t c (set_slot t (\<lambda>s. s\<lparr>sl_readingSentinelActive := b\<rparr>) c)"
  "keeps t c (set_slot t (\<lambda>s. s\<lparr>sl_overCap := b\<rparr>) c)"
  "keeps t c (set_slot t (\<lambda>s. s\<lparr>sl_isOpen := b\<rparr>) c)"
  "keeps t c (set_slot t (\<lambda>s. s\<lparr>sl_file := h\<rparr>) c)"
  by (simp_all add: keeps_def)

lemma keeps_unregister [simp]: "keeps t c0 (unregisterFragmentSlot t c) = keeps t c0 c"
  by (simp add: keeps_def)

lemma keeps_handle: "keeps t c (snd (handle_ready t c)) \<and> sl_batch (cp_slot (snd (handle_ready t c)) t) = sl_batch (cp_slot c t)"
  by (auto simp: handle_ready_def fragmentHandleIsCurrent_def reopenFragmentHandle_def Let_def keeps_def
      split: prod.splits bool.splits)

lemma writeBuffer_slot: "cp_slot (snd (writeBuffer t bs c)) = cp_slot c"
  by (auto simp: writeBuffer_def Let_def split: fragment_file.splits prod.splits write_answer.splits)

lemma writeBuffer_slotD: "writeBuffer t bs c = (a, c') \<Longrightarrow> cp_slot c' = cp_slot c"
  using writeBuffer_slot [of t bs c] by simp

lemma keeps_marker: "keeps t c (snd (writeReadTailMarker t d c)) \<and>
    sl_batch (cp_slot (snd (writeReadTailMarker t d c)) t) = sl_batch (cp_slot c t)"
proof (cases "sl_isOpen (cp_slot c t) \<and> fst (handle_ready t c)")
  case False
  then show ?thesis using keeps_handle [of t c]
    by (auto simp: writeReadTailMarker_def split: prod.splits bool.splits)
next
  case True
  then obtain c1 where h: "handle_ready t c = (True, c1)" by (cases "handle_ready t c") auto
  have "cp_slot (snd (writeReadTailMarker t d c)) = cp_slot c1"
    using True by (auto simp: writeReadTailMarker_def h Let_def dest: writeBuffer_slotD
        split: prod.splits sum.splits slot_failure.splits)
  then show ?thesis using keeps_handle [of t c] by (simp add: keeps_def h)
qed

lemma keeps_clear: "keeps t c (snd (clearReadingSentinel t c))"
  unfolding clearReadingSentinel_def by (auto intro!: keeps_then simp: keeps_marker)

lemma keeps_mark: "keeps t c (snd (markReadingSentinel t r c))"
  unfolding markReadingSentinel_def by (auto intro!: keeps_then simp: keeps_marker)

lemma keeps_close: "keeps t c (snd (close_file t c))"
  by (auto simp: close_file_def split: fragment_file.split)

lemma keeps_account: "keeps t c (snd (accountFragmentBytes t n c))"
proof -
  let ?c = "set_slot t (\<lambda>s. s\<lparr>sl_fragmentBytes := sl_fragmentBytes s + int n\<rparr>) c"
  have k: "keeps t c ?c" by (simp add: keeps_def)
  have e: "keeps t d (set_slot t (\<lambda>s. s\<lparr>sl_isOpen := False, sl_batch := [], sl_batchOpenedAtNs := 0,
      sl_batchProbeCountdown := 0, sl_readingSentinelActive := False\<rparr>) d)" for d by (simp add: keeps_def)
  have "keeps t ?c (snd (then_do (writeReadTailMarker t FragmentCapReachedDetail)
      (then_do (\<lambda>c. (None, set_slot t (\<lambda>s. s\<lparr>sl_overCap := True\<rparr>) c))
      (then_do (clearReadingSentinel t) (then_do (close_file t)
        (\<lambda>c. (None, unregisterFragmentSlot t (set_slot t (\<lambda>s. s\<lparr>sl_isOpen := False, sl_batch := [],
          sl_batchOpenedAtNs := 0, sl_batchProbeCountdown := 0, sl_readingSentinelActive := False\<rparr>) c)))))) ?c))"
    by (intro keeps_then) (simp_all add: keeps_marker keeps_clear keeps_close e)
  with k show ?thesis by (auto simp: accountFragmentBytes_def Let_def intro: keeps_trans)
qed

lemma flush_bounds:
  "keeps t c (snd (flushFragmentBatch t c)) \<and>
   (fst (flushFragmentBatch t c) = None \<and> sl_isOpen (cp_slot c t) \<longrightarrow> sl_batch (cp_slot (snd (flushFragmentBatch t c)) t) = [])"
proof (cases "sl_isOpen (cp_slot c t) \<and> sl_batch (cp_slot c t) \<noteq> [] \<and> fst (handle_ready t c)")
  case False
  then show ?thesis using keeps_handle [of t c]
    by (auto simp: flushFragmentBatch_def split: prod.splits bool.splits)
next
  case True
  then obtain c1 where h: "handle_ready t c = (True, c1)" by (cases "handle_ready t c") auto
  have k1: "keeps t c c1" using keeps_handle [of t c] by (simp add: h)
  obtain a c2 where w: "writeBuffer t (sl_batch (cp_slot c1 t)) c1 = (a, c2)" by (cases "writeBuffer t (sl_batch (cp_slot c1 t)) c1")
  have s2: "cp_slot c2 = cp_slot c1" by (rule writeBuffer_slotD [OF w])
  have k2: "keeps t c c2" using k1 s2 by (simp add: keeps_def)
  let ?short = "set_slot t (\<lambda>s. s\<lparr>sl_batch := [], sl_batchOpenedAtNs := 0\<rparr>) c2"
  let ?full = "set_slot t (\<lambda>s. s\<lparr>sl_batch := [], sl_batchOpenedAtNs := 0, sl_batchProbeCountdown := 0\<rparr>) (count_write c2)"
  let ?rest = "then_do (clearReadingSentinel t) (accountFragmentBytes t (length (sl_batch (cp_slot c1 t)))) ?full"
  have kr: "keeps t ?full (snd ?rest)" by (rule keeps_then) (simp_all add: keeps_clear keeps_account)
  have kf: "keeps t c ?short" "keeps t c ?full" "sl_batch (cp_slot ?full t) = []"
    using k2 by (simp_all add: keeps_def count_write_def)
  have "sl_batch (cp_slot (snd ?rest) t) = []" using kr kf(3) by (auto simp: keeps_def)
  moreover have "keeps t c (snd ?rest)" by (rule keeps_trans [OF kf(2) kr])
  ultimately show ?thesis using True k2 kf(1)
    by (simp add: flushFragmentBatch_def h w Let_def split: sum.split)
qed

lemma start_batch_slot:
  "sl_batch (cp_slot (start_batch t c) t) = sl_batch (cp_slot c t)" "keeps t c (start_batch t c)"
  by (auto simp: start_batch_def keeps_def case_prod_beta)

lemma make_room_bounds:
  assumes "sl_isOpen (cp_slot c t)"
  shows "keeps t c (snd (make_room t n c))"
    and "fst (make_room t n c) = None \<Longrightarrow> n \<le> FragmentBatchBufLen \<Longrightarrow>
      length (sl_batch (cp_slot (snd (make_room t n c)) t)) + n \<le> FragmentBatchBufLen"
proof -
  let ?c = "c\<lparr>cp_clock := snd (next_answer 0 (cp_clock c))\<rparr>"
  have f: "flushFragmentBatch t c = r \<Longrightarrow> keeps t c (snd r) \<and> (fst r = None \<longrightarrow> sl_batch (cp_slot (snd r) t) = [])" for r
    using flush_bounds [of t c] assms by auto
  have f': "flushFragmentBatch t ?c = r \<Longrightarrow> keeps t c (snd r) \<and> (fst r = None \<longrightarrow> sl_batch (cp_slot (snd r) t) = [])" for r
    using flush_bounds [of t ?c] assms by (auto simp: keeps_def)
  show "keeps t c (snd (make_room t n c))"
    using f f' by (auto simp: make_room_def Let_def case_prod_beta) (simp_all add: keeps_def)
  show "fst (make_room t n c) = None \<Longrightarrow> n \<le> FragmentBatchBufLen \<Longrightarrow>
      length (sl_batch (cp_slot (snd (make_room t n c)) t)) + n \<le> FragmentBatchBufLen"
    using f f' by (auto simp: make_room_def Let_def case_prod_beta split: if_splits)
qed

lemma precompute_bounds: "length (sl_committedFrame (precomputeSigSafeCommittedFrame tok s)) \<le> SigSafeCommittedBufLen"
  by (simp add: precomputeSigSafeCommittedFrame_def Let_def inlined_frame_eq marker_record_def)

lemma register_keeps: "keeps t c0 (registerFragmentSlot t c) = keeps t c0 c"
  by (auto simp: registerFragmentSlot_def keeps_def set_slot_def split: option.split)

lemma register_bounds: "in_bounds (cp_slot (registerFragmentSlot t c) t) = in_bounds (cp_slot c t)"
  by (auto simp: registerFragmentSlot_def in_bounds_def set_slot_def split: option.split)

lemma open_bounds:
  assumes "in_bounds (cp_slot c t)"
  shows "in_bounds (cp_slot (snd (openFragmentSlot t dir pid tid path c)) t) \<and>
    (fst (openFragmentSlot t dir pid tid path c) \<longrightarrow> sl_isOpen (cp_slot (snd (openFragmentSlot t dir pid tid path c)) t))"
  using assms precompute_bounds
  by (auto simp: openFragmentSlot_def Let_def case_prod_beta register_bounds)
    (simp_all add: in_bounds_def precomputeSigSafeCommittedFrame_def Let_def)

lemma discarding_snd: "snd (discarding f c) = snd (f c)"
  by (auto simp: discarding_def split: prod.splits option.splits slot_failure.splits)

lemma keeps_leave: "keeps t c (snd (leave_slot t c))"
  unfolding leave_slot_def by (auto intro!: keeps_then simp: discarding_snd flush_bounds keeps_close)

lemma enter_bounds:
  assumes "in_bounds (cp_slot c t)"
  shows "in_bounds (cp_slot (snd (enter_slot t dir r c)) t) \<and>
    (fst (enter_slot t dir r c) = None \<longrightarrow> sl_isOpen (cp_slot (snd (enter_slot t dir r c)) t))"
proof -
  let ?c = "c\<lparr>cp_dirs := snd (next_answer True (cp_dirs c))\<rparr>"
  have "in_bounds (cp_slot ?c t)" using assms by simp
  from open_bounds [OF this, of dir "rec_osPid r" "rec_threadId r" "fragmentPath dir (rec_osPid r) (rec_threadId r)"]
  show ?thesis using assms
    by (auto simp: enter_slot_def Let_def case_prod_beta split: bool.split)
qed

lemma ensure_bounds:
  assumes "in_bounds (cp_slot c t)"
  shows "in_bounds (cp_slot (snd (ensure_slot t dir r c)) t) \<and>
    (fst (ensure_slot t dir r c) = None \<longrightarrow> sl_isOpen (cp_slot (snd (ensure_slot t dir r c)) t))"
proof (cases "sl_isOpen (cp_slot c t) \<and> names_slot dir r (cp_slot c t)")
  case True
  then show ?thesis using assms by (simp add: ensure_slot_def)
next
  case False
  have b: "in_bounds (cp_slot (snd (leave_slot t c)) t)" by (rule keeps_bounds [OF keeps_leave assms])
  show ?thesis
    using False b enter_bounds [OF b, of dir r]
    by (cases "leave_slot t c"; cases "fst (leave_slot t c)") (auto simp: ensure_slot_def then_do_def)
qed

lemma giant_keeps: "keeps t c (snd (append_giant t r c))"
  unfolding append_giant_def
proof (rule keeps_then)
  fix c
  show "keeps t c (snd (flushFragmentBatch t c))" by (simp add: flush_bounds)
  obtain a c1 where w: "writeBuffer t (encodeFrame r) c = (a, c1)" by (cases "writeBuffer t (encodeFrame r) c")
  have "keeps t c c1" "keeps t c (count_write c1)"
    using writeBuffer_slotD [OF w] by (simp_all add: keeps_def count_write_def)
  then show "keeps t c (snd (let frame = encodeFrame r in case writeBuffer t frame c of
            (Inl e, c) \<Rightarrow> (Some e, c)
          | (Inr n, c) \<Rightarrow>
              if n \<noteq> length frame then (Some (short_write_error (rec_osPid r) (rec_threadId r)), c)
              else accountFragmentBytes t (length frame) (count_write c)))"
    using keeps_trans [OF _ keeps_account] by (auto simp: w Let_def split: sum.split)
qed

lemma append_tail_bounds:
  assumes b: "in_bounds (cp_slot c t)" and o: "sl_isOpen (cp_slot c t)"
    and n: "72 + length (rec_path r) + length (rec_detail r) \<le> FragmentBatchBufLen"
  shows "in_bounds (cp_slot (snd (then_do (make_room t (72 + length (rec_path r) + length (rec_detail r)))
    (\<lambda>c. markReadingSentinel t r
       (set_slot t (\<lambda>s. s\<lparr>sl_batch := sl_batch s @ inlined_frame r\<rparr>) (start_batch t c))) c)) t)"
proof -
  let ?n = "72 + length (rec_path r) + length (rec_detail r)"
  obtain e c1 where m: "make_room t ?n c = (e, c1)" by (cases "make_room t ?n c")
  have k1: "keeps t c c1" using make_room_bounds(1) [OF o, of ?n] by (simp add: m)
  show ?thesis
  proof (cases e)
    case (Some x)
    then show ?thesis using keeps_bounds [OF k1 b] by (simp add: then_do_def m)
  next
    case None
    then have l: "length (sl_batch (cp_slot c1 t)) + ?n \<le> FragmentBatchBufLen"
      using make_room_bounds(2) [OF o, of ?n] n by (simp add: m)
    let ?c2 = "set_slot t (\<lambda>s. s\<lparr>sl_batch := sl_batch s @ inlined_frame r\<rparr>) (start_batch t c1)"
    have "in_bounds (cp_slot ?c2 t)"
      using l keeps_bounds [OF keeps_trans [OF k1 start_batch_slot(2)] b]
      by (simp add: in_bounds_def start_batch_slot inlined_frame_eq)
    then show ?thesis using keeps_bounds [OF keeps_mark] by (simp add: then_do_def m None)
  qed
qed

lemma append_bounds:
  assumes "in_bounds (cp_slot c t)"
  shows "in_bounds (cp_slot (snd (append_to_file t dir r c)) t)"
proof (cases "sl_overCap (cp_slot c t) \<and> names_slot dir r (cp_slot c t)")
  case True
  then show ?thesis using assms by (simp add: append_to_file_def)
next
  case False
  let ?h = "if sl_isOpen (cp_slot c t) then handle_ready t c else (True, c)"
  obtain b c1 where h: "?h = (b, c1)" by (cases ?h)
  have b1: "in_bounds (cp_slot c1 t)"
  proof (cases "sl_isOpen (cp_slot c t)")
    case True
    then show ?thesis using h keeps_handle [of t c] keeps_bounds [of t c c1] assms by simp
  qed (use h assms in simp)
  obtain e c2 where s: "ensure_slot t dir r c1 = (e, c2)" by (cases "ensure_slot t dir r c1")
  have b2: "in_bounds (cp_slot c2 t)" "e = None \<longrightarrow> sl_isOpen (cp_slot c2 t)"
    using ensure_bounds [OF b1, of dir r] by (simp_all add: s)
  show ?thesis
  proof (cases "b \<and> e = None \<and> 72 + length (rec_path r) + length (rec_detail r) \<le> FragmentBatchBufLen")
    case True
    then show ?thesis using append_tail_bounds [of c2 t r] b2 False assms
      by (simp add: append_to_file_def h s then_do_def [of "ensure_slot t dir r"] Let_def add.assoc)
  next
    case nf: False
    have "in_bounds (cp_slot (snd (append_giant t r c2)) t)" by (rule keeps_bounds [OF giant_keeps b2(1)])
    then show ?thesis using nf False b1 b2
      by (cases b; cases e) (auto simp: append_to_file_def h s then_do_def [of "ensure_slot t dir r"] Let_def)
  qed
qed

lemma append_record_bounds:
  assumes "in_bounds (cp_slot c t)"
  shows "in_bounds (cp_slot (snd (appendFragmentRecord recBuf t dir r c)) t)"
proof -
  have "cp_slot (snd (emit_element bs c)) = cp_slot c" for bs c by (simp add: emit_element_def case_prod_beta)
  then show ?thesis using assms append_bounds [OF assms, of dir r]
    by (simp add: appendFragmentRecord_def Let_def case_prod_beta)
qed

end
