(* ===== verification/Fragment_Read.thy ===== *)
theory Fragment_Read
  imports Encode
begin

text \<open>
  Reading fragments back (\<^verbatim>\<open>src/io_mon/writer.nim\<close>).  On Windows the merge waits for a fragment that
  another process still holds: the attempts are a sequence of outcomes, the waits are counted in
  milliseconds.
\<close>

definition readFragmentRecords :: "(string \<Rightarrow> bytes) \<Rightarrow> string \<Rightarrow> MonitorRecord list envelope" where
  "readFragmentRecords readFile path = decodeFrames (readFile path)"

definition readFragmentRecordsTolerant :: "(string \<Rightarrow> bytes) \<Rightarrow> string \<Rightarrow> MonitorRecord list \<times> bool" where
  "readFragmentRecordsTolerant readFile path = decodeFramesTolerant (readFile path)"

definition FragmentReadRetryMs :: nat where "FragmentReadRetryMs = 2000"
definition FragmentReadPollMs :: nat where "FragmentReadPollMs = 20"

datatype read_attempt = ReadBytes bytes | ReadIOError | ReadOSError int

text \<open>The result with the number of the last attempt and the time waited.\<close>

function read_for_merge_from ::
    "(nat \<Rightarrow> read_attempt) \<Rightarrow> nat \<Rightarrow> nat \<Rightarrow> (read_attempt + MonitorRecord list \<times> bool) \<times> nat \<times> nat" where
  "read_for_merge_from attempts k waitedMs =
     (case attempts k of
        ReadBytes raw \<Rightarrow> (Inr (decodeFramesTolerant raw), k, waitedMs)
      | ReadIOError \<Rightarrow>
          if waitedMs \<ge> FragmentReadRetryMs then (Inl ReadIOError, k, waitedMs)
          else read_for_merge_from attempts (k + 1)
                 (waitedMs + min FragmentReadPollMs (FragmentReadRetryMs - waitedMs))
      | ReadOSError code \<Rightarrow>
          if (code \<noteq> 32 \<and> code \<noteq> 33) \<or> waitedMs \<ge> FragmentReadRetryMs
          then (Inl (ReadOSError code), k, waitedMs)
          else read_for_merge_from attempts (k + 1)
                 (waitedMs + min FragmentReadPollMs (FragmentReadRetryMs - waitedMs)))"
  by pat_completeness auto
termination
  by (relation "measure (\<lambda>(attempts, k, waitedMs). FragmentReadRetryMs - waitedMs)")
    (auto simp: FragmentReadPollMs_def FragmentReadRetryMs_def)

declare read_for_merge_from.simps [simp del]

definition readFragmentRecordsForMerge :: "(nat \<Rightarrow> read_attempt) \<Rightarrow> (read_attempt + MonitorRecord list \<times> bool) \<times> nat \<times> nat" where
  "readFragmentRecordsForMerge attempts = read_for_merge_from attempts 0 0"

text \<open>A failure that is worth another attempt.\<close>

definition retryable :: "read_attempt \<Rightarrow> bool" where
  "retryable a \<longleftrightarrow> a = ReadIOError \<or> a = ReadOSError 32 \<or> a = ReadOSError 33"

lemma read_for_merge_spec:
  assumes "waitedMs = 20 * k" "k \<le> 100" "read_for_merge_from attempts k waitedMs = (res, n, w)"
  shows "k \<le> n \<and> n \<le> 100 \<and> w = 20 * n \<and> (\<forall>i. k \<le> i \<and> i < n \<longrightarrow> retryable (attempts i)) \<and>
    (retryable (attempts n) \<longrightarrow> n = 100) \<and>
    res = (case attempts n of ReadBytes raw \<Rightarrow> Inr (decodeFramesTolerant raw) | a \<Rightarrow> Inl a)"
  using assms
proof (induction attempts k waitedMs rule: read_for_merge_from.induct)
  case (1 attempts k waitedMs)
  show ?case
  proof (cases "retryable (attempts k) \<and> waitedMs < FragmentReadRetryMs")
    case True
    let ?w = "waitedMs + min FragmentReadPollMs (FragmentReadRetryMs - waitedMs)"
    have k: "k < 100" "?w = 20 * (k + 1)" using True "1.prems"(1) by (auto simp: FragmentReadRetryMs_def FragmentReadPollMs_def)
    have r: "read_for_merge_from attempts (k + 1) ?w = (res, n, w)"
      using True "1.prems"(3) by (subst (asm) read_for_merge_from.simps) (auto simp: retryable_def)
    have "k + 1 \<le> n \<and> n \<le> 100 \<and> w = 20 * n \<and> (\<forall>i. k + 1 \<le> i \<and> i < n \<longrightarrow> retryable (attempts i)) \<and>
        (retryable (attempts n) \<longrightarrow> n = 100) \<and>
        res = (case attempts n of ReadBytes raw \<Rightarrow> Inr (decodeFramesTolerant raw) | a \<Rightarrow> Inl a)"
    proof -
      have "attempts k = ReadIOError \<or> attempts k = ReadOSError 32 \<or> attempts k = ReadOSError 33" "\<not> waitedMs \<ge> FragmentReadRetryMs"
        using True by (auto simp: retryable_def)
      then show ?thesis using "1.IH"(1) "1.IH"(2) [of 32] "1.IH"(2) [of 33] k r by auto
    qed
    moreover have "retryable (attempts i)" if "k \<le> i" "i < n" for i
      using that calculation True by (cases "i = k") auto
    ultimately show ?thesis by auto
  next
    case False
    then have e: "n = k" "w = waitedMs" "res = (case attempts k of ReadBytes raw \<Rightarrow> Inr (decodeFramesTolerant raw) | a \<Rightarrow> Inl a)"
      using "1.prems"(3)
      by (subst (asm) read_for_merge_from.simps; auto simp: retryable_def split: read_attempt.splits if_splits)+
    have "retryable (attempts k) \<longrightarrow> k = 100"
      using False "1.prems"(1,2) by (auto simp: FragmentReadRetryMs_def)
    then show ?thesis using e "1.prems"(1,2) by auto
  qed
qed

end
