(* ===== verification/Fragment_Properties.thy ===== *)
theory Fragment_Properties
  imports Fragment_Bounds Fragment_Read
begin

text \<open>
  What the fragment writer guarantees of the file a monitored process leaves behind.
\<close>

section \<open>A small process\<close>

definition idle_slot :: FragmentSlot where
  "idle_slot = \<lparr>sl_isOpen = False, sl_file = NoFile, sl_fragmentDir = [], sl_osPid = 0, sl_threadId = 0, sl_batch = [],
     sl_batchOpenedAtNs = 0, sl_batchProbeCountdown = 0, sl_readingSentinelActive = False, sl_committedFrame = [],
     sl_registryIndex = 0, sl_fragmentBytes = 0, sl_overCap = False\<rparr>"

definition idle_capture :: "int \<Rightarrow> capture" where
  "idle_capture cap = \<lparr>cp_slot = (\<lambda>_. idle_slot), cp_registry = [], cp_fragmentByteCap = cap, cp_capResolved = True,
     cp_runToken = '' run=r7'', cp_flags = \<lparr>killDiagChecked = True, killDiagEnabled = False, killDiagDeepEnabled = False\<rparr>,
     cp_diag = (\<lambda>_. \<lparr>killDiagContext = [], killDiagDeepArgv = [], killDiagDeepArgvSampled = False, killDiagDeepLastPath = [],
       killDiagDeepLastKind = 0, killDiagDeepEmitCount = 0, killDiagDeepLastHook = [], killDiagDeepSignalCode = 0,
       killDiagDeepShimState = 0\<rparr>),
     cp_env = (\<lambda>_. []), cp_openCount = 0, cp_writeCount = 0, cp_flushCount = 0, cp_setAttached = False,
     cp_setAvailable = False, cp_setImage = [], cp_setLossElem = [], cp_emitted = [], cp_files = (\<lambda>_. []),
     cp_writes = [], cp_dirs = [], cp_opens = [], cp_infos = [], cp_current = [False], cp_clock = [], cp_emits = []\<rparr>"

definition read_rec :: "u64 \<Rightarrow> string \<Rightarrow> MonitorRecord" where
  "read_rec pid path =
     \<lparr>rec_kind = mrFileRead, rec_observationKind = moFileRead, rec_seq = 1, rec_osPid = pid, rec_parentOsPid = 1,
      rec_threadId = pid, rec_childOsPid = 0, rec_result = 0, rec_flags = 0, rec_probeResult = prUnknown,
      rec_path = path, rec_detail = []\<rparr>"

lemma idle_healthy [simp]: "healthy (idle_capture cap)"
  by (simp add: healthy_def idle_capture_def)

lemma idle_fresh: "fresh_slot 0 ''/f'' 100 100 (idle_capture cap)"
  by (simp add: fresh_slot_def idle_capture_def idle_slot_def FragmentDirBufLen_def marker_text_def killDiagIsOn_def
      killDiagContextForMarker_def)

lemma read_rec_writes: "length path < 60000 \<Longrightarrow> writes_to pid pid (read_rec pid path)"
  by (simp add: writes_to_def read_rec_def is_int64_def is_marker_def is_pending_def is_committed_def FragmentBatchBufLen_def)

lemma capped_slot_undefined:
  assumes "ready t c" "\<not> sl_overCap (cp_slot c t)" "cp_capResolved c"
    and "sl_batch (cp_slot c t) = frames B" "B \<noteq> []"
    and "cp_fragmentByteCap c \<le> sl_fragmentBytes (cp_slot c t) + int (length (frames B))"
  shows "fst (append_giant t r c) = Some Undefined" "fst (leave_slot t c) = Some Undefined"
proof -
  have bne: "frames B \<noteq> []" using assms(5) by (metis frames_Nil)
  obtain c' s K where f: "flushFragmentBatch t c = (None, c')"
    "effect t c (B @ (if sl_readingSentinelActive (cp_slot c t) then [slot_marker t c ReadTailCommittedDetail] else []) @ K) s c'"
    "\<not> sl_isOpen s \<and> sl_file s = ClosedFile"
    using flush_ok [OF assms(1,2,4) bne] assms(3,6) by (auto simp: not_less)
  have s: "sl_file (cp_slot c' t) = ClosedFile" using f(2,3) by (simp add: effect_def)
  show "fst (append_giant t r c) = Some Undefined"
    by (simp add: append_giant_def then_do_def f(1) Let_def writeBuffer_def s)
  show "fst (leave_slot t c) = Some Undefined"
    using assms(1) by (simp add: leave_slot_def ready_def then_do_def discarding_def f(1) close_file_def s)
qed


text \<open>A process whose batch fills its fragment to the cap.\<close>

definition full_capture :: "int \<Rightarrow> capture" where
  "full_capture cap = (idle_capture cap)\<lparr>cp_slot := (\<lambda>_. idle_slot\<lparr>sl_isOpen := True,
     sl_file := OpenFile (fragmentPath ''/f'' 100 100), sl_fragmentDir := ''/f'', sl_osPid := 100, sl_threadId := 100,
     sl_batch := frames [read_rec 100 ''/a'']\<rparr>)\<rparr>"

section \<open>Fragments\<close>

text \<open>
  C11. A monitored process killed at any byte of what an append writes cannot hide a loss: if its
  fragment ends cleanly, holds no loss record and has every read tail committed, then every captured
  record of the appends before the kill is in it.  The system takes the writes, but the monitored
  program may close the descriptor at any time.
\<close>

theorem killed_process_hides_no_loss:
  assumes "healthy c" "fresh_slot t dir pid tid c" "\<forall>q \<in> set (rs @ [r]). writes_to pid tid q"
  shows "\<exists>c1 c2. append_all recBuf t dir rs c = (None, c1) \<and> appendFragmentRecord recBuf t dir r c1 = (None, c2) \<and>
    (\<forall>p ds. prefix (cp_files c1 (fragmentPath dir pid tid)) p \<and> prefix p (cp_files c2 (fragmentPath dir pid tid)) \<and>
       decodeFramesTolerant p = (ds, True) \<and> only_marker_losses ds \<and> tails_closed ds \<longrightarrow>
       (\<forall>q \<in> set rs. kindCarriesCapturedDependency (rec_kind q) \<and> \<not> recordSuppressesOnlyADowngrade q \<longrightarrow> q \<in> set ds))"
proof -
  have d: "length dir < FragmentDirBufLen" using assms(2) by (simp add: fresh_slot_def)
  obtain c1 L where c1: "append_all recBuf t dir rs c = (None, c1)" "cap_inv t dir pid tid rs c1 L"
    using append_all_inv [OF fresh_inv [OF assms(1,2)] _ d, of rs recBuf] assms(3) by auto
  obtain c2 K where c2: "append_to_file t dir r c1 = (None, c2)" "cap_inv t dir pid tid (rs @ [r]) c2 (L @ K)"
    "prefixes_account L K rs" using append_inv [OF c1(2) _ d, of r] assms(3) by auto
  have a: "appendFragmentRecord recBuf t dir r c1 = (None, c2)"
    using c2(1) append_file c1(2) by (simp add: cap_inv_def)
  have f: "cp_files c1 (fragmentPath dir pid tid) = frames L" "cp_files c2 (fragmentPath dir pid tid) = frames (L @ K)"
    "\<forall>q \<in> set (L @ K). encodable q"
    using c1(2) c2(2) by (auto simp: cap_inv_def slot_inv_def)
  have "q \<in> set ds"
    if k: "prefix (cp_files c1 (fragmentPath dir pid tid)) p" "prefix p (cp_files c2 (fragmentPath dir pid tid))"
      "decodeFramesTolerant p = (ds, True)" "only_marker_losses ds" "tails_closed ds"
      and q: "q \<in> set rs" "kindCarriesCapturedDependency (rec_kind q)" "\<not> recordSuppressesOnlyADowngrade q" for p ds q
  proof -
    obtain n where "ds = L @ take n K" using cut_between [OF f(3)] k unfolding f(1,2) by blast
    then have "accounts_for ds rs" using c2(3) unfolding prefixes_account_def by blast
    then show ?thesis using k(4,5) q unfolding accounts_for_def captured_def by blast
  qed
  then show ?thesis using c1(1) a by blast
qed

theorem killed_process_hides_no_loss_witness:
  "\<exists>c1 c2. append_all [] 0 ''/f'' [read_rec 100 ''/a''] (idle_capture 1000) = (None, c1) \<and>
    appendFragmentRecord [] 0 ''/f'' (read_rec 100 ''/b'') c1 = (None, c2) \<and>
    (\<forall>p ds. prefix (cp_files c1 (fragmentPath ''/f'' 100 100)) p \<and> prefix p (cp_files c2 (fragmentPath ''/f'' 100 100)) \<and>
       decodeFramesTolerant p = (ds, True) \<and> only_marker_losses ds \<and> tails_closed ds \<longrightarrow> read_rec 100 ''/a'' \<in> set ds)"
  using killed_process_hides_no_loss [OF idle_healthy idle_fresh, of "[read_rec 100 ''/a'']" "read_rec 100 ''/b''" "[]" 1000]
  by (simp add: read_rec_writes)
    (simp add: read_rec_def kindCarriesCapturedDependency_def recordSuppressesOnlyADowngrade_def)



text \<open>
  C19. The batch buffer, the committed-marker buffer and the directory buffer of a slot are never
  overrun by an append, whatever writes, opens and clock readings the system answers with.
\<close>

theorem slot_buffers_stay_in_bounds:
  assumes "in_bounds (cp_slot c t)"
  shows "in_bounds (cp_slot (snd (appendFragmentRecord recBuf t dir r c)) t)"
  by (rule append_record_bounds [OF assms])

theorem slot_buffers_stay_in_bounds_witness:
  "in_bounds (cp_slot (idle_capture 1000) 0) \<and>
   in_bounds (cp_slot (snd (appendFragmentRecord [] 0 ''/f'' (read_rec 100 ''/a'')
     ((idle_capture 1000)\<lparr>cp_writes := [Takes 3, RaisesAfter 1]\<rparr>))) 0)"
  using slot_buffers_stay_in_bounds [of "(idle_capture 1000)\<lparr>cp_writes := [Takes 3, RaisesAfter 1]\<rparr>" 0 "[]" "''/f''" "read_rec 100 ''/a''"]
  by (simp add: in_bounds_def idle_capture_def idle_slot_def FragmentBatchBufLen_def SigSafeCommittedBufLen_def
      FragmentDirBufLen_def)

text \<open>
  C25. The encoder inlined into the append path writes the bytes of the frame encoder, so batched and
  directly written records read the same.
\<close>

theorem inlined_encoder_is_frame_encoder: "inlined_frame r = encodeFrame r"
  by (rule inlined_frame_eq)

text \<open>
  C20. The Windows merge stops waiting for a fragment held by another process after at most 100 polls
  and 2000 ms: it returns the first attempt that is not a sharing failure, or the failure at the
  limit.
\<close>

theorem sharing_retry_ends:
  "\<exists>n \<le> 100. readFragmentRecordsForMerge attempts =
     (case attempts n of ReadBytes raw \<Rightarrow> Inr (decodeFramesTolerant raw) | a \<Rightarrow> Inl a, n, 20 * n) \<and>
    (\<forall>i < n. retryable (attempts i)) \<and> (retryable (attempts n) \<longrightarrow> n = 100)"
proof -
  obtain res n w where r: "read_for_merge_from attempts 0 0 = (res, n, w)" by (cases rule: prod_cases3)
  from read_for_merge_spec [OF _ _ r] show ?thesis using r by (auto simp: readFragmentRecordsForMerge_def)
qed

theorem sharing_retry_ends_witness:
  "\<exists>n \<le> 100. readFragmentRecordsForMerge (\<lambda>i. if i < 3 then ReadOSError 32 else ReadBytes []) =
     (if n < 3 then Inl (ReadOSError 32) else Inr (decodeFramesTolerant []), n, 20 * n) \<and> n \<noteq> 0"
proof -
  let ?a = "\<lambda>i :: nat. if i < 3 then ReadOSError 32 else ReadBytes []"
  obtain n where n: "n \<le> 100" "readFragmentRecordsForMerge ?a =
      (case ?a n of ReadBytes raw \<Rightarrow> Inr (decodeFramesTolerant raw) | a \<Rightarrow> Inl a, n, 20 * n)"
    "retryable (?a n) \<longrightarrow> n = 100" using sharing_retry_ends [of ?a] by blast
  then show ?thesis by (intro exI [of _ n]) (auto simp: retryable_def split: if_splits)
qed

text \<open>
  C21. When the flush that precedes a slot change or an oversized record takes the fragment to its
  byte cap, the slot's file is closed by the cap and then used again: closed a second time by the slot
  change, written to by the oversized record.
\<close>

theorem capped_slot_is_used_after_close:
  assumes "ready t c" "\<not> sl_overCap (cp_slot c t)" "cp_capResolved c"
    and "sl_batch (cp_slot c t) = frames B" "B \<noteq> []"
    and "cp_fragmentByteCap c \<le> sl_fragmentBytes (cp_slot c t) + int (length (frames B))"
    and "\<not> names_slot dir r (cp_slot c t) \<or> FragmentBatchBufLen < 72 + length (rec_path r) + length (rec_detail r)"
  shows "fst (appendFragmentRecord recBuf t dir r c) = Some Undefined"
proof -
  have o: "sl_isOpen (cp_slot c t)" using assms(1) by (simp add: ready_def)
  obtain c1 where c1: "handle_ready t c = (True, c1)" "put t c [] c1" using handle_ready_ok [OF assms(1)] by blast
  have s1: "cp_slot c1 t = cp_slot c t" "cp_capResolved c1" "cp_fragmentByteCap c1 = cp_fragmentByteCap c"
    using c1(2) assms(3) by (simp_all add: put_def steady_def)
  note u = capped_slot_undefined [of t c1 B, unfolded s1(1), OF put_ready [OF assms(1) c1(2)] assms(2) s1(2) assms(4,5), unfolded s1(3), OF assms(6)]
  have a: "appendFragmentRecord recBuf t dir r c = append_to_file t dir r c"
    using assms(1) append_file by (simp add: ready_def)
  show ?thesis
  proof (cases "names_slot dir r (cp_slot c t)")
    case True
    then show ?thesis using assms(2,7) u(1) [of r] o unfolding a
      by (simp add: append_to_file_def c1(1) ensure_slot_def s1(1) then_do_def [of "ensure_slot t dir r"] Let_def)
  next
    case False
    obtain x y where "leave_slot t c1 = (x, y)" by (cases "leave_slot t c1")
    then show ?thesis using assms(2) u(2) o False unfolding a
      by (simp add: append_to_file_def c1(1) ensure_slot_def s1(1) then_do_def)
  qed
qed

theorem capped_slot_is_used_after_close_witness:
  "fst (appendFragmentRecord [] 0 ''/f'' (read_rec 200 ''/b'') (full_capture 10)) = Some Undefined"
proof (rule capped_slot_is_used_after_close [where B = "[read_rec 100 ''/a'']"])
  show "ready 0 (full_capture 10)"
    by (simp add: ready_def healthy_def full_capture_def idle_capture_def slot_path_def)
qed (simp_all add: full_capture_def idle_capture_def idle_slot_def names_slot_def read_rec_def)



end
