(* ===== verification/Pod_Tables.thy ===== *)
theory Pod_Tables
  imports Encode
begin

text \<open>
  The tables of the Linux shim (\<^verbatim>\<open>src/io_mon/shim/linux_pod_tables.nim\<close>): the paths behind descriptors,
  directory streams and file streams, the observed inputs, and the bit sets of descriptors.

  The texts live in allocations of the C library, which are part of the state: a table holds addresses.
  Every procedure holds the lock of its table, so the state changes in one step.  An array is a function
  of the index; indices are masked or compared with the capacity first.
\<close>

unbundle bit_operations_syntax

definition fdPathCap :: nat where
  "fdPathCap = 65536"

definition ptrMapCap :: nat where
  "ptrMapCap = 16384"

definition ptrMapMask :: nat where
  "ptrMapMask = ptrMapCap - 1"

definition observedCap :: nat where
  "observedCap = 32768"

definition observedMask :: nat where
  "observedMask = observedCap - 1"

definition fdBitWords :: nat where
  "fdBitWords = fdPathCap div 8"

section \<open>The allocator\<close>

text \<open>
  Live allocations with their text, the next address, the answers of \<^verbatim>\<open>malloc\<close> to come (\<^const>\<open>True\<close> when it
  fails; past the end it succeeds) and whether something was freed that is no live allocation.
\<close>

record libc_heap =
  lh_live :: "nat \<rightharpoonup> string"
  lh_next :: nat
  lh_oom :: "bool list"
  lh_wild :: bool

text \<open>The text of a C string ends before its first null character.\<close>

definition c_text :: "string \<Rightarrow> string" where
  "c_text path = takeWhile (\<lambda>c. c \<noteq> CHR 0x00) path"

definition dupCString :: "string \<Rightarrow> libc_heap \<Rightarrow> (nat option \<times> nat) \<times> libc_heap" where
  "dupCString path h =
    (let text = c_text path; h' = h\<lparr>lh_oom := tl (lh_oom h)\<rparr> in
     if lh_oom h \<noteq> [] \<and> hd (lh_oom h) then ((None, length text), h')
     else ((Some (lh_next h), length text),
           h'\<lparr>lh_live := (lh_live h)(lh_next h \<mapsto> text), lh_next := Suc (lh_next h)\<rparr>))"

definition c_free :: "nat option \<Rightarrow> libc_heap \<Rightarrow> libc_heap" where
  "c_free p h = (case p of
     None \<Rightarrow> h
   | Some a \<Rightarrow> if lh_live h a = None then h\<lparr>lh_wild := True\<rparr> else h\<lparr>lh_live := (lh_live h)(a := None)\<rparr>)"

text \<open>A copy of \<open>n\<close> characters; there is none when the address is no live allocation.\<close>

definition cStringToNim :: "nat option \<Rightarrow> int \<Rightarrow> libc_heap \<Rightarrow> string option" where
  "cStringToNim p n h = (case p of
     None \<Rightarrow> Some []
   | Some a \<Rightarrow> if n \<le> 0 then Some [] else map_option (take (nat n)) (lh_live h a))"

section \<open>State\<close>

record PtrPathSlot =
  ps_used :: bool
  ps_key :: u64
  ps_path :: "nat option"

record PtrPathMap =
  pm_slots :: "nat \<Rightarrow> PtrPathSlot"
  pm_count :: int

record ObservedSet =
  ob_keys :: "nat \<Rightarrow> nat option"
  ob_count :: int

record pod =
  pd_heap :: libc_heap
  pd_fdPathPtr :: "nat \<Rightarrow> nat option"
  pd_fdPathLen :: "nat \<Rightarrow> 32 word"
  pd_dirMap :: PtrPathMap
  pd_streamMap :: PtrPathMap
  pd_observed :: ObservedSet
  pd_emptyFdBits :: "nat \<Rightarrow> u8"
  pd_inheritedFdBits :: "nat \<Rightarrow> u8"
  pd_fileReadSeenFdBits :: "nat \<Rightarrow> u8"

section \<open>Descriptor paths\<close>

definition fd_tracked :: "int \<Rightarrow> bool" where
  "fd_tracked fd \<longleftrightarrow> \<not> (fd < 0 \<or> fd \<ge> int fdPathCap)"

definition podFdPathSet :: "int \<Rightarrow> string option \<Rightarrow> pod \<Rightarrow> pod" where
  "podFdPathSet fd path s = (case path of
     None \<Rightarrow> s
   | Some p \<Rightarrow>
       if \<not> fd_tracked fd then s
       else (case dupCString p (pd_heap s) of
         ((copy, n), h) \<Rightarrow>
           let old = pd_fdPathPtr s (nat fd) in
           s\<lparr>pd_fdPathPtr := (pd_fdPathPtr s)(nat fd := copy),
             pd_fdPathLen := (pd_fdPathLen s)(nat fd := if copy = None then 0 else word_of_nat n),
             pd_heap := c_free old h\<rparr>))"

definition podFdPathDel :: "int \<Rightarrow> pod \<Rightarrow> pod" where
  "podFdPathDel fd s =
    (if \<not> fd_tracked fd then s
     else let old = pd_fdPathPtr s (nat fd) in
       s\<lparr>pd_fdPathPtr := (pd_fdPathPtr s)(nat fd := None), pd_fdPathLen := (pd_fdPathLen s)(nat fd := 0),
         pd_heap := c_free old (pd_heap s)\<rparr>)"

definition podFdPathGet :: "int \<Rightarrow> pod \<Rightarrow> string option" where
  "podFdPathGet fd s =
    (if \<not> fd_tracked fd then Some []
     else cStringToNim (pd_fdPathPtr s (nat fd)) (sint (pd_fdPathLen s (nat fd))) (pd_heap s))"

section \<open>Stream paths\<close>

definition ptr_home :: "u64 \<Rightarrow> nat" where
  "ptr_home key = unat (key AND word_of_nat ptrMapMask)"

definition ptr_next :: "nat \<Rightarrow> nat" where
  "ptr_next idx = (idx + 1) AND ptrMapMask"

text \<open>
  \<^verbatim>\<open>while m.slots[idx].used and m.slots[idx].key != key and scanned < ptrMapCap\<close>: the first argument is what
  is left to scan, and the results are the index and what is left at the end.
\<close>

fun ptr_probe :: "nat \<Rightarrow> (nat \<Rightarrow> PtrPathSlot) \<Rightarrow> u64 \<Rightarrow> nat \<Rightarrow> nat \<times> nat" where
  "ptr_probe 0 sl key idx = (idx, 0)"
| "ptr_probe (Suc k) sl key idx =
    (if ps_used (sl idx) \<and> ps_key (sl idx) \<noteq> key then ptr_probe k sl key (ptr_next idx) else (idx, Suc k))"

definition ptrMapSetLocked :: "PtrPathMap \<Rightarrow> u64 \<Rightarrow> string \<Rightarrow> libc_heap \<Rightarrow> PtrPathMap \<times> libc_heap" where
  "ptrMapSetLocked m key path h =
    (case ptr_probe ptrMapCap (pm_slots m) key (ptr_home key) of
       (idx, left) \<Rightarrow>
         (case dupCString path h of
            ((copy, n), h) \<Rightarrow>
              let slot = pm_slots m idx in
              if ps_used slot \<and> ps_key slot = key
              then (m\<lparr>pm_slots := (pm_slots m)(idx := slot\<lparr>ps_path := copy\<rparr>)\<rparr>, c_free (ps_path slot) h)
              else if left = 0 then (m, c_free copy h)
              else (m\<lparr>pm_slots := (pm_slots m)(idx := \<lparr>ps_used = True, ps_key = key, ps_path = copy\<rparr>),
                      pm_count := pm_count m + 1\<rparr>, h)))"

text \<open>Is the free slot \<open>idx\<close> on the way from its home to the entry at \<open>j\<close>?\<close>

definition canMove :: "nat \<Rightarrow> nat \<Rightarrow> nat \<Rightarrow> bool" where
  "canMove home idx j =
    (if idx \<le> j then \<not> (home > idx \<and> home \<le> j) else \<not> (home > idx \<or> home \<le> j))"

text \<open>The loop has no bound of its own; \<^const>\<open>None\<close> is a loop that does not end.\<close>

partial_function (option) backward_shift ::
    "(nat \<Rightarrow> PtrPathSlot) \<Rightarrow> nat \<Rightarrow> nat \<Rightarrow> (nat \<Rightarrow> PtrPathSlot) option" where
  "backward_shift sl idx j0 =
    (let j = ptr_next j0 in
     if \<not> ps_used (sl j) then Some sl
     else if canMove (ptr_home (ps_key (sl j))) idx j
     then backward_shift (sl(idx := sl j, j := (sl j)\<lparr>ps_used := False, ps_path := None\<rparr>)) j j
     else backward_shift sl idx j)"

definition ptrMapDelLocked :: "PtrPathMap \<Rightarrow> u64 \<Rightarrow> libc_heap \<Rightarrow> (PtrPathMap \<times> libc_heap) option" where
  "ptrMapDelLocked m key h =
    (case ptr_probe ptrMapCap (pm_slots m) key (ptr_home key) of
       (idx, left) \<Rightarrow>
         let slot = pm_slots m idx in
         if \<not> (ps_used slot \<and> ps_key slot = key) then Some (m, h)
         else map_option (\<lambda>sl. (m\<lparr>pm_slots := sl, pm_count := pm_count m - 1\<rparr>, c_free (ps_path slot) h))
           (backward_shift ((pm_slots m)(idx := slot\<lparr>ps_path := None, ps_used := False\<rparr>)) idx idx))"

fun ptr_find :: "nat \<Rightarrow> (nat \<Rightarrow> PtrPathSlot) \<Rightarrow> u64 \<Rightarrow> nat \<Rightarrow> nat option option" where
  "ptr_find 0 sl key idx = None"
| "ptr_find (Suc k) sl key idx =
    (if \<not> ps_used (sl idx) then None
     else if ps_key (sl idx) = key then Some (ps_path (sl idx))
     else ptr_find k sl key (ptr_next idx))"

definition ptrMapGetLocked :: "PtrPathMap \<Rightarrow> u64 \<Rightarrow> libc_heap \<Rightarrow> string option" where
  "ptrMapGetLocked m key h = (case ptr_find ptrMapCap (pm_slots m) key (ptr_home key) of
     None \<Rightarrow> Some []
   | Some None \<Rightarrow> Some []
   | Some (Some a) \<Rightarrow> Option.bind (lh_live h a) (\<lambda>t. cStringToNim (Some a) (int (length t)) h))"

definition podDirPathSet :: "u64 \<Rightarrow> string option \<Rightarrow> pod \<Rightarrow> pod" where
  "podDirPathSet key path s = (case path of
     None \<Rightarrow> s
   | Some p \<Rightarrow> (case ptrMapSetLocked (pd_dirMap s) key p (pd_heap s) of
       (m, h) \<Rightarrow> s\<lparr>pd_dirMap := m, pd_heap := h\<rparr>))"

definition podDirPathDel :: "u64 \<Rightarrow> pod \<Rightarrow> pod option" where
  "podDirPathDel key s =
    map_option (\<lambda>(m, h). s\<lparr>pd_dirMap := m, pd_heap := h\<rparr>) (ptrMapDelLocked (pd_dirMap s) key (pd_heap s))"

definition podDirPathGet :: "u64 \<Rightarrow> pod \<Rightarrow> string option" where
  "podDirPathGet key s = ptrMapGetLocked (pd_dirMap s) key (pd_heap s)"

definition podStreamPathSet :: "u64 \<Rightarrow> string option \<Rightarrow> pod \<Rightarrow> pod" where
  "podStreamPathSet key path s = (case path of
     None \<Rightarrow> s
   | Some p \<Rightarrow> (case ptrMapSetLocked (pd_streamMap s) key p (pd_heap s) of
       (m, h) \<Rightarrow> s\<lparr>pd_streamMap := m, pd_heap := h\<rparr>))"

definition podStreamPathDel :: "u64 \<Rightarrow> pod \<Rightarrow> pod option" where
  "podStreamPathDel key s =
    map_option (\<lambda>(m, h). s\<lparr>pd_streamMap := m, pd_heap := h\<rparr>) (ptrMapDelLocked (pd_streamMap s) key (pd_heap s))"

definition podStreamPathGet :: "u64 \<Rightarrow> pod \<Rightarrow> string option" where
  "podStreamPathGet key s = ptrMapGetLocked (pd_streamMap s) key (pd_heap s)"

section \<open>Observed inputs\<close>

definition fnv1a :: "string \<Rightarrow> u64" where
  "fnv1a s = foldl (\<lambda>h c. (h XOR word_of_nat (of_char c)) * 0x100000001b3) 0xcbf29ce484222325 s"

text \<open>The character at an index of a C string, the terminator included.\<close>

definition c_char :: "string \<Rightarrow> nat \<Rightarrow> char" where
  "c_char s i = (if i < length s then s ! i else CHR 0x00)"

definition cstrEq :: "string \<Rightarrow> string \<Rightarrow> nat \<Rightarrow> bool" where
  "cstrEq a b n = (list_all (\<lambda>i. c_char a i = c_char b i) [0..<n] \<and> c_char b n = CHR 0x00)"

definition observed_home :: "string \<Rightarrow> nat" where
  "observed_home key = unat (fnv1a key AND word_of_nat observedMask)"

definition observed_next :: "nat \<Rightarrow> nat" where
  "observed_next idx = (idx + 1) AND observedMask"

definition live_text :: "libc_heap \<Rightarrow> nat \<Rightarrow> string" where
  "live_text h a = (case lh_live h a of None \<Rightarrow> [] | Some t \<Rightarrow> t)"

text \<open>The search: whether the key is new, the index, and what is left to scan.  Keys are never freed.\<close>

fun observed_scan :: "nat \<Rightarrow> (nat \<Rightarrow> nat option) \<Rightarrow> libc_heap \<Rightarrow> string \<Rightarrow> nat \<Rightarrow> bool \<times> nat \<times> nat" where
  "observed_scan 0 keys h key idx = (True, idx, 0)"
| "observed_scan (Suc k) keys h key idx = (case keys idx of
     None \<Rightarrow> (True, idx, Suc k)
   | Some a \<Rightarrow>
       if cstrEq (live_text h a) key (length key) then (False, idx, Suc k)
       else observed_scan k keys h key (observed_next idx))"

definition podObservedInsertIsNew :: "string option \<Rightarrow> pod \<Rightarrow> bool \<times> pod" where
  "podObservedInsertIsNew k s = (case k of
     None \<Rightarrow> (False, s)
   | Some key0 \<Rightarrow>
       let key = c_text key0; ob = pd_observed s in
       (case observed_scan observedCap (ob_keys ob) (pd_heap s) key (observed_home key) of
          (newlyInserted, idx, left) \<Rightarrow>
            if newlyInserted \<and> left > 0
            then (case dupCString key (pd_heap s) of
                    ((None, _), h) \<Rightarrow> (newlyInserted, s\<lparr>pd_heap := h\<rparr>)
                  | ((Some a, _), h) \<Rightarrow>
                      (newlyInserted,
                       s\<lparr>pd_heap := h, pd_observed := ob\<lparr>ob_keys := (ob_keys ob)(idx \<mapsto> a), ob_count := ob_count ob + 1\<rparr>\<rparr>))
            else (newlyInserted, s)))"

text \<open>
  Its one caller in \<^verbatim>\<open>linux_preload.nim\<close>: the record to emit, if any.  \<open>base\<close> stands for \<^verbatim>\<open>baseRecord\<close>, which fills
  in the process and the thread.
\<close>

definition recordObservedNonFile ::
    "(MonitorRecordKind \<Rightarrow> MonitorObservationKind \<Rightarrow> MonitorRecord) \<Rightarrow> MonitorRecordKind \<Rightarrow> MonitorObservationKind \<Rightarrow>
     string \<Rightarrow> string \<Rightarrow> pod \<Rightarrow> MonitorRecord option \<times> pod" where
  "recordObservedNonFile base kind observationKind path detail s =
    (if length path = 0 then (None, s)
     else let key = nat_text (ord_recordKind kind) @ '':'' @ path in
       (case podObservedInsertIsNew (Some key) s of
          (False, s) \<Rightarrow> (None, s)
        | (True, s) \<Rightarrow> (Some ((base kind observationKind)\<lparr>rec_path := path, rec_detail := detail\<rparr>), s)))"

section \<open>Sets of descriptors\<close>

definition fd_word :: "int \<Rightarrow> nat" where
  "fd_word fd = nat (drop_bit 3 fd)"

definition fd_mask :: "int \<Rightarrow> u8" where
  "fd_mask fd = push_bit (nat (fd AND 7)) 1"

text \<open>The template \<^verbatim>\<open>bitOp\<close> does nothing on a descriptor outside the tables.\<close>

definition bits_set :: "int \<Rightarrow> (nat \<Rightarrow> u8) \<Rightarrow> nat \<Rightarrow> u8" where
  "bits_set fd bits = (if fd_tracked fd then bits(fd_word fd := bits (fd_word fd) OR fd_mask fd) else bits)"

definition bits_excl :: "int \<Rightarrow> (nat \<Rightarrow> u8) \<Rightarrow> nat \<Rightarrow> u8" where
  "bits_excl fd bits = (if fd_tracked fd then bits(fd_word fd := bits (fd_word fd) AND NOT (fd_mask fd)) else bits)"

definition bits_contains :: "int \<Rightarrow> (nat \<Rightarrow> u8) \<Rightarrow> bool" where
  "bits_contains fd bits \<longleftrightarrow> fd_tracked fd \<and> bits (fd_word fd) AND fd_mask fd \<noteq> 0"

definition podEmptyFdSet :: "int \<Rightarrow> pod \<Rightarrow> pod" where
  "podEmptyFdSet fd s = s\<lparr>pd_emptyFdBits := bits_set fd (pd_emptyFdBits s)\<rparr>"

definition podEmptyFdExcl :: "int \<Rightarrow> pod \<Rightarrow> pod" where
  "podEmptyFdExcl fd s = s\<lparr>pd_emptyFdBits := bits_excl fd (pd_emptyFdBits s)\<rparr>"

definition podEmptyFdContains :: "int \<Rightarrow> pod \<Rightarrow> bool" where
  "podEmptyFdContains fd s = bits_contains fd (pd_emptyFdBits s)"

definition podInheritedFdSet :: "int \<Rightarrow> pod \<Rightarrow> pod" where
  "podInheritedFdSet fd s = s\<lparr>pd_inheritedFdBits := bits_set fd (pd_inheritedFdBits s)\<rparr>"

definition podInheritedFdExcl :: "int \<Rightarrow> pod \<Rightarrow> pod" where
  "podInheritedFdExcl fd s = s\<lparr>pd_inheritedFdBits := bits_excl fd (pd_inheritedFdBits s)\<rparr>"

definition podInheritedFdContains :: "int \<Rightarrow> pod \<Rightarrow> bool" where
  "podInheritedFdContains fd s = bits_contains fd (pd_inheritedFdBits s)"

definition podInheritedFdClear :: "pod \<Rightarrow> pod" where
  "podInheritedFdClear s = s\<lparr>pd_inheritedFdBits := \<lambda>i. if i < fdBitWords then 0 else pd_inheritedFdBits s i\<rparr>"

definition podFileReadMarkIsNew :: "int \<Rightarrow> pod \<Rightarrow> bool \<times> pod" where
  "podFileReadMarkIsNew fd s =
    (if \<not> fd_tracked fd then (True, s)
     else (\<not> bits_contains fd (pd_fileReadSeenFdBits s), s\<lparr>pd_fileReadSeenFdBits := bits_set fd (pd_fileReadSeenFdBits s)\<rparr>))"

definition podFileReadExcl :: "int \<Rightarrow> pod \<Rightarrow> pod" where
  "podFileReadExcl fd s = s\<lparr>pd_fileReadSeenFdBits := bits_excl fd (pd_fileReadSeenFdBits s)\<rparr>"

section \<open>A process\<close>

text \<open>The state a process starts with, for given answers of \<^verbatim>\<open>malloc\<close>, and the operations on it.\<close>

definition empty_map :: PtrPathMap where
  "empty_map = \<lparr>pm_slots = \<lambda>_. \<lparr>ps_used = False, ps_key = 0, ps_path = None\<rparr>, pm_count = 0\<rparr>"

definition pod_start :: "bool list \<Rightarrow> pod" where
  "pod_start oom = \<lparr>pd_heap = \<lparr>lh_live = (\<lambda>_. None), lh_next = 0, lh_oom = oom, lh_wild = False\<rparr>,
     pd_fdPathPtr = \<lambda>_. None, pd_fdPathLen = \<lambda>_. 0, pd_dirMap = empty_map, pd_streamMap = empty_map,
     pd_observed = \<lparr>ob_keys = \<lambda>_. None, ob_count = 0\<rparr>,
     pd_emptyFdBits = \<lambda>_. 0, pd_inheritedFdBits = \<lambda>_. 0, pd_fileReadSeenFdBits = \<lambda>_. 0\<rparr>"

datatype pod_op =
    FdPathSet int "string option" | FdPathDel int
  | DirPathSet u64 "string option" | DirPathDel u64
  | StreamPathSet u64 "string option" | StreamPathDel u64
  | Observe "string option"
  | EmptyFdSet int | EmptyFdExcl int
  | InheritedFdSet int | InheritedFdExcl int | InheritedFdClear
  | FileReadMark int | FileReadExcl int

fun pod_step :: "pod_op \<Rightarrow> pod \<Rightarrow> pod option" where
  "pod_step (FdPathSet fd p) s = Some (podFdPathSet fd p s)"
| "pod_step (FdPathDel fd) s = Some (podFdPathDel fd s)"
| "pod_step (DirPathSet k p) s = Some (podDirPathSet k p s)"
| "pod_step (DirPathDel k) s = podDirPathDel k s"
| "pod_step (StreamPathSet k p) s = Some (podStreamPathSet k p s)"
| "pod_step (StreamPathDel k) s = podStreamPathDel k s"
| "pod_step (Observe k) s = Some (snd (podObservedInsertIsNew k s))"
| "pod_step (EmptyFdSet fd) s = Some (podEmptyFdSet fd s)"
| "pod_step (EmptyFdExcl fd) s = Some (podEmptyFdExcl fd s)"
| "pod_step (InheritedFdSet fd) s = Some (podInheritedFdSet fd s)"
| "pod_step (InheritedFdExcl fd) s = Some (podInheritedFdExcl fd s)"
| "pod_step InheritedFdClear s = Some (podInheritedFdClear s)"
| "pod_step (FileReadMark fd) s = Some (snd (podFileReadMarkIsNew fd s))"
| "pod_step (FileReadExcl fd) s = Some (podFileReadExcl fd s)"

fun run_all :: "('op \<Rightarrow> 's \<Rightarrow> 's option) \<Rightarrow> 'op list \<Rightarrow> 's \<Rightarrow> 's option" where
  "run_all step [] s = Some s"
| "run_all step (x # xs) s = Option.bind (step x s) (run_all step xs)"

definition pod_run :: "pod_op list \<Rightarrow> pod \<Rightarrow> pod option" where
  "pod_run = run_all pod_step"

end
