(* ===== verification/Pod_Map_Facts.thy ===== *)
theory Pod_Map_Facts
  imports Pod_Tables
begin

text \<open>
  The pointer maps of the Linux shim are maps: probing finds the entry of a key, an insertion and a
  backward-shift deletion keep every entry reachable from its home, and the deletion ends.
\<close>

unbundle bit_operations_syntax

section \<open>The circle of slots\<close>

lemma ptrMapCap_pos [simp]: "0 < ptrMapCap" "ptrMapCap \<noteq> 0"
  by (simp_all add: ptrMapCap_def)

lemma ptr_home_mod: "ptr_home key = unat key mod ptrMapCap"
proof -
  have "word_of_nat ptrMapMask = (mask 14 :: u64)" by (simp add: ptrMapMask_def ptrMapCap_def mask_eq_exp_minus_1)
  then have "ptr_home key = unat (take_bit 14 key)" by (simp only: ptr_home_def take_bit_eq_mask)
  then have "ptr_home key = take_bit 14 (unat key)" by (simp only: unsigned_take_bit_eq)
  then show ?thesis by (simp add: ptrMapCap_def take_bit_eq_mod)
qed

lemma ptr_next_mod: "ptr_next i = (i + 1) mod ptrMapCap"
proof -
  have "ptrMapMask = mask 14" by (simp add: ptrMapMask_def ptrMapCap_def mask_eq_exp_minus_1)
  then have "ptr_next i = take_bit 14 (i + 1)" by (simp only: ptr_next_def take_bit_eq_mask)
  then show ?thesis by (simp add: ptrMapCap_def take_bit_eq_mod)
qed

lemma ptr_home_less [simp]: "ptr_home key < ptrMapCap"
  by (simp add: ptr_home_mod)

lemma ptr_next_less [simp]: "ptr_next i < ptrMapCap"
  by (simp add: ptr_next_mod)

text \<open>How far a slot is ahead of another on the circle.\<close>

definition ahead :: "nat \<Rightarrow> nat \<Rightarrow> nat" where
  "ahead a b = (if a \<le> b then b - a else b + ptrMapCap - a)"

lemma ahead_less [simp]: "b < ptrMapCap \<Longrightarrow> ahead a b < ptrMapCap"
  by (auto simp: ahead_def)

lemma ahead_self [simp]: "ahead a a = 0"
  by (simp add: ahead_def)

lemma ahead_0 [simp]: "a < ptrMapCap \<Longrightarrow> b < ptrMapCap \<Longrightarrow> ahead a b = 0 \<longleftrightarrow> a = b"
  by (auto simp: ahead_def)

lemma ahead_next:
  "a < ptrMapCap \<Longrightarrow> b < ptrMapCap \<Longrightarrow> ahead a (ptr_next b) = (if ptr_next b = a then 0 else Suc (ahead a b))"
  by (auto simp: ahead_def ptr_next_mod mod_Suc)

lemma ahead_inj: "a < ptrMapCap \<Longrightarrow> b < ptrMapCap \<Longrightarrow> c < ptrMapCap \<Longrightarrow> ahead a b = ahead a c \<longleftrightarrow> b = c"
  by (auto simp: ahead_def split: if_splits)

lemma ahead_between:
  assumes "a < ptrMapCap" "b < ptrMapCap" "c < ptrMapCap" "d < ptrMapCap" "ahead a b < ahead a d" "ahead b c < ahead b d"
  shows "ahead a c < ahead a d"
  using assms by (auto simp: ahead_def split: if_splits)

lemma canMove_ahead:
  "home < ptrMapCap \<Longrightarrow> idx < ptrMapCap \<Longrightarrow> j < ptrMapCap \<Longrightarrow> idx \<noteq> j \<Longrightarrow>
   canMove home idx j \<longleftrightarrow> ahead home idx < ahead home j"
  by (auto simp: canMove_def ahead_def)

text \<open>The slots before a slot on the way from the home of a key.\<close>

definition before :: "u64 \<Rightarrow> nat \<Rightarrow> nat \<Rightarrow> bool" where
  "before key p i \<longleftrightarrow> p < ptrMapCap \<and> ahead (ptr_home key) p < ahead (ptr_home key) i"

text \<open>
  Entries are reachable from their homes (past the hole, if there is one), keys are unique, and free
  slots hold no path.
\<close>

definition chained :: "nat option \<Rightarrow> (nat \<Rightarrow> PtrPathSlot) \<Rightarrow> bool" where
  "chained hole sl \<longleftrightarrow>
    (\<forall>i < ptrMapCap. ps_used (sl i) \<longrightarrow> (\<forall>p. before (ps_key (sl i)) p i \<longrightarrow> ps_used (sl p) \<or> hole = Some p))"

definition unique_keys :: "(nat \<Rightarrow> PtrPathSlot) \<Rightarrow> bool" where
  "unique_keys sl \<longleftrightarrow> (\<forall>i < ptrMapCap. \<forall>j < ptrMapCap.
     ps_used (sl i) \<longrightarrow> ps_used (sl j) \<longrightarrow> ps_key (sl i) = ps_key (sl j) \<longrightarrow> i = j)"

definition free_clean :: "(nat \<Rightarrow> PtrPathSlot) \<Rightarrow> bool" where
  "free_clean sl \<longleftrightarrow> (\<forall>i. \<not> ps_used (sl i) \<longrightarrow> ps_path (sl i) = None) \<and> (\<forall>i \<ge> ptrMapCap. \<not> ps_used (sl i))"

definition slots_ok :: "(nat \<Rightarrow> PtrPathSlot) \<Rightarrow> bool" where
  "slots_ok sl \<longleftrightarrow> chained None sl \<and> unique_keys sl \<and> free_clean sl"

definition content :: "(nat \<Rightarrow> PtrPathSlot) \<Rightarrow> (u64 \<times> nat option) set" where
  "content sl = {(ps_key (sl i), ps_path (sl i)) |i. i < ptrMapCap \<and> ps_used (sl i)}"

section \<open>Probing\<close>

text \<open>Everything between the home and the slot is another key's.\<close>

definition passed :: "(nat \<Rightarrow> PtrPathSlot) \<Rightarrow> u64 \<Rightarrow> nat \<Rightarrow> bool" where
  "passed sl key i \<longleftrightarrow> (\<forall>p. before key p i \<longrightarrow> ps_used (sl p) \<and> ps_key (sl p) \<noteq> key)"

definition all_others :: "(nat \<Rightarrow> PtrPathSlot) \<Rightarrow> u64 \<Rightarrow> bool" where
  "all_others sl key \<longleftrightarrow> (\<forall>p < ptrMapCap. ps_used (sl p) \<and> ps_key (sl p) \<noteq> key)"

lemma passed_next:
  assumes "b < ptrMapCap" "passed sl key b" "ps_used (sl b)" "ps_key (sl b) \<noteq> key"
  shows "if ptr_next b = ptr_home key then all_others sl key else passed sl key (ptr_next b)"
proof -
  have *: "p = b" if "p < ptrMapCap" "\<not> before key p b" "ahead (ptr_home key) p \<le> ahead (ptr_home key) b" for p
    using that assms(1) ahead_inj [of "ptr_home key" p b] by (simp add: before_def)
  have last: "ahead (ptr_home key) b = ptrMapCap - 1" if "ptr_next b = ptr_home key"
    using that assms(1) by (auto simp: ahead_def ptr_next_mod mod_Suc split: if_splits)
  show ?thesis
  proof (cases "ptr_next b = ptr_home key")
    case True
    have "ahead (ptr_home key) p \<le> ahead (ptr_home key) b" if "p < ptrMapCap" for p
      using last [OF True] ahead_less [OF that, of "ptr_home key"] by linarith
    then show ?thesis using True * assms(2-4) unfolding all_others_def passed_def by auto
  next
    case False
    then have "ahead (ptr_home key) (ptr_next b) = Suc (ahead (ptr_home key) b)" by (simp add: ahead_next assms(1))
    then have "before key p b \<or> p = b" if "before key p (ptr_next b)" for p
      using that * [of p] by (auto simp: before_def less_Suc_eq)
    then show ?thesis using False assms(2-4) by (auto simp: passed_def)
  qed
qed

lemma ptr_probe_result:
  assumes "ptr_probe k sl key b = (i, left)" "b < ptrMapCap"
    and "if k = 0 then all_others sl key else ahead (ptr_home key) b + k = ptrMapCap \<and> passed sl key b"
  shows "i < ptrMapCap \<and> (if left = 0 then all_others sl key
    else passed sl key i \<and> (ps_used (sl i) \<longrightarrow> ps_key (sl i) = key))"
  using assms
proof (induction k arbitrary: b)
  case (Suc k)
  show ?case
  proof (cases "ps_used (sl b) \<and> ps_key (sl b) \<noteq> key")
    case True
    have step: "ptr_probe k sl key (ptr_next b) = (i, left)" using Suc.prems(1) True by simp
    have nx: "if ptr_next b = ptr_home key then all_others sl key else passed sl key (ptr_next b)"
      using passed_next Suc.prems(2,3) True by simp
    have "(if k = 0 then all_others sl key else ahead (ptr_home key) (ptr_next b) + k = ptrMapCap \<and> passed sl key (ptr_next b))"
    proof (cases "ptr_next b = ptr_home key")
      case True
      then have "ahead (ptr_home key) b = ptrMapCap - 1"
        using Suc.prems(2) by (auto simp: ahead_def ptr_next_mod mod_Suc split: if_splits)
      moreover have "ahead (ptr_home key) b + Suc k = ptrMapCap" using Suc.prems(3) by simp
      ultimately have "k = 0" using ptrMapCap_pos(1) by linarith
      then show ?thesis using nx True by simp
    next
      case False
      have *: "ahead (ptr_home key) (ptr_next b) = Suc (ahead (ptr_home key) b)" using False by (simp add: ahead_next Suc.prems(2))
      then have "k \<noteq> 0" using Suc.prems(3) ahead_less [OF ptr_next_less [of b], of "ptr_home key"] by auto
      then show ?thesis using nx False * Suc.prems(3) by simp
    qed
    then show ?thesis by (rule Suc.IH [OF step ptr_next_less])
  next
    case False
    then show ?thesis using Suc.prems by auto
  qed
qed simp

lemma passed_home [simp]: "passed sl key (ptr_home key)"
  by (simp add: passed_def before_def)

lemma ptr_probe_home:
  assumes "ptr_probe ptrMapCap sl key (ptr_home key) = (i, left)"
  shows "i < ptrMapCap" "left = 0 \<Longrightarrow> all_others sl key" "0 < left \<Longrightarrow> passed sl key i"
    "0 < left \<Longrightarrow> ps_used (sl i) \<Longrightarrow> ps_key (sl i) = key"
proof -
  have "if ptrMapCap = 0 then all_others sl key
    else ahead (ptr_home key) (ptr_home key) + ptrMapCap = ptrMapCap \<and> passed sl key (ptr_home key)"
    by simp
  note * = ptr_probe_result [OF assms ptr_home_less this]
  show "i < ptrMapCap" "left = 0 \<Longrightarrow> all_others sl key" "0 < left \<Longrightarrow> passed sl key i"
    "0 < left \<Longrightarrow> ps_used (sl i) \<Longrightarrow> ps_key (sl i) = key" using * by simp_all
qed

text \<open>What a probe finds: the entry of the key, or a free slot, or a full table.\<close>

lemma probe_entry:
  assumes "slots_ok sl" "ptr_probe ptrMapCap sl key (ptr_home key) = (i, left)"
    and "e < ptrMapCap" "ps_used (sl e)" "ps_key (sl e) = key"
  shows "i = e" "0 < left"
proof -
  show left: "0 < left" using ptr_probe_home(2) [OF assms(2)] assms(3-5) by (auto simp: all_others_def)
  note i = ptr_probe_home(1) [OF assms(2)] ptr_probe_home(3,4) [OF assms(2) left]
  have "\<not> before key e i" using i(2) assms(4,5) by (auto simp: passed_def)
  moreover have "\<not> before key i e"
  proof
    assume b: "before key i e"
    then have "ps_used (sl i)" using assms(1,3-5) by (auto simp: slots_ok_def chained_def)
    then show False using i(1,3) assms(1,3-5) b by (auto simp: slots_ok_def unique_keys_def before_def)
  qed
  ultimately show "i = e" using i(1) assms(3) ahead_inj [of "ptr_home key" i e] by (auto simp: before_def)
qed

lemma probe_no_entry:
  assumes "ptr_probe ptrMapCap sl key (ptr_home key) = (i, left)"
    and "\<And>e. e < ptrMapCap \<Longrightarrow> ps_used (sl e) \<Longrightarrow> ps_key (sl e) \<noteq> key"
  shows "left = 0 \<longleftrightarrow> (\<forall>p < ptrMapCap. ps_used (sl p))" "0 < left \<Longrightarrow> \<not> ps_used (sl i)"
proof -
  note i = ptr_probe_home [OF assms(1)]
  show *: "0 < left \<Longrightarrow> \<not> ps_used (sl i)" using i assms(2) by blast
  show "left = 0 \<longleftrightarrow> (\<forall>p < ptrMapCap. ps_used (sl p))" using i * by (auto simp: all_others_def)
qed

lemma ptr_find_probe:
  "ptr_find k sl key b = (case ptr_probe k sl key b of
     (i, left) \<Rightarrow> if 0 < left \<and> ps_used (sl i) then Some (ps_path (sl i)) else None)"
  by (induction k arbitrary: b) auto

definition paths_of :: "(nat \<Rightarrow> PtrPathSlot) \<Rightarrow> u64 \<rightharpoonup> nat option" where
  "paths_of sl key = ptr_find ptrMapCap sl key (ptr_home key)"

lemma paths_of_content:
  assumes "slots_ok sl"
  shows "paths_of sl key = Some v \<longleftrightarrow> (key, v) \<in> content sl"
proof -
  obtain i left where pr: "ptr_probe ptrMapCap sl key (ptr_home key) = (i, left)" by (metis prod.collapse)
  have eq: "paths_of sl key = (if 0 < left \<and> ps_used (sl i) then Some (ps_path (sl i)) else None)"
    by (simp add: paths_of_def ptr_find_probe pr)
  show ?thesis
  proof
    assume "paths_of sl key = Some v"
    then have "0 < left" "ps_used (sl i)" "v = ps_path (sl i)" using eq by (simp_all split: if_splits)
    then show "(key, v) \<in> content sl" using ptr_probe_home(1,4) [OF pr] by (force simp: content_def)
  next
    assume "(key, v) \<in> content sl"
    then obtain e where e: "e < ptrMapCap" "ps_used (sl e)" "ps_key (sl e) = key" "v = ps_path (sl e)"
      by (auto simp: content_def)
    then show "paths_of sl key = Some v" using eq probe_entry [OF assms pr e(1-3)] by simp
  qed
qed

section \<open>Backward-shift deletion\<close>

text \<open>A free slot in the making: everything up to \<open>j\<close> has been looked at and does not depend on the hole.\<close>

definition shifting :: "(nat \<Rightarrow> PtrPathSlot) \<Rightarrow> nat \<Rightarrow> nat \<Rightarrow> bool" where
  "shifting sl h j \<longleftrightarrow> h < ptrMapCap \<and> j < ptrMapCap \<and> \<not> ps_used (sl h) \<and> unique_keys sl \<and> free_clean sl \<and>
     chained (Some h) sl \<and>
     (\<forall>i < ptrMapCap. ps_used (sl i) \<longrightarrow> 0 < ahead h i \<longrightarrow> ahead h i \<le> ahead h j \<longrightarrow> \<not> before (ps_key (sl i)) h i)"

lemma shifting_ends:
  assumes "shifting sl h j" "\<not> ps_used (sl (ptr_next j))"
  shows "slots_ok sl"
proof -
  let ?n = "ptr_next j"
  note sh = assms(1) [unfolded shifting_def]
  have "\<not> before (ps_key (sl i)) h i" if i: "i < ptrMapCap" "ps_used (sl i)" for i
  proof
    let ?o = "ptr_home (ps_key (sl i))"
    assume b: "before (ps_key (sl i)) h i"
    have "i \<noteq> h" "i \<noteq> ?n" using i(2) sh assms(2) by auto
    then have "ahead h j < ahead h i" using sh i b by (force simp: ahead_0)
    moreover from this have "?n \<noteq> h"
      using ahead_less [OF i(1), of h] sh by (auto simp: ahead_def ptr_next_mod mod_Suc split: if_splits)
    moreover have "ahead h ?n \<noteq> ahead h i" using \<open>i \<noteq> ?n\<close> sh i(1) ahead_inj by simp
    ultimately have "ahead h ?n < ahead h i" using sh by (simp add: ahead_next)
    then have "ahead ?o ?n < ahead ?o i"
      using b sh by (intro ahead_between [OF ptr_home_less _ ptr_next_less i(1)]) (simp_all only: before_def simp_thms)
    then have "before (ps_key (sl i)) ?n i" by (simp add: before_def)
    then show False using sh i assms(2) \<open>?n \<noteq> h\<close> by (auto simp: chained_def)
  qed
  then show ?thesis using sh by (auto simp: slots_ok_def chained_def)
qed


lemma shifting_passes:
  assumes "shifting sl h j" "ps_used (sl (ptr_next j))" "\<not> before (ps_key (sl (ptr_next j))) h (ptr_next j)"
  shows "shifting sl h (ptr_next j)"
proof -
  let ?n = "ptr_next j"
  note sh = assms(1) [unfolded shifting_def]
  have n: "?n \<noteq> h" using sh assms(2) by auto
  have "\<not> before (ps_key (sl i)) h i" if "i < ptrMapCap" "ps_used (sl i)" "0 < ahead h i" "ahead h i \<le> ahead h ?n" for i
  proof (cases "i = ?n")
    case False
    then have "ahead h i \<noteq> ahead h ?n" using sh that(1) ahead_inj by simp
    then have "ahead h i \<le> ahead h j" using that(4) n sh by (simp add: ahead_next)
    then show ?thesis using sh that(1-3) by blast
  qed (use assms(3) in simp)
  then show ?thesis using sh by (simp add: shifting_def)
qed

definition moved :: "nat \<Rightarrow> nat \<Rightarrow> (nat \<Rightarrow> PtrPathSlot) \<Rightarrow> nat \<Rightarrow> PtrPathSlot" where
  "moved h n sl = sl(h := sl n, n := (sl n)\<lparr>ps_used := False, ps_path := None\<rparr>)"

lemma moved_simps [simp]:
  "n \<noteq> h \<Longrightarrow> moved h n sl h = sl n" "moved h n sl n = (sl n)\<lparr>ps_used := False, ps_path := None\<rparr>"
  "i \<noteq> h \<Longrightarrow> i \<noteq> n \<Longrightarrow> moved h n sl i = sl i"
  by (simp_all add: moved_def)

lemma shifting_moves:
  assumes "shifting sl h j" "ps_used (sl (ptr_next j))" "before (ps_key (sl (ptr_next j))) h (ptr_next j)"
  shows "shifting (moved h (ptr_next j) sl) (ptr_next j) (ptr_next j)"
proof -
  let ?n = "ptr_next j" and ?m = "moved h (ptr_next j) sl"
  note sh = assms(1) [unfolded shifting_def]
  have n: "?n \<noteq> h" using sh assms(2) by auto
  have "unique_keys ?m"
    unfolding unique_keys_def
  proof (intro allI impI)
    fix i k assume *: "i < ptrMapCap" "k < ptrMapCap" "ps_used (?m i)" "ps_used (?m k)" "ps_key (?m i) = ps_key (?m k)"
    have uk: "\<And>i k. i < ptrMapCap \<Longrightarrow> k < ptrMapCap \<Longrightarrow> ps_used (sl i) \<Longrightarrow> ps_used (sl k) \<Longrightarrow> ps_key (sl i) = ps_key (sl k) \<Longrightarrow> i = k"
      using sh by (simp add: unique_keys_def)
    show "i = k" using * uk [of i k] uk [of ?n k] uk [of i ?n] assms(2) n
      by (cases "i = ?n"; cases "i = h"; cases "k = ?n"; cases "k = h") simp_all
  qed
  moreover have "free_clean ?m"
    using sh n by (auto simp: free_clean_def moved_def)
  moreover have "chained (Some ?n) ?m"
    unfolding chained_def
  proof (intro allI impI)
    fix i p assume *: "i < ptrMapCap" "ps_used (?m i)" "before (ps_key (?m i)) p i"
    have ch: "\<And>i p. i < ptrMapCap \<Longrightarrow> ps_used (sl i) \<Longrightarrow> before (ps_key (sl i)) p i \<Longrightarrow> ps_used (sl p) \<or> p = h"
      using sh by (auto simp: chained_def)
    have "ps_used (sl p) \<or> p = h"
    proof (cases "i = h")
      case True
      then have "before (ps_key (sl ?n)) p ?n" using *(3) n assms(3) by (auto simp: before_def)
      then show ?thesis using ch [of ?n p] assms(2) by simp
    next
      case False
      then show ?thesis using ch [of i p] * by (cases "i = ?n") simp_all
    qed
    then show "ps_used (?m p) \<or> Some ?n = Some p" using assms(2) n by (cases "p = h"; cases "p = ?n") auto
  qed
  ultimately show ?thesis by (simp add: shifting_def)
qed

lemma content_moved:
  assumes "h < ptrMapCap" "n < ptrMapCap" "h \<noteq> n" "\<not> ps_used (sl h)" "ps_used (sl n)"
  shows "content (moved h n sl) = content sl"
proof -
  have "(\<exists>i < ptrMapCap. ps_used (moved h n sl i) \<and> ps_key (moved h n sl i) = k \<and> ps_path (moved h n sl i) = v) \<longleftrightarrow>
      (\<exists>i < ptrMapCap. ps_used (sl i) \<and> ps_key (sl i) = k \<and> ps_path (sl i) = v)" (is "?l = ?r") for k v
  proof
    assume ?l
    then obtain i where "i < ptrMapCap" "ps_used (moved h n sl i)" "ps_key (moved h n sl i) = k" "ps_path (moved h n sl i) = v" by blast
    then show ?r using assms by (cases "i = h"; cases "i = n") auto
  next
    assume ?r
    then obtain i where i: "i < ptrMapCap" "ps_used (sl i)" "ps_key (sl i) = k" "ps_path (sl i) = v" by blast
    then have "i \<noteq> h" using assms(4) by auto
    show ?l
    proof (rule exI [of _ "if i = n then h else i"])
      show "(if i = n then h else i) < ptrMapCap \<and> ps_used (moved h n sl (if i = n then h else i)) \<and>
        ps_key (moved h n sl (if i = n then h else i)) = k \<and> ps_path (moved h n sl (if i = n then h else i)) = v"
        using i \<open>i \<noteq> h\<close> assms by (cases "i = n") simp_all
    qed
  qed
  then show ?thesis by (force simp: content_def)
qed

text \<open>What still has to move: the distances of the entries from their homes.\<close>

definition displacement :: "(nat \<Rightarrow> PtrPathSlot) \<Rightarrow> nat" where
  "displacement sl = (\<Sum>i < ptrMapCap. if ps_used (sl i) then ahead (ptr_home (ps_key (sl i))) i else 0)"

lemma sum_two:
  fixes f :: "nat \<Rightarrow> nat"
  assumes "a < N" "b < N" "a \<noteq> b"
  shows "sum f {..<N} = f a + f b + sum f ({..<N} - {a, b})"
  using assms by (subst sum.remove [of _ a]; simp) (subst sum.remove [of _ b]; simp add: Diff_insert2 [symmetric] insert_commute)

lemma displacement_moved:
  assumes "h < ptrMapCap" "n < ptrMapCap" "h \<noteq> n" "\<not> ps_used (sl h)" "ps_used (sl n)" "before (ps_key (sl n)) h n"
  shows "displacement (moved h n sl) < displacement sl"
proof -
  let ?f = "\<lambda>sl i. if ps_used (sl i) then ahead (ptr_home (ps_key (sl i))) i else (0::nat)"
  have "sum (?f (moved h n sl)) ({..<ptrMapCap} - {h, n}) = sum (?f sl) ({..<ptrMapCap} - {h, n})"
    by (rule sum.cong) auto
  then show ?thesis using assms unfolding displacement_def
    by (simp add: sum_two [of h ptrMapCap n] before_def)
qed

lemma backward_shift_step:
  "backward_shift sl h j = (let n = ptr_next j in
     if \<not> ps_used (sl n) then Some sl
     else if canMove (ptr_home (ps_key (sl n))) h n then backward_shift (moved h n sl) n n
     else backward_shift sl h n)"
  by (subst backward_shift.simps) (simp add: moved_def Let_def)

lemma backward_shift_ends:
  assumes "shifting sl h j"
  shows "\<exists>sl'. backward_shift sl h j = Some sl' \<and> slots_ok sl' \<and> content sl' = content sl"
  using assms
proof (induction "displacement sl * (ptrMapCap + 1) + (ptrMapCap - ahead h j)" arbitrary: sl h j rule: less_induct)
  case (less sl h j)
  let ?n = "ptr_next j"
  have h: "h < ptrMapCap" "j < ptrMapCap" "\<not> ps_used (sl h)" using less.prems by (simp_all add: shifting_def)
  show ?case
  proof (cases "ps_used (sl ?n)")
    case False
    then show ?thesis using shifting_ends [OF less.prems] by (simp add: backward_shift_step [of sl])
  next
    case True
    then have n: "?n \<noteq> h" using h by auto
    have cm: "canMove (ptr_home (ps_key (sl ?n))) h ?n \<longleftrightarrow> before (ps_key (sl ?n)) h ?n"
      using n h canMove_ahead [of "ptr_home (ps_key (sl ?n))" h ?n] by (auto simp: before_def)
    show ?thesis
    proof (cases "before (ps_key (sl ?n)) h ?n")
      case b: True
      have "displacement (moved h ?n sl) < displacement sl"
        using displacement_moved [of h ?n sl] h n True b by auto
      then have "Suc (displacement (moved h ?n sl)) * (ptrMapCap + 1) \<le> displacement sl * (ptrMapCap + 1)" by (intro mult_le_mono1) simp
      then have "displacement (moved h ?n sl) * (ptrMapCap + 1) + (ptrMapCap - ahead ?n ?n) <
          displacement sl * (ptrMapCap + 1) + (ptrMapCap - ahead h j)" by simp
      from less.hyps [OF this shifting_moves [OF less.prems True b]] show ?thesis
        using b True cm content_moved [of h ?n sl] h n by (simp add: backward_shift_step [of sl] Let_def)
    next
      case b: False
      have "ptrMapCap - ahead h ?n < ptrMapCap - ahead h j"
        using n h ahead_less [of ?n h] by (simp add: ahead_next)
      from less.hyps [OF add_strict_left_mono [OF this] shifting_passes [OF less.prems True b]] show ?thesis
        using b True cm by (simp add: backward_shift_step [of sl] Let_def)
    qed
  qed
qed

section \<open>The map\<close>

definition map_ok :: "PtrPathMap \<Rightarrow> bool" where
  "map_ok m \<longleftrightarrow> slots_ok (pm_slots m) \<and> pm_count m = int (card (content (pm_slots m)))"

lemma finite_content [simp]: "finite (content sl)"
  by (simp add: content_def)

lemma content_entry: "i < ptrMapCap \<Longrightarrow> ps_used (sl i) \<Longrightarrow> (ps_key (sl i), ps_path (sl i)) \<in> content sl"
  by (auto simp: content_def)

lemma content_key_unique: "slots_ok sl \<Longrightarrow> (k, v) \<in> content sl \<Longrightarrow> (k, w) \<in> content sl \<Longrightarrow> v = w"
  by (simp flip: paths_of_content)

lemma paths_of_eqI:
  assumes "slots_ok sl'" "\<And>k v. (k, v) \<in> content sl' \<longleftrightarrow> f k = Some v"
  shows "paths_of sl' = f"
proof
  fix k show "paths_of sl' k = f k"
    using paths_of_content [OF assms(1), of k] assms(2) [of k] by (cases "f k"; cases "paths_of sl' k") auto
qed

text \<open>The table is full when every slot is used.\<close>

lemma full_card:
  assumes "slots_ok sl"
  shows "(\<forall>p < ptrMapCap. ps_used (sl p)) \<longleftrightarrow> card (content sl) = ptrMapCap"
proof -
  let ?u = "{i. i < ptrMapCap \<and> ps_used (sl i)}"
  have "inj_on (\<lambda>i. (ps_key (sl i), ps_path (sl i))) ?u"
    using assms by (auto simp: inj_on_def slots_ok_def unique_keys_def)
  moreover have "content sl = (\<lambda>i. (ps_key (sl i), ps_path (sl i))) ` ?u" by (auto simp: content_def)
  ultimately have c: "card (content sl) = card ?u" by (simp add: card_image)
  have all: "(\<forall>p < ptrMapCap. ps_used (sl p)) \<longleftrightarrow> ?u = {..<ptrMapCap}" by blast
  have "?u = {..<ptrMapCap} \<longleftrightarrow> card ?u = ptrMapCap"
  proof
    assume "card ?u = ptrMapCap"
    then show "?u = {..<ptrMapCap}" by (intro card_subset_eq) auto
  qed simp
  then show ?thesis unfolding c all .
qed

text \<open>Changing one slot.\<close>

lemma chainedI:
  "(\<And>i p. i < ptrMapCap \<Longrightarrow> ps_used (sl i) \<Longrightarrow> before (ps_key (sl i)) p i \<Longrightarrow> ps_used (sl p) \<or> hole = Some p) \<Longrightarrow> chained hole sl"
  by (simp add: chained_def)

lemma unique_keysI:
  "(\<And>i j. i < ptrMapCap \<Longrightarrow> j < ptrMapCap \<Longrightarrow> ps_used (sl i) \<Longrightarrow> ps_used (sl j) \<Longrightarrow> ps_key (sl i) = ps_key (sl j) \<Longrightarrow> i = j) \<Longrightarrow>
   unique_keys sl"
  by (simp add: unique_keys_def)

lemma slots_okD:
  assumes "slots_ok sl"
  shows "i < ptrMapCap \<Longrightarrow> ps_used (sl i) \<Longrightarrow> before (ps_key (sl i)) p i \<Longrightarrow> ps_used (sl p)"
    "i < ptrMapCap \<Longrightarrow> j < ptrMapCap \<Longrightarrow> ps_used (sl i) \<Longrightarrow> ps_used (sl j) \<Longrightarrow> ps_key (sl i) = ps_key (sl j) \<Longrightarrow> i = j"
    "free_clean sl"
  using assms by (simp_all add: slots_ok_def chained_def unique_keys_def)

lemma content_update:
  assumes "i < ptrMapCap"
  shows "content (sl(i := x)) = {(ps_key (sl e), ps_path (sl e)) |e. e < ptrMapCap \<and> ps_used (sl e) \<and> e \<noteq> i} \<union>
    (if ps_used x then {(ps_key x, ps_path x)} else {})"
  using assms by (auto simp: content_def)

lemma content_others:
  assumes "slots_ok sl" "i < ptrMapCap" "ps_used (sl i)"
  shows "{(ps_key (sl e), ps_path (sl e)) |e. e < ptrMapCap \<and> ps_used (sl e) \<and> e \<noteq> i} = content sl - {(ps_key (sl i), ps_path (sl i))}"
proof -
  have u: "e = i" if "e < ptrMapCap" "ps_used (sl e)" "ps_key (sl e) = ps_key (sl i)" for e
    using slots_okD(2) [OF assms(1) that(1) assms(2) that(2) assms(3) that(3)] .
  show ?thesis (is "?l = ?r")
  proof
    show "?l \<subseteq> ?r"
    proof
      fix x assume "x \<in> ?l"
      then obtain e where e: "x = (ps_key (sl e), ps_path (sl e))" "e < ptrMapCap" "ps_used (sl e)" "e \<noteq> i" by blast
      then have "ps_key (sl e) \<noteq> ps_key (sl i)" using u by blast
      then show "x \<in> ?r" using e(1) content_entry [where sl = sl, OF e(2,3)] by simp
    qed
    show "?r \<subseteq> ?l"
    proof
      fix x assume x: "x \<in> ?r"
      then obtain e where "x = (ps_key (sl e), ps_path (sl e))" "e < ptrMapCap" "ps_used (sl e)" unfolding content_def by blast
      moreover from this x have "e \<noteq> i" by blast
      ultimately show "x \<in> ?l" by blast
    qed
  qed
qed

lemma content_free_slot: "\<not> ps_used (sl i) \<Longrightarrow>
    {(ps_key (sl e), ps_path (sl e)) |e. e < ptrMapCap \<and> ps_used (sl e) \<and> e \<noteq> i} = content sl"
  unfolding content_def by blast

lemma slots_ok_insert:
  assumes "slots_ok sl" "i < ptrMapCap" "\<not> ps_used (sl i)" "passed sl key i"
    and "\<And>e. e < ptrMapCap \<Longrightarrow> ps_used (sl e) \<Longrightarrow> ps_key (sl e) \<noteq> key"
  shows "slots_ok (sl(i := \<lparr>ps_used = True, ps_key = key, ps_path = c\<rparr>))" (is "slots_ok ?s")
    "content (sl(i := \<lparr>ps_used = True, ps_key = key, ps_path = c\<rparr>)) = insert (key, c) (content sl)"
proof -
  note ok = slots_okD [OF assms(1)]
  have "chained None ?s"
  proof (rule chainedI)
    fix e p assume "e < ptrMapCap" "ps_used (?s e)" "before (ps_key (?s e)) p e"
    then have "ps_used (sl p)" using ok(1) [of e p] assms(4) by (cases "e = i") (simp_all add: passed_def)
    then show "ps_used (?s p) \<or> None = Some p" by simp
  qed
  moreover have "unique_keys ?s"
  proof (rule unique_keysI)
    fix e f assume "e < ptrMapCap" "f < ptrMapCap" "ps_used (?s e)" "ps_used (?s f)" "ps_key (?s e) = ps_key (?s f)"
    then show "e = f" using ok(2) [of e f] assms(5) [of e] assms(5) [of f] by (cases "e = i"; cases "f = i") simp_all
  qed
  moreover have "free_clean ?s" using ok(3) assms(2) by (simp add: free_clean_def)
  ultimately show "slots_ok ?s" by (simp add: slots_ok_def)
  show "content ?s = insert (key, c) (content sl)"
    unfolding content_update [OF assms(2)] content_free_slot [where sl = sl and i = i, OF assms(3)] by simp
qed

lemma slots_ok_update:
  assumes "slots_ok sl" "i < ptrMapCap" "ps_used (sl i)"
  shows "slots_ok (sl(i := (sl i)\<lparr>ps_path := c\<rparr>))" (is "slots_ok ?s")
    "content (sl(i := (sl i)\<lparr>ps_path := c\<rparr>)) = insert (ps_key (sl i), c) (content sl - {(ps_key (sl i), ps_path (sl i))})"
proof -
  note ok = slots_okD [OF assms(1)]
  have same: "ps_used (?s e) = ps_used (sl e)" "ps_key (?s e) = ps_key (sl e)" for e by simp_all
  have "chained None ?s" by (rule chainedI) (simp only: same ok(1) simp_thms)
  moreover have "unique_keys ?s" by (rule unique_keysI) (rule ok(2), simp_all only: same)
  moreover have "free_clean ?s" using ok(3) assms(2,3) by (simp add: free_clean_def)
  ultimately show "slots_ok ?s" by (simp add: slots_ok_def)
  show "content ?s = insert (ps_key (sl i), c) (content sl - {(ps_key (sl i), ps_path (sl i))})"
    unfolding content_update [OF assms(2)] content_others [OF assms] using assms(3) by simp
qed

lemma shifting_start:
  assumes "slots_ok sl" "i < ptrMapCap" "ps_used (sl i)"
  shows "shifting (sl(i := (sl i)\<lparr>ps_path := None, ps_used := False\<rparr>)) i i" (is "shifting ?s i i")
    "content (sl(i := (sl i)\<lparr>ps_path := None, ps_used := False\<rparr>)) = content sl - {(ps_key (sl i), ps_path (sl i))}"
proof -
  note ok = slots_okD [OF assms(1)]
  have "chained (Some i) ?s"
  proof (rule chainedI)
    fix e p assume "e < ptrMapCap" "ps_used (?s e)" "before (ps_key (?s e)) p e"
    then have "ps_used (sl p)" using ok(1) [of e p] by (cases "e = i") simp_all
    then show "ps_used (?s p) \<or> Some i = Some p" by simp
  qed
  moreover have "unique_keys ?s"
  proof (rule unique_keysI)
    fix e f assume "e < ptrMapCap" "f < ptrMapCap" "ps_used (?s e)" "ps_used (?s f)" "ps_key (?s e) = ps_key (?s f)"
    then show "e = f" using ok(2) [of e f] by (cases "e = i"; cases "f = i") simp_all
  qed
  moreover have "free_clean ?s" using ok(3) by (simp add: free_clean_def)
  ultimately show "shifting ?s i i" using assms(2) by (simp add: shifting_def)
  show "content ?s = content sl - {(ps_key (sl i), ps_path (sl i))}"
    unfolding content_update [OF assms(2)] content_others [OF assms] by simp
qed

definition map_full :: "PtrPathMap \<Rightarrow> bool" where
  "map_full m \<longleftrightarrow> card (content (pm_slots m)) = ptrMapCap"

text \<open>Setting a path: an entry is overwritten, a new entry goes in unless the table is full.\<close>

lemma set_entry:
  assumes "map_ok m" "paths_of (pm_slots m) key = Some old" "dupCString path h = ((copy, n), h1)"
  shows "case ptrMapSetLocked m key path h of (m', h') \<Rightarrow> map_ok m' \<and>
    paths_of (pm_slots m') = (paths_of (pm_slots m))(key \<mapsto> copy) \<and> h' = c_free old h1"
proof -
  let ?sl = "pm_slots m"
  have ok: "slots_ok ?sl" and count: "pm_count m = int (card (content ?sl))" using assms(1) by (simp_all add: map_ok_def)
  obtain i left where pr: "ptr_probe ptrMapCap ?sl key (ptr_home key) = (i, left)" by (metis prod.collapse)
  obtain e where e: "e < ptrMapCap" "ps_used (?sl e)" "ps_key (?sl e) = key" "ps_path (?sl e) = old"
    using assms(2) paths_of_content [OF ok] by (auto simp: content_def)
  have i: "i = e" by (rule probe_entry(1) [OF ok pr e(1-3)])
  let ?s = "?sl(e := (?sl e)\<lparr>ps_path := copy\<rparr>)"
  note up = slots_ok_update [OF ok e(1,2), of copy, unfolded e(3,4)]
  have set: "ptrMapSetLocked m key path h = (m\<lparr>pm_slots := ?s\<rparr>, c_free old h1)"
    unfolding ptrMapSetLocked_def pr i prod.case assms(3) Let_def using e by simp
  have old: "(key, v) \<in> content ?sl \<longleftrightarrow> v = old" for v
    using assms(2) content_key_unique [OF ok] by (auto simp: paths_of_content [OF ok])
  have "card (content ?s) = card (content ?sl)"
  proof -
    have "card (content ?s) = Suc (card (content ?sl - {(key, old)}))" unfolding up(2) using old by (simp add: card_insert_if)
    also have "\<dots> = card (content ?sl)" using old by (intro card_Suc_Diff1) simp_all
    finally show ?thesis .
  qed
  moreover have "paths_of ?s = (paths_of ?sl)(key \<mapsto> copy)"
  proof (rule paths_of_eqI [OF up(1)])
    fix k v show "(k, v) \<in> content ?s \<longleftrightarrow> ((paths_of ?sl)(key \<mapsto> copy)) k = Some v"
      unfolding up(2) using paths_of_content [OF ok, of k v] old [of v] by auto
  qed
  ultimately show ?thesis unfolding set using up(1) count by (simp add: map_ok_def)
qed

lemma set_new:
  assumes "map_ok m" "paths_of (pm_slots m) key = None" "dupCString path h = ((copy, n), h1)"
  shows "case ptrMapSetLocked m key path h of (m', h') \<Rightarrow> map_ok m' \<and>
    paths_of (pm_slots m') = (if map_full m then paths_of (pm_slots m) else (paths_of (pm_slots m))(key \<mapsto> copy)) \<and>
    h' = (if map_full m then c_free copy h1 else h1)"
proof -
  let ?sl = "pm_slots m"
  have ok: "slots_ok ?sl" and count: "pm_count m = int (card (content ?sl))" using assms(1) by (simp_all add: map_ok_def)
  obtain i left where pr: "ptr_probe ptrMapCap ?sl key (ptr_home key) = (i, left)" by (metis prod.collapse)
  have none: "ps_key (?sl e) \<noteq> key" if "e < ptrMapCap" "ps_used (?sl e)" for e
    using content_entry [where sl = ?sl, OF that] assms(2) by (auto simp flip: paths_of_content [OF ok])
  note i = ptr_probe_home [OF pr] probe_no_entry [OF pr none]
  have full: "map_full m \<longleftrightarrow> left = 0" using i(5) full_card [OF ok] by (simp add: map_full_def)
  show ?thesis
  proof (cases "left = 0")
    case True
    then have "ps_key (?sl i) \<noteq> key" using i(1,2) by (simp add: all_others_def)
    then have "ptrMapSetLocked m key path h = (m, c_free copy h1)"
      unfolding ptrMapSetLocked_def pr prod.case assms(3) Let_def using True by simp
    then show ?thesis using True full assms(1) by simp
  next
    case False
    have f: "\<not> ps_used (?sl i)" "passed ?sl key i" using False i(3,6) by simp_all
    let ?s = "?sl(i := \<lparr>ps_used = True, ps_key = key, ps_path = copy\<rparr>)"
    note ins = slots_ok_insert [OF ok i(1) f none, where c = copy, simplified]
    have "ptrMapSetLocked m key path h = (m\<lparr>pm_slots := ?s, pm_count := pm_count m + 1\<rparr>, h1)"
      unfolding ptrMapSetLocked_def pr prod.case assms(3) Let_def using False f by simp
    moreover have "(key, v) \<notin> content ?sl" for v using assms(2) by (simp flip: paths_of_content [OF ok])
    moreover have "paths_of ?s = (paths_of ?sl)(key \<mapsto> copy)"
    proof (rule paths_of_eqI)
      show "slots_ok ?s" using ins(1) .
      fix k v show "(k, v) \<in> content ?s \<longleftrightarrow> ((paths_of ?sl)(key \<mapsto> copy)) k = Some v"
        unfolding ins(2) using paths_of_content [OF ok, of k v] calculation(2) by auto
    qed
    ultimately show ?thesis using ins False full count by (simp add: map_ok_def)
  qed
qed

text \<open>Deleting returns, removes the entry and nothing else, and frees its path.\<close>

lemma del_entry:
  assumes "map_ok m"
  shows "\<exists>m'. ptrMapDelLocked m key h = Some (m', case paths_of (pm_slots m) key of None \<Rightarrow> h | Some old \<Rightarrow> c_free old h) \<and>
    map_ok m' \<and> paths_of (pm_slots m') = (paths_of (pm_slots m))(key := None)"
proof -
  let ?sl = "pm_slots m"
  have ok: "slots_ok ?sl" and count: "pm_count m = int (card (content ?sl))" using assms(1) by (simp_all add: map_ok_def)
  obtain i left where pr: "ptr_probe ptrMapCap ?sl key (ptr_home key) = (i, left)" by (metis prod.collapse)
  show ?thesis
  proof (cases "paths_of ?sl key")
    case None
    have none: "ps_key (?sl e) \<noteq> key" if "e < ptrMapCap" "ps_used (?sl e)" for e
      using content_entry [where sl = ?sl, OF that] None by (auto simp flip: paths_of_content [OF ok])
    have "\<not> (ps_used (?sl i) \<and> ps_key (?sl i) = key)" using none ptr_probe_home(1) [OF pr] by blast
    then have "ptrMapDelLocked m key h = Some (m, h)" unfolding ptrMapDelLocked_def pr prod.case Let_def by simp
    then show ?thesis using None assms by (auto simp: fun_upd_idem)
  next
    case (Some old)
    obtain e where e: "e < ptrMapCap" "ps_used (?sl e)" "ps_key (?sl e) = key" "ps_path (?sl e) = old"
      using Some paths_of_content [OF ok] by (auto simp: content_def)
    have i: "i = e" by (rule probe_entry(1) [OF ok pr e(1-3)])
    note st = shifting_start [OF ok e(1,2), unfolded e(3,4)]
    obtain sl' where sl': "backward_shift (?sl(e := (?sl e)\<lparr>ps_path := None, ps_used := False\<rparr>)) e e = Some sl'"
      "slots_ok sl'" "content sl' = content ?sl - {(key, old)}"
      using backward_shift_ends [OF st(1)] st(2) by auto
    have del: "ptrMapDelLocked m key h = Some (m\<lparr>pm_slots := sl', pm_count := pm_count m - 1\<rparr>, c_free old h)"
      unfolding ptrMapDelLocked_def pr i prod.case Let_def using e sl'(1) by simp
    have old: "(key, v) \<in> content ?sl \<longleftrightarrow> v = old" for v
      using Some by (auto simp flip: paths_of_content [OF ok])
    have "paths_of sl' = (paths_of ?sl)(key := None)"
    proof (rule paths_of_eqI [OF sl'(2)])
      fix k v show "(k, v) \<in> content sl' \<longleftrightarrow> ((paths_of ?sl)(key := None)) k = Some v"
        unfolding sl'(3) using paths_of_content [OF ok, of k v] old [of v] by auto
    qed
    moreover have "int (card (content sl')) = int (card (content ?sl)) - 1"
    proof -
      have "0 < card (content ?sl)" using old [of old] by (auto simp: card_gt_0_iff)
      then show ?thesis unfolding sl'(3) using old [of old] by (simp add: card_Diff_singleton)
    qed
    ultimately show ?thesis using Some del sl'(2) count by (simp add: map_ok_def)
  qed
qed

end
