(* ===== verification/Pod_Facts.thy ===== *)
theory Pod_Facts
  imports Pod_Map_Facts
begin

text \<open>
  The tables of the Linux shim own their allocations, and what a lookup returns.  The locale
  \<open>path_table\<close> is the contract of a table of paths; it is interpreted for the three tables.
\<close>

unbundle bit_operations_syntax

section \<open>Ownership\<close>

text \<open>
  Who holds an address: a descriptor, a key of one of the maps, a slot of the observed set.  The tables
  own the live allocations: every one has one owner, and nothing else was ever freed.
\<close>

datatype owner = FdOwner nat | DirOwner u64 | StreamOwner u64 | KeyOwner nat

definition pointers :: "pod \<Rightarrow> owner \<Rightarrow> nat option" where
  "pointers s w = (case w of
     FdOwner i \<Rightarrow> pd_fdPathPtr s i
   | DirOwner k \<Rightarrow> Option.bind (paths_of (pm_slots (pd_dirMap s)) k) id
   | StreamOwner k \<Rightarrow> Option.bind (paths_of (pm_slots (pd_streamMap s)) k) id
   | KeyOwner i \<Rightarrow> ob_keys (pd_observed s) i)"

definition owns :: "('w \<Rightarrow> nat option) \<Rightarrow> libc_heap \<Rightarrow> bool" where
  "owns P h \<longleftrightarrow> \<not> lh_wild h \<and> (\<forall>v w a. P v = Some a \<longrightarrow> P w = Some a \<longrightarrow> v = w) \<and>
     (\<forall>a. lh_live h a \<noteq> None \<longleftrightarrow> (\<exists>w. P w = Some a)) \<and> (\<forall>a. lh_live h a \<noteq> None \<longrightarrow> a < lh_next h)"

definition texts :: "('w \<Rightarrow> nat option) \<Rightarrow> libc_heap \<Rightarrow> 'w \<rightharpoonup> string" where
  "texts P h w = Option.bind (P w) (lh_live h)"

lemma ownsD:
  assumes "owns P h"
  shows "\<not> lh_wild h" "P v = Some a \<Longrightarrow> P w = Some a \<Longrightarrow> v = w" "P w = Some a \<Longrightarrow> \<exists>t. lh_live h a = Some t"
    "lh_live h a = Some t \<Longrightarrow> \<exists>w. P w = Some a" "P w = Some a \<Longrightarrow> a < lh_next h"
  using assms unfolding owns_def by blast+

lemma ownsI:
  assumes "\<not> lh_wild h" "\<And>v w a. P v = Some a \<Longrightarrow> P w = Some a \<Longrightarrow> v = w" "\<And>w a. P w = Some a \<Longrightarrow> \<exists>t. lh_live h a = Some t"
    and "\<And>a t. lh_live h a = Some t \<Longrightarrow> \<exists>w. P w = Some a" "\<And>w a. P w = Some a \<Longrightarrow> a < lh_next h"
  shows "owns P h"
  using assms unfolding owns_def by (metis not_Some_eq)

lemma texts_None: "owns P h \<Longrightarrow> texts P h w = None \<longleftrightarrow> P w = None"
  by (cases "P w") (auto simp: texts_def dest: ownsD(3))

lemma c_text_idem [simp]: "c_text (c_text p) = c_text p"
  by (simp add: c_text_def)

lemma owns_clear:
  assumes "owns P h"
  shows "owns (P(w := None)) (c_free (P w) h)" "texts (P(w := None)) (c_free (P w) h) = (texts P h)(w := None)"
proof -
  note ow = ownsD [OF assms]
  show "owns (P(w := None)) (c_free (P w) h)"
  proof (cases "P w")
    case None
    then show ?thesis using assms by (simp add: c_free_def fun_upd_idem)
  next
    case (Some a)
    then have free: "c_free (P w) h = h\<lparr>lh_live := (lh_live h)(a := None)\<rparr>" using ow(3) [of w a] by (auto simp: c_free_def)
    show ?thesis unfolding free
    proof (rule ownsI)
      fix v b assume "(P(w := None)) v = Some b"
      then have v: "v \<noteq> w" "P v = Some b" by (auto split: if_splits)
      then have "b \<noteq> a" using ow(2) [of v b w] Some by auto
      then show "\<exists>t. lh_live (h\<lparr>lh_live := (lh_live h)(a := None)\<rparr>) b = Some t" using ow(3) [OF v(2)] by simp
      show "b < lh_next (h\<lparr>lh_live := (lh_live h)(a := None)\<rparr>)" using ow(5) [OF v(2)] by simp
    next
      fix b t assume "lh_live (h\<lparr>lh_live := (lh_live h)(a := None)\<rparr>) b = Some t"
      then have b: "b \<noteq> a" "lh_live h b = Some t" by (auto split: if_splits)
      obtain v where "P v = Some b" using ow(4) [OF b(2)] by blast
      then have "(P(w := None)) v = Some b" using Some b(1) by auto
      then show "\<exists>v. (P(w := None)) v = Some b" by blast
    next
      fix v v' b assume "(P(w := None)) v = Some b" "(P(w := None)) v' = Some b"
      then show "v = v'" using ow(2) [of v b v'] by (auto split: if_splits)
    qed (use ow(1) in simp)
  qed
  show "texts (P(w := None)) (c_free (P w) h) = (texts P h)(w := None)"
  proof
    fix v show "texts (P(w := None)) (c_free (P w) h) v = ((texts P h)(w := None)) v"
      using ow(2) [of v _ w] by (cases "P w"; cases "P v") (auto simp: texts_def c_free_def split: if_splits)
  qed
qed

text \<open>A copy is a new allocation, or none.\<close>

lemma dup_cases:
  assumes "dupCString path h = ((copy, n), h1)"
  obtains (none) "copy = None" "n = length (c_text path)" "lh_live h1 = lh_live h" "lh_next h1 = lh_next h" "lh_wild h1 = lh_wild h"
  | (some) "copy = Some (lh_next h)" "n = length (c_text path)" "lh_live h1 = (lh_live h)(lh_next h \<mapsto> c_text path)"
      "lh_next h1 = Suc (lh_next h)" "lh_wild h1 = lh_wild h"
  using assms by (auto simp: dupCString_def Let_def split: if_splits)

lemma owns_cong: "lh_live h = lh_live h' \<Longrightarrow> lh_next h = lh_next h' \<Longrightarrow> lh_wild h = lh_wild h' \<Longrightarrow> owns P h = owns P h' \<and> texts P h = texts P h'"
  by (simp add: owns_def texts_def [abs_def])

lemma owns_new:
  assumes "owns P h" "dupCString path h = ((copy, n), h1)" "P w = None"
  shows "owns (P(w := copy)) h1" "texts (P(w := copy)) h1 = (texts P h)(w := if copy = None then None else Some (c_text path))"
proof -
  note ow = ownsD [OF assms(1)]
  have fresh: "P v \<noteq> Some (lh_next h)" for v using ow(5) [of v "lh_next h"] by auto
  show "owns (P(w := copy)) h1"
    using assms(2)
  proof (cases rule: dup_cases)
    case none
    then show ?thesis using assms(1,3) owns_cong [of h1 h P] by (simp add: fun_upd_idem)
  next
    case some
    show ?thesis
    proof (rule ownsI)
      fix v b assume v: "(P(w := copy)) v = Some b"
      then show "\<exists>t. lh_live h1 b = Some t" using ow(3) [of v b] some by (auto split: if_splits)
      show "b < lh_next h1" using v ow(5) [of v b] some by (auto split: if_splits)
    next
      fix b t assume live: "lh_live h1 b = Some t"
      show "\<exists>v. (P(w := copy)) v = Some b"
      proof (cases "b = lh_next h")
        case False
        then obtain v where "P v = Some b" using ow(4) [of b t] live some by auto
        then have "(P(w := copy)) v = Some b" using assms(3) by auto
        then show ?thesis by blast
      qed (use some in auto)
    next
      fix v v' b assume "(P(w := copy)) v = Some b" "(P(w := copy)) v' = Some b"
      then show "v = v'" using ow(2) [of v b v'] fresh [of v] fresh [of v'] some by (auto split: if_splits)
    qed (use ow(1) some in simp)
  qed
  show "texts (P(w := copy)) h1 = (texts P h)(w := if copy = None then None else Some (c_text path))"
    using assms(2)
  proof (cases rule: dup_cases)
    case none
    then show ?thesis by (intro ext) (simp add: texts_def)
  next
    case some
    show ?thesis
    proof
      fix v show "texts (P(w := copy)) h1 v = ((texts P h)(w := if copy = None then None else Some (c_text path))) v"
        using some fresh [of v] by (cases "P v") (auto simp: texts_def)
    qed
  qed
qed

text \<open>The copy is made before the old text goes.\<close>

lemma free_commutes:
  assumes "owns P h" "dupCString path h = ((copy, n), h1)" "P w = Some a"
  obtains h2 where "dupCString path (c_free (P w) h) = ((copy, n), h2)" "c_free (P w) h1 = h2"
proof -
  obtain t where t: "lh_live h a = Some t" using ownsD(3) [OF assms(1,3)] by blast
  have ne: "a \<noteq> lh_next h" using ownsD(5) [OF assms(1,3)] by simp
  have "dupCString path (c_free (P w) h) = ((copy, n), c_free (P w) h1)"
    using assms(2) t ne unfolding assms(3)
    by (auto simp: dupCString_def c_free_def Let_def fun_upd_twist split: if_splits)
  then show ?thesis using that by blast
qed

lemma owns_store:
  assumes "owns P h" "dupCString path h = ((copy, n), h1)"
  shows "owns (P(w := copy)) (c_free (P w) h1)"
    "texts (P(w := copy)) (c_free (P w) h1) = (texts P h)(w := if copy = None then None else Some (c_text path))"
proof -
  have "owns (P(w := copy)) (c_free (P w) h1) \<and>
    texts (P(w := copy)) (c_free (P w) h1) = (texts P h)(w := if copy = None then None else Some (c_text path))"
  proof (cases "P w")
    case None
    then show ?thesis using owns_new [OF assms] by (simp add: c_free_def)
  next
    case (Some a)
    obtain h2 where h2: "dupCString path (c_free (P w) h) = ((copy, n), h2)" "c_free (P w) h1 = h2"
      using free_commutes [where P = P and w = w, OF assms Some] .
    note cl = owns_clear [OF assms(1), of w]
    show ?thesis using owns_new [OF cl(1) h2(1), of w] unfolding h2(2) cl(2) by simp
  qed
  then show "owns (P(w := copy)) (c_free (P w) h1)"
    "texts (P(w := copy)) (c_free (P w) h1) = (texts P h)(w := if copy = None then None else Some (c_text path))" by blast+
qed

lemma owns_drop:
  assumes "owns P h" "dupCString path h = ((copy, n), h1)"
  shows "owns P (c_free copy h1)" "texts P (c_free copy h1) = texts P h"
proof -
  have fresh: "lh_live h (lh_next h) = None" using assms(1) unfolding owns_def by (metis less_irrefl not_Some_eq)
  have "owns P (c_free copy h1) = owns P h \<and> texts P (c_free copy h1) = texts P h"
    using assms(2)
  proof (cases rule: dup_cases)
    case none
    then show ?thesis by (intro owns_cong) (simp_all add: c_free_def)
  next
    case some
    then have "lh_live (c_free copy h1) = lh_live h" "lh_wild (c_free copy h1) = lh_wild h"
      "lh_next (c_free copy h1) = Suc (lh_next h)"
      using fresh by (auto simp: c_free_def fun_upd_idem)
    then show ?thesis using assms(1) by (simp add: owns_def texts_def [abs_def] less_Suc_eq)
  qed
  then show "owns P (c_free copy h1)" "texts P (c_free copy h1) = texts P h" using assms(1) by simp_all
qed

text \<open>One map among the owners.\<close>

definition map_view :: "(u64 \<Rightarrow> 'w) \<Rightarrow> PtrPathMap \<Rightarrow> ('w \<Rightarrow> nat option) \<Rightarrow> bool" where
  "map_view C m P \<longleftrightarrow> inj C \<and> (\<forall>k. P (C k) = Option.bind (paths_of (pm_slots m) k) id)"

definition copy_fails :: "libc_heap \<Rightarrow> bool" where
  "copy_fails h \<longleftrightarrow> lh_oom h \<noteq> [] \<and> hd (lh_oom h)"

lemma dup_copy: "dupCString path h = ((copy, n), h1) \<Longrightarrow> copy = None \<longleftrightarrow> copy_fails h"
  by (auto simp: dupCString_def copy_fails_def Let_def split: if_splits)

definition no_room :: "PtrPathMap \<Rightarrow> u64 \<Rightarrow> bool" where
  "no_room m key \<longleftrightarrow> paths_of (pm_slots m) key = None \<and> map_full m"

lemma map_set_owned:
  assumes "map_ok m" "owns P h" "map_view C m P" "ptrMapSetLocked m key path h = (m', h')"
  shows "map_ok m' \<and> (\<exists>P'. map_view C m' P' \<and> (\<forall>w. (\<forall>k. w \<noteq> C k) \<longrightarrow> P' w = P w) \<and> owns P' h' \<and>
    texts P' h' = (texts P h)(C key := if copy_fails h \<or> no_room m key then None else Some (c_text path)))"
proof -
  obtain copy n h1 where dup: "dupCString path h = ((copy, n), h1)" by (metis prod.collapse)
  have inj: "inj C" and P: "P (C k) = Option.bind (paths_of (pm_slots m) k) id" for k using assms(3) by (simp_all add: map_view_def)
  have range: "(\<forall>k. w \<noteq> C k) \<longrightarrow> (P(C key := v)) w = P w" for w v by auto
  have upd: "map_view C m' (P(C key := copy))" if "paths_of (pm_slots m') = (paths_of (pm_slots m))(key \<mapsto> copy)"
    using that inj P by (auto simp: map_view_def inj_eq)
  note cf = dup_copy [OF dup]
  show ?thesis
  proof (cases "paths_of (pm_slots m) key")
    case (Some old)
    have r: "map_ok m'" "paths_of (pm_slots m') = (paths_of (pm_slots m))(key \<mapsto> copy)" "h' = c_free old h1"
      using set_entry [OF assms(1) Some dup] assms(4) by simp_all
    moreover have "old = P (C key)" using P Some by simp
    ultimately show ?thesis
      using owns_store [OF assms(2) dup, of "C key"] upd [OF r(2)] range Some cf
      by (intro conjI exI [of _ "P(C key := copy)"]) (simp_all add: no_room_def)
  next
    case None
    have r: "map_ok m'" "paths_of (pm_slots m') = (if map_full m then paths_of (pm_slots m) else (paths_of (pm_slots m))(key \<mapsto> copy))"
      "h' = (if map_full m then c_free copy h1 else h1)"
      using set_new [OF assms(1) None dup] assms(4) by simp_all
    have Pn: "P (C key) = None" using P None by simp
    show ?thesis
    proof (cases "map_full m")
      case True
      have "(texts P h)(C key := None) = texts P h" using Pn by (simp add: fun_upd_idem texts_def)
      then show ?thesis
        using owns_drop [OF assms(2) dup] r True None assms(3)
        by (intro conjI exI [of _ P]) (simp_all add: no_room_def map_view_def)
    next
      case False
      then show ?thesis
        using owns_new [OF assms(2) dup Pn] upd range r cf
        by (intro conjI exI [of _ "P(C key := copy)"]) (simp_all add: no_room_def)
    qed
  qed
qed

lemma map_del_owned:
  assumes "map_ok m" "owns P h" "map_view C m P"
  shows "\<exists>m' h'. ptrMapDelLocked m key h = Some (m', h') \<and> map_ok m' \<and> map_view C m' (P(C key := None)) \<and>
    owns (P(C key := None)) h' \<and> texts (P(C key := None)) h' = (texts P h)(C key := None)"
proof -
  have inj: "inj C" and P: "P (C k) = Option.bind (paths_of (pm_slots m) k) id" for k using assms(3) by (simp_all add: map_view_def)
  obtain m' where m': "ptrMapDelLocked m key h = Some (m', case paths_of (pm_slots m) key of None \<Rightarrow> h | Some old \<Rightarrow> c_free old h)"
    "map_ok m'" "paths_of (pm_slots m') = (paths_of (pm_slots m))(key := None)" using del_entry [OF assms(1)] by blast
  have "(case paths_of (pm_slots m) key of None \<Rightarrow> h | Some old \<Rightarrow> c_free old h) = c_free (P (C key)) h"
    using P [of key] by (cases "paths_of (pm_slots m) key") (simp_all add: c_free_def)
  moreover have "map_view C m' (P(C key := None))" using m'(3) inj P by (auto simp: map_view_def inj_eq)
  ultimately show ?thesis using m' owns_clear [OF assms(2), of "C key"] by simp
qed

lemma map_get_owned:
  assumes "owns P h" "map_view C m P"
  shows "ptrMapGetLocked m key h = Some (case texts P h (C key) of None \<Rightarrow> [] | Some t \<Rightarrow> t)"
proof -
  have P: "P (C key) = Option.bind (paths_of (pm_slots m) key) id" using assms(2) by (simp add: map_view_def)
  show ?thesis
  proof (cases "P (C key)")
    case None
    then show ?thesis using P by (auto simp: ptrMapGetLocked_def texts_def simp flip: paths_of_def split: option.splits)
  next
    case (Some a)
    obtain t where t: "lh_live h a = Some t" using ownsD(3) [OF assms(1) Some] by blast
    have "paths_of (pm_slots m) key = Some (Some a)" using P Some by (cases "paths_of (pm_slots m) key") auto
    then show ?thesis using Some t by (simp add: ptrMapGetLocked_def texts_def cStringToNim_def flip: paths_of_def)
  qed
qed

section \<open>All tables\<close>

abbreviation pod_texts :: "pod \<Rightarrow> owner \<rightharpoonup> string" where
  "pod_texts s \<equiv> texts (pointers s) (pd_heap s)"

definition pod_ok :: "pod \<Rightarrow> bool" where
  "pod_ok s \<longleftrightarrow> owns (pointers s) (pd_heap s) \<and> map_ok (pd_dirMap s) \<and> map_ok (pd_streamMap s) \<and>
     (\<forall>i t. pod_texts s (FdOwner i) = Some t \<longrightarrow> pd_fdPathLen s i = word_of_nat (length t))"

lemma map_views [simp]:
  "map_view DirOwner (pd_dirMap s) (pointers s)" "map_view StreamOwner (pd_streamMap s) (pointers s)"
  by (simp_all add: map_view_def pointers_def inj_def)

lemma fd_set_ok:
  assumes "pod_ok s"
  shows "pod_ok (podFdPathSet fd path s)"
    "pod_texts (podFdPathSet fd path s) = (case path of None \<Rightarrow> pod_texts s | Some p \<Rightarrow>
       if fd_tracked fd then (pod_texts s)(FdOwner (nat fd) := if copy_fails (pd_heap s) then None else Some (c_text p)) else pod_texts s)"
proof -
  have "pod_ok (podFdPathSet fd path s) \<and> pod_texts (podFdPathSet fd path s) = (case path of None \<Rightarrow> pod_texts s | Some p \<Rightarrow>
       if fd_tracked fd then (pod_texts s)(FdOwner (nat fd) := if copy_fails (pd_heap s) then None else Some (c_text p)) else pod_texts s)"
  proof (cases "path = None \<or> \<not> fd_tracked fd")
    case True
    then show ?thesis using assms by (cases path) (simp_all add: podFdPathSet_def)
  next
    case False
    then obtain p where p: "path = Some p" "fd_tracked fd" by auto
    obtain copy n h1 where dup: "dupCString p (pd_heap s) = ((copy, n), h1)" by (metis prod.collapse)
    have n: "n = length (c_text p)" using dup by (cases rule: dup_cases) simp_all
    let ?t = "podFdPathSet fd (Some p) s"
    have t: "?t = s\<lparr>pd_fdPathPtr := (pd_fdPathPtr s)(nat fd := copy),
             pd_fdPathLen := (pd_fdPathLen s)(nat fd := if copy = None then 0 else word_of_nat n),
             pd_heap := c_free (pd_fdPathPtr s (nat fd)) h1\<rparr>"
      unfolding podFdPathSet_def option.case dup prod.case Let_def using p(2) by simp
    have P: "pointers ?t = (pointers s)(FdOwner (nat fd) := copy)"
      by (rule ext) (simp add: t pointers_def split: owner.split)
    have old: "pd_fdPathPtr s (nat fd) = pointers s (FdOwner (nat fd))" by (simp add: pointers_def)
    have h: "pd_heap ?t = c_free (pointers s (FdOwner (nat fd))) h1" using t old by simp
    have ow: "owns (pointers s) (pd_heap s)" using assms by (simp add: pod_ok_def)
    note st = owns_store [OF ow dup, of "FdOwner (nat fd)", folded P h]
    have rest: "pd_dirMap ?t = pd_dirMap s" "pd_streamMap ?t = pd_streamMap s"
      "pd_fdPathLen ?t = (pd_fdPathLen s)(nat fd := if copy = None then 0 else word_of_nat n)" by (simp_all add: t)
    show ?thesis unfolding p option.case pod_ok_def st(2) rest
      using st(1) assms p(2) dup_copy [OF dup] n by (auto simp: pod_ok_def split: if_splits)
  qed
  then show "pod_ok (podFdPathSet fd path s)"
    "pod_texts (podFdPathSet fd path s) = (case path of None \<Rightarrow> pod_texts s | Some p \<Rightarrow>
       if fd_tracked fd then (pod_texts s)(FdOwner (nat fd) := if copy_fails (pd_heap s) then None else Some (c_text p)) else pod_texts s)"
    by blast+
qed

lemma fd_del_ok:
  assumes "pod_ok s"
  shows "pod_ok (podFdPathDel fd s) \<and>
    pod_texts (podFdPathDel fd s) = (if fd_tracked fd then (pod_texts s)(FdOwner (nat fd) := None) else pod_texts s)"
proof (cases "fd_tracked fd")
  case True
  let ?t = "podFdPathDel fd s"
  have t: "?t = s\<lparr>pd_fdPathPtr := (pd_fdPathPtr s)(nat fd := None), pd_fdPathLen := (pd_fdPathLen s)(nat fd := 0),
         pd_heap := c_free (pd_fdPathPtr s (nat fd)) (pd_heap s)\<rparr>" using True by (simp add: podFdPathDel_def Let_def)
  have P: "pointers ?t = (pointers s)(FdOwner (nat fd) := None)"
    by (rule ext) (simp add: t pointers_def split: owner.split)
  have h: "pd_heap ?t = c_free (pointers s (FdOwner (nat fd))) (pd_heap s)" using t by (simp add: pointers_def)
  have ow: "owns (pointers s) (pd_heap s)" using assms by (simp add: pod_ok_def)
  note st = owns_clear [OF ow, of "FdOwner (nat fd)", folded P h]
  show ?thesis using st assms True by (auto simp: pod_ok_def t split: if_splits)
qed (use assms in \<open>simp add: podFdPathDel_def\<close>)

lemma pointers_dir:
  assumes "map_view DirOwner m P" "\<And>w. \<forall>k. w \<noteq> DirOwner k \<Longrightarrow> P w = pointers s w"
  shows "pointers (s\<lparr>pd_dirMap := m, pd_heap := h\<rparr>) = P"
proof
  fix w show "pointers (s\<lparr>pd_dirMap := m, pd_heap := h\<rparr>) w = P w"
    using assms(1) assms(2) [of w] by (cases w) (auto simp: map_view_def pointers_def)
qed

lemma pointers_stream:
  assumes "map_view StreamOwner m P" "\<And>w. \<forall>k. w \<noteq> StreamOwner k \<Longrightarrow> P w = pointers s w"
  shows "pointers (s\<lparr>pd_streamMap := m, pd_heap := h\<rparr>) = P"
proof
  fix w show "pointers (s\<lparr>pd_streamMap := m, pd_heap := h\<rparr>) w = P w"
    using assms(1) assms(2) [of w] by (cases w) (auto simp: map_view_def pointers_def)
qed

definition set_effect :: "PtrPathMap \<Rightarrow> u64 \<Rightarrow> string \<Rightarrow> libc_heap \<Rightarrow> string option" where
  "set_effect m k p h = (if copy_fails h \<or> no_room m k then None else Some (c_text p))"

lemma dir_set_ok:
  assumes "pod_ok s"
  shows "pod_ok (podDirPathSet k path s) \<and> pod_texts (podDirPathSet k path s) = (case path of None \<Rightarrow> pod_texts s | Some p \<Rightarrow>
    (pod_texts s)(DirOwner k := set_effect (pd_dirMap s) k p (pd_heap s)))"
proof (cases path)
  case (Some p)
  obtain m' h' where set: "ptrMapSetLocked (pd_dirMap s) k p (pd_heap s) = (m', h')" by (metis prod.collapse)
  have ow: "map_ok (pd_dirMap s)" "owns (pointers s) (pd_heap s)" using assms by (simp_all add: pod_ok_def)
  obtain P' where P': "map_ok m'" "map_view DirOwner m' P'" "\<And>w. \<forall>k. w \<noteq> DirOwner k \<Longrightarrow> P' w = pointers s w" "owns P' h'"
    "texts P' h' = (pod_texts s)(DirOwner k := set_effect (pd_dirMap s) k p (pd_heap s))"
    using map_set_owned [OF ow map_views(1) set] unfolding set_effect_def by blast
  note P = pointers_dir [where h = h', OF P'(2,3)]
  have t: "podDirPathSet k (Some p) s = s\<lparr>pd_dirMap := m', pd_heap := h'\<rparr>" by (simp add: podDirPathSet_def set)
  show ?thesis using assms P' unfolding Some t pod_ok_def by (auto simp: P)
qed (use assms in \<open>simp add: podDirPathSet_def\<close>)

lemma stream_set_ok:
  assumes "pod_ok s"
  shows "pod_ok (podStreamPathSet k path s) \<and> pod_texts (podStreamPathSet k path s) = (case path of None \<Rightarrow> pod_texts s | Some p \<Rightarrow>
    (pod_texts s)(StreamOwner k := set_effect (pd_streamMap s) k p (pd_heap s)))"
proof (cases path)
  case (Some p)
  obtain m' h' where set: "ptrMapSetLocked (pd_streamMap s) k p (pd_heap s) = (m', h')" by (metis prod.collapse)
  have ow: "map_ok (pd_streamMap s)" "owns (pointers s) (pd_heap s)" using assms by (simp_all add: pod_ok_def)
  obtain P' where P': "map_ok m'" "map_view StreamOwner m' P'" "\<And>w. \<forall>k. w \<noteq> StreamOwner k \<Longrightarrow> P' w = pointers s w" "owns P' h'"
    "texts P' h' = (pod_texts s)(StreamOwner k := set_effect (pd_streamMap s) k p (pd_heap s))"
    using map_set_owned [OF ow map_views(2) set] unfolding set_effect_def by blast
  note P = pointers_stream [where h = h', OF P'(2,3)]
  have t: "podStreamPathSet k (Some p) s = s\<lparr>pd_streamMap := m', pd_heap := h'\<rparr>" by (simp add: podStreamPathSet_def set)
  show ?thesis using assms P' unfolding Some t pod_ok_def by (auto simp: P)
qed (use assms in \<open>simp add: podStreamPathSet_def\<close>)

lemma dir_del_ok:
  assumes "pod_ok s"
  shows "\<exists>t. podDirPathDel k s = Some t \<and> pod_ok t \<and> pod_texts t = (pod_texts s)(DirOwner k := None)"
proof -
  have ow: "map_ok (pd_dirMap s)" "owns (pointers s) (pd_heap s)" using assms by (simp_all add: pod_ok_def)
  let ?P = "(pointers s)(DirOwner k := None)"
  obtain m' h' where r: "ptrMapDelLocked (pd_dirMap s) k (pd_heap s) = Some (m', h')" "map_ok m'" "map_view DirOwner m' ?P"
    "owns ?P h'" "texts ?P h' = (pod_texts s)(DirOwner k := None)"
    using map_del_owned [OF ow map_views(1)] by blast
  have P: "pointers (s\<lparr>pd_dirMap := m', pd_heap := h'\<rparr>) = ?P" by (rule pointers_dir [OF r(3)]) auto
  show ?thesis using r(1,2,4,5) assms by (intro exI [of _ "s\<lparr>pd_dirMap := m', pd_heap := h'\<rparr>"]) (auto simp: podDirPathDel_def pod_ok_def P)
qed

lemma stream_del_ok:
  assumes "pod_ok s"
  shows "\<exists>t. podStreamPathDel k s = Some t \<and> pod_ok t \<and> pod_texts t = (pod_texts s)(StreamOwner k := None)"
proof -
  have ow: "map_ok (pd_streamMap s)" "owns (pointers s) (pd_heap s)" using assms by (simp_all add: pod_ok_def)
  let ?P = "(pointers s)(StreamOwner k := None)"
  obtain m' h' where r: "ptrMapDelLocked (pd_streamMap s) k (pd_heap s) = Some (m', h')" "map_ok m'" "map_view StreamOwner m' ?P"
    "owns ?P h'" "texts ?P h' = (pod_texts s)(StreamOwner k := None)"
    using map_del_owned [OF ow map_views(2)] by blast
  have P: "pointers (s\<lparr>pd_streamMap := m', pd_heap := h'\<rparr>) = ?P" by (rule pointers_stream [OF r(3)]) auto
  show ?thesis using r(1,2,4,5) assms by (intro exI [of _ "s\<lparr>pd_streamMap := m', pd_heap := h'\<rparr>"]) (auto simp: podStreamPathDel_def pod_ok_def P)
qed

lemma observed_scan_free:
  "observed_scan k keys h key i = (True, idx, left) \<Longrightarrow> 0 < left \<Longrightarrow> keys idx = None"
  by (induction k arbitrary: i) (auto split: option.splits if_splits)

lemma observe_ok:
  assumes "pod_ok s"
  shows "pod_ok (snd (podObservedInsertIsNew key s)) \<and> (\<forall>w. (\<forall>i. w \<noteq> KeyOwner i) \<longrightarrow>
    pod_texts (snd (podObservedInsertIsNew key s)) w = pod_texts s w)"
proof (cases key)
  case (Some key0)
  let ?k = "c_text key0" and ?ob = "pd_observed s"
  obtain nw i left where scan: "observed_scan observedCap (ob_keys ?ob) (pd_heap s) ?k (observed_home ?k) = (nw, i, left)"
    by (metis prod.collapse)
  obtain copy n h1 where dup: "dupCString ?k (pd_heap s) = ((copy, n), h1)" by (metis prod.collapse)
  have ow: "owns (pointers s) (pd_heap s)" using assms by (simp add: pod_ok_def)
  show ?thesis
  proof (cases "nw \<and> 0 < left")
    case True
    have "nw" using True by simp
    then have free: "pointers s (KeyOwner i) = None"
      using observed_scan_free [of observedCap "ob_keys ?ob" "pd_heap s" ?k _ i left] scan True by (simp add: pointers_def)
    define t where "t = snd (podObservedInsertIsNew key s)"
    have t: "t = (case copy of None \<Rightarrow> s\<lparr>pd_heap := h1\<rparr> | Some a \<Rightarrow>
        s\<lparr>pd_heap := h1, pd_observed := ?ob\<lparr>ob_keys := (ob_keys ?ob)(i \<mapsto> a), ob_count := ob_count ?ob + 1\<rparr>\<rparr>)"
      unfolding t_def podObservedInsertIsNew_def Some option.case Let_def scan prod.case dup using True
      by (simp split: option.splits)
    have P: "pointers t = (pointers s)(KeyOwner i := copy)"
      using free unfolding t by (intro ext) (auto simp: pointers_def split: option.splits owner.splits)
    have h: "pd_heap t = h1" "pd_dirMap t = pd_dirMap s" "pd_streamMap t = pd_streamMap s" "pd_fdPathLen t = pd_fdPathLen s"
      unfolding t by (simp_all split: option.splits)
    note st = owns_new [OF ow dup free, folded P]
    show ?thesis unfolding t_def [symmetric] pod_ok_def h st(2) using st(1) assms by (simp add: pod_ok_def)
  next
    case False
    then have "snd (podObservedInsertIsNew key s) = s"
      unfolding podObservedInsertIsNew_def Some option.case Let_def scan prod.case by auto
    then show ?thesis using assms by simp
  qed
qed (use assms in \<open>simp add: podObservedInsertIsNew_def\<close>)

text \<open>The bit sets own nothing.\<close>

lemma pointers_bits [simp]:
  "pointers (s\<lparr>pd_emptyFdBits := b\<rparr>) = pointers s" "pointers (s\<lparr>pd_inheritedFdBits := b\<rparr>) = pointers s"
  "pointers (s\<lparr>pd_fileReadSeenFdBits := b\<rparr>) = pointers s"
  by (simp_all add: pointers_def [abs_def])

lemmas bit_ops = podEmptyFdSet_def podEmptyFdExcl_def podInheritedFdSet_def podInheritedFdExcl_def podInheritedFdClear_def
  podFileReadMarkIsNew_def podFileReadExcl_def

section \<open>Lookups\<close>

definition shown :: "string option \<Rightarrow> string" where
  "shown t = (case t of None \<Rightarrow> [] | Some x \<Rightarrow> x)"

lemma dir_get: "pod_ok s \<Longrightarrow> podDirPathGet k s = Some (shown (pod_texts s (DirOwner k)))"
  using map_get_owned [of "pointers s" "pd_heap s" DirOwner "pd_dirMap s" k] by (simp add: podDirPathGet_def pod_ok_def shown_def)

lemma stream_get: "pod_ok s \<Longrightarrow> podStreamPathGet k s = Some (shown (pod_texts s (StreamOwner k)))"
  using map_get_owned [of "pointers s" "pd_heap s" StreamOwner "pd_streamMap s" k] by (simp add: podStreamPathGet_def pod_ok_def shown_def)

lemma sint_short: "n < 2 ^ 31 \<Longrightarrow> sint (word_of_nat n :: 32 word) = int n"
  by (simp add: signed_of_nat signed_take_bit_int_eq_self)

lemma fd_get:
  assumes "pod_ok s" "\<And>t. pod_texts s (FdOwner (nat fd)) = Some t \<Longrightarrow> length t < 2 ^ 31"
  shows "podFdPathGet fd s = Some (if fd_tracked fd then shown (pod_texts s (FdOwner (nat fd))) else [])"
proof (cases "pd_fdPathPtr s (nat fd)")
  case None
  then show ?thesis by (simp add: podFdPathGet_def cStringToNim_def texts_def pointers_def shown_def)
next
  case (Some a)
  have "pointers s (FdOwner (nat fd)) = Some a" using Some by (simp add: pointers_def)
  moreover have "owns (pointers s) (pd_heap s)" using assms(1) by (simp add: pod_ok_def)
  ultimately obtain t where t: "lh_live (pd_heap s) a = Some t" using ownsD(3) by metis
  have p: "pod_texts s (FdOwner (nat fd)) = Some t" using Some t by (simp add: texts_def pointers_def)
  then have "sint (pd_fdPathLen s (nat fd)) = int (length t)" using assms sint_short by (simp add: pod_ok_def)
  then show ?thesis using Some t p by (simp add: podFdPathGet_def cStringToNim_def shown_def)
qed

section \<open>What a table promises\<close>

text \<open>
  A table of paths: no operation gets stuck, a lookup is never anything but the path written last or the
  empty string.  \<open>writes\<close> says what an operation is meant to write for a key.
\<close>

definition last_written :: "('op \<Rightarrow> 'k \<Rightarrow> string option option) \<Rightarrow> 'k \<Rightarrow> string \<Rightarrow> 'op list \<Rightarrow> string" where
  "last_written writes k x ops = foldl (\<lambda>t op. case writes op k of None \<Rightarrow> t | Some v \<Rightarrow> shown v) x ops"

locale path_table =
  fixes ok :: "'s \<Rightarrow> bool"
    and legal :: "'op \<Rightarrow> bool"
    and step :: "'op \<Rightarrow> 's \<Rightarrow> 's option"
    and get :: "'k \<Rightarrow> 's \<Rightarrow> string option"
    and writes :: "'op \<Rightarrow> 'k \<Rightarrow> string option option"
  assumes step_returns: "ok s \<Longrightarrow> legal op \<Longrightarrow> \<exists>t. step op s = Some t \<and> ok t"
    and step_get: "ok s \<Longrightarrow> legal op \<Longrightarrow> step op s = Some t \<Longrightarrow>
      get k t \<in> (case writes op k of None \<Rightarrow> {get k s} | Some v \<Rightarrow> {Some (shown v), Some []})"
begin

lemma run_returns: "ok s \<Longrightarrow> list_all legal ops \<Longrightarrow> \<exists>t. run_all step ops s = Some t \<and> ok t"
proof (induction ops arbitrary: s)
  case (Cons op ops)
  then obtain u where "step op s = Some u" "ok u" using step_returns [of s op] by auto
  then show ?case using Cons by simp
qed simp

lemma lookup_is_last_write:
  "ok s \<Longrightarrow> list_all legal ops \<Longrightarrow> run_all step ops s = Some t \<Longrightarrow> get k s \<in> {Some x, Some []} \<Longrightarrow>
   get k t \<in> {Some (last_written writes k x ops), Some []}"
proof (induction ops arbitrary: s x)
  case (Cons op ops)
  obtain u where u: "step op s = Some u" "ok u" using Cons.prems(1,2) step_returns by auto
  have run: "run_all step ops u = Some t" "list_all legal ops" using Cons.prems(2,3) u(1) by simp_all
  show ?case
  proof (cases "writes op k")
    case None
    then have "get k u \<in> {Some x, Some []}" using step_get [of s op u k] Cons.prems u(1) by simp
    from Cons.IH [OF u(2) run(2,1) this] show ?thesis using None by (simp add: last_written_def)
  next
    case (Some v)
    then have "get k u \<in> {Some (shown v), Some []}" using step_get [of s op u k] Cons.prems u(1) by simp
    from Cons.IH [OF u(2) run(2,1) this] show ?thesis using Some by (simp add: last_written_def)
  qed
qed (simp add: last_written_def)

end

definition fd_writes :: "pod_op \<Rightarrow> int \<Rightarrow> string option option" where
  "fd_writes op fd = (case op of
     FdPathSet f (Some p) \<Rightarrow> if f = fd then Some (Some (c_text p)) else None
   | FdPathDel f \<Rightarrow> if f = fd then Some None else None
   | _ \<Rightarrow> None)"

definition dir_writes :: "pod_op \<Rightarrow> u64 \<Rightarrow> string option option" where
  "dir_writes op k = (case op of
     DirPathSet f (Some p) \<Rightarrow> if f = k then Some (Some (c_text p)) else None
   | DirPathDel f \<Rightarrow> if f = k then Some None else None
   | _ \<Rightarrow> None)"

definition stream_writes :: "pod_op \<Rightarrow> u64 \<Rightarrow> string option option" where
  "stream_writes op k = (case op of
     StreamPathSet f (Some p) \<Rightarrow> if f = k then Some (Some (c_text p)) else None
   | StreamPathDel f \<Rightarrow> if f = k then Some None else None
   | _ \<Rightarrow> None)"

text \<open>The length of a descriptor's path fits the 32 bits it is kept in.\<close>

definition short_op :: "pod_op \<Rightarrow> bool" where
  "short_op op = (case op of FdPathSet _ (Some p) \<Rightarrow> length p < 2 ^ 31 | _ \<Rightarrow> True)"

definition tables_ok :: "pod \<Rightarrow> bool" where
  "tables_ok s \<longleftrightarrow> pod_ok s \<and> (\<forall>i t. pod_texts s (FdOwner i) = Some t \<longrightarrow> length t < 2 ^ 31)"

lemma c_text_length: "length (c_text p) \<le> length p"
  by (simp add: c_text_def length_takeWhile_le)

text \<open>The texts after an operation.\<close>

definition texts_after :: "pod_op \<Rightarrow> pod \<Rightarrow> owner \<rightharpoonup> string" where
  "texts_after op s = (case op of
     FdPathSet fd (Some p) \<Rightarrow> if fd_tracked fd
       then (pod_texts s)(FdOwner (nat fd) := if copy_fails (pd_heap s) then None else Some (c_text p)) else pod_texts s
   | FdPathDel fd \<Rightarrow> if fd_tracked fd then (pod_texts s)(FdOwner (nat fd) := None) else pod_texts s
   | DirPathSet k (Some p) \<Rightarrow> (pod_texts s)(DirOwner k := set_effect (pd_dirMap s) k p (pd_heap s))
   | DirPathDel k \<Rightarrow> (pod_texts s)(DirOwner k := None)
   | StreamPathSet k (Some p) \<Rightarrow> (pod_texts s)(StreamOwner k := set_effect (pd_streamMap s) k p (pd_heap s))
   | StreamPathDel k \<Rightarrow> (pod_texts s)(StreamOwner k := None)
   | _ \<Rightarrow> pod_texts s)"

lemma pod_step_texts:
  assumes "pod_ok s"
  shows "\<exists>t. pod_step op s = Some t \<and> pod_ok t \<and> (\<forall>w. (\<forall>i. w \<noteq> KeyOwner i) \<longrightarrow> pod_texts t w = texts_after op s w)"
proof (cases op)
  case (FdPathSet fd p)
  then show ?thesis using fd_set_ok [OF assms, of fd p] by (cases p) (simp_all add: texts_after_def)
next
  case (FdPathDel fd)
  then show ?thesis using fd_del_ok [OF assms, of fd] by (simp add: texts_after_def)
next
  case (DirPathSet k p)
  then show ?thesis using dir_set_ok [OF assms, of k p] by (cases p) (simp_all add: texts_after_def)
next
  case (StreamPathSet k p)
  then show ?thesis using stream_set_ok [OF assms, of k p] by (cases p) (simp_all add: texts_after_def)
next
  case (DirPathDel k)
  then show ?thesis using dir_del_ok [OF assms, of k] by (auto simp: texts_after_def)
next
  case (StreamPathDel k)
  then show ?thesis using stream_del_ok [OF assms, of k] by (auto simp: texts_after_def)
next
  case (Observe k)
  then show ?thesis using observe_ok [OF assms, of k] by (simp add: texts_after_def)
qed (use assms in \<open>simp_all add: bit_ops pod_ok_def texts_after_def\<close>)

lemma pod_step_ok:
  assumes "tables_ok s" "short_op op"
  shows "\<exists>t. pod_step op s = Some t \<and> tables_ok t"
proof -
  obtain t where t: "pod_step op s = Some t" "pod_ok t" "\<And>i. pod_texts t (FdOwner i) = texts_after op s (FdOwner i)"
    using pod_step_texts [of s op] assms(1) by (auto simp: tables_ok_def)
  have "length x < 2 ^ 31" if "texts_after op s (FdOwner i) = Some x" for i x
    using that assms le_less_trans [OF c_text_length]
    by (auto simp: texts_after_def tables_ok_def short_op_def split: pod_op.splits option.splits if_splits)
  then show ?thesis using t by (auto simp: tables_ok_def)
qed

interpretation fd_paths: path_table tables_ok short_op pod_step podFdPathGet fd_writes
proof
  fix s op t fd assume *: "tables_ok s" "short_op op" "pod_step op s = Some t"
  then have ok: "tables_ok t" using pod_step_ok [of s op] by auto
  have "podFdPathGet fd t = Some (if fd_tracked fd then shown (texts_after op s (FdOwner (nat fd))) else [])"
    using fd_get [of t fd] ok pod_step_texts [of s op] * by (auto simp: tables_ok_def)
  moreover have "podFdPathGet fd s = Some (if fd_tracked fd then shown (pod_texts s (FdOwner (nat fd))) else [])"
    using fd_get [of s fd] * by (auto simp: tables_ok_def)
  ultimately show "podFdPathGet fd t \<in> (case fd_writes op fd of None \<Rightarrow> {podFdPathGet fd s} | Some v \<Rightarrow> {Some (shown v), Some []})"
    by (auto simp: texts_after_def fd_writes_def shown_def fd_tracked_def split: pod_op.splits option.splits if_splits)
qed (rule pod_step_ok)

interpretation dir_paths: path_table tables_ok short_op pod_step podDirPathGet dir_writes
proof
  fix s op t k assume *: "tables_ok s" "short_op op" "pod_step op s = Some t"
  then have "podDirPathGet k t = Some (shown (texts_after op s (DirOwner k)))"
    using dir_get [of t k] pod_step_texts [of s op] by (auto simp: tables_ok_def)
  moreover have "podDirPathGet k s = Some (shown (pod_texts s (DirOwner k)))"
    using dir_get [of s k] * by (auto simp: tables_ok_def)
  ultimately show "podDirPathGet k t \<in> (case dir_writes op k of None \<Rightarrow> {podDirPathGet k s} | Some v \<Rightarrow> {Some (shown v), Some []})"
    by (auto simp: texts_after_def dir_writes_def shown_def set_effect_def split: pod_op.splits option.splits if_splits)
qed (rule pod_step_ok)

interpretation stream_paths: path_table tables_ok short_op pod_step podStreamPathGet stream_writes
proof
  fix s op t k assume *: "tables_ok s" "short_op op" "pod_step op s = Some t"
  then have "podStreamPathGet k t = Some (shown (texts_after op s (StreamOwner k)))"
    using stream_get [of t k] pod_step_texts [of s op] by (auto simp: tables_ok_def)
  moreover have "podStreamPathGet k s = Some (shown (pod_texts s (StreamOwner k)))"
    using stream_get [of s k] * by (auto simp: tables_ok_def)
  ultimately show "podStreamPathGet k t \<in> (case stream_writes op k of None \<Rightarrow> {podStreamPathGet k s} | Some v \<Rightarrow> {Some (shown v), Some []})"
    by (auto simp: texts_after_def stream_writes_def shown_def set_effect_def split: pod_op.splits option.splits if_splits)
qed (rule pod_step_ok)

lemma pod_start_ok: "tables_ok (pod_start oom)"
proof -
  have c: "content (\<lambda>_. \<lparr>ps_used = False, ps_key = 0, ps_path = None\<rparr>) = {}" by (simp add: content_def)
  have s: "slots_ok (\<lambda>_. \<lparr>ps_used = False, ps_key = 0, ps_path = None\<rparr>)"
    by (simp add: slots_ok_def chained_def unique_keys_def free_clean_def)
  have m: "map_ok empty_map" using s c by (simp add: map_ok_def empty_map_def)
  have "paths_of (pm_slots empty_map) = (\<lambda>_. None)"
    using s by (intro paths_of_eqI) (simp_all add: empty_map_def c)
  then have P: "pointers (pod_start oom) = (\<lambda>_. None)"
    by (intro ext) (simp add: pointers_def pod_start_def split: owner.splits)
  have "owns (\<lambda>_::owner. None) (pd_heap (pod_start oom))" by (simp add: owns_def pod_start_def)
  then show ?thesis using m by (simp add: tables_ok_def pod_ok_def P texts_def) (simp add: pod_start_def)
qed

section \<open>Observed keys\<close>

lemma cstrEq_prefix:
  assumes "CHR 0x00 \<notin> set b"
  shows "cstrEq a b (length b) \<longleftrightarrow> take (length b) a = b"
proof
  assume eq: "cstrEq a b (length b)"
  have ch: "i < length a \<and> a ! i = b ! i" if "i < length b" for i
  proof -
    have "c_char a i = b ! i" using eq that by (auto simp: cstrEq_def list_all_iff c_char_def)
    moreover have "b ! i \<noteq> CHR 0x00" using assms that by (metis nth_mem)
    ultimately show ?thesis by (auto simp: c_char_def split: if_splits)
  qed
  have "length b \<le> length a"
  proof (rule ccontr)
    assume "\<not> length b \<le> length a"
    then show False using ch [of "length a"] by simp
  qed
  then show "take (length b) a = b" using ch by (auto simp: list_eq_iff_nth_eq)
next
  assume t: "take (length b) a = b"
  then have "length b \<le> length a" by (metis length_take min.absorb_iff2 min.commute)
  then have "c_char a i = c_char b i" if "i < length b" for i
    using t that by (metis c_char_def less_le_trans nth_take)
  then show "cstrEq a b (length b)" by (simp add: cstrEq_def list_all_iff c_char_def)
qed

lemma c_text_no_null [simp]: "CHR 0x00 \<notin> set (c_text p)"
  using set_takeWhileD [of "CHR 0x00" "\<lambda>c. c \<noteq> CHR 0x00" p] by (auto simp: c_text_def)

lemma c_text_same: "CHR 0x00 \<notin> set p \<Longrightarrow> c_text p = p"
  by (auto simp: c_text_def takeWhile_eq_all_conv)

lemma observed_scan_false:
  "observed_scan k keys h key i = (False, idx, left) \<Longrightarrow> \<exists>a. keys idx = Some a \<and> cstrEq (live_text h a) key (length key)"
  by (induction k arbitrary: i) (auto split: option.splits if_splits)

lemma observedCap_Suc: "\<exists>n. observedCap = Suc n"
  by (simp add: observedCap_def)

text \<open>The first key of a process goes to its home.\<close>

lemma first_key:
  assumes "CHR 0x00 \<notin> set key"
  shows "fst (podObservedInsertIsNew (Some key) (pod_start []))"
    "ob_keys (pd_observed (snd (podObservedInsertIsNew (Some key) (pod_start [])))) = [observed_home key \<mapsto> 0]"
    "lh_live (pd_heap (snd (podObservedInsertIsNew (Some key) (pod_start [])))) = [0 \<mapsto> key]"
proof -
  obtain n where n: "observedCap = Suc n" using observedCap_Suc by blast
  show "fst (podObservedInsertIsNew (Some key) (pod_start []))"
    "ob_keys (pd_observed (snd (podObservedInsertIsNew (Some key) (pod_start [])))) = [observed_home key \<mapsto> 0]"
    "lh_live (pd_heap (snd (podObservedInsertIsNew (Some key) (pod_start [])))) = [0 \<mapsto> key]"
    using assms by (simp_all add: podObservedInsertIsNew_def n Let_def c_text_same pod_start_def dupCString_def)
qed

end
