(* ===== verification/Pod_Properties.thy ===== *)
theory Pod_Properties
  imports Pod_Facts
begin

text \<open>What the tables of the Linux shim guarantee, and where the set of observed inputs fails.\<close>

lemma map_full_count:
  assumes "map_ok m"
  shows "map_full m \<longleftrightarrow> \<not> pm_count m < int ptrMapCap"
proof -
  let ?u = "{i. i < ptrMapCap \<and> ps_used (pm_slots m i)}"
  have "content (pm_slots m) = (\<lambda>i. (ps_key (pm_slots m i), ps_path (pm_slots m i))) ` ?u" by (auto simp: content_def)
  then have "card (content (pm_slots m)) \<le> card ?u" by (simp add: card_image_le)
  also have "\<dots> \<le> ptrMapCap" using card_mono [of "{..<ptrMapCap}" ?u] by auto
  finally show ?thesis using assms by (auto simp: map_ok_def map_full_def)
qed

text \<open>
  C13. A pointer map of the shim is a map with room for 16384 keys.  On every map that the operations can
  produce, setting a path writes the copy (or nothing when there was no memory for it) at the key and
  changes no other key, unless the key is new and the table full; deleting returns, removes the key and
  nothing else; a lookup gives the text of the copy.
\<close>

theorem pointer_map_refines_a_map:
  assumes "map_ok m" "dupCString path h = ((copy, n), h1)"
  shows "(case ptrMapSetLocked m key path h of (m', h') \<Rightarrow> map_ok m' \<and>
      paths_of (pm_slots m') = (if key \<in> dom (paths_of (pm_slots m)) \<or> pm_count m < int ptrMapCap
        then (paths_of (pm_slots m))(key \<mapsto> copy) else paths_of (pm_slots m))) \<and>
    (\<exists>m' h'. ptrMapDelLocked m key h = Some (m', h') \<and> map_ok m' \<and>
      paths_of (pm_slots m') = (paths_of (pm_slots m))(key := None)) \<and>
    ptrMapGetLocked m key h = (case paths_of (pm_slots m) key of Some (Some a) \<Rightarrow> lh_live h a | _ \<Rightarrow> Some [])"
proof (intro conjI)
  show "case ptrMapSetLocked m key path h of (m', h') \<Rightarrow> map_ok m' \<and>
      paths_of (pm_slots m') = (if key \<in> dom (paths_of (pm_slots m)) \<or> pm_count m < int ptrMapCap
        then (paths_of (pm_slots m))(key \<mapsto> copy) else paths_of (pm_slots m))"
  proof (cases "paths_of (pm_slots m) key")
    case None
    then show ?thesis using set_new [OF assms(1) None assms(2)] map_full_count [OF assms(1)] by (auto split: prod.splits)
  next
    case (Some old)
    then show ?thesis using set_entry [OF assms(1) Some assms(2)] by (auto split: prod.splits)
  qed
  show "\<exists>m' h'. ptrMapDelLocked m key h = Some (m', h') \<and> map_ok m' \<and>
      paths_of (pm_slots m') = (paths_of (pm_slots m))(key := None)"
    using del_entry [OF assms(1)] by blast
  show "ptrMapGetLocked m key h = (case paths_of (pm_slots m) key of Some (Some a) \<Rightarrow> lh_live h a | _ \<Rightarrow> Some [])"
    by (cases "paths_of (pm_slots m) key")
      (auto simp: ptrMapGetLocked_def cStringToNim_def simp flip: paths_of_def split: option.splits bind_splits)
qed

theorem pointer_map_refines_a_map_witness:
  "paths_of (pm_slots (fst (ptrMapSetLocked empty_map 5 ''/d'' (pd_heap (pod_start []))))) =
     (paths_of (pm_slots empty_map))(5 \<mapsto> Some 0)"
proof -
  have "map_ok empty_map" using pod_start_ok [of "[]"] by (simp add: tables_ok_def pod_ok_def pod_start_def)
  moreover obtain h1 where "dupCString ''/d'' (pd_heap (pod_start [])) = ((Some 0, 2), h1)"
    by (simp add: dupCString_def pod_start_def c_text_def Let_def)
  ultimately show ?thesis
    using pointer_map_refines_a_map [of empty_map "''/d''" "pd_heap (pod_start [])" "Some 0" 2 h1 5]
    by (auto simp: empty_map_def ptrMapCap_def split: prod.splits)
qed

text \<open>
  C15. The shim's tables manage their memory: after any sequence of operations, whatever \<^verbatim>\<open>malloc\<close> answered,
  nothing was freed twice and every live allocation is held by exactly one entry of one table, so that
  nothing leaks and no entry dangles; and every operation returned, the deletion loop included.
\<close>

theorem pod_tables_own_their_memory:
  "\<exists>s. pod_run ops (pod_start oom) = Some s \<and> \<not> lh_wild (pd_heap s) \<and>
     (\<forall>a. lh_live (pd_heap s) a \<noteq> None \<longleftrightarrow> (\<exists>!w. pointers s w = Some a)) \<and>
     ran (pointers s) = dom (lh_live (pd_heap s))"
proof -
  have "\<exists>t. run_all pod_step ops s = Some t \<and> pod_ok t" if "pod_ok s" for s
    using that
  proof (induction ops arbitrary: s)
    case (Cons op ops)
    then obtain u where "pod_step op s = Some u" "pod_ok u" using pod_step_texts [of s op] by auto
    then show ?case using Cons.IH by simp
  qed simp
  moreover have "pod_ok (pod_start oom)" using pod_start_ok by (simp add: tables_ok_def)
  ultimately obtain t where t: "pod_run ops (pod_start oom) = Some t" "owns (pointers t) (pd_heap t)"
    unfolding pod_run_def pod_ok_def by blast
  have "lh_live (pd_heap t) a \<noteq> None \<longleftrightarrow> (\<exists>!w. pointers t w = Some a)"
    "lh_live (pd_heap t) a \<noteq> None \<longleftrightarrow> (\<exists>w. pointers t w = Some a)" for a
    using t(2) unfolding owns_def by metis+
  then show ?thesis using t(1) ownsD(1) [OF t(2)] unfolding ran_def dom_def by blast
qed

theorem pod_tables_own_their_memory_witness:
  "\<exists>s. pod_run [FdPathSet 3 (Some ''/a''), DirPathSet 7 (Some ''/d''), FdPathSet 3 (Some ''/b''), DirPathDel 7] (pod_start [False, True]) = Some s \<and>
     \<not> lh_wild (pd_heap s) \<and> ran (pointers s) = dom (lh_live (pd_heap s))"
  using pod_tables_own_their_memory by blast

text \<open>
  C14. The shim never attributes a file to the wrong path: after any sequence of operations a lookup of a
  descriptor, a directory stream or a file stream gives the path that was written last for it, or
  nothing, and never the path of another one or an earlier path.
\<close>

theorem lookups_are_last_writes:
  assumes "list_all short_op ops" "pod_run ops (pod_start oom) = Some s"
  shows "podFdPathGet fd s \<in> {Some (last_written fd_writes fd [] ops), Some []} \<and>
    podDirPathGet k s \<in> {Some (last_written dir_writes k [] ops), Some []} \<and>
    podStreamPathGet k s \<in> {Some (last_written stream_writes k [] ops), Some []}"
proof -
  note ok = pod_start_ok [of oom] and run = assms(2) [unfolded pod_run_def]
  have P: "pod_texts (pod_start oom) w = None" for w
    by (simp add: pod_start_def texts_def bind_eq_None_conv)
  have "podFdPathGet fd (pod_start oom) \<in> {Some [], Some []}"
    using fd_get [of "pod_start oom" fd] ok P by (simp add: tables_ok_def shown_def)
  moreover have "podDirPathGet k (pod_start oom) \<in> {Some [], Some []}" "podStreamPathGet k (pod_start oom) \<in> {Some [], Some []}"
    using dir_get [of "pod_start oom" k] stream_get [of "pod_start oom" k] ok P by (simp_all add: tables_ok_def shown_def)
  ultimately show ?thesis
    using fd_paths.lookup_is_last_write [OF ok assms(1) run] dir_paths.lookup_is_last_write [OF ok assms(1) run]
      stream_paths.lookup_is_last_write [OF ok assms(1) run] by blast
qed

theorem lookups_are_last_writes_witness:
  "\<exists>s. pod_run [FdPathSet 3 (Some ''/a''), DirPathSet 7 (Some ''/d''), FdPathSet 3 (Some ''/b''), DirPathDel 7] (pod_start []) = Some s \<and>
     podFdPathGet 3 s \<in> {Some ''/b'', Some []} \<and> podDirPathGet 7 s = Some []"
proof -
  let ?ops = "[FdPathSet 3 (Some ''/a''), DirPathSet 7 (Some ''/d''), FdPathSet 3 (Some ''/b''), DirPathDel 7]"
  have short: "list_all short_op ?ops" by (simp add: short_op_def)
  obtain s where s: "pod_run ?ops (pod_start []) = Some s"
    using fd_paths.run_returns [OF pod_start_ok short] unfolding pod_run_def by blast
  have "last_written fd_writes 3 [] ?ops = ''/b''" "last_written dir_writes 7 [] ?ops = []"
    by (simp_all add: last_written_def fd_writes_def dir_writes_def shown_def c_text_def)
  then show ?thesis using lookups_are_last_writes [OF short s, of 3 7] s by auto
qed

text \<open>
  C22. The set of observed inputs loses observations.  A name is dropped as already seen only when a stored
  name starts with it; but it need not be the same name: in a fresh process, after a read of a longer
  name whose hash falls on the same slot, the first read of the shorter name produces no record, although
  without the other read it does.
\<close>

theorem observed_name_hides_its_prefixes:
  assumes "name \<noteq> []" "CHR 0x00 \<notin> set (name @ rest)"
    and "observed_home (nat_text (ord_recordKind kind) @ '':'' @ name @ rest) = observed_home (nat_text (ord_recordKind kind) @ '':'' @ name)"
  shows "fst (recordObservedNonFile base kind obs name detail (pod_start [])) \<noteq> None \<and>
    fst (recordObservedNonFile base kind obs name detail
      (snd (recordObservedNonFile base kind obs (name @ rest) other (pod_start [])))) = None \<and>
    (\<forall>key s t. podObservedInsertIsNew (Some key) s = (False, t) \<longrightarrow>
      (\<exists>i a. ob_keys (pd_observed s) i = Some a \<and> take (length (c_text key)) (live_text (pd_heap s) a) = c_text key))"
proof (intro conjI allI impI)
  let ?k = "nat_text (ord_recordKind kind) @ '':'' @ name"
  have digits: "CHR 0x00 \<notin> set (nat_text n)" for n
    by (induction n rule: nat_text.induct) (subst nat_text.simps, auto simp: eq_commute [of "CHR 0x00"] char_of_eq_iff take_bit_eq_mod)
  have nul: "CHR 0x00 \<notin> set ?k" "CHR 0x00 \<notin> set (?k @ rest)" using assms(2) digits by auto
  show "fst (recordObservedNonFile base kind obs name detail (pod_start [])) \<noteq> None"
    using first_key(1) [OF nul(1)] assms(1) by (auto simp: recordObservedNonFile_def Let_def split: prod.splits bool.splits)
  obtain s where s: "podObservedInsertIsNew (Some (?k @ rest)) (pod_start []) = (True, s)"
    "ob_keys (pd_observed s) = [observed_home ?k \<mapsto> 0]" "lh_live (pd_heap s) = [0 \<mapsto> ?k @ rest]"
    using first_key [OF nul(2)] assms(3) by (cases "podObservedInsertIsNew (Some (?k @ rest)) (pod_start [])") auto
  obtain n where n: "observedCap = Suc n" using observedCap_Suc by blast
  have "cstrEq (?k @ rest) ?k (length ?k)" unfolding cstrEq_prefix [OF nul(1)] by simp
  then have "fst (podObservedInsertIsNew (Some ?k) s) = False"
    unfolding podObservedInsertIsNew_def option.case Let_def c_text_same [OF nul(1)] n
    using s(2,3) by (simp add: live_text_def)
  then show "fst (recordObservedNonFile base kind obs name detail
      (snd (recordObservedNonFile base kind obs (name @ rest) other (pod_start [])))) = None"
    using s(1) assms(1) by (auto simp: recordObservedNonFile_def Let_def split: prod.splits bool.splits)
  fix key u t assume "podObservedInsertIsNew (Some key) u = (False, t)"
  then obtain i left where "observed_scan observedCap (ob_keys (pd_observed u)) (pd_heap u) (c_text key) (observed_home (c_text key)) = (False, i, left)"
    by (auto simp: podObservedInsertIsNew_def Let_def split: prod.splits option.splits if_splits)
  then obtain a where "ob_keys (pd_observed u) i = Some a" "cstrEq (live_text (pd_heap u) a) (c_text key) (length (c_text key))"
    using observed_scan_false by blast
  then show "\<exists>i a. ob_keys (pd_observed u) i = Some a \<and> take (length (c_text key)) (live_text (pd_heap u) a) = c_text key"
    using cstrEq_prefix c_text_no_null by blast
qed

theorem observed_name_hides_its_prefixes_witness:
  "fst (recordObservedNonFile (\<lambda>_ _. undefined) mrEnvRead moEnvRead ''MAKE'' ''d''
     (snd (recordObservedNonFile (\<lambda>_ _. undefined) mrEnvRead moEnvRead ''MAKE_USER_NAME_DIR'' ''d'' (pod_start [])))) = None"
proof -
  have "nat_text (ord_recordKind mrEnvRead) = ''14''" by code_simp
  then have "observed_home (nat_text (ord_recordKind mrEnvRead) @ '':'' @ ''MAKE'' @ ''_USER_NAME_DIR'') =
      observed_home (nat_text (ord_recordKind mrEnvRead) @ '':'' @ ''MAKE'')"
    by (simp add: observed_home_def fnv1a_def observedMask_def observedCap_def)
  from observed_name_hides_its_prefixes [OF _ _ this] show ?thesis by simp
qed

end
