(* ===== verification/Nested_Capture.thy ===== *)
theory Nested_Capture
  imports Merge
begin

text \<open>
  A monitored run inside a monitored run (\<^verbatim>\<open>src/io_mon/nested_capture.nim\<close>): the inner host leaves a loss
  marker in the fragment directory of the enclosing run before it starts, publishes what it observed when
  it is done, and removes the marker last.

  The state is the directory, with what every system call will answer and every content the directory
  has had, so that a host that dies between two calls leaves one of these.
\<close>

section \<open>Files\<close>

text \<open>A call succeeds or fails; for a call that writes, with so many bytes of the buffer on disk.\<close>

datatype nest_answer = Succeeds nat | Fails nat

datatype nest_exn = NestIOError | NestOSError

record nest_world =
  nw_files :: "string \<rightharpoonup> bytes"
  nw_answers :: "nest_answer list"
  nw_past :: "(string \<rightharpoonup> bytes) list"

definition take_answer :: "nest_world \<Rightarrow> nest_answer \<times> nest_world" where
  "take_answer w = (case nw_answers w of [] \<Rightarrow> (Succeeds 0, w) | a # as \<Rightarrow> (a, w\<lparr>nw_answers := as\<rparr>))"

definition set_files :: "(string \<rightharpoonup> bytes) \<Rightarrow> nest_world \<Rightarrow> nest_world" where
  "set_files fs w = w\<lparr>nw_files := fs, nw_past := nw_files w # nw_past w\<rparr>"

type_synonym 'a nest = "nest_world \<Rightarrow> (nest_exn + 'a) \<times> nest_world"

text \<open>An open file is its path with what was written so far.\<close>

type_synonym out_file = "string \<times> bytes"

definition open_for_write :: "string \<Rightarrow> out_file nest" where
  "open_for_write path w = (case take_answer w of
     (Fails _, w) \<Rightarrow> (Inl NestIOError, w)
   | (Succeeds _, w) \<Rightarrow> (Inr (path, []), set_files ((nw_files w)(path \<mapsto> [])) w))"

definition checkedClose :: "out_file \<Rightarrow> unit nest" where
  "checkedClose file w = (case take_answer w of
     (Fails n, w) \<Rightarrow> (Inl NestIOError, set_files ((nw_files w)(fst file \<mapsto> take n (snd file))) w)
   | (Succeeds _, w) \<Rightarrow> (Inr (), set_files ((nw_files w)(fst file \<mapsto> snd file)) w))"

text \<open>A short write raises; the file keeps what was taken.\<close>

definition writeRecord :: "out_file \<Rightarrow> MonitorRecord \<Rightarrow> nest_world \<Rightarrow> (nest_exn option \<times> out_file) \<times> nest_world" where
  "writeRecord file record w =
    (let frame = encodeFrame record in
     case take_answer w of
       (Fails n, w) \<Rightarrow>
         if n < length frame then ((Some NestIOError, (fst file, snd file @ take n frame)), w)
         else ((None, (fst file, snd file @ frame)), w)
     | (Succeeds n, w) \<Rightarrow>
         ((None, (fst file, snd file @ frame)), set_files ((nw_files w)(fst file \<mapsto> take n (snd file @ frame))) w))"

definition move_file :: "string \<Rightarrow> string \<Rightarrow> unit nest" where
  "move_file src dst w = (case take_answer w of
     (Fails _, w) \<Rightarrow> (Inl NestOSError, w)
   | (Succeeds _, w) \<Rightarrow>
       (case nw_files w src of
          None \<Rightarrow> (Inl NestOSError, w)
        | Some b \<Rightarrow> (Inr (), set_files ((nw_files w)(src := None, dst \<mapsto> b)) w)))"

definition remove_file :: "string \<Rightarrow> unit nest" where
  "remove_file path w = (case take_answer w of
     (Fails _, w) \<Rightarrow> (Inl NestOSError, w)
   | (Succeeds _, w) \<Rightarrow> (Inr (), set_files ((nw_files w)(path := None)) w))"

section \<open>The handoff\<close>

record NestedCapture =
  nc_parentRun :: string
  nc_sourceRun :: string
  nc_pendingPath :: string
  nc_evidencePath :: string

definition nested_active :: "NestedCapture \<Rightarrow> bool" where
  "nested_active capture \<longleftrightarrow> length (nc_pendingPath capture) > 0"

definition no_capture :: NestedCapture where
  "no_capture = \<lparr>nc_parentRun = [], nc_sourceRun = [], nc_pendingPath = [], nc_evidencePath = []\<rparr>"

definition nested_capture :: "string \<Rightarrow> string \<Rightarrow> string \<Rightarrow> NestedCapture" where
  "nested_capture fragmentDir parentRun sourceRun =
    (let prefix = fragmentDir @ ''/nested-'' @ sourceRun in
     \<lparr>nc_parentRun = parentRun, nc_sourceRun = sourceRun,
      nc_pendingPath = prefix @ ''-pending.iomon-frag'', nc_evidencePath = prefix @ ''.iomon-frag''\<rparr>)"

definition pending_loss :: "string \<Rightarrow> string \<Rightarrow> MonitorRecord" where
  "pending_loss parentRun sourceRun =
     event_loss 0 0 (''nested monitor evidence handoff pending run='' @ parentRun @ '' nested-run='' @ sourceRun)"

text \<open>The \<^verbatim>\<open>finally\<close> closes the file in any case; an error of its own replaces the first one.\<close>

definition startNestedCapture :: "string \<Rightarrow> string \<Rightarrow> string \<Rightarrow> NestedCapture nest" where
  "startNestedCapture fragmentDir parentRun sourceRun w =
    (if length fragmentDir = 0 \<or> length parentRun = 0 then (Inr no_capture, w)
     else let capture = nested_capture fragmentDir parentRun sourceRun in
       case open_for_write (nc_pendingPath capture) w of
         (Inl e, w) \<Rightarrow> (Inl e, w)
       | (Inr file, w) \<Rightarrow>
           (case writeRecord file (pending_loss parentRun sourceRun) w of
              ((raised, file), w) \<Rightarrow>
                (case checkedClose file w of
                   (Inl e, w) \<Rightarrow> (Inl e, w)
                 | (Inr _, w) \<Rightarrow> (case raised of Some e \<Rightarrow> (Inl e, w) | None \<Rightarrow> (Inr capture, w)))))"

text \<open>
  The walk over a detail: at the start of a word (\<open>True\<close>: the position is 0 or follows a blank) a word that
  begins with \<^verbatim>\<open>run=\<close> is skipped.
\<close>

function drop_run_words :: "bool \<Rightarrow> string \<Rightarrow> string" where
  "drop_run_words at_word [] = []"
| "drop_run_words at_word (c # cs) =
    (if at_word \<and> starts_with (c # cs) ''run='' then drop_run_words False (dropWhile (\<lambda>c. \<not> isWhitespace c) (c # cs))
     else c # drop_run_words (isWhitespace c) cs)"
  by pat_completeness auto
termination
proof (relation "measure (\<lambda>(b, s). length s)", simp, goal_cases)
  case (1 at_word c cs)
  then have "c = CHR ''r''" by (simp add: starts_with_def)
  then show ?case by (simp add: isWhitespace_def less_Suc_eq_le length_dropWhile_le)
qed simp

definition parentDetail :: "string \<Rightarrow> string \<Rightarrow> string \<Rightarrow> string" where
  "parentDetail detail parentRun sourceRun =
     drop_run_words True detail @ '' run='' @ parentRun @ '' nested-run='' @ sourceRun"

definition handed_record :: "NestedCapture \<Rightarrow> MonitorRecord \<Rightarrow> MonitorRecord" where
  "handed_record capture source =
     source\<lparr>rec_detail := parentDetail (rec_detail source) (nc_parentRun capture) (nc_sourceRun capture)\<rparr>"

fun write_handed :: "NestedCapture \<Rightarrow> MonitorRecord list \<Rightarrow> out_file \<Rightarrow> nest_world \<Rightarrow> (nest_exn option \<times> out_file) \<times> nest_world" where
  "write_handed capture [] file w = ((None, file), w)"
| "write_handed capture (source # rest) file w =
    (if rec_kind source = mrBackendProfile then write_handed capture rest file w
     else case writeRecord file (handed_record capture source) w of
       ((Some e, file), w) \<Rightarrow> ((Some e, file), w)
     | ((None, file), w) \<Rightarrow> write_handed capture rest file w)"

definition staging_path :: "NestedCapture \<Rightarrow> string" where
  "staging_path capture = nc_evidencePath capture @ ''.partial''"

definition publish_evidence :: "NestedCapture \<Rightarrow> MonitorRecord list \<Rightarrow> unit nest" where
  "publish_evidence capture records w =
    (case open_for_write (staging_path capture) w of
       (Inl e, w) \<Rightarrow> (Inl e, w)
     | (Inr file, w) \<Rightarrow>
         (case write_handed capture records file w of
            ((raised, file), w) \<Rightarrow>
              (case checkedClose file w of
                 (Inl e, w) \<Rightarrow> (Inl e, w)
               | (Inr _, w) \<Rightarrow>
                   (case raised of
                      Some e \<Rightarrow> (Inl e, w)
                    | None \<Rightarrow>
                        (case move_file (staging_path capture) (nc_evidencePath capture) w of
                           (Inl e, w) \<Rightarrow> (Inl e, w)
                         | (Inr _, w) \<Rightarrow> remove_file (nc_pendingPath capture) w)))))"

definition finishNestedCapture :: "NestedCapture \<Rightarrow> MonitorRecord list \<Rightarrow> unit nest" where
  "finishNestedCapture capture records w =
    (if \<not> nested_active capture then (Inr (), w)
     else case publish_evidence capture records w of
       (r, w) \<Rightarrow>
         if nw_files w (staging_path capture) \<noteq> None
         then (case remove_file (staging_path capture) w of (Inl e, w) \<Rightarrow> (Inl e, w) | (Inr _, w) \<Rightarrow> (r, w))
         else (r, w))"

end
