(* ===== verification/Nested_Facts.thy ===== *)
theory Nested_Facts
  imports Nested_Capture Breakaway_Facts Encode_Facts
begin

text \<open>
  The handoff of a nested run: which contents the directory goes through, and the words of a rewritten
  detail.
\<close>

section \<open>Files that a call leaves alone\<close>

definition untouched :: "string \<Rightarrow> nest_world \<Rightarrow> nest_world \<Rightarrow> bool" where
  "untouched p w w' \<longleftrightarrow> nw_files w' p = nw_files w p \<and> (\<forall>D \<in> set (nw_past w'). D \<in> set (nw_past w) \<or> D p = nw_files w p)"

lemma untouched_refl [simp]: "untouched p w w"
  by (simp add: untouched_def)

lemma untouched_trans: "untouched p u v \<Longrightarrow> untouched p v w \<Longrightarrow> untouched p u w"
  by (auto simp: untouched_def)

lemma answer_only: "take_answer w = (a, w') \<Longrightarrow> nw_files w' = nw_files w \<and> nw_past w' = nw_past w"
  by (auto simp: take_answer_def split: list.splits)

lemma set_files_simps [simp]: "nw_files (set_files fs w) = fs" "nw_past (set_files fs w) = nw_files w # nw_past w"
  by (simp_all add: set_files_def)

lemma open_keeps: "open_for_write q w = (r, w') \<Longrightarrow> q \<noteq> p \<Longrightarrow> untouched p w w'"
  by (auto simp: open_for_write_def untouched_def dest!: answer_only split: prod.splits nest_answer.splits)

lemma close_keeps: "checkedClose file w = (r, w') \<Longrightarrow> fst file \<noteq> p \<Longrightarrow> untouched p w w'"
  by (auto simp: checkedClose_def untouched_def dest!: answer_only split: prod.splits nest_answer.splits)

lemma write_keeps: "writeRecord file rc w = ((e, file'), w') \<Longrightarrow> fst file \<noteq> p \<Longrightarrow> untouched p w w'"
  by (auto simp: writeRecord_def Let_def untouched_def dest!: answer_only split: prod.splits nest_answer.splits if_splits)

lemma write_result:
  "writeRecord file rc w = ((e, file'), w') \<Longrightarrow> fst file' = fst file \<and> (e = None \<longrightarrow> snd file' = snd file @ encodeFrame rc)"
  by (auto simp: writeRecord_def Let_def split: prod.splits nest_answer.splits if_splits)

lemma close_result: "checkedClose file w = (Inr x, w') \<Longrightarrow> nw_files w' (fst file) = Some (snd file)"
  by (auto simp: checkedClose_def split: prod.splits nest_answer.splits)

lemma open_result: "open_for_write q w = (Inr file, w') \<Longrightarrow> file = (q, [])"
  by (auto simp: open_for_write_def split: prod.splits nest_answer.splits)

definition handed :: "NestedCapture \<Rightarrow> MonitorRecord list \<Rightarrow> MonitorRecord list" where
  "handed capture records = map (handed_record capture) (filter (\<lambda>r. rec_kind r \<noteq> mrBackendProfile) records)"

lemma write_handed_result:
  "write_handed capture records f w = ((e, f'), w') \<Longrightarrow>
   fst f' = fst f \<and> (e = None \<longrightarrow> snd f' = snd f @ frames (handed capture records)) \<and>
   (\<forall>p. fst f \<noteq> p \<longrightarrow> untouched p w w')"
proof (induction records arbitrary: f w)
  case (Cons r rs)
  show ?case
  proof (cases "rec_kind r = mrBackendProfile")
    case True
    then show ?thesis using Cons.IH [of f w] Cons.prems by (simp add: handed_def)
  next
    case False
    obtain d g u where wr: "writeRecord f (handed_record capture r) w = ((d, g), u)" by (metis prod.collapse)
    note g = write_result [OF wr] and k = write_keeps [OF wr]
    show ?thesis
    proof (cases d)
      case None
      then have "write_handed capture rs g u = ((e, f'), w')" using Cons.prems False wr by simp
      from Cons.IH [OF this] show ?thesis using g k None False by (auto simp: handed_def frames_def intro: untouched_trans)
    next
      case (Some x)
      then show ?thesis using Cons.prems False wr g k by auto
    qed
  qed
qed (simp add: handed_def frames_def)

section \<open>The handoff\<close>

lemma capture_paths:
  assumes "cap = nested_capture dir parent source"
  shows "nc_pendingPath cap \<noteq> nc_evidencePath cap" "staging_path cap \<noteq> nc_pendingPath cap" "staging_path cap \<noteq> nc_evidencePath cap"
    "nested_active cap" "nc_parentRun cap = parent" "nc_sourceRun cap = source"
proof -
  show "staging_path cap \<noteq> nc_pendingPath cap"
  proof
    assume "staging_path cap = nc_pendingPath cap"
    then have "last (staging_path cap) = last (nc_pendingPath cap)" by simp
    then show False by (simp add: assms nested_capture_def staging_path_def Let_def)
  qed
qed (simp_all add: assms nested_capture_def staging_path_def nested_active_def Let_def)

lemma publish_safe:
  assumes "publish_evidence cap records w = (r, w')" "cap = nested_capture dir parent source"
    and "nw_files w (nc_pendingPath cap) = Some b" "nw_past w = []"
  shows "(\<forall>D \<in> set (nw_files w' # nw_past w'). D (nc_pendingPath cap) = Some b \<or>
      D (nc_evidencePath cap) = Some (frames (handed cap records))) \<and>
    (r = Inr () \<longrightarrow> nw_files w' (nc_pendingPath cap) = None \<and> nw_files w' (staging_path cap) = None \<and>
      nw_files w' (nc_evidencePath cap) = Some (frames (handed cap records)))"
proof -
  let ?p = "nc_pendingPath cap" and ?e = "nc_evidencePath cap" and ?s = "staging_path cap"
  note paths = capture_paths [OF assms(2)]
  have still: "?thesis" if "untouched ?p w v" "v = w'" "r \<noteq> Inr ()" for v using that assms(3,4) by (auto simp: untouched_def)
  obtain r1 w1 where op: "open_for_write ?s w = (r1, w1)" by (metis prod.collapse)
  have k1: "untouched ?p w w1" using open_keeps [OF op] paths by simp
  show ?thesis
  proof (cases r1)
    case (Inl x)
    then show ?thesis using assms(1) op by (intro still [OF k1]) (auto simp: publish_evidence_def)
  next
    case (Inr f)
    obtain x f2 w2 where wr: "write_handed cap records f w1 = ((x, f2), w2)" by (metis prod.collapse)
    obtain r3 w3 where cl: "checkedClose f2 w2 = (r3, w3)" by (metis prod.collapse)
    have f: "f = (?s, [])" using open_result op Inr by simp
    note res = write_handed_result [OF wr]
    have f2: "fst f2 = ?s" "x = None \<Longrightarrow> snd f2 = frames (handed cap records)" using res f by simp_all
    have "untouched ?p w1 w2" using res f paths by simp
    moreover have "untouched ?p w2 w3" using close_keeps [OF cl] f2 paths by simp
    ultimately have k3: "untouched ?p w w3" using k1 untouched_trans by blast
    show ?thesis
    proof (cases "r3 = Inr () \<and> x = None")
      case False
      then have "r \<noteq> Inr ()" "w' = w3" using assms(1) op Inr wr cl
        by (auto simp: publish_evidence_def split: sum.splits option.splits)
      then show ?thesis by (intro still [OF k3]) simp_all
    next
      case True
      have st: "nw_files w3 ?s = Some (frames (handed cap records))" using close_result cl True f2 by fastforce
      obtain r4 w4 where mv: "move_file ?s ?e w3 = (r4, w4)" by (metis prod.collapse)
      have pub: "publish_evidence cap records w = (case r4 of Inl e \<Rightarrow> (Inl e, w4) | Inr _ \<Rightarrow> remove_file ?p w4)"
        using op Inr wr cl True mv by (simp add: publish_evidence_def)
      show ?thesis
      proof (cases r4)
        case (Inl y)
        then have "nw_files w4 = nw_files w3" "nw_past w4 = nw_past w3"
          using mv st by (auto simp: move_file_def dest: answer_only split: prod.splits nest_answer.splits option.splits)
        then have "untouched ?p w w4" using k3 by (simp add: untouched_def)
        then show ?thesis using Inl pub assms(1) by (intro still [of w4]) auto
      next
        case (Inr y)
        have w4: "nw_files w4 = (nw_files w3)(?s := None, ?e \<mapsto> frames (handed cap records))" "nw_past w4 = nw_files w3 # nw_past w3"
          using mv st Inr by (auto simp: move_file_def dest: answer_only split: prod.splits nest_answer.splits option.splits)
        have k: "nw_files w3 ?p = Some b" "\<And>D. D \<in> set (nw_past w3) \<Longrightarrow> D ?p = Some b" using k3 assms(3,4) by (auto simp: untouched_def)
        have rm: "remove_file ?p w4 = (r, w')" using pub Inr assms(1) by simp
        show ?thesis
        proof (cases r)
          case (Inl z)
          then have "nw_files w' = nw_files w4" "nw_past w' = nw_past w4"
            using rm by (auto simp: remove_file_def dest: answer_only split: prod.splits nest_answer.splits)
          then show ?thesis using w4 k paths Inl by auto
        next
          case (Inr z)
          then have "nw_files w' = (nw_files w4)(?p := None)" "nw_past w' = nw_files w4 # nw_past w4"
            using rm by (auto simp: remove_file_def dest: answer_only split: prod.splits nest_answer.splits)
          then show ?thesis using w4 k paths by auto
        qed
      qed
    qed
  qed
qed

lemma finish_safe:
  assumes "finishNestedCapture cap records w = (r, w')" "cap = nested_capture dir parent source"
    and "nw_files w (nc_pendingPath cap) = Some b" "nw_past w = []"
  shows "(\<forall>D \<in> set (nw_files w' # nw_past w'). D (nc_pendingPath cap) = Some b \<or>
      D (nc_evidencePath cap) = Some (frames (handed cap records))) \<and>
    (r = Inr () \<longrightarrow> nw_files w' (nc_pendingPath cap) = None \<and> nw_files w' (staging_path cap) = None \<and>
      nw_files w' (nc_evidencePath cap) = Some (frames (handed cap records)))"
proof -
  note paths = capture_paths [OF assms(2)]
  obtain r1 w1 where pub: "publish_evidence cap records w = (r1, w1)" by (metis prod.collapse)
  note safe = publish_safe [OF pub assms(2-4)]
  show ?thesis
  proof (cases "nw_files w1 (staging_path cap) = None")
    case True
    then show ?thesis using safe assms(1) pub paths(4) by (simp add: finishNestedCapture_def)
  next
    case False
    obtain r2 w2 where rm: "remove_file (staging_path cap) w1 = (r2, w2)" by (metis prod.collapse)
    have w': "w' = w2" "r \<noteq> Inr ()" using assms(1) pub paths(4) False rm safe
      by (auto simp: finishNestedCapture_def split: sum.splits)
    have "nw_files w2 = nw_files w1 \<and> nw_past w2 = nw_past w1 \<or>
        nw_files w2 = (nw_files w1)(staging_path cap := None) \<and> nw_past w2 = nw_files w1 # nw_past w1"
      using rm by (auto simp: remove_file_def dest: answer_only split: prod.splits nest_answer.splits)
    then show ?thesis using safe w' paths by auto
  qed
qed

lemma start_result:
  assumes "startNestedCapture dir parent source w = (Inr cap, w')" "dir \<noteq> []" "parent \<noteq> []"
  shows "cap = nested_capture dir parent source \<and> nw_files w' (nc_pendingPath cap) = Some (frames [pending_loss parent source])"
proof -
  let ?c = "nested_capture dir parent source"
  obtain f w1 where op: "open_for_write (nc_pendingPath ?c) w = (Inr f, w1)"
    using assms by (auto simp: startNestedCapture_def Let_def split: prod.splits sum.splits)
  obtain x f2 w2 where wr: "writeRecord f (pending_loss parent source) w1 = ((x, f2), w2)" by (metis prod.collapse)
  have cl: "checkedClose f2 w2 = (Inr (), w')" "x = None" "cap = ?c"
    using assms op wr by (auto simp: startNestedCapture_def Let_def split: prod.splits sum.splits option.splits)
  show ?thesis using close_result [OF cl(1)] write_result [OF wr] open_result [OF op] cl(2,3) by (auto simp: frames_def)
qed

section \<open>The words of a rewritten detail\<close>

lemma tokens_blank: "isWhitespace c \<Longrightarrow> detailTokens (c # s) = detailTokens s"
  by (subst (1 2) detailTokens.simps) (simp add: isDetailSpace_eq)

lemma tokens_word:
  assumes "is_word w" "rest = [] \<or> isWhitespace (hd rest)"
  shows "detailTokens (w @ rest) = w # detailTokens rest"
proof -
  have d: "dropWhile isWhitespace (w @ rest) = w @ rest" using assms(1) by (cases w) (simp_all add: is_word_def)
  have "takeWhile (\<lambda>c. \<not> isWhitespace c) rest = []" "dropWhile (\<lambda>c. \<not> isWhitespace c) rest = rest"
    using assms(2) by (cases rest; simp)+
  then have "takeWhile (\<lambda>c. \<not> isWhitespace c) (w @ rest) = w" "dropWhile (\<lambda>c. \<not> isWhitespace c) (w @ rest) = rest"
    using assms(1) by (simp_all add: is_word_def)
  then show ?thesis using assms(1) unfolding detailTokens.simps [of "w @ rest"] Let_def isDetailSpace_eq d by (simp add: is_word_def)
qed

lemma tokens_Nil [simp]: "detailTokens [] = []"
  by (simp add: detailTokens.simps)

lemma drop_run_inside: "\<forall>c \<in> set w. \<not> isWhitespace c \<Longrightarrow> drop_run_words False (w @ rest) = w @ drop_run_words False rest"
  by (induction w) simp_all

lemma starts_run_word:
  "rest = [] \<or> isWhitespace (hd rest) \<Longrightarrow> starts_with (w @ rest) ''run='' \<longleftrightarrow> starts_with w ''run=''"
  by (cases rest; cases w; cases "tl w"; cases "tl (tl w)"; cases "tl (tl (tl w))") (auto simp: starts_with_def isWhitespace_def)

lemma drop_run_boundary: "rest = [] \<or> isWhitespace (hd rest) \<Longrightarrow> drop_run_words False rest = drop_run_words True rest"
  by (cases rest) (auto simp: starts_with_def isWhitespace_def)

lemma drop_run_starts: "rest = [] \<or> isWhitespace (hd rest) \<Longrightarrow> tail = [] \<or> isWhitespace (hd tail) \<Longrightarrow>
    drop_run_words True rest @ tail = [] \<or> isWhitespace (hd (drop_run_words True rest @ tail))"
  by (cases rest) (auto simp: starts_with_def isWhitespace_def)

lemma tokens_drop_run:
  assumes "tail = [] \<or> isWhitespace (hd tail)"
  shows "detailTokens (drop_run_words True d @ tail) = filter (\<lambda>t. \<not> starts_with t ''run='') (detailTokens d) @ detailTokens tail"
proof (induction "length d" arbitrary: d rule: less_induct)
  case less
  show ?case
  proof (cases d)
    case (Cons c cs)
    show ?thesis
    proof (cases "isWhitespace c")
      case True
      then have "drop_run_words True d = c # drop_run_words True cs" using Cons by (auto simp: starts_with_def isWhitespace_def)
      then show ?thesis using less [of cs] Cons True by (simp add: tokens_blank)
    next
      case False
      let ?w = "takeWhile (\<lambda>c. \<not> isWhitespace c) d" and ?r = "dropWhile (\<lambda>c. \<not> isWhitespace c) d"
      have w: "is_word ?w" using False Cons by (auto simp: is_word_def dest: set_takeWhileD)
      have r: "?r = [] \<or> isWhitespace (hd ?r)" using hd_dropWhile [of "\<lambda>c. \<not> isWhitespace c" d] by auto
      have d: "d = ?w @ ?r" by simp
      have len: "length ?r < length d" using False Cons by (simp add: less_Suc_eq_le length_dropWhile_le)
      have toks: "detailTokens d = ?w # detailTokens ?r" using tokens_word [OF w r] by simp
      have run: "starts_with d ''run='' \<longleftrightarrow> starts_with ?w ''run=''" using starts_run_word [OF r, of ?w] by simp
      show ?thesis
      proof (cases "starts_with d ''run=''")
        case True
        then have "drop_run_words True d = drop_run_words True ?r" using drop_run_boundary [OF r] Cons by simp
        then show ?thesis using less [OF len] toks run True by simp
      next
        case no: False
        have "drop_run_words True d = drop_run_words False d"
          using no Cons False by simp
        also have "\<dots> = ?w @ drop_run_words True ?r"
          using drop_run_inside [of ?w ?r] w drop_run_boundary [OF r] by (simp add: is_word_def)
        finally have "detailTokens (drop_run_words True d @ tail) = ?w # detailTokens (drop_run_words True ?r @ tail)"
          using tokens_word [OF w drop_run_starts [OF r assms]] by simp
        then show ?thesis using less [OF len] toks run no by simp
      qed
    qed
  qed simp
qed

lemma parent_tokens:
  assumes "is_word parent" "is_word source"
  shows "detailTokens (parentDetail d parent source) =
    filter (\<lambda>t. \<not> starts_with t ''run='') (detailTokens d) @ [''run='' @ parent, ''nested-run='' @ source]"
proof -
  have words: "is_word (''run='' @ parent)" "is_word (''nested-run='' @ source)"
    using assms by (auto simp: is_word_def isWhitespace_def)
  have sp: "isWhitespace CHR '' ''" by (simp add: isWhitespace_def)
  have "detailTokens (''nested-run='' @ source) = [''nested-run='' @ source]"
    using tokens_word [OF words(2), of "[]"] by simp
  then have "detailTokens (CHR '' '' # ''nested-run='' @ source) = [''nested-run='' @ source]" using tokens_blank [OF sp] by metis
  then have "detailTokens ((''run='' @ parent) @ CHR '' '' # ''nested-run='' @ source) = [''run='' @ parent, ''nested-run='' @ source]"
    using tokens_word [OF words(1), of "CHR '' '' # ''nested-run='' @ source"] sp by simp
  then have "detailTokens (CHR '' '' # (''run='' @ parent) @ CHR '' '' # ''nested-run='' @ source) =
      [''run='' @ parent, ''nested-run='' @ source]" using tokens_blank [OF sp] by metis
  then show ?thesis
    using tokens_drop_run [of "CHR '' '' # (''run='' @ parent) @ CHR '' '' # ''nested-run='' @ source" d] sp
    by (simp add: parentDetail_def)
qed

lemma token_twice_count:
  "token_twice needle seen toks \<longleftrightarrow> 2 \<le> length (filter (\<lambda>t. tokenStartsWith t needle) toks) + (if seen then 1 else 0)"
  by (induction toks arbitrary: seen) auto

lemma tokens_subset: "t \<in> set (detailTokens d) \<Longrightarrow> set t \<subseteq> set d"
proof (induction d rule: detailTokens.induct)
  case (1 d)
  let ?r = "dropWhile isDetailSpace d"
  have r: "set ?r \<subseteq> set d" by (auto dest: set_dropWhileD)
  show ?case
  proof (cases "?r = []")
    case True
    then show ?thesis using 1(2) by (simp add: detailTokens.simps [of d])
  next
    case False
    have "detailTokens d = takeWhile (\<lambda>c. \<not> isDetailSpace c) ?r # detailTokens (dropWhile (\<lambda>c. \<not> isDetailSpace c) ?r)"
      using False by (subst detailTokens.simps) (simp only: Let_def if_False)
    then consider "t = takeWhile (\<lambda>c. \<not> isDetailSpace c) ?r" | "t \<in> set (detailTokens (dropWhile (\<lambda>c. \<not> isDetailSpace c) ?r))"
      using 1(2) by auto
    then show ?thesis
    proof cases
      case 1
      then show ?thesis using r set_takeWhileD by fastforce
    next
      case 2
      then show ?thesis using "1.IH" [OF refl False] r set_dropWhileD by fastforce
    qed
  qed
qed

lemma token_needs_equals:
  assumes "tokenStartsWith t (key @ ''='')" "t \<in> set (detailTokens d)"
  shows "detailHasTokenSyntax d"
proof -
  have "CHR ''='' \<in> set t"
    using assms(1) in_set_takeD [of "CHR ''=''" "length (key @ ''='')" t] by (auto simp: tokenStartsWith_def)
  then show ?thesis using tokens_subset [OF assms(2)] by (auto simp: detailHasTokenSyntax_def)
qed

lemma duplicate_count:
  "detailTokenDuplicate d key \<longleftrightarrow> 2 \<le> length (filter (\<lambda>t. tokenStartsWith t (key @ ''='')) (detailTokens d))"
proof (cases "detailHasTokenSyntax d")
  case False
  then have "filter (\<lambda>t. tokenStartsWith t (key @ ''='')) (detailTokens d) = []"
    using token_needs_equals by (auto simp: filter_empty_conv)
  then show ?thesis using False by (simp only: detailTokenDuplicate_def) simp
qed (simp add: detailTokenDuplicate_def token_twice_count)

lemma find_filter: "find P xs = (case filter P xs of [] \<Rightarrow> None | x # _ \<Rightarrow> Some x)"
  by (induction xs) auto

lemma starts_apart: "k \<noteq> ''run'' \<Longrightarrow> k \<in> {StartTimeToken, ChildStartTimeToken, PeerStartTimeToken, NonceToken} \<Longrightarrow>
    \<not> tokenStartsWith (''run='' @ p) (k @ ''='') \<and> \<not> tokenStartsWith (''nested-run='' @ s) (k @ ''='')"
  by (auto simp: tokenStartsWith_def token_defs)

lemma parent_detail_run:
  assumes "is_word parent" "is_word source" "\<not> hasDuplicateIdentityToken d"
  shows "\<not> hasDuplicateIdentityToken (parentDetail d parent source)"
    "trustedDetailToken (parentDetail d parent source) RunIdToken = parent"
proof -
  note toks = parent_tokens [OF assms(1,2), of d]
  have none: "filter (\<lambda>t. tokenStartsWith t ''run='') (filter (\<lambda>t. \<not> starts_with t ''run='') ts) = []" for ts
    by (auto simp: filter_empty_conv tokenStartsWith_def starts_with_def)
  have last: "\<not> tokenStartsWith (''nested-run='' @ source) ''run=''" "tokenStartsWith (''run='' @ parent) ''run=''"
    using assms(1) by (auto simp: tokenStartsWith_def is_word_def)
  have run: "filter (\<lambda>t. tokenStartsWith t (RunIdToken @ ''='')) (detailTokens (parentDetail d parent source)) = [''run='' @ parent]"
    unfolding toks using none last by (simp add: RunIdToken_def)
  have dup: "\<not> detailTokenDuplicate (parentDetail d parent source) k"
    if k: "k \<in> {StartTimeToken, ChildStartTimeToken, PeerStartTimeToken, NonceToken}" for k
  proof -
    have "k \<noteq> ''run''" using k by (auto simp: token_defs)
    note ap = starts_apart [OF this k]
    have le: "length (filter (\<lambda>t. tokenStartsWith t (k @ ''='')) (filter P ts)) \<le> length (filter (\<lambda>t. tokenStartsWith t (k @ ''='')) ts)" for P ts
      by (induction ts) auto
    have "\<not> detailTokenDuplicate d k" using assms(3) k by (auto simp: hasDuplicateIdentityToken_def)
    then have "length (filter (\<lambda>t. tokenStartsWith t (k @ ''='')) (detailTokens d)) < 2" by (simp only: duplicate_count not_le)
    then show ?thesis
      unfolding duplicate_count toks using ap le [of "\<lambda>t. \<not> starts_with t ''run=''" "detailTokens d"]
      by (simp del: filter_filter)
  qed
  moreover have rdup: "\<not> detailTokenDuplicate (parentDetail d parent source) RunIdToken"
    unfolding duplicate_count run by simp
  ultimately show "\<not> hasDuplicateIdentityToken (parentDetail d parent source)" by (auto simp: hasDuplicateIdentityToken_def)
  have "''run='' @ parent \<in> set (detailTokens (parentDetail d parent source))" unfolding toks by simp
  then have syn: "detailHasTokenSyntax (parentDetail d parent source)"
    using token_needs_equals [of "''run='' @ parent" RunIdToken] last(2) by (simp add: RunIdToken_def)
  have "find (\<lambda>t. tokenStartsWith t (RunIdToken @ ''='')) (detailTokens (parentDetail d parent source)) = Some (''run='' @ parent)"
    by (simp only: find_filter run list.case)
  then show "trustedDetailToken (parentDetail d parent source) RunIdToken = parent"
    using syn rdup by (simp add: trustedDetailToken_def detailToken_def RunIdToken_def)
qed

end
