(* ===== verification/Nested_Properties.thy ===== *)
theory Nested_Properties
  imports Nested_Facts Depfile_Properties
begin

text \<open>What the enclosing run learns of a nested one.\<close>

text \<open>
  C12. The handoff of a nested run hides no loss.  Once the start of the capture has returned, whatever
  call of the publication fails and at whatever call the host dies, the directory has the marker, whose
  record is an event loss, or the whole evidence, which decodes to every record of the nested run but
  its profile; and after a publication that returns, the evidence is there and the marker is not.
\<close>

theorem nested_handoff_hides_no_loss:
  assumes "startNestedCapture dir parent source w0 = (Inr cap, w1)" "dir \<noteq> []" "parent \<noteq> []"
    and "nw_files w (nc_pendingPath cap) = nw_files w1 (nc_pendingPath cap)" "nw_past w = []"
    and "finishNestedCapture cap records w = (r, w')"
    and "encodable (pending_loss parent source)"
    and "\<forall>x \<in> set records. rec_kind x \<noteq> mrBackendProfile \<longrightarrow> encodable (handed_record cap x)"
  shows "(\<forall>D \<in> set (nw_files w' # nw_past w').
      (\<exists>b. D (nc_pendingPath cap) = Some b \<and> decodeFramesTolerant b = ([pending_loss parent source], True)) \<or>
      (\<exists>b. D (nc_evidencePath cap) = Some b \<and>
        decodeFramesTolerant b = (map (handed_record cap) (filter (\<lambda>x. rec_kind x \<noteq> mrBackendProfile) records), True))) \<and>
    rec_kind (pending_loss parent source) = mrEventLoss \<and>
    (r = Inr () \<longrightarrow> nw_files w' (nc_pendingPath cap) = None \<and>
      (\<exists>b. nw_files w' (nc_evidencePath cap) = Some b \<and>
        decodeFramesTolerant b = (map (handed_record cap) (filter (\<lambda>x. rec_kind x \<noteq> mrBackendProfile) records), True)))"
proof -
  note st = start_result [OF assms(1-3)]
  have cap: "cap = nested_capture dir parent source" using st by blast
  have pend: "nw_files w (nc_pendingPath cap) = Some (frames [pending_loss parent source])" unfolding assms(4) using st by blast
  note safe = finish_safe [OF assms(6) cap pend assms(5)]
  have "decodeFramesTolerant (frames [pending_loss parent source]) = ([pending_loss parent source], True)"
    using assms(7) by (intro tolerant_frames) simp
  moreover have "decodeFramesTolerant (frames (handed cap records)) = (handed cap records, True)"
    using assms(8) by (intro tolerant_frames) (simp add: handed_def)
  ultimately show ?thesis using safe unfolding handed_def by (auto simp: pending_loss_def event_loss_def)
qed

definition nested_demo :: nest_world where
  "nested_demo = \<lparr>nw_files = (\<lambda>_. None), nw_answers = [], nw_past = []\<rparr>"

theorem nested_handoff_hides_no_loss_witness:
  "let w1 = snd (startNestedCapture ''/f'' ''r7'' ''n1'' nested_demo); cap = nested_capture ''/f'' ''r7'' ''n1'';
       w' = snd (finishNestedCapture cap [sample_record] (w1\<lparr>nw_past := [], nw_answers := [Succeeds 0, Succeeds 5, Succeeds 0, Succeeds 0, Fails 0]\<rparr>)) in
   \<forall>D \<in> set (nw_files w' # nw_past w').
      (\<exists>b. D (nc_pendingPath cap) = Some b \<and> decodeFramesTolerant b = ([pending_loss ''r7'' ''n1''], True)) \<or>
      (\<exists>b. D (nc_evidencePath cap) = Some b \<and>
        decodeFramesTolerant b = (map (handed_record cap) (filter (\<lambda>x. rec_kind x \<noteq> mrBackendProfile) [sample_record]), True))"
proof -
  let ?w1 = "snd (startNestedCapture ''/f'' ''r7'' ''n1'' nested_demo)" and ?cap = "nested_capture ''/f'' ''r7'' ''n1''"
  let ?w = "?w1\<lparr>nw_past := [], nw_answers := [Succeeds 0, Succeeds 5, Succeeds 0, Succeeds 0, Fails 0]\<rparr>"
  have st: "startNestedCapture ''/f'' ''r7'' ''n1'' nested_demo = (Inr ?cap, ?w1)"
    by (simp add: startNestedCapture_def nested_demo_def Let_def open_for_write_def writeRecord_def checkedClose_def take_answer_def set_files_def)
  have enc: "encodable (pending_loss ''r7'' ''n1'')" "encodable (handed_record ?cap sample_record)"
    by (simp_all add: encodable_def pending_loss_def event_loss_def handed_record_def parentDetail_def nested_capture_def sample_record_def
        starts_with_def isWhitespace_def is_int64_def)
  show ?thesis unfolding Let_def
    by (rule conjunct1 [OF nested_handoff_hides_no_loss [OF st _ _ _ _ prod.collapse [symmetric], where w = ?w]])
      (use enc in simp_all)
qed

text \<open>
  C34. The evidence counts for the enclosing run: every record that is handed over carries the enclosing run's id
  and no other, and none of its other identity words changes, so the merge of the enclosing run keeps the
  record whatever process ids were seen, as long as the record had no duplicate identity word before.
\<close>

theorem handed_records_belong_to_the_parent:
  assumes "is_word parent" "is_word source" "\<not> hasDuplicateIdentityToken (rec_detail x)"
    and "nc_parentRun cap = parent" "nc_sourceRun cap = source"
  shows "run_scope runs parent (handed_record cap x) = KeepRecord \<and>
    detailTokens (rec_detail (handed_record cap x)) =
      filter (\<lambda>t. \<not> starts_with t ''run='') (detailTokens (rec_detail x)) @ [''run='' @ parent, ''nested-run='' @ source]"
  using parent_detail_run [OF assms(1-3)] parent_tokens [OF assms(1,2), of "rec_detail x"] assms(1,4,5)
  by (simp add: run_scope_def handed_record_def is_word_def)

theorem handed_records_belong_to_the_parent_witness:
  "run_scope (\<lambda>_. {''r6''}) ''r7'' (handed_record (nested_capture ''/f'' ''r7'' ''n1'') (sample_record\<lparr>rec_detail := ''x run=n1 start=55''\<rparr>)) = KeepRecord"
proof (rule conjunct1 [OF handed_records_belong_to_the_parent [where source = "''n1''"]])
  show "is_word ''r7''" "is_word ''n1''" "\<not> hasDuplicateIdentityToken (rec_detail (sample_record\<lparr>rec_detail := ''x run=n1 start=55''\<rparr>))"
    by code_simp+
qed (simp_all add: nested_capture_def Let_def)

end
