(* ===== verification/Mapping_Policy.thy ===== *)
theory Mapping_Policy
  imports Merge
begin

text \<open>
  Which mappings of a process the Linux shim scans for inline system calls
  (\<^verbatim>\<open>src/io_mon/hooks/linux_mapping_policy.nim\<close>).  \<open>expandSymlink\<close> is what the system says of a path:
  \<^const>\<open>None\<close> when it raises.
\<close>

record LinuxExecutableMapping =
  lm_readable :: bool
  lm_writable :: bool
  lm_executable :: bool
  lm_privateMapping :: bool
  lm_path :: string

definition normalizeMappingPath :: "(string \<Rightarrow> string option) \<Rightarrow> string \<Rightarrow> string" where
  "normalizeMappingPath expandSymlink path =
    (if length path = 0 then [] else case expandSymlink path of Some p \<Rightarrow> p | None \<Rightarrow> path)"

definition extractFilename :: "string \<Rightarrow> string" where
  "extractFilename path = rev (takeWhile (\<lambda>c. c \<noteq> CHR ''/'') (rev path))"

definition runtime_names :: "string list" where
  "runtime_names = [''libanl.so.1'', ''libBrokenLocale.so.1'', ''libc.so.6'', ''libdl.so.2'',
     ''libm.so.6'', ''libmvec.so.1'', ''libpthread.so.0'', ''libresolv.so.2'',
     ''librt.so.1'', ''libthread_db.so.1'', ''libutil.so.1'']"

definition isSystemRuntimeMappingPath :: "string \<Rightarrow> bool" where
  "isSystemRuntimeMappingPath path \<longleftrightarrow>
    (let filename = extractFilename path in
     filename \<in> set runtime_names \<or>
     starts_with filename ''libnss_'' \<or> starts_with filename ''ld-linux-'' \<or> starts_with filename ''ld-musl-'' \<or>
     starts_with path ''/lib/'' \<or> starts_with path ''/lib64/'' \<or>
     starts_with path ''/usr/lib/'' \<or> starts_with path ''/usr/lib64/'' \<or>
     starts_with path ''/nix/store/'')"

definition isMonitorShimMappingPath :: "string \<Rightarrow> bool" where
  "isMonitorShimMappingPath path \<longleftrightarrow>
     find_sub ''/librepro_monitor_shim.'' path \<noteq> None \<or>
     ends_with path ''/librepro_monitor_shim.so'' \<or>
     ends_with path ''/librepro_monitor_shim.so (deleted)''"

definition shouldPatchInlineSyscallMapping ::
    "(string \<Rightarrow> string option) \<Rightarrow> LinuxExecutableMapping \<Rightarrow> string \<Rightarrow> bool" where
  "shouldPatchInlineSyscallMapping expandSymlink mapping executablePath =
    (if \<not> (lm_readable mapping \<and> lm_executable mapping) then False
     else if lm_writable mapping \<or> length (lm_path mapping) = 0 \<or> \<not> lm_privateMapping mapping then False
     else if hd (lm_path mapping) = CHR ''['' \<or> hd (lm_path mapping) \<noteq> CHR ''/'' then False
     else if length executablePath = 0 then False
     else let normalized = normalizeMappingPath expandSymlink (lm_path mapping) in
       if isMonitorShimMappingPath normalized \<or> isSystemRuntimeMappingPath normalized then False
       else if normalized = executablePath then True
       else ends_with normalized ''.so'' \<or> find_sub ''.so.'' normalized \<noteq> None)"

text \<open>
  The exclusions come first: no mapping of the loader, the C library, a toolchain or the shim is ever
  scanned, not even when it is the executable itself.
\<close>

lemma patched_mapping:
  assumes "shouldPatchInlineSyscallMapping expandSymlink mapping executablePath"
  shows "lm_readable mapping \<and> lm_executable mapping \<and> \<not> lm_writable mapping \<and> lm_privateMapping mapping \<and>
    starts_with (lm_path mapping) ''/'' \<and>
    \<not> isSystemRuntimeMappingPath (normalizeMappingPath expandSymlink (lm_path mapping)) \<and>
    \<not> isMonitorShimMappingPath (normalizeMappingPath expandSymlink (lm_path mapping))"
  using assms by (cases "lm_path mapping") (auto simp: shouldPatchInlineSyscallMapping_def starts_with_def Let_def split: if_splits)

text \<open>A process whose executable lies in the store of a package manager has no scanned executable.\<close>

lemma store_executable_not_patched:
  assumes "starts_with (normalizeMappingPath expandSymlink (lm_path mapping)) ''/nix/store/''"
  shows "\<not> shouldPatchInlineSyscallMapping expandSymlink mapping executablePath"
  using patched_mapping [of expandSymlink mapping executablePath] assms by (auto simp: isSystemRuntimeMappingPath_def Let_def)

end
