(* ===== verification/Probe_Facts.thy ===== *)
theory Probe_Facts
  imports Macos_Probes
begin

text \<open>
  Facts on the probes: running a program with no fault left in the schedule, and what an open and a
  reading loop guarantee under every schedule.
\<close>

lemmas call_defs = sys_def open_as_def c_open_def open_body_def install_def install_id_def lowest_free_def
  fd_ofd_def take_body_def put_body_def with_len_def read_as_def write_as_def close_as_def move_as_def
  move_body_def set_ofd_def Let_def can_read_def can_write_def perror_def eprintf_def printf_def

text \<open>A process as its parent starts it: the three standard descriptors, and no fault to come.\<close>

definition started :: "os \<Rightarrow> bool" where
  "started s \<longleftrightarrow> os_fd s = [(0, 0), (1, 1), (2, 2)] \<and> os_faults s = []"

definition is_file :: "os \<Rightarrow> string \<Rightarrow> nat \<Rightarrow> bool" where
  "is_file s p i \<longleftrightarrow> os_dir s (resolve s p) = Some (NFile i) \<and> resolve s p \<notin> set (os_dirs s)"

lemma resolve_simps [simp]:
  "resolve (s\<lparr>os_trace := t\<rparr>) p = resolve s p" "resolve (s\<lparr>os_faults := fs\<rparr>) p = resolve s p"
  "resolve (s\<lparr>os_errno := e\<rparr>) p = resolve s p" "resolve (s\<lparr>os_fd := f\<rparr>) p = resolve s p"
  "resolve (s\<lparr>os_ofd := ofs\<rparr>) p = resolve s p" "resolve (s\<lparr>os_fresh := n\<rparr>) p = resolve s p"
  "resolve (s\<lparr>os_data := da\<rparr>) p = resolve s p" "resolve (s\<lparr>os_dir := di\<rparr>) p = resolve s p"
  "resolve (s\<lparr>os_pipe := pi\<rparr>) p = resolve s p" "resolve (s\<lparr>os_rights := ri\<rparr>) p = resolve s p"
  "resolve (s\<lparr>os_environ := en\<rparr>) p = resolve s p" "resolve (s\<lparr>os_incoming := inc\<rparr>) p = resolve s p"
  "resolve (s\<lparr>os_stdout := so\<rparr>) p = resolve s p" "resolve (s\<lparr>os_stderr := se\<rparr>) p = resolve s p"
  by (simp_all add: resolve_def)

lemma overwrite_empty [simp]: "overwrite [] 0 b = b"
  by (simp add: overwrite_def)

definition copies :: "(string list \<Rightarrow> outcome prog) \<Rightarrow> nat \<Rightarrow> os \<Rightarrow> string \<Rightarrow> string \<Rightarrow> nat \<Rightarrow> nat \<Rightarrow> bool" where
  "copies probe n s src out i j \<longleftrightarrow>
     (\<forall>a. case run_state (probe [a, src, out]) s of
        (r, t) \<Rightarrow> r = Exit (if os_data s i = [] then 3 else 0) \<and>
          os_data t j = take n (os_data s i) \<and> os_data t i = os_data s i)"

lemma copies_sendfile:
  assumes "started s" "is_file s src i" "is_file s out j" "i \<noteq> j"
  shows "copies sendfile_raw (2 ^ 20) s src out i j"
  using assms unfolding copies_def sendfile_raw_def started_def is_file_def
  by (simp add: xopenat_def xsendfile_def call_defs fail_def slice_def)

lemma copies_copy_file_range:
  assumes "started s" "is_file s src i" "is_file s out j" "i \<noteq> j"
  shows "copies copy_file_range_raw (2 ^ 20) s src out i j" "copies copy_file_range_libc (2 ^ 20) s src out i j"
  using assms unfolding copies_def copy_file_range_raw_def copy_file_range_libc_def started_def is_file_def
  by (simp_all add: xopenat_def xcopy_file_range_def call_defs fail_def slice_def)

lemma copies_splice:
  assumes "started s" "is_file s src i" "is_file s out j" "i \<noteq> j"
  shows "copies splice_raw (2 ^ 20) s src out i j"
  using assms unfolding copies_def splice_raw_def started_def is_file_def
  by (simp add: xopenat_def xsplice_def c_pipe_def call_defs fail_def slice_def) (simp add: min_def)

section \<open>The trace of a probe\<close>

text \<open>A shim sees the libc calls; this event does not show it a path.\<close>

definition unseen :: "event \<Rightarrow> bool" where
  "unseen e \<longleftrightarrow> (ev_route e = Libc \<longrightarrow> ev_path e = [])"

lemma unseen_simps [simp]: "unseen (Ev Raw name p)" "unseen (Ev Ring name p)" "unseen (Ev Libc name [])"
  by (simp_all add: unseen_def)

lemma traced_printf: "honours (only Q) (printf msg)"
  by (rule honoursI) (auto simp: printf_def only_def)

lemma traced_fail: "honours (only Q) (fail msg)" "honours (only Q) (usage argv text)"
  unfolding fail_def usage_def by (intro traced.resp_calls)+

lemma traced_print_sum: "honours (only Q) (print_sum name sm)"
  unfolding print_sum_def by (intro traced.resp_calls traced_printf)

lemma unseen_xopenat: "honours (only unseen) (xopenat p flags)"
  unfolding xopenat_def by (intro traced.resp_calls) simp

lemma unseen_statx: "honours (only unseen) (statx p)"
  unfolding statx_def
  by (rule traced.resp_sys) (auto dest!: stat_body_kept split: sum.splits prod.splits)

lemma unseen_xsplice: "honours (only unseen) (xsplice i j n)"
  unfolding xsplice_def by (intro traced.resp_calls) simp_all

lemmas unseen_intros = traced.resp_calls traced_printf traced_fail traced_print_sum unseen_xopenat
  unseen_statx unseen_xsplice

lemma unseen_raw_probes:
  "honours (only unseen) (copy_file_range_raw argv)" "honours (only unseen) (sendfile_raw argv)"
  "honours (only unseen) (splice_raw argv)" "honours (only unseen) (ficlone_raw argv)"
  "honours (only unseen) (raw_openat_read argv)" "honours (only unseen) (raw_openat2_read argv)"
  "honours (only unseen) (raw_syscall_read argv)" "honours (only unseen) (raw_statx_probe argv)"
  "honours (only unseen) (io_uring_probe have argv)"
  unfolding copy_file_range_raw_def sendfile_raw_def splice_raw_def ficlone_raw_def raw_openat_read_def
    raw_openat2_read_def raw_syscall_read_def raw_statx_probe_def io_uring_probe_def
    xcopy_file_range_def xsendfile_def
  by (intro unseen_intros; simp)+

section \<open>Reading under any schedule\<close>

lemma open_read_file:
  assumes "run_state (open_as route name (Some p) flags) s = (fd, t)" "0 \<le> fd" "is_file s p i"
    and "O_TRUNC \<notin> set flags" "O_DIRECTORY \<notin> set flags" "can_read flags"
  shows "unread fd t = os_data s i"
proof -
  let ?s = "s\<lparr>os_trace := os_trace s @ [Ev route name p]\<rparr>"
  obtain f u where pf: "pop_fault ?s = (f, u)" by (cases "pop_fault ?s") auto
  note u = pop_fault_cases [OF pf]
  show ?thesis
  proof (cases "\<exists>e. f = Fail e")
    case True
    then show ?thesis using assms(1,2) pf by (auto simp: open_as_def sys_def)
  next
    case False
    have "(fd, t) = install (OFile i) (can_read flags) (can_write flags) u"
      using assms(1,3-5) pf u False
      by (cases f) (auto simp: open_as_def sys_def open_body_def is_file_def)
    then show ?thesis using u assms(6)
      by (simp add: install_def install_id_def Let_def unread_def fd_ofd_def)
  qed
qed

lemma byte_fold_sum: "byte_fold byte_sum"
  by (simp add: byte_fold_def byte_sum_def)

lemma byte_fold_count: "byte_fold step \<Longrightarrow> byte_fold (count_and step)"
  by (simp add: byte_fold_def count_and_def)

lemma byte_fold_hashes: "byte_fold (fnv1a_step prime)" "byte_fold djb2_step"
  by (simp_all add: byte_fold_def fnv1a_step_def djb2_step_def)

text \<open>
  The shape of the reading probes: open, loop to the end, close, print.  When such a program exits
  with 0 it has printed the fold of the whole file, whatever short reads happened.
\<close>

lemma open_loop_print:
  assumes run: "run_state (do {
      fd \<leftarrow> open_as r1 n1 (Some p) flags;
      if fd < 0 then bad1
      else do {
        (n, acc) \<leftarrow> read_all r2 n2 fd 4096 step init;
        if n < 0 then bad2 fd
        else do { _ \<leftarrow> close_as r3 fd; do { printf (show_acc acc); ret (Exit 0) } }
      } }) s = (Exit 0, t)"
    and isf: "is_file s p i" "O_TRUNC \<notin> set flags" "O_DIRECTORY \<notin> set flags" "can_read flags"
    and fold: "byte_fold step"
    and bad: "\<And>u v. run_state bad1 u \<noteq> (Exit 0, v)" "\<And>fd u v. run_state (bad2 fd) u \<noteq> (Exit 0, v)"
  shows "os_stdout t = os_stdout s @ show_acc (step (os_data s i) init)"
proof -
  obtain fd u where op: "run_state (open_as r1 n1 (Some p) flags) s = (fd, u)" by (metis prod.collapse)
  have fd: "0 \<le> fd" using run bad(1) op by (auto split: if_splits)
  obtain n acc v where rd: "run_state (read_all r2 n2 fd 4096 step init) u = ((n, acc), v)"
    by (metis prod.collapse)
  then have lp: "read_loop r2 n2 fd 4096 step init u = ((n, acc), v)" by (simp add: read_all_def)
  obtain c w where cl: "run_state (close_as r3 fd) v = (c, w)" by (metis prod.collapse)
  have n: "\<not> n < 0" using run bad(2) op fd rd by (auto split: if_splits)
  have t: "t = w\<lparr>os_stdout := os_stdout w @ show_acc acc\<rparr>"
    using run op fd rd n cl by (simp add: printf_def)
  have "acc = step (os_data s i) init"
    using read_loop_folds [OF lp fold] n open_read_file [OF op fd isf] by auto
  moreover have "os_stdout w = os_stdout s"
    using honoursD [OF quiet.resp_open_as [OF TrueI] op] honoursD [OF quiet.resp_read_all [OF TrueI] rd]
      honoursD [OF quiet.resp_close [OF TrueI] cl] by (simp add: same_stdout_def)
  ultimately show ?thesis using t by simp
qed

definition sum_probe :: "route \<Rightarrow> string \<Rightarrow> outcome prog \<Rightarrow> route \<Rightarrow> string \<Rightarrow> string \<Rightarrow> string \<Rightarrow> outcome prog" where
  "sum_probe r1 call bad r2 msg name p = do {
     fd \<leftarrow> open_as r1 call (Some p) [O_RDONLY, O_CLOEXEC];
     if fd < 0 then bad
     else do {
       (n, sm) \<leftarrow> read_all r2 ''read'' fd 4096 byte_sum 0;
       if n < 0 then do { perror msg; _ \<leftarrow> close_as r2 fd; ret (Exit 1) }
       else do { _ \<leftarrow> close_as r2 fd; do { printf (name @ '' sum='' @ nat_text (unat sm) @ [CHR 0x0A]); ret (Exit 0) } }
     }
   }"

definition openat2_bad :: "outcome prog" where
  "openat2_bad = do {
     e \<leftarrow> c_errno;
     if e = ENOSYS then do { eprintf ''openat2 unavailable on this kernel''; ret (Exit 77) }
     else fail ''syscall(SYS_openat2)''
   }"

lemma sum_probes:
  "baseline_open_read [a, p] = sum_probe Libc ''open'' (fail ''open'') Libc ''read'' ''baseline_open_read'' p"
  "raw_openat2_read [a, p] = sum_probe Raw ''openat2'' openat2_bad Libc ''read'' ''raw_openat2_read'' p"
  "raw_openat_read [a, p] =
     sum_probe Raw ''openat'' (fail ''syscall(SYS_openat)'') Raw ''syscall(SYS_read)'' ''raw_openat_read'' p"
  unfolding baseline_open_read_def raw_openat_read_def raw_openat2_read_def print_sum_def c_open_def
    sum_probe_def openat2_bad_def by simp_all

lemma never_exit_0:
  "run_state (fail msg) u \<noteq> (Exit 0, v)" "run_state openat2_bad u \<noteq> (Exit 0, v)"
  "run_state (do { perror msg; _ \<leftarrow> close_as r fd; ret (Exit 1) }) u \<noteq> (Exit 0, v)"
  by (auto simp: fail_def openat2_bad_def c_errno_def eprintf_def perror_def split: prod.splits)

lemma sum_probe_prints:
  assumes "is_file s p i" "run_state (sum_probe r1 call bad r2 msg name p) s = (Exit 0, t)"
    and "bad = openat2_bad \<or> (\<exists>m. bad = fail m)"
  shows "os_stdout t = os_stdout s @ name @ '' sum='' @ nat_text (unat (byte_sum (os_data s i) 0)) @ [CHR 0x0A]"
proof -
  have bad: "run_state bad u \<noteq> (Exit 0, v)" for u v using assms(3) never_exit_0 by auto
  show ?thesis
    by (rule open_loop_print [where show_acc = "\<lambda>sm. name @ '' sum='' @ nat_text (unat sm) @ [CHR 0x0A]",
          OF assms(2) [unfolded sum_probe_def] assms(1) _ _ _ byte_fold_sum bad never_exit_0(3)])
      (simp_all add: can_read_def)
qed

section \<open>Streams with no fault to come\<close>

lemma read_stream:
  assumes "os_faults s = []" "fd_ofd s fd = Some (i, d)" "od_rd d" "od_obj d = OStream r w"
  shows "run_state (read_as route name fd n) s =
    ((int (length (take n (os_pipe s r))), take n (os_pipe s r)),
     s\<lparr>os_trace := os_trace s @ [Ev route name []], os_pipe := (os_pipe s)(r := drop n (os_pipe s r))\<rparr>)"
  using assms by (simp add: read_as_def sys_def take_body_def with_len_def)

lemma read_all_stream:
  assumes "os_faults s = []" "fd_ofd s fd = Some (i, d)" "od_rd d" "od_obj d = OStream r w"
    and "byte_fold step" "0 < n"
  shows "\<exists>evs. run_state (read_all route name fd n step acc) s =
    ((0, step (os_pipe s r) acc), s\<lparr>os_trace := os_trace s @ evs, os_pipe := (os_pipe s)(r := [])\<rparr>) \<and>
    (\<forall>e \<in> set evs. ev_path e = [])"
  using assms(1,2)
proof (induction "length (os_pipe s r)" arbitrary: s acc rule: less_induct)
  case less
  note rd = read_stream [OF less.prems assms(3,4), of route name n]
  show ?case
  proof (cases "os_pipe s r = []")
    case True
    then show ?thesis using assms(5)
      by (simp add: read_all_def read_loop.simps [of route name fd n step acc s] rd byte_fold_def
          exI [of _ "[Ev route name []]"])
  next
    case False
    let ?b = "take n (os_pipe s r)"
    let ?s = "s\<lparr>os_trace := os_trace s @ [Ev route name []], os_pipe := (os_pipe s)(r := drop n (os_pipe s r))\<rparr>"
    have "length (os_pipe ?s r) < length (os_pipe s r)" using False assms(6) by simp
    from less.hyps [OF this, of "step ?b acc"] less.prems obtain evs where
      "run_state (read_all route name fd n step (step ?b acc)) ?s =
        ((0, step (os_pipe ?s r) (step ?b acc)),
         ?s\<lparr>os_trace := os_trace ?s @ evs, os_pipe := (os_pipe ?s)(r := [])\<rparr>)"
      "\<forall>e \<in> set evs. ev_path e = []" by auto
    moreover have "step (drop n (os_pipe s r)) (step ?b acc) = step (os_pipe s r) acc"
      using assms(5) unfolding byte_fold_def by (metis append_take_drop_id)
    moreover have "read_loop route name fd n step acc s = read_loop route name fd n step (step ?b acc) ?s"
    proof -
      have "\<not> int (length ?b) \<le> 0" using False assms(6) by simp
      then show ?thesis by (subst read_loop.simps) (simp only: rd prod.case if_False)
    qed
    ultimately show ?thesis
      by (intro exI [of _ "Ev route name [] # evs"]) (simp add: read_all_def)
  qed
qed

lemma dprintf_stream:
  assumes "os_faults s = []" "fd_ofd s fd = Some (i, d)" "od_wr d" "od_obj d = OStream r w" "text \<noteq> []"
  shows "run_state (c_dprintf fd text) s =
    (0, s\<lparr>os_trace := os_trace s @ [Ev Libc ''dprintf'' []],
          os_pipe := (os_pipe s)(w := os_pipe s w @ map byte_of_char text)\<rparr>)"
  using assms
  by (simp add: c_dprintf_def dprintf_loop.simps [of _ _ "map byte_of_char text"] dprintf_loop.simps [of _ _ "[]"]
      write_as_def sys_def put_body_def)

lemma client_connected:
  assumes "started s" "os_incoming s = input # rest"
  shows "\<exists>s1 s2 i d p q. run_state c_socket s = (3, s1) \<and> run_state (c_connect 3 addr) s1 = (0, s2) \<and>
    os_faults s2 = [] \<and> fd_ofd s2 3 = Some (i, d) \<and> od_rd d \<and> od_wr d \<and> od_obj d = OStream p q \<and>
    p \<noteq> q \<and> os_pipe s2 p = input \<and> os_stdout s2 = os_stdout s \<and> 3 \<in> fst ` set (os_fd s2) \<and>
    os_trace s2 = os_trace s @ [Ev Libc ''socket'' [], Ev Libc ''connect'' addr]"
  using assms unfolding started_def
  by (simp add: c_socket_def c_connect_def peer_stream_def call_defs)

end
