(* ===== verification/Probe_Properties.thy ===== *)
theory Probe_Properties
  imports Probe_Facts
begin

text \<open>
  What the probe programs demonstrate, as theorems about their models: content reaches the output
  while no intercepted call names the file.
\<close>

text \<open>
  A small system for the witnesses: two files of the working directory, two of \<^verbatim>\<open>/tmp/r3_fd\<close> and
  the output of the mapping probe.
\<close>

definition demo :: os where
  "demo = \<lparr>os_dir = [''/w/src'' \<mapsto> NFile 10, ''/w/out'' \<mapsto> NFile 11,
        ''/tmp/r3_fd/marker_A.txt'' \<mapsto> NFile 12, ''/tmp/r3_fd/marker_B.txt'' \<mapsto> NFile 13,
        ''/tmp/r2_mmap/mmap_output.bin'' \<mapsto> NFile 14],
     os_dirs = [''/w'', ''/tmp/r3_fd''],
     os_data = (\<lambda>_. [])(10 := [1, 2, 3], 11 := [9], 12 := [7], 13 := [8], 14 := [5, 5]),
     os_pipe = \<lambda>_. [], os_rights = \<lambda>_. [], os_fd = [(0, 0), (1, 1), (2, 2)],
     os_ofd = \<lambda>_. None, os_fresh = 100, os_cwd = ''/w'', os_environ = [''LD_PRELOAD=/shim.so'', ''A=b''],
     os_pid = 50, os_errno = EIO, os_faults = [], os_incoming = [[4, 5]], os_stdout = [], os_stderr = [],
     os_trace = [], os_mtime = \<lambda>_. (0, 0), os_port = 4000, os_peerpid = 77\<rparr>"

lemma demo_started [simp]: "started demo"
  by (simp add: started_def demo_def)

lemma demo_files [simp]: "is_file demo ''src'' 10" "is_file demo ''out'' 11"
  by (simp_all add: is_file_def demo_def resolve_def)



text \<open>
  The kernel-side copy probes copy: started on two distinct files with no fault, each of the four
  leaves the first 2^20 bytes of the source in the destination and the source unchanged, and its exit
  status tells an empty source (3) from a copied one (0).
\<close>

theorem zero_copy_probes_copy:
  assumes "started s" "is_file s src i" "is_file s out j" "i \<noteq> j"
    and "probe \<in> {copy_file_range_libc, copy_file_range_raw, sendfile_raw, splice_raw}"
  shows "case run_state (probe [a, src, out]) s of
    (r, t) \<Rightarrow> r = Exit (if os_data s i = [] then 3 else 0) \<and>
      os_data t j = take (2 ^ 20) (os_data s i) \<and> os_data t i = os_data s i"
proof -
  have "copies probe (2 ^ 20) s src out i j"
    using assms(5) copies_sendfile [OF assms(1-4)] copies_copy_file_range [OF assms(1-4)]
      copies_splice [OF assms(1-4)] by blast
  then show ?thesis unfolding copies_def by (rule spec)
qed

theorem zero_copy_probes_copy_witness:
  "case run_state (splice_raw [''p'', ''src'', ''out'']) demo of
    (r, t) \<Rightarrow> r = Exit (if os_data demo 10 = [] then 3 else 0) \<and>
      os_data t 11 = take (2 ^ 20) (os_data demo 10) \<and> os_data t 10 = os_data demo 10"
  by (rule zero_copy_probes_copy) simp_all

text \<open>
  A summing probe that exits with 0 has printed the sum of all bytes of the file, under every
  schedule of short reads; the raw-syscall reader and the two libc readers print the same number.
\<close>

theorem summing_probes_sum_the_file:
  assumes "is_file s p i"
    and "(name, probe) \<in> {(''baseline_open_read'', baseline_open_read), (''raw_openat2_read'', raw_openat2_read),
           (''raw_openat_read'', raw_openat_read)}"
    and "run_state (probe [a, p]) s = (Exit 0, t)"
  shows "os_stdout t = os_stdout s @ name @ '' sum='' @ nat_text (unat (byte_sum (os_data s i) 0)) @ [CHR 0x0A]"
proof -
  consider "name = ''baseline_open_read''" "probe = baseline_open_read"
    | "name = ''raw_openat2_read''" "probe = raw_openat2_read"
    | "name = ''raw_openat_read''" "probe = raw_openat_read"
    using assms(2) by auto
  then show ?thesis
    by cases (rule sum_probe_prints [OF assms(1)], use assms(3) in \<open>simp add: sum_probes\<close>, blast)+
qed

theorem summing_probes_sum_the_file_witness:
  "os_stdout (snd (run_state (raw_openat_read [''p'', ''src'']) demo)) =
     os_stdout demo @ ''raw_openat_read'' @ '' sum='' @ nat_text (unat (byte_sum (os_data demo 10) 0)) @ [CHR 0x0A]"
proof (rule summing_probes_sum_the_file [where probe = raw_openat_read])
  have "fst (run_state (raw_openat_read [''p'', ''src'']) demo) = Exit 0" by code_simp
  then show "run_state (raw_openat_read [''p'', ''src'']) demo =
      (Exit 0, snd (run_state (raw_openat_read [''p'', ''src'']) demo))"
    by (metis prod.collapse)
qed simp_all

text \<open>
  The alias probes move content under another name: the hard-link probe writes the source's first
  4096 bytes to its output without opening the source path, and the staging probe leaves the final
  name referring to the source's own file, with no trace of the staging name.
\<close>

theorem alias_probes_move_content:
  assumes "started s" "is_file s src i" "is_file s out j" "i \<noteq> j"
    and "os_dir s (resolve s al) = None" "resolve s al \<notin> set (os_dirs s)"
    and "resolve s al \<noteq> resolve s src" "resolve s al \<noteq> resolve s out" "src \<noteq> al" "src \<noteq> out"
  shows "(case run_state (hardlink_read_alias [a, src, al, out]) s of
      (r, t) \<Rightarrow> r = Exit 0 \<and> os_data t j = take 4096 (os_data s i) \<and>
        (\<forall>e \<in> set (drop (length (os_trace s)) (os_trace t)). ev_call e = ''open'' \<longrightarrow> ev_path e \<noteq> src)) \<and>
    (case run_state (rename_staging_alias [a, src, al, out]) s of
      (r, t) \<Rightarrow> r = Exit 0 \<and> os_dir t (resolve s out) = Some (NFile i) \<and> os_dir t (resolve s al) = None)"
proof
  show "case run_state (hardlink_read_alias [a, src, al, out]) s of
      (r, t) \<Rightarrow> r = Exit 0 \<and> os_data t j = take 4096 (os_data s i) \<and>
        (\<forall>e \<in> set (drop (length (os_trace s)) (os_trace t)). ev_call e = ''open'' \<longrightarrow> ev_path e \<noteq> src)"
    using assms unfolding hardlink_read_alias_def started_def is_file_def
    by (simp add: c_linkat_def call_defs fail_def slice_def) (simp add: min_def)
  show "case run_state (rename_staging_alias [a, src, al, out]) s of
      (r, t) \<Rightarrow> r = Exit 0 \<and> os_dir t (resolve s out) = Some (NFile i) \<and> os_dir t (resolve s al) = None"
    using assms unfolding rename_staging_alias_def started_def is_file_def
    by (simp add: c_linkat_def c_rename_def call_defs fail_def)
qed

theorem alias_probes_move_content_witness:
  "(case run_state (hardlink_read_alias [''p'', ''src'', ''alias'', ''out'']) demo of
      (r, t) \<Rightarrow> r = Exit 0 \<and> os_data t 11 = take 4096 (os_data demo 10) \<and>
        (\<forall>e \<in> set (drop (length (os_trace demo)) (os_trace t)). ev_call e = ''open'' \<longrightarrow> ev_path e \<noteq> ''src'')) \<and>
    (case run_state (rename_staging_alias [''p'', ''src'', ''alias'', ''out'']) demo of
      (r, t) \<Rightarrow> r = Exit 0 \<and> os_dir t (resolve demo ''out'') = Some (NFile 10) \<and>
        os_dir t (resolve demo ''alias'') = None)"
  by (rule alias_probes_move_content) (simp_all add: demo_def resolve_def is_file_def started_def)

text \<open>
  C37. No launcher passes the preload variable on: whenever one of them replaces itself by another
  program or spawns one, the environment it hands over has no \<^verbatim>\<open>LD_PRELOAD\<close> entry, and the
  filtering launchers hand over every other entry in order.
\<close>

theorem launchers_scrub_preload:
  "(run_state (raw_exec_unpreloaded progs argv) s = (Execd path args env, t) \<longrightarrow>
      env = filter (\<lambda>e. take 11 e \<noteq> ''LD_PRELOAD='') (os_environ s)) \<and>
   (run_state (exec_env_scrub progs argv) s = (Execd path args env, t) \<or>
    run_state (raw_exec_env_scrub progs argv) s = (Execd path args env, t) \<or>
    run_state (ldso_direct_exec progs argv) s = (Execd path args env, t) \<longrightarrow>
      env = [''PATH=/usr/bin:/bin''])"
proof -
  have ex: "run_state (exec_as r n progs p a e) u = (Some out, v) \<Longrightarrow> out = Execd p a e" for r n p a e u out v
    by (auto simp: exec_as_def sys_def split: prod.splits fault.splits sum.splits option.splits list.splits)
  have env: "run_state env_without_ld_preload u = (Some e, v) \<Longrightarrow>
      e = filter (\<lambda>x. take 11 x \<noteq> ''LD_PRELOAD='') (os_environ u)" for u e v
    by (auto simp: env_without_ld_preload_def c_environ_def ld_preload_prefix_def split: prod.splits if_splits)
  show ?thesis
    unfolding raw_exec_unpreloaded_def exec_env_scrub_def raw_exec_env_scrub_def ldso_direct_exec_def
    by (auto simp: usage_def usage_line_def fail_def scrubbed_env_def dest!: env ex
        split: prod.splits option.splits if_splits)
qed

theorem launchers_scrub_preload_witness:
  "fst (run_state (raw_exec_unpreloaded (\<lambda>_. Some (\<lambda>_ _. tgt)) [''p'', ''reader'', ''m'']) demo) =
     Execd ''reader'' [''reader'', ''m''] [''A=b''] \<and>
   [''A=b''] = filter (\<lambda>e. take 11 e \<noteq> ''LD_PRELOAD='') (os_environ demo)"
proof -
  let ?p = "raw_exec_unpreloaded (\<lambda>_. Some (\<lambda>_ _. tgt)) [''p'', ''reader'', ''m'']"
  have r: "fst (run_state ?p demo) = Execd ''reader'' [''reader'', ''m''] [''A=b'']"
    by (simp add: raw_exec_unpreloaded_def env_without_ld_preload_def exec_as_def c_call_def sys_def
        c_environ_def demo_def ld_preload_prefix_def)
  then have "run_state ?p demo = (Execd ''reader'' [''reader'', ''m''] [''A=b''], snd (run_state ?p demo))"
    by (metis prod.collapse)
  with launchers_scrub_preload r show ?thesis by blast
qed

definition no_write_call :: "os \<Rightarrow> os \<Rightarrow> bool" where
  "no_write_call s t \<longleftrightarrow> (\<forall>e \<in> set (drop (length (os_trace s)) (os_trace t)). ev_call e \<notin> {''write'', ''writev''})"

text \<open>
  C38. Content changes without a write call: the in-place probes replace the bytes of an existing file
  through a positioned write, a truncation of the path or the descriptor, or a shared mapping, and
  the calls they make include no \<^verbatim>\<open>write\<close>.
\<close>

theorem in_place_probes_mutate_without_write:
  assumes "started s" "is_file s p i"
    and "is_file s ''/tmp/r2_mmap/mmap_output.bin'' j" "os_data s j \<noteq> []"
  shows "(case run_state (clean_pwrite [a, p]) s of (r, t) \<Rightarrow> r = Exit 0 \<and> no_write_call s t \<and>
      os_data t i = map byte_of_char (''MUTATED-BY-PWRITE-cafef00d'' @ [CHR 0x0A]) @ drop 27 (os_data s i)) \<and>
    (case run_state (clean_truncate [a, p]) s of (r, t) \<Rightarrow> r = Exit 0 \<and> no_write_call s t \<and>
      os_data t i = take 4 (os_data s i) @ replicate (4 - length (os_data s i)) 0) \<and>
    (case run_state (clean_ftruncate [a, p]) s of (r, t) \<Rightarrow> r = Exit 0 \<and> no_write_call s t \<and>
      os_data t i = take 4 (os_data s i) @ replicate (4 - length (os_data s i)) 0) \<and>
    (case run_state (probeC_mmap_writeback [a]) s of (r, t) \<Rightarrow> r = Exit 0 \<and> no_write_call s t \<and>
      os_data t j = replicate (length (os_data s j)) (byte_of_char CHR ''A''))"
  using assms unfolding started_def is_file_def
  by (intro conjI)
    (simp_all add: clean_pwrite_def clean_truncate_def clean_ftruncate_def c_pwrite_def c_truncate_def
      c_ftruncate_def call_defs fail_def arg_def overwrite_def resize_def str_bytes_def nl_def no_write_call_def
      eval_nat_numeral probeC_mmap_writeback_def fstat_as_def c_mmap_def map_store_def c_call_def c_munmap_def)

theorem in_place_probes_mutate_without_write_witness:
  "case run_state (clean_truncate [''p'', ''src'']) demo of (r, t) \<Rightarrow> r = Exit 0 \<and> no_write_call demo t \<and>
     os_data t 10 = take 4 (os_data demo 10) @ replicate (4 - length (os_data demo 10)) 0"
proof -
  have "is_file demo ''/tmp/r2_mmap/mmap_output.bin'' 14" "os_data demo 14 \<noteq> []"
    by (simp_all add: is_file_def demo_def resolve_def)
  from conjunct1 [OF conjunct2 [OF in_place_probes_mutate_without_write
      [OF demo_started demo_files(1) this, of "''p''"]]]
  show ?thesis .
qed

text \<open>
  A descriptor the monitor believes names the decoy reads the real input: after \<^verbatim>\<open>dup2\<close> the
  swap probe's read through the decoy's descriptor returns the first 64 bytes of file A, and no byte
  of file B.
\<close>

theorem dup2_swap_reads_the_other_file:
  assumes "started s" "is_file s ''/tmp/r3_fd/marker_A.txt'' i" "is_file s ''/tmp/r3_fd/marker_B.txt'' j"
  shows "fst (run_state p_dup2swap s) = (Exit 0, take 64 (os_data s i))"
  using assms unfolding started_def is_file_def
  by (simp add: p_dup2swap_def c_dup2_def call_defs slice_def)

theorem dup2_swap_reads_the_other_file_witness:
  "fst (run_state p_dup2swap demo) = (Exit 0, take 64 (os_data demo 12))"
  by (rule dup2_swap_reads_the_other_file [OF demo_started, of _ 13])
    (simp_all add: is_file_def demo_def resolve_def)

text \<open>
  A socket client consumes content it never opens: it prints the length and the hash of exactly
  the bytes its peer sends, exits with 0, and no call it makes names the marker file.
\<close>

theorem socket_client_hashes_what_the_peer_sends:
  assumes "started s" "os_incoming s = d # rest"
  shows "case run_state (unix_client [a, sock, marker]) s of
    (r, t) \<Rightarrow> r = Exit 0 \<and>
      os_stdout t = os_stdout s @ ''unix-client bytes='' @ nat_text (length d) @ '' hash='' @
        nat_text (unat (djb2_step d 5381)) @ '' path='' @ marker @ [CHR 0x0A] \<and>
      (\<forall>e \<in> set (drop (length (os_trace s)) (os_trace t)). ev_path e \<in> {[], sun_path sock})"
proof -
  obtain s1 s2 i dd p q where so: "run_state c_socket s = (3, s1)"
    and co: "run_state (c_connect 3 (sun_path sock)) s1 = (0, s2)"
    and s2: "os_faults s2 = []" "fd_ofd s2 3 = Some (i, dd)" "od_rd dd" "od_wr dd" "od_obj dd = OStream p q"
      "p \<noteq> q" "os_pipe s2 p = d" "os_stdout s2 = os_stdout s" "3 \<in> fst ` set (os_fd s2)"
      "os_trace s2 = os_trace s @ [Ev Libc ''socket'' [], Ev Libc ''connect'' (sun_path sock)]"
    using client_connected [OF assms] by blast
  define s3 where "s3 = s2\<lparr>os_trace := os_trace s2 @ [Ev Libc ''dprintf'' []],
      os_pipe := (os_pipe s2)(q := os_pipe s2 q @ map byte_of_char (marker @ [CHR 0x0A]))\<rparr>"
  have dp: "run_state (c_dprintf 3 (marker @ [CHR 0x0A])) s2 = (0, s3)"
    unfolding s3_def by (rule dprintf_stream [OF s2(1,2,4,5)]) simp
  have s3: "os_faults s3 = []" "fd_ofd s3 3 = Some (i, dd)" "os_pipe s3 p = d"
    using s2 by (simp_all add: s3_def)
  obtain evs where rd: "run_state (read_all Libc ''read'' 3 4096 (count_and djb2_step) (0, 5381)) s3 =
      ((0, count_and djb2_step d (0, 5381)), s3\<lparr>os_trace := os_trace s3 @ evs, os_pipe := (os_pipe s3)(p := [])\<rparr>)"
    and evs: "\<forall>e \<in> set evs. ev_path e = []"
    using read_all_stream [OF s3(1,2) s2(3,5) byte_fold_count [OF byte_fold_hashes(2)], of 4096 Libc "''read''" "(0, 5381)"]
    unfolding s3(3) by auto
  show ?thesis
    using evs s2 by (simp add: unix_client_def so co dp rd print_hash_def printf_def close_as_def sys_def count_and_def)
      (simp add: s3_def)
qed

theorem socket_client_hashes_what_the_peer_sends_witness:
  "case run_state (unix_client [''p'', ''/s'', ''marker'']) demo of
    (r, t) \<Rightarrow> r = Exit 0 \<and>
      os_stdout t = os_stdout demo @ ''unix-client bytes='' @ nat_text (length [4, 5 :: u8]) @ '' hash='' @
        nat_text (unat (djb2_step [4, 5] 5381)) @ '' path='' @ ''marker'' @ [CHR 0x0A] \<and>
      (\<forall>e \<in> set (drop (length (os_trace demo)) (os_trace t)). ev_path e \<in> {[], sun_path ''/s''})"
  by (rule socket_client_hashes_what_the_peer_sends [where rest = "[]"]) (simp_all add: demo_def started_def)

end
