(* ===== verification/Handoff_Probes.thy ===== *)
theory Handoff_Probes
  imports Process_Probes
begin

text \<open>
  Content handed over by a process outside the monitored tree (\<^verbatim>\<open>round5/ipc\<close>, and the descriptor
  passing of \<^verbatim>\<open>round2/r2_mmap\<close>): launchers that leave a socket, a passed descriptor or an open file
  to the client that io-mon then runs, and the clients.

  A \<^verbatim>\<open>socketpair\<close> or \<^verbatim>\<open>pipe\<close> that fails leaves its array unset; the model has descriptors there that
  no call accepts.  An \<^verbatim>\<open>fstat\<close> that fails leaves the size unset, 0 in the model.
\<close>

section \<open>Passing descriptors\<close>

text \<open>
  \<^verbatim>\<open>sendmsg\<close> of one byte with one descriptor in \<^verbatim>\<open>SCM_RIGHTS\<close>: the open file description travels with
  the stream.
\<close>

definition c_send_fd :: "int \<Rightarrow> u8 \<Rightarrow> int \<Rightarrow> int prog" where
  "c_send_fd sock b fd =
     sys Libc ''sendmsg'' [] (- 1) (\<lambda>_ s.
       case fd_ofd s sock of
         Some (i, d) \<Rightarrow>
           (case od_obj d of
              OStream r w \<Rightarrow>
                (case fd_ofd s fd of
                   Some (j, e) \<Rightarrow> Inr (1, s\<lparr>os_pipe := (os_pipe s)(w := os_pipe s w @ [b]),
                                           os_rights := (os_rights s)(w := os_rights s w @ [j])\<rparr>)
                 | None \<Rightarrow> Inl EBADF)
            | _ \<Rightarrow> Inl EINVAL)
       | None \<Rightarrow> Inl EBADF)"

text \<open>\<^verbatim>\<open>recvmsg\<close> of one byte: its result, and the descriptor when one came with it.\<close>

definition c_recv_fd :: "int \<Rightarrow> (int \<times> int option) prog" where
  "c_recv_fd sock =
     sys Libc ''recvmsg'' [] (- 1, None) (\<lambda>_ s.
       case fd_ofd s sock of
         Some (i, d) \<Rightarrow>
           (case od_obj d of
              OStream r w \<Rightarrow>
                let n = length (take 1 (os_pipe s r));
                    s = s\<lparr>os_pipe := (os_pipe s)(r := drop 1 (os_pipe s r))\<rparr>
                in (case os_rights s r of
                      [] \<Rightarrow> Inr ((int n, None), s)
                    | j # js \<Rightarrow>
                        let (fd, s) = install_id 0 j (s\<lparr>os_rights := (os_rights s)(r := js)\<rparr>)
                        in Inr ((int n, Some fd), s))
            | _ \<Rightarrow> Inl EINVAL)
       | None \<Rightarrow> Inl EBADF)"

text \<open>\<^verbatim>\<open>setenv(name, value, 1)\<close>: the first entry of that name is replaced, later ones go.\<close>

definition names_var :: "string \<Rightarrow> string \<Rightarrow> bool" where
  "names_var name e \<longleftrightarrow> take (Suc (length name)) e = name @ ''=''"

definition env_set :: "string \<Rightarrow> string \<Rightarrow> string list \<Rightarrow> string list" where
  "env_set name val env =
     takeWhile (\<lambda>e. \<not> names_var name e) env @ (name @ ''='' @ val) #
       filter (\<lambda>e. \<not> names_var name e) (dropWhile (\<lambda>e. \<not> names_var name e) env)"

definition c_setenv :: "string \<Rightarrow> string \<Rightarrow> unit prog" where
  "c_setenv name val = State (\<lambda>s. ((), s\<lparr>os_environ := env_set name val (os_environ s)\<rparr>))"

text \<open>\<^verbatim>\<open>execl\<close>: a null path is refused, the argument vector ends at the first null pointer.\<close>

definition c_execl :: "programs \<Rightarrow> string option \<Rightarrow> string option list \<Rightarrow> outcome option prog" where
  "c_execl progs path args = do {
     environ \<leftarrow> c_environ;
     case path of
       None \<Rightarrow> sys Libc ''execl'' [] None (\<lambda>_ s. Inl EFAULT)
     | Some p \<Rightarrow> exec_as Libc ''execl'' progs p (map the (takeWhile (\<lambda>a. a \<noteq> None) args)) environ
   }"

section \<open>Launchers\<close>

text \<open>The launchers end alike: the descriptor goes into the environment and io-mon runs the client.\<close>

definition hand_over :: "programs \<Rightarrow> string list \<Rightarrow> int \<Rightarrow> outcome prog" where
  "hand_over progs argv fd = do {
     c_setenv ''INHERITED_FD'' (take 15 (int_text fd));
     r \<leftarrow> c_execl progs (arg argv 2)
           [arg argv 2, Some ''run'', Some ''--depfile'', arg argv 3, Some ''--'', arg argv 4];
     case r of Some out \<Rightarrow> ret out | None \<Rightarrow> fail ''execl''
   }"

definition A_launcher :: "programs \<Rightarrow> string list \<Rightarrow> outcome prog" where
  "A_launcher progs argv = do {
     (rc, sv0, sv1) \<leftarrow> c_socketpair;
     pid \<leftarrow> c_fork (do {
       _ \<leftarrow> c_close sv0;
       fd \<leftarrow> open_as Libc ''open'' (arg argv 1) [O_RDONLY];
       (n, buf) \<leftarrow> c_read fd 256;
       _ \<leftarrow> c_write sv1 buf;
       _ \<leftarrow> c_close sv1;
       ret (Exit 0) });
     _ \<leftarrow> c_close sv1;
     hand_over progs argv sv0
   }"

definition B_launcher :: "programs \<Rightarrow> string list \<Rightarrow> outcome prog" where
  "B_launcher progs argv = do {
     (rc, sv0, sv1) \<leftarrow> c_socketpair;
     pid \<leftarrow> c_fork (do {
       _ \<leftarrow> c_close sv0;
       fd \<leftarrow> open_as Libc ''open'' (arg argv 1) [O_RDONLY];
       _ \<leftarrow> c_send_fd sv1 0x58 fd;
       _ \<leftarrow> c_close sv1;
       ret (Exit 0) });
     _ \<leftarrow> c_close sv1;
     hand_over progs argv sv0
   }"

text \<open>The six characters \<^verbatim>\<open>mkstemp\<close> picks are a parameter; a name that exists is not used.\<close>

definition c_mkstemp :: "string \<Rightarrow> int prog" where
  "c_mkstemp p =
     sys Libc ''mkstemp'' p (- 1) (\<lambda>_ s.
       if os_dir s (resolve s p) \<noteq> None then Inl EEXIST else open_body (resolve s p) [O_RDWR, O_CREAT] s)"

definition B2_launcher :: "string \<Rightarrow> programs \<Rightarrow> string list \<Rightarrow> outcome prog" where
  "B2_launcher suffix progs argv = do {
     (rc, sv0, sv1) \<leftarrow> c_socketpair;
     pid \<leftarrow> c_fork (do {
       _ \<leftarrow> c_close sv0;
       src \<leftarrow> open_as Libc ''open'' (arg argv 1) [O_RDONLY];
       (n, buf) \<leftarrow> c_read src 256;
       _ \<leftarrow> c_close src;
       let tmp = ''/tmp/r5_ipc/ghost'' @ suffix;
       fd \<leftarrow> c_mkstemp tmp;
       _ \<leftarrow> c_write fd buf;
       _ \<leftarrow> c_lseek_set fd 0;
       _ \<leftarrow> c_unlink tmp;
       _ \<leftarrow> c_send_fd sv1 0x58 fd;
       _ \<leftarrow> c_close sv1;
       ret (Exit 0) });
     _ \<leftarrow> c_close sv1;
     hand_over progs argv sv0
   }"

definition B3_launcher :: "programs \<Rightarrow> string list \<Rightarrow> outcome prog" where
  "B3_launcher progs argv = do {
     (rc, sv0, sv1) \<leftarrow> c_socketpair;
     pid \<leftarrow> c_fork (do {
       _ \<leftarrow> c_close sv0;
       (rc2, p0, p1) \<leftarrow> c_pipe;
       src \<leftarrow> open_as Libc ''open'' (arg argv 1) [O_RDONLY];
       (n, buf) \<leftarrow> c_read src 256;
       _ \<leftarrow> c_close src;
       _ \<leftarrow> c_write p1 buf;
       _ \<leftarrow> c_close p1;
       _ \<leftarrow> c_send_fd sv1 0x58 p0;
       _ \<leftarrow> c_close sv1;
       ret (Exit 0) });
     _ \<leftarrow> c_close sv1;
     hand_over progs argv sv0
   }"

definition F3_launcher :: "programs \<Rightarrow> string list \<Rightarrow> outcome prog" where
  "F3_launcher progs argv = do {
     fd \<leftarrow> open_as Libc ''open'' (arg argv 1) [O_RDONLY];
     hand_over progs argv fd
   }"

section \<open>Clients\<close>

text \<open>\<^verbatim>\<open>atoi(getenv("INHERITED_FD"))\<close>; without the variable the program ends by SIGSEGV.\<close>

definition with_inherited :: "(int \<Rightarrow> outcome prog) \<Rightarrow> outcome prog" where
  "with_inherited m = do {
     fds \<leftarrow> c_getenv ''INHERITED_FD'';
     case fds of None \<Rightarrow> ret (Signalled 11) | Some a \<Rightarrow> m (atoi a)
   }"

text \<open>The first 256 bytes of a descriptor, on the output after a label.\<close>

definition show_read :: "string \<Rightarrow> int \<Rightarrow> outcome prog" where
  "show_read label fd = do {
     (n, buf) \<leftarrow> c_read fd 256;
     if n > 0
     then do { _ \<leftarrow> c_write 1 (str_bytes label); _ \<leftarrow> c_write 1 buf; ret (Exit 0) }
     else ret (Exit 0)
   }"

definition A_client :: "outcome prog" where
  "A_client = do {
     fds \<leftarrow> c_getenv ''INHERITED_FD'';
     case fds of
       None \<Rightarrow> do { eprintf (''no fd'' @ nl); ret (Exit 1) }
     | Some a \<Rightarrow> show_read ''CLIENT-GOT: '' (atoi a)
   }"

text \<open>A message without a descriptor has no control header: reading its data ends by SIGSEGV.\<close>

definition with_received :: "int \<Rightarrow> (int \<Rightarrow> outcome prog) \<Rightarrow> outcome prog" where
  "with_received sock m = do {
     (n, got) \<leftarrow> c_recv_fd sock;
     if n < 0 then fail ''recvmsg''
     else (case got of None \<Rightarrow> ret (Signalled 11) | Some fd \<Rightarrow> m fd)
   }"

definition B_client :: "outcome prog" where
  "B_client = with_inherited (\<lambda>sock. with_received sock (show_read ''CLIENT-GOT: ''))"

text \<open>\<^verbatim>\<open>write(1, p, len)\<close> from a mapping; from a page the file does not have it fails.\<close>

definition write_mapped :: "nat \<times> nat \<Rightarrow> int prog" where
  "write_mapped mp = do {
     b \<leftarrow> map_load mp;
     if b = [] then sys Libc ''write'' [] (- 1) (\<lambda>_ s. Inl EFAULT) else c_write 1 b
   }"

text \<open>The length mapped is that of the file, or 64.\<close>

definition mapped_len :: "nat \<Rightarrow> nat" where
  "mapped_len st_size = (if st_size > 0 then st_size else 64)"

definition show_mapped :: "int \<Rightarrow> outcome prog" where
  "show_mapped fd = do {
     (rc, st_size) \<leftarrow> fstat_as fd;
     p \<leftarrow> c_mmap fd (mapped_len st_size) False;
     case p of
       None \<Rightarrow> fail ''mmap''
     | Some mp \<Rightarrow> do {
         _ \<leftarrow> c_write 1 (str_bytes ''CLIENT-MMAP: '');
         _ \<leftarrow> write_mapped mp;
         ret (Exit 0)
       }
   }"

definition F2_client :: "outcome prog" where
  "F2_client = with_inherited (\<lambda>sock. with_received sock show_mapped)"

definition F3_client :: "outcome prog" where
  "F3_client = with_inherited show_mapped"

definition F3b_client :: "outcome prog" where
  "F3b_client = with_inherited (show_read ''R: '')"

text \<open>The mapping is not checked: a write from its address fails.\<close>

definition G_intree_mmap :: "string list \<Rightarrow> outcome prog" where
  "G_intree_mmap argv = do {
     fd \<leftarrow> open_as Libc ''open'' (arg argv 1) [O_RDONLY];
     (rc, st_size) \<leftarrow> fstat_as fd;
     p \<leftarrow> c_mmap fd (mapped_len st_size) False;
     _ \<leftarrow> c_write 1 (str_bytes ''IM: '');
     _ \<leftarrow> (case p of
            None \<Rightarrow> sys Libc ''write'' [] (- 1) (\<lambda>_ s. Inl EFAULT)
          | Some mp \<Rightarrow> write_mapped mp);
     ret (Exit 0)
   }"

definition H_client :: "outcome prog" where
  "H_client = with_inherited (\<lambda>fd. do {
     h \<leftarrow> c_getenv ''HOW'';
     case h of
       None \<Rightarrow> ret (Signalled 11)
     | Some how \<Rightarrow> do {
         (n, b) \<leftarrow> (if how = ''pread'' then c_pread fd 256 0
                   else if how = ''readv'' then read_as Libc ''readv'' fd 256
                   else if how = ''preadv'' then pread_as ''preadv'' fd 256 0
                   else ret (0, []));
         if n > 0
         then do {
           _ \<leftarrow> c_write 1 (str_bytes how);
           _ \<leftarrow> c_write 1 (str_bytes '': '');
           _ \<leftarrow> c_write 1 b;
           ret (Exit 0)
         }
         else ret (Exit 0)
       }
   })"

text \<open>\<^verbatim>\<open>ipc/baseline_read.c\<close>, \<^verbatim>\<open>unhooked/baseline.c\<close> and \<^verbatim>\<open>pathfidelity/reader.c\<close> differ in the size of the buffer.\<close>

definition echo_file :: "nat \<Rightarrow> string option \<Rightarrow> outcome prog" where
  "echo_file n path = do {
     fd \<leftarrow> open_as Libc ''open'' path [O_RDONLY];
     if fd < 0 then fail ''open''
     else do {
       (k, buf) \<leftarrow> c_read fd n;
       _ \<leftarrow> (if k > 0 then c_write 1 buf else ret 0);
       _ \<leftarrow> c_close fd;
       ret (Exit 0)
     }
   }"

definition ipc_baseline_read :: "string list \<Rightarrow> outcome prog" where
  "ipc_baseline_read argv = echo_file 256 (arg argv 1)"

section \<open>r2_mmap/probeE\<close>

text \<open>
  The program passes the descriptor to itself; the mapping is not checked, so touching a byte of a
  failed one ends by SIGSEGV.
\<close>

definition send_fd :: "int \<Rightarrow> int \<Rightarrow> unit prog" where
  "send_fd sock fd = do { _ \<leftarrow> c_send_fd sock 0x78 fd; ret () }"

definition probeE_scmrights :: "outcome prog" where
  "probeE_scmrights = do {
     (rc, sv0, sv1) \<leftarrow> c_socketpair;
     pid \<leftarrow> c_fork (do {
       _ \<leftarrow> c_close sv0;
       fd \<leftarrow> c_open ''/tmp/r2_mmap/passed_input.dat'' [O_RDONLY];
       send_fd sv1 fd;
       ret (Exit 0) });
     _ \<leftarrow> c_close sv1;
     (n, got) \<leftarrow> c_recv_fd sv0;
     case (if n < 0 then Some (- 1) else got) of
       None \<Rightarrow> ret (Signalled 11)
     | Some fd \<Rightarrow> do {
         (rc2, st_size) \<leftarrow> fstat_as fd;
         m \<leftarrow> c_mmap fd st_size False;
         r \<leftarrow> map_sum_loop m st_size;
         case r of
           None \<Rightarrow> ret (Signalled 11)
         | Some sm \<Rightarrow> do {
             _ \<leftarrow> c_munmap;
             _ \<leftarrow> c_close fd;
             write_sum ''/tmp/r2_mmap/scm_derived_out.txt'' ''scm_sum='' sm
           }
       }
   }"

end
