(* ===== verification/Residual_Probes.thy ===== *)
theory Residual_Probes
  imports Handoff_Probes
begin

text \<open>
  Probes of the channels that earlier rounds left open: forged daemon reports and mapped reads
  (\<^verbatim>\<open>round3/r3_residual\<close>, \<^verbatim>\<open>round4/r4_residual\<close>), launchers (\<^verbatim>\<open>adversarial-2026-06/adv_inject\<close>), copies
  by name (\<^verbatim>\<open>adv_clone\<close>) and extended attributes (\<^verbatim>\<open>round3/r3_xattr\<close>).
\<close>

section \<open>Forged reports\<close>

text \<open>The client and the daemons of \<^verbatim>\<open>r3_residual\<close>; two of them are the programs of \<^verbatim>\<open>r2_machinery\<close>.\<close>

definition residual_daemon :: "string list \<Rightarrow> outcome prog" where
  "residual_daemon = plain_daemon ''/tmp/adv_proctree/daemon.ready''"

definition residual_daemon2 :: "string list \<Rightarrow> outcome prog" where
  "residual_daemon2 = plain_daemon ''/tmp/r3_residual/res4_forge/daemon.ready''"

definition residual_malicious_client :: "string list \<Rightarrow> outcome prog" where
  "residual_malicious_client argv = malicious_client argv"

text \<open>A report that satisfies every textual criterion and names a decoy.\<close>

definition decoy_report :: "string option \<Rightarrow> nat \<Rightarrow> int \<Rightarrow> string" where
  "decoy_report run pid peer =
     ''io-mon-breakaway-report v1'' @ nl @
     (case run of None \<Rightarrow> [] | Some r \<Rightarrow> if r = [] then [] else ''run '' @ r @ nl) @
     ''client '' @ nat_text pid @ nl @ ''daemon '' @ int_text peer @ nl @
     ''read /tmp/r3_residual/res4_forge/DECOY.txt'' @ nl @ ''complete'' @ nl"

definition forge_client :: "string list \<Rightarrow> outcome prog" where
  "forge_client argv =
    (if length argv < 3 then usage_line (''usage: fc <sock> <real-secret-file>'' @ nl)
     else do {
       sk \<leftarrow> c_socket;
       rc \<leftarrow> c_connect sk (sun_path_macos (argv ! 1));
       if rc < 0 then fail ''connect''
       else do {
         peer \<leftarrow> c_peerpid sk;
         _ \<leftarrow> c_dprintf sk (argv ! 2 @ nl);
         (n, tot) \<leftarrow> read_all Libc ''read'' sk 8192 (\<lambda>b n. n + length b) 0;
         _ \<leftarrow> c_close sk;
         dir \<leftarrow> c_getenv ''IO_MON_BREAKAWAY_REPORT_DIR'';
         run \<leftarrow> c_getenv ''REPRO_MONITOR_SESSION'';
         pid \<leftarrow> c_getpid;
         (case dir of
            None \<Rightarrow> ret ()
          | Some d \<Rightarrow>
              if d = [] then ret ()
              else write_text_file
                     (take 8191 (d @ ''/forged-'' @ nat_text pid @ ''.io-mon-report''))
                     (decoy_report run pid peer));
         printf (''FORGER got '' @ nat_text tot @ '' bytes; real secret '' @ argv ! 2 @
           '' OMITTED from report (decoy substituted)'' @ nl);
         ret (Exit 0)
       }
     })"

text \<open>
  \<^verbatim>\<open>client_s5.c\<close> writes its report with raw calls or through libc.  The length it writes is that of the
  untruncated text; past the buffer of 1024 bytes follow the bytes \<open>beyond\<close> it.
\<close>

definition s5_report :: "string \<Rightarrow> nat \<Rightarrow> int \<Rightarrow> string" where
  "s5_report session pid peer =
     ''io-mon-breakaway-report v1'' @ nl @ ''run '' @ session @ nl @ ''client '' @ nat_text pid @ nl @
     ''daemon '' @ int_text peer @ nl @ ''read /tmp/r4_residual/decoy_input.txt'' @ nl @ ''complete'' @ nl"

definition s5_buffer :: "bytes \<Rightarrow> string \<Rightarrow> bytes" where
  "s5_buffer beyond text =
     take (length text) (str_bytes (take 1023 text) @ replicate (1024 - length text) 0 @
       (if length text \<ge> 1024 then 0 # beyond else beyond))"

definition s5_report_path :: "string \<Rightarrow> string" where
  "s5_report_path dir = take 511 (dir @ ''/forged.io-mon-report'')"

definition s5_forge :: "bytes \<Rightarrow> string list \<Rightarrow> string \<Rightarrow> int \<Rightarrow> outcome prog" where
  "s5_forge beyond argv mode peer = do {
     session \<leftarrow> c_getenv ''REPRO_MONITOR_SESSION'';
     pid \<leftarrow> c_getpid;
     let report = s5_buffer beyond (s5_report (case session of None \<Rightarrow> [] | Some v \<Rightarrow> v) pid peer);
     let rpath = s5_report_path (arg_text argv 3);
     if mode = ''raw''
     then do {
       fd \<leftarrow> open_as Raw ''open'' (Some rpath) out_flags;
       if fd < 0 then do { perror ''raw open''; ret (Exit 3) }
       else do {
         _ \<leftarrow> write_as Raw ''write'' fd report;
         _ \<leftarrow> close_as Raw fd;
         eprintf (''[client] forged report via RAW write(2) -> '' @ rpath @ nl);
         ret (Exit 0)
       }
     }
     else do {
       fd \<leftarrow> open_as Libc ''open'' (Some rpath) out_flags;
       _ \<leftarrow> c_write fd report;
       _ \<leftarrow> c_close fd;
       eprintf (''[client] forged report via HOOKED write -> '' @ rpath @ nl);
       ret (Exit 0)
     }
   }"

definition client_s5 :: "bytes \<Rightarrow> string list \<Rightarrow> outcome prog" where
  "client_s5 beyond argv = do {
     sk \<leftarrow> c_socket;
     case arg argv 1 of
       None \<Rightarrow> ret (Signalled 11)
     | Some sockpath \<Rightarrow> do {
         rc \<leftarrow> c_connect sk (sun_path_macos sockpath);
         if rc \<noteq> 0 then do { perror ''connect''; ret (Exit 2) }
         else do {
           peer \<leftarrow> c_peerpid sk;
           (n, buf) \<leftarrow> c_read sk 399;
           let content = c_string buf;
           _ \<leftarrow> c_close sk;
           fo \<leftarrow> open_as Libc ''open'' (arg argv 2) out_flags;
           _ \<leftarrow> c_dprintf fo (''output-from-daemon: '' @ content @ nl);
           _ \<leftarrow> c_close fo;
           pid \<leftarrow> c_getpid;
           eprintf (''[client] pid='' @ nat_text pid @ '' peer='' @ int_text peer @ '' served='' @
             quoted content @ '' mode='' @ arg_text argv 4 @ nl);
           case arg argv 4 of
             None \<Rightarrow> ret (Signalled 11)
           | Some mode \<Rightarrow> if mode = ''none'' then ret (Exit 0) else s5_forge beyond argv mode peer
         }
       }
   }"

definition s5_serve_one :: "string option \<Rightarrow> int \<Rightarrow> nat \<Rightarrow> (bool \<times> nat) prog" where
  "s5_serve_one srvfile c n = do {
     fd \<leftarrow> open_as Libc ''open'' srvfile [O_RDONLY];
     (k, buf) \<leftarrow> (if fd \<ge> 0 then c_read fd 399 else ret (0, []));
     _ \<leftarrow> (if fd \<ge> 0 then c_close fd else ret 0);
     _ \<leftarrow> c_write c (str_bytes (c_string buf));
     _ \<leftarrow> c_close c;
     ret (False, n)
   }"

text \<open>The daemon never ends; it serves every peer there is and waits.\<close>

definition daemon_s5 :: "string list \<Rightarrow> outcome prog" where
  "daemon_s5 argv =
    (case arg argv 1 of
       None \<Rightarrow> ret (Signalled 11)
     | Some sockpath \<Rightarrow> do {
         _ \<leftarrow> c_unlink sockpath;
         sk \<leftarrow> c_socket;
         rc \<leftarrow> c_bind sk (sun_path_macos sockpath);
         if rc \<noteq> 0 then do { perror ''bind''; ret (Exit 2) }
         else do {
           _ \<leftarrow> fd_call ''listen'' sk;
           rf \<leftarrow> c_open ''/tmp/r4_residual/s5_ready'' out_flags;
           _ \<leftarrow> c_close rf;
           _ \<leftarrow> serve (s5_serve_one (arg argv 2)) sk;
           ret Blocked
         }
       })"

definition c_shm_unlink :: "string \<Rightarrow> int prog" where
  "c_shm_unlink name =
     sys Libc ''shm_unlink'' (shm_path name) (- 1) (\<lambda>_ s.
       if os_dir s (shm_path name) = None then Inl ENOENT
       else Inr (0, s\<lparr>os_dir := (os_dir s)(shm_path name := None)\<rparr>))"

definition shm_cleanup :: "string list \<Rightarrow> outcome prog" where
  "shm_cleanup argv = do {
     for_each (drop 1 argv) (\<lambda>v. do { _ \<leftarrow> c_shm_unlink v; ret () });
     ret (Exit 0)
   }"

section \<open>Plain and mapped reads\<close>

text \<open>\<^verbatim>\<open>mmread.c\<close> maps privately, \<^verbatim>\<open>mmread_shared.c\<close> shared; for loads that is the same.\<close>

definition mmread :: "string list \<Rightarrow> outcome prog" where
  "mmread argv = do {
     fd \<leftarrow> open_as Libc ''open'' (arg argv 1) [O_RDONLY];
     if fd < 0 then fail ''open''
     else do {
       (rc, st_size) \<leftarrow> fstat_as fd;
       p \<leftarrow> c_mmap fd st_size False;
       case p of
         None \<Rightarrow> fail ''mmap''
       | Some mp \<Rightarrow> do {
           b \<leftarrow> map_load mp;
           _ \<leftarrow> c_munmap;
           _ \<leftarrow> c_close fd;
           printf (''mmap-read '' @ nat_text st_size @ '' bytes checksum='' @ nat_text (unat (byte_sum b 0)) @ nl);
           ret (Exit 0)
         }
     }
   }"

definition mmread_shared :: "string list \<Rightarrow> outcome prog" where
  "mmread_shared argv = mmread argv"

text \<open>\<^verbatim>\<open>fwrite(buf, 1, n, stdout)\<close> of the first bytes of a file, and \<^verbatim>\<open>printf\<close> of them as a string.\<close>

definition fwrite_stdout :: "bytes \<Rightarrow> unit prog" where
  "fwrite_stdout b = printf (map char_of_byte b)"

definition residual_readfile :: "string list \<Rightarrow> outcome prog" where
  "residual_readfile argv = do {
     f \<leftarrow> c_fopen_r (arg argv 1);
     if f < 0 then ret (Exit 0)
     else do {
       (b, eof, err) \<leftarrow> c_fread f 127;
       fwrite_stdout b;
       _ \<leftarrow> c_close f;
       ret (Exit 0)
     }
   }"

definition cat_head :: "string option \<Rightarrow> outcome prog" where
  "cat_head path = do {
     f \<leftarrow> c_fopen_r path;
     if f < 0 then fail ''fopen''
     else do {
       (b, eof, err) \<leftarrow> c_fread f 256;
       fwrite_stdout b;
       _ \<leftarrow> c_close f;
       ret (Exit 0)
     }
   }"

text \<open>The head of a file as a C string, in a message; a failed open ends with \<open>code\<close>.\<close>

definition say_head :: "string \<Rightarrow> int \<Rightarrow> string option \<Rightarrow> (string \<Rightarrow> string) \<Rightarrow> outcome prog" where
  "say_head what code path msg = do {
     f \<leftarrow> c_fopen_r path;
     if f < 0 then do { perror what; ret (Exit code) }
     else do {
       (b, eof, err) \<leftarrow> c_fread f 255;
       _ \<leftarrow> c_close f;
       printf (msg (c_string b));
       ret (Exit 0)
     }
   }"

definition xpc_baseline :: "string list \<Rightarrow> outcome prog" where
  "xpc_baseline argv = say_head ''fopen'' 1 (arg argv 1) (\<lambda>b. ''baseline read: '' @ b)"

definition syscall_baseline_fopen :: "string list \<Rightarrow> outcome prog" where
  "syscall_baseline_fopen argv = (if length argv < 2 then ret (Exit 2) else cat_head (arg argv 1))"

section \<open>Extended attributes\<close>

text \<open>The attributes of the files are a parameter: path and name to the value.\<close>

type_synonym xattrs = "string \<Rightarrow> (string \<times> bytes) list"

definition c_getxattr :: "xattrs \<Rightarrow> string option \<Rightarrow> string option \<Rightarrow> nat \<Rightarrow> (int \<times> bytes) prog" where
  "c_getxattr xa path name n =
     sys Libc ''getxattr'' (case path of None \<Rightarrow> [] | Some p \<Rightarrow> p) (- 1, []) (\<lambda>_ s.
       case (path, name) of
         (Some p, Some a) \<Rightarrow>
           (case map_of (xa (resolve s p)) a of
              None \<Rightarrow> Inl ENOENT
            | Some v \<Rightarrow> if length v > n then Inl EINVAL else Inr ((int (length v), v), s))
       | _ \<Rightarrow> Inl EFAULT)"

definition xattr_read :: "xattrs \<Rightarrow> string list \<Rightarrow> outcome prog" where
  "xattr_read xa argv = do {
     (n, b) \<leftarrow> c_getxattr xa (arg argv 1) (arg argv 2) 255;
     if n < 0 then do { perror ''getxattr''; ret (Exit 2) }
     else do { printf (''OUTPUT_DEPENDS_ON_XATTR=['' @ c_string b @ '']'' @ nl); ret (Exit 0) }
   }"

text \<open>The output is not checked: \<^verbatim>\<open>fprintf\<close> to a null stream ends by SIGSEGV.\<close>

definition gen_config :: "xattrs \<Rightarrow> string list \<Rightarrow> outcome prog" where
  "gen_config xa argv = do {
     (n, v) \<leftarrow> c_getxattr xa (arg argv 1) (Some ''com.build.optlevel'') 127;
     if n < 0 then ret (Exit 1)
     else do {
       f \<leftarrow> open_as Libc ''fopen'' (arg argv 2) out_flags;
       if f < 0 then ret (Signalled 11)
       else do {
         _ \<leftarrow> State (dprintf_loop ''fprintf'' f (str_bytes (''#define OPT_LEVEL '' @ [CHR 0x22] @ c_string v @ [CHR 0x22] @ nl)));
         _ \<leftarrow> c_close f;
         ret (Exit 0)
       }
     }
   }"

definition normal_read :: "string list \<Rightarrow> outcome prog" where
  "normal_read argv = say_head ''fopen'' 2 (arg argv 1) (\<lambda>b. ''OUTPUT_DEPENDS_ON=['' @ b @ '']'' @ nl)"

text \<open>The resource fork is a file of its own path.\<close>

definition rsrc_read :: "string list \<Rightarrow> outcome prog" where
  "rsrc_read argv = say_head ''fopen rsrc'' 2 (Some (take 1023 (arg_text argv 1 @ ''/..namedfork/rsrc'')))
     (\<lambda>b. ''OUTPUT_DEPENDS_ON_RSRC=['' @ b @ '']'' @ nl)"

section \<open>Copies by name\<close>

text \<open>\<^verbatim>\<open>clonefile\<close> and \<^verbatim>\<open>copyfile\<close>: a new file with the content of the old one.\<close>

definition c_clonefile :: "string \<Rightarrow> string option \<Rightarrow> string option \<Rightarrow> int prog" where
  "c_clonefile name src dst =
     sys Libc name (case src of None \<Rightarrow> [] | Some p \<Rightarrow> p) (- 1) (\<lambda>_ s.
       case (src, dst) of
         (Some p, Some q) \<Rightarrow>
           (case os_dir s (resolve s p) of
              Some (NFile i) \<Rightarrow>
                if os_dir s (resolve s q) \<noteq> None \<or> resolve s q \<in> set (os_dirs s) then Inl EEXIST
                else let j = os_fresh s
                     in Inr (0, s\<lparr>os_dir := (os_dir s)(resolve s q \<mapsto> NFile j),
                                  os_data := (os_data s)(j := os_data s i), os_fresh := Suc j\<rparr>)
            | Some _ \<Rightarrow> Inl ENOTSUP
            | None \<Rightarrow> Inl ENOENT)
       | _ \<Rightarrow> Inl EFAULT)"

definition c_unlink_arg :: "string option \<Rightarrow> int prog" where
  "c_unlink_arg p = (case p of None \<Rightarrow> sys Libc ''unlink'' [] (- 1) (\<lambda>_ s. Inl EFAULT) | Some q \<Rightarrow> c_unlink q)"

definition named_copy :: "string \<Rightarrow> string \<Rightarrow> string list \<Rightarrow> outcome prog" where
  "named_copy name what argv = do {
     _ \<leftarrow> c_unlink_arg (arg argv 2);
     rc \<leftarrow> c_clonefile name (arg argv 1) (arg argv 2);
     if rc \<noteq> 0 then fail what else ret (Exit 0)
   }"

definition probe_clonefile :: "string list \<Rightarrow> outcome prog" where
  "probe_clonefile = named_copy ''clonefile'' ''clonefile''"

definition probe_copyfile :: "string list \<Rightarrow> outcome prog" where
  "probe_copyfile = named_copy ''copyfile'' ''copyfile''"

definition probe_copyfile_clone :: "string list \<Rightarrow> outcome prog" where
  "probe_copyfile_clone = named_copy ''copyfile'' ''copyfile-clone''"

definition c_exchangedata :: "string option \<Rightarrow> string option \<Rightarrow> int prog" where
  "c_exchangedata a b =
     sys Libc ''exchangedata'' (case a of None \<Rightarrow> [] | Some p \<Rightarrow> p) (- 1) (\<lambda>_ s.
       case (a, b) of
         (Some p, Some q) \<Rightarrow>
           (case (os_dir s (resolve s p), os_dir s (resolve s q)) of
              (Some (NFile i), Some (NFile j)) \<Rightarrow>
                if i = j then Inl EINVAL
                else Inr (0, s\<lparr>os_data := (os_data s)(i := os_data s j, j := os_data s i)\<rparr>)
            | (Some _, Some _) \<Rightarrow> Inl EINVAL
            | _ \<Rightarrow> Inl ENOENT)
       | _ \<Rightarrow> Inl EFAULT)"

definition probe_exchangedata :: "string list \<Rightarrow> outcome prog" where
  "probe_exchangedata argv = do {
     rc \<leftarrow> c_exchangedata (arg argv 1) (arg argv 2);
     if rc \<noteq> 0 then fail ''exchangedata'' else ret (Exit 0)
   }"

definition c_link_args :: "string option \<Rightarrow> string option \<Rightarrow> int prog" where
  "c_link_args a b =
     sys Libc ''link'' (case a of None \<Rightarrow> [] | Some p \<Rightarrow> p) (- 1) (\<lambda>_ s.
       case (a, b) of
         (Some p, Some q) \<Rightarrow>
           (case os_dir s (resolve s p) of
              None \<Rightarrow> Inl ENOENT
            | Some n \<Rightarrow>
                if os_dir s (resolve s q) \<noteq> None \<or> resolve s q \<in> set (os_dirs s) then Inl EEXIST
                else Inr (0, s\<lparr>os_dir := (os_dir s)(resolve s q \<mapsto> n)\<rparr>))
       | _ \<Rightarrow> Inl EFAULT)"

definition probe_link :: "string list \<Rightarrow> outcome prog" where
  "probe_link argv = do {
     _ \<leftarrow> c_unlink_arg (arg argv 2);
     rc \<leftarrow> c_link_args (arg argv 1) (arg argv 2);
     if rc \<noteq> 0 then fail ''link'' else ret (Exit 0)
   }"

definition probe_read :: "string list \<Rightarrow> outcome prog" where
  "probe_read argv = cat_head (arg argv 1)"

text \<open>The symbolic link is resolved by the kernel: to the program it is the name of the file.\<close>

definition probe_symlink_read :: "string list \<Rightarrow> outcome prog" where
  "probe_symlink_read argv = cat_head (arg argv 1)"

end
