(* ===== verification/Exit_Probes.thy ===== *)
theory Exit_Probes
  imports Residual_Probes
begin

text \<open>
  How a process ends and starts: readers that end without running destructors (\<^verbatim>\<open>round4/r4_proc\<close>),
  programs that sabotage or survive the capture machinery (\<^verbatim>\<open>round5/machinery\<close>), launchers
  (\<^verbatim>\<open>adv_inject\<close>) and the process tree of \<^verbatim>\<open>tests/realbuild\<close>.
\<close>

section \<open>Ends of a process\<close>

text \<open>\<^verbatim>\<open>raise\<close> of a signal whose action is to end the process; the program goes on when the call fails.\<close>

definition c_raise :: "nat \<Rightarrow> outcome prog \<Rightarrow> outcome prog" where
  "c_raise sig rest = do {
     rc \<leftarrow> c_call Libc ''raise'';
     if rc = 0 then ret (Signalled sig) else rest
   }"

text \<open>\<^verbatim>\<open>abort()\<close> never returns.\<close>

definition c_abort :: "outcome prog" where
  "c_abort = ret (Signalled 6)"

definition kill_getpid :: "outcome prog" where
  "kill_getpid = do {
     dead \<leftarrow> c_kill_self;
     ret (if dead then Signalled 9 else Exit 0)
   }"

text \<open>The marker is read and the descriptor stays open.\<close>

definition read_no_close :: "string option \<Rightarrow> nat \<Rightarrow> unit prog" where
  "read_no_close path n = do {
     fd \<leftarrow> open_as Libc ''open'' path [O_RDONLY];
     if fd \<ge> 0 then do { _ \<leftarrow> c_read fd n; ret () } else ret ()
   }"

text \<open>\<^verbatim>\<open>strcmp\<close> of a null pointer ends the program by SIGSEGV.\<close>

definition with_mode :: "string option \<Rightarrow> (string \<Rightarrow> outcome prog) \<Rightarrow> outcome prog" where
  "with_mode mode m = (case mode of None \<Rightarrow> ret (Signalled 11) | Some a \<Rightarrow> m a)"

section \<open>r4_proc\<close>

definition proc_baseline :: "outcome prog" where
  "proc_baseline = do { touch_file (Some ''/tmp/r4_proc/marker_base.txt''); ret (Exit 0) }"

definition proc_child :: "string list \<Rightarrow> outcome prog" where
  "proc_child argv = do {
     let mode = (if length argv > 2 then argv ! 2 else ''exit'');
     (if length argv > 3 then do { _ \<leftarrow> c_read (atoi (argv ! 3)) 64; ret () }
      else read_no_close (arg argv 1) 64);
     if mode = ''_exit'' then ret (Exit 0)
     else if mode = ''exit'' then ret (Exit 0)
     else if mode = ''abort'' then c_abort
     else if mode = ''segv'' then c_raise 11 (ret (Exit 0))
     else if mode = ''sigkill'' then c_raise 9 (ret (Exit 0))
     else ret (Exit 0)
   }"

definition proc_child2 :: "string list \<Rightarrow> outcome prog" where
  "proc_child2 argv = do {
     let K = (if length argv > 3 then atoi (argv ! 3) else 0);
     let junk = (if length argv > 4 then argv ! 4 else ''/tmp/r4_proc/junk.txt'');
     repeat (nat K) (touch_file (Some junk));
     read_no_close (arg argv 1) 64;
     with_mode (arg argv 2) (\<lambda>mode.
       if mode = ''_exit'' then ret (Exit 0)
       else if mode = ''abort'' then c_abort
       else if mode = ''segv'' then c_raise 11 (ret (Exit 0))
       else ret (Exit 0))
   }"

text \<open>
  The main thread spins until the worker has read, and the worker then waits forever: the two never
  run at the same time.  Without a worker the main thread spins forever.
\<close>

definition child3_worker :: "string option \<Rightarrow> nat \<Rightarrow> string \<Rightarrow> unit prog" where
  "child3_worker marker k junk = do {
     repeat k (touch_file (Some junk));
     read_no_close marker 64
   }"

definition proc_child3 :: "string list \<Rightarrow> outcome prog" where
  "proc_child3 argv = do {
     let K = (if length argv > 2 then atoi (argv ! 2) else 1500);
     let junk = (if length argv > 3 then argv ! 3 else ''/tmp/r4_proc/junk.txt'');
     rc \<leftarrow> c_call Libc ''pthread_create'';
     if rc \<noteq> 0 then ret Blocked
     else do { child3_worker (arg argv 1) (nat K) junk; ret (Exit 0) }
   }"

text \<open>
  A daemon: the grandchild reads the marker.  Where a fork fails the code of the child runs in the
  parent, since only a positive pid leaves it.
\<close>

definition daemon_grandchild :: "string option \<Rightarrow> outcome prog" where
  "daemon_grandchild marker = do { touch_file marker; _ \<leftarrow> c_call Libc ''usleep''; ret (Exit 0) }"

definition daemon_child :: "string option \<Rightarrow> outcome prog" where
  "daemon_child marker = do {
     _ \<leftarrow> c_call Libc ''setsid'';
     p2 \<leftarrow> c_fork (daemon_grandchild marker);
     if p2 > 0 then ret (Exit 0) else daemon_grandchild marker
   }"

definition proc_daemon :: "string list \<Rightarrow> outcome prog" where
  "proc_daemon argv = do {
     p1 \<leftarrow> c_fork (daemon_child (arg argv 1));
     if p1 > 0 then do { _ \<leftarrow> c_waitpid p1; ret (Exit 0) } else daemon_child (arg argv 1)
   }"

definition read_head :: "string option \<Rightarrow> nat \<Rightarrow> unit prog" where
  "read_head path n = do {
     fd \<leftarrow> open_as Libc ''open'' path [O_RDONLY];
     if fd \<ge> 0 then do { _ \<leftarrow> c_read fd n; _ \<leftarrow> c_close fd; ret () } else ret ()
   }"

definition direct_exit_reader :: "string list \<Rightarrow> outcome prog" where
  "direct_exit_reader argv =
    (if length argv < 2 then ret (Exit 2) else do { read_head (Some (argv ! 1)) 256; ret (Exit 0) })"

text \<open>
  The handler runs inside \<^verbatim>\<open>raise\<close>.  When installing it fails the signal ends the process, and when
  \<^verbatim>\<open>raise\<close> fails the program spins forever.
\<close>

definition sigchild :: "string list \<Rightarrow> outcome prog" where
  "sigchild argv = do {
     let mode = (if length argv > 2 then argv ! 2 else ''_exit'');
     installed \<leftarrow> c_call Libc ''sigaction'';
     rc \<leftarrow> c_call Libc ''raise'';
     if rc \<noteq> 0 then ret Blocked
     else if installed \<noteq> 0 then ret (Signalled 30)
     else do {
       touch_file (arg argv 1);
       if mode = ''_exit'' then ret (Exit 0) else if mode = ''abort'' then c_abort else ret (Exit 0)
     }
   }"

text \<open>
  \<^verbatim>\<open>while (waitpid(pid, &st, 0) < 0) {}\<close> for a child there is: every failure takes a fault of the
  schedule, so their number bounds the rounds.
\<close>

primrec wait_loop :: "nat \<Rightarrow> int \<Rightarrow> unit prog" where
  "wait_loop 0 pid = ret ()"
| "wait_loop (Suc k) pid = do {
     rc \<leftarrow> c_waitpid pid;
     if rc < 0 then wait_loop k pid else ret ()
   }"

definition wait_retry :: "int \<Rightarrow> unit prog" where
  "wait_retry pid = State (\<lambda>s. run_state (wait_loop (Suc (length (os_faults s))) pid) s)"

definition vchild :: "string list \<Rightarrow> outcome prog" where
  "vchild argv =
    (if length argv < 2 then ret (Exit 2)
     else do {
       pid \<leftarrow> c_fork (do { read_head (Some (argv ! 1)) 256; ret (Exit 0) });
       if pid < 0 then ret (Exit 3) else do { wait_retry pid; ret (Exit 0) }
     })"

text \<open>A child that executes a program; the program runs to its end as the child.\<close>

definition exec_in_child :: "string \<Rightarrow> programs \<Rightarrow> string \<Rightarrow> string list \<Rightarrow> outcome prog" where
  "exec_in_child name progs path args = do {
     environ \<leftarrow> c_environ;
     r \<leftarrow> exec_as Libc name progs path args environ;
     case r of
       None \<Rightarrow> ret (Exit 127)
     | Some out \<Rightarrow> (case progs path of None \<Rightarrow> ret out | Some img \<Rightarrow> img args environ)
   }"

definition vexec :: "programs \<Rightarrow> string list \<Rightarrow> outcome prog" where
  "vexec progs argv =
    (if length argv < 2 then ret (Exit 2)
     else do {
       pid \<leftarrow> c_fork (exec_in_child ''execv'' progs (argv ! 1) (drop 1 argv));
       if pid < 0 then ret (Exit 3) else do { wait_retry pid; ret (Exit 0) }
     })"

subsection \<open>Spawn styles\<close>

text \<open>
  \<^verbatim>\<open>posix_spawn\<close> in two steps: whether the child can start, and its run, before which the kernel opens
  a file at a given descriptor when there is a file action.  A child that starts suspended runs when
  it is continued; without that the parent waits forever.
\<close>

definition spawn_start :: "programs \<Rightarrow> string \<Rightarrow> errno option prog" where
  "spawn_start progs path = State (\<lambda>s.
     case pop_fault (s\<lparr>os_trace := os_trace s @ [Ev Libc ''posix_spawn'' path]\<rparr>) of
       (Fail e, s) \<Rightarrow> (Some e, s)
     | (_, s) \<Rightarrow> (if progs path = None then Some ENOENT else None, s))"

definition open_at :: "nat \<Rightarrow> string \<Rightarrow> errno option prog" where
  "open_at n file = State (\<lambda>s.
     case open_body (resolve s file) [O_RDONLY] s of
       Inl e \<Rightarrow> (Some e, s)
     | Inr (fd, t) \<Rightarrow>
         (None, t\<lparr>os_fd := (n, the (map_of (os_fd t) (nat fd))) #
                            filter (\<lambda>(m, i). m \<noteq> n \<and> m \<noteq> nat fd) (os_fd t)\<rparr>))"

definition spawn_run :: "programs \<Rightarrow> string \<Rightarrow> string list \<Rightarrow> outcome prog" where
  "spawn_run progs path args = do {
     environ \<leftarrow> c_environ;
     case progs path of None \<Rightarrow> ret (Exit 127) | Some img \<Rightarrow> img args environ
   }"

definition spawn_opening :: "programs \<Rightarrow> string \<Rightarrow> string list \<Rightarrow> string \<Rightarrow> errno option prog" where
  "spawn_opening progs path args file = State (\<lambda>s.
     case run_state (open_at 7 file) s of
       (Some e, t) \<Rightarrow> (Some e, t)
     | (None, t) \<Rightarrow>
         (case run_state (spawn_run progs path args) t of
            (out, u) \<Rightarrow> (None, u\<lparr>os_fd := os_fd s, os_environ := os_environ s, os_cwd := os_cwd s,
                                 os_errno := os_errno s\<rparr>)))"

definition spawn_failed :: "errno \<Rightarrow> outcome prog" where
  "spawn_failed e = do { eprintf (''spawn failed '' @ nat_text (errno_number e) @ nl); ret (Exit 1) }"

definition proc_parent :: "programs \<Rightarrow> string list \<Rightarrow> outcome prog" where
  "proc_parent progs argv = do {
     let style = (if length argv > 3 then argv ! 3 else ''plain'');
     let path = ''/tmp/r4_proc/child'';
     let args = map the (takeWhile (\<lambda>a. a \<noteq> None) [Some path, arg argv 2, arg argv 1]);
     r \<leftarrow> spawn_start progs path;
     case r of
       Some e \<Rightarrow> spawn_failed e
     | None \<Rightarrow>
         if style = ''fileaction''
         then (case arg argv 2 of
                 None \<Rightarrow> spawn_failed EFAULT
               | Some marker \<Rightarrow> do {
                   r \<leftarrow> spawn_opening progs path (args @ [''7'']) marker;
                   case r of
                     Some e \<Rightarrow> spawn_failed e
                   | None \<Rightarrow> do { pid \<leftarrow> c_getpid; _ \<leftarrow> c_waitpid (int pid + 1); ret (Exit 0) }
                 })
         else do {
           go \<leftarrow> (if style = ''suspended'' then c_call Libc ''kill'' else ret 0);
           if go \<noteq> 0 then ret Blocked
           else do {
             _ \<leftarrow> in_child (spawn_run progs path args);
             pid \<leftarrow> c_getpid;
             _ \<leftarrow> c_waitpid (int pid + 1);
             ret (Exit 0)
           }
         }
   }"

end
