(* ===== verification/Machinery_Probes.thy ===== *)
theory Machinery_Probes
  imports Exit_Probes
begin

text \<open>
  Programs that attack the capture machinery itself (\<^verbatim>\<open>round5/machinery\<close>), launchers of readers
  (\<^verbatim>\<open>adversarial-2026-06/adv_inject\<close>) and the forked readers of \<^verbatim>\<open>tests/realbuild/fixtures\<close>.
\<close>

section \<open>round5/machinery\<close>

definition machinery_marker :: string where
  "machinery_marker = ''/tmp/r5_machinery/marker.txt''"

text \<open>The head of the marker goes to the output, nothing when the read fails.\<close>

definition show_marker :: "unit prog" where
  "show_marker = do {
     f \<leftarrow> c_open machinery_marker [O_RDONLY];
     (n, b) \<leftarrow> c_read f 64;
     _ \<leftarrow> c_write 1 b;
     ret ()
   }"

definition abort_probe :: "outcome prog" where
  "abort_probe = do { show_marker; c_abort }"

definition kill_self :: "outcome prog" where
  "kill_self = do { show_marker; kill_getpid }"

definition raw_exit :: "outcome prog" where
  "raw_exit = do { show_marker; _ \<leftarrow> c_call Raw ''exit''; ret (Exit 0) }"

text \<open>The number of bytes to write is not checked here: a failed read asks for as many as a \<^verbatim>\<open>size_t\<close> holds.\<close>

definition preader :: "outcome prog" where
  "preader = do {
     f \<leftarrow> c_open machinery_marker [O_RDONLY];
     (n, b) \<leftarrow> c_read f 64;
     _ \<leftarrow> (if n < 0 then sys Libc ''write'' [] (- 1) (\<lambda>_ s. Inl EFAULT) else c_write 1 b);
     _ \<leftarrow> c_close f;
     ret (Exit 0)
   }"

text \<open>Stores into a mapping; a mapping of an empty file ends the program by SIGBUS.\<close>

definition store_and_close :: "nat \<times> nat \<Rightarrow> string \<Rightarrow> int \<Rightarrow> outcome prog" where
  "store_and_close mp text fd = do {
     sz \<leftarrow> map_bytes mp;
     if sz = 0 then ret (Signalled 10)
     else do {
       map_store mp (str_bytes text);
       _ \<leftarrow> c_call Libc ''msync'';
       _ \<leftarrow> c_munmap;
       _ \<leftarrow> c_close fd;
       ret (Exit 0)
     }
   }"

definition mmap_write :: "outcome prog" where
  "mmap_write = do {
     fd \<leftarrow> c_open ''/tmp/r5_machinery/out_mmap.bin'' [O_RDWR, O_CREAT, O_TRUNC];
     _ \<leftarrow> c_ftruncate fd 32;
     p \<leftarrow> c_mmap fd 32 True;
     case p of
       None \<Rightarrow> ret (Exit 2)
     | Some mp \<Rightarrow> store_and_close mp ''MMAP-WRITTEN-CONTENT-1234567890'' fd
   }"

text \<open>A mapping that is made writable later; the descriptor must allow it.\<close>

definition c_mprotect_write :: "int \<Rightarrow> int prog" where
  "c_mprotect_write fd =
     sys Libc ''mprotect'' [] (- 1) (\<lambda>_ s.
       case fd_ofd s fd of
         Some (i, d) \<Rightarrow> if od_wr d then Inr (0, s) else Inl EACCES
       | None \<Rightarrow> Inl EACCES)"

definition escalate :: "int \<Rightarrow> nat \<Rightarrow> string \<Rightarrow> outcome prog" where
  "escalate fd n text = do {
     p \<leftarrow> c_mmap fd n False;
     case p of
       None \<Rightarrow> ret (Exit 2)
     | Some mp \<Rightarrow> do {
         rc \<leftarrow> c_mprotect_write fd;
         if rc \<noteq> 0 then ret (Exit 3) else store_and_close mp text fd
       }
   }"

definition mprot_clean :: "outcome prog" where
  "mprot_clean = do {
     fd \<leftarrow> c_open ''/tmp/r5_machinery/inout.txt'' [O_RDWR];
     escalate fd 16 ''TAMPERED-OUTPUT!''
   }"

definition mprotect_escalate :: "outcome prog" where
  "mprotect_escalate = do {
     fd \<leftarrow> c_open ''/tmp/r5_machinery/out_mprot.bin'' [O_RDWR, O_CREAT, O_TRUNC];
     _ \<leftarrow> c_ftruncate fd 32;
     escalate fd 32 ''ESCALATED-INVISIBLE-WRITE-12345''
   }"

text \<open>Neither mapping is checked.\<close>

definition mmap_shm :: "outcome prog" where
  "mmap_shm = do {
     fd \<leftarrow> shm_open ''/r5_shm_obj'' [O_CREAT, O_RDWR];
     if fd < 0 then do { perror ''shm_open c''; ret (Exit 2) }
     else do {
       _ \<leftarrow> c_ftruncate fd 64;
       w \<leftarrow> c_mmap fd 64 True;
       case w of
         None \<Rightarrow> ret (Signalled 11)
       | Some wp \<Rightarrow> do {
           sz \<leftarrow> map_bytes wp;
           if sz = 0 then ret (Signalled 10)
           else do {
             map_store wp (str_bytes ''SHM-PAYLOAD'');
             _ \<leftarrow> c_munmap;
             rfd \<leftarrow> shm_open ''/r5_shm_obj'' [O_RDWR];
             r \<leftarrow> c_mmap rfd 64 False;
             case r of
               None \<Rightarrow> ret (Signalled 11)
             | Some rp \<Rightarrow> do {
                 _ \<leftarrow> map_load rp;
                 _ \<leftarrow> c_munmap;
                 _ \<leftarrow> c_close rfd;
                 _ \<leftarrow> c_close fd;
                 _ \<leftarrow> c_shm_unlink ''/r5_shm_obj'';
                 ret (Exit 0)
               }
           }
         }
     }
   }"

subsection \<open>Sabotage\<close>

text \<open>
  These run under the shim and act on its fragment directory.  Whether the shim exports its flush
  function is the parameter \<open>shim\<close>; the flush and the permissions of the directory concern the shim
  alone, so here they are calls of the trace.  The thread id is a parameter.
\<close>

definition shim_flush :: "bool \<Rightarrow> unit prog" where
  "shim_flush shim = (if shim then do { _ \<leftarrow> c_call Libc ''repro_monitor_shim_flush''; ret () } else ret ())"

definition chmod_fragment_dir :: "string option \<Rightarrow> unit prog" where
  "chmod_fragment_dir dir =
    (case dir of
       None \<Rightarrow> ret ()
     | Some d \<Rightarrow> do {
         _ \<leftarrow> sys Libc ''chmod'' d (- 1) (\<lambda>_ s. if resolve s d \<in> set (os_dirs s) then Inr (0 :: int, s) else Inl ENOENT);
         ret ()
       })"

definition sentinel_path :: "string \<Rightarrow> nat \<Rightarrow> u64 \<Rightarrow> string" where
  "sentinel_path dir pid tid =
     take 1023 (dir @ ''/repro-reading-'' @ nat_text pid @ ''-'' @ nat_text (unat tid) @ ''.io-mon-reading'')"

definition unlink_sentinel :: "string option \<Rightarrow> u64 \<Rightarrow> unit prog" where
  "unlink_sentinel dir tid =
    (case dir of
       None \<Rightarrow> ret ()
     | Some d \<Rightarrow> do { pid \<leftarrow> c_getpid; _ \<leftarrow> c_unlink (sentinel_path d pid tid); ret () })"

definition sab_chmod :: "bool \<Rightarrow> outcome prog" where
  "sab_chmod shim = do {
     dir \<leftarrow> c_getenv ''REPRO_MONITOR_FRAGMENT_DIR'';
     shim_flush shim;
     chmod_fragment_dir dir;
     show_marker;
     kill_getpid
   }"

definition sab_nodlsym :: "outcome prog" where
  "sab_nodlsym = do {
     dir \<leftarrow> c_getenv ''REPRO_MONITOR_FRAGMENT_DIR'';
     w \<leftarrow> c_open ''/tmp/r5_machinery/secret.txt'' [O_RDONLY];
     _ \<leftarrow> c_read w 64;
     _ \<leftarrow> c_close w;
     chmod_fragment_dir dir;
     show_marker;
     kill_getpid
   }"

definition sab_overflow :: "u64 \<Rightarrow> outcome prog" where
  "sab_overflow tid = do {
     dir \<leftarrow> c_getenv ''REPRO_MONITOR_FRAGMENT_DIR'';
     repeat 800 (touch_file (Some ''/tmp/r5_machinery/secret.txt''));
     show_marker;
     unlink_sentinel dir tid;
     kill_getpid
   }"

definition sab_unlink :: "bool \<Rightarrow> u64 \<Rightarrow> outcome prog" where
  "sab_unlink shim tid = do {
     dir \<leftarrow> c_getenv ''REPRO_MONITOR_FRAGMENT_DIR'';
     shim_flush shim;
     show_marker;
     unlink_sentinel dir tid;
     kill_getpid
   }"

section \<open>adv_inject\<close>

definition inject_reader :: "string list \<Rightarrow> outcome prog" where
  "inject_reader argv = do {
     let p = (if length argv > 1 then argv ! 1 else ''/tmp/adv_inject/marker_baseline.txt'');
     say_head ''fopen'' 1 (Some p) (\<lambda>b. ''[reader] read '' @ p @ '' => '' @ b)
   }"

definition spawn_parent :: "programs \<Rightarrow> string list \<Rightarrow> outcome prog" where
  "spawn_parent progs argv = do {
     r \<leftarrow> spawn_and_wait progs (arg argv 1) [arg argv 1, arg argv 2];
     case r of
       Some e \<Rightarrow> do { eprintf (''spawn rc='' @ nat_text (errno_number e) @ nl); ret (Exit 1) }
     | None \<Rightarrow> ret (Exit 0)
   }"

text \<open>The vector of a program and a marker, as far as they are given.\<close>

definition two_args :: "string list \<Rightarrow> nat \<Rightarrow> string list" where
  "two_args argv i = map the (takeWhile (\<lambda>a. a \<noteq> None) [arg argv i, arg argv (Suc i)])"

definition execve_opt ::
    "programs \<Rightarrow> string option \<Rightarrow> string list \<Rightarrow> string list \<Rightarrow> outcome option prog" where
  "execve_opt progs path args env =
    (case path of
       None \<Rightarrow> sys Libc ''execve'' [] None (\<lambda>_ s. Inl EFAULT)
     | Some p \<Rightarrow> exec_as Libc ''execve'' progs p args env)"

definition vfork_parent :: "programs \<Rightarrow> string list \<Rightarrow> outcome prog" where
  "vfork_parent progs argv = do {
     p \<leftarrow> c_fork (case arg argv 1 of
            None \<Rightarrow> do { _ \<leftarrow> execve_opt progs None [] []; ret (Exit 127) }
          | Some path \<Rightarrow> exec_in_child ''execve'' progs path (two_args argv 1));
     _ \<leftarrow> c_waitpid p;
     ret (Exit 0)
   }"

definition execve_parent :: "programs \<Rightarrow> string list \<Rightarrow> outcome prog" where
  "execve_parent progs argv = do {
     pid \<leftarrow> c_getpid;
     printf (''[execve_parent] pid='' @ nat_text pid @ '' execve '' @ arg_text argv 1 @ nl);
     environ \<leftarrow> c_environ;
     r \<leftarrow> execve_opt progs (arg argv 1) (two_args argv 1) environ;
     case r of Some out \<Rightarrow> ret out | None \<Rightarrow> fail ''execve''
   }"

subsection \<open>pspawn\<close>

definition dyld_insert :: string where
  "dyld_insert = ''DYLD_INSERT_LIBRARIES=''"

definition env_emptydyld :: "string list \<Rightarrow> string list" where
  "env_emptydyld environ =
     (let e = map (\<lambda>v. if take 22 v = dyld_insert then dyld_insert else v) environ
      in if \<exists>v \<in> set environ. take 22 v = dyld_insert then e else e @ [dyld_insert])"

definition env_scrub :: "string list \<Rightarrow> string list" where
  "env_scrub environ =
     filter (\<lambda>v. take 5 v \<noteq> ''DYLD_'' \<and> take 21 v \<noteq> ''CT_SANDBOX_TOOLS_DIR='') environ"

definition child_env :: "string \<Rightarrow> string list \<Rightarrow> string list" where
  "child_env envmode environ =
     (if envmode = ''emptydyld'' then env_emptydyld environ
      else if envmode = ''scrub'' then env_scrub environ else environ)"

text \<open>
  What \<^verbatim>\<open>WEXITSTATUS\<close>, and the exit of the parent, make of the end of the child.  A child that waits
  forever, or goes on as another program, has no status yet.
\<close>

fun wait_status :: "outcome \<Rightarrow> (nat \<times> int) option" where
  "wait_status (Exit n) = Some (nat (n mod 256), n mod 256)"
| "wait_status (Signalled k) = Some (0, 128 + int k)"
| "wait_status _ = None"

definition pspawn :: "programs \<Rightarrow> string list \<Rightarrow> outcome prog" where
  "pspawn progs argv =
    (if length argv < 5
     then usage_line (''usage: pspawn mode(0=spawn,1=setexec,2=execve) env prog marker'' @ nl)
     else do {
       let setexec = atoi (argv ! 1);
       let path = argv ! 3;
       let args = [argv ! 3, argv ! 4];
       environ \<leftarrow> c_environ;
       let envp = child_env (argv ! 2) environ;
       pid \<leftarrow> c_getpid;
       printf (''[pspawn] setexec='' @ int_text setexec @ '' env='' @ argv ! 2 @ '' prog='' @ path @
         '' pid='' @ nat_text pid @ nl);
       if setexec = 2
       then do {
         r \<leftarrow> exec_as Libc ''execve'' progs path args envp;
         case r of Some out \<Rightarrow> ret out | None \<Rightarrow> fail ''execve''
       }
       else do {
         r \<leftarrow> (if setexec \<noteq> 0
              then do {
                r \<leftarrow> spawn_start progs path;
                ret (case r of Some e \<Rightarrow> Inl e | None \<Rightarrow> Inr (Execd path args envp))
              }
              else c_posix_spawn progs path args envp);
         case r of
           Inl e \<Rightarrow> do {
             eprint_errno (''[pspawn] spawn rc='' @ nat_text (errno_number e)) e;
             ret (Exit 1)
           }
         | Inr out \<Rightarrow>
             if setexec \<noteq> 0 then ret out
             else (case wait_status out of
                     None \<Rightarrow> ret Blocked
                   | Some (shown, code) \<Rightarrow> do {
                       _ \<leftarrow> c_waitpid (int pid + 1);
                       printf (''[pspawn] child exited status='' @ nat_text shown @ nl);
                       ret (Exit code)
                     })
       }
     })"

section \<open>tests/realbuild/fixtures/forktree.c\<close>

text \<open>
  The victim waits after its read until it is killed; a signal to a child that was not waited for is
  always delivered.  The target of the signal is part of the trace: the pid \<^verbatim>\<open>-1\<close> of a failed fork
  stands for every process.
\<close>

definition c_kill :: "int \<Rightarrow> unit prog" where
  "c_kill pid = State (\<lambda>s. ((), s\<lparr>os_trace := os_trace s @ [Ev Libc ''kill'' (int_text pid)]\<rparr>))"

definition forktree_child :: "string \<Rightarrow> bool \<Rightarrow> outcome prog" where
  "forktree_child marker victim = do {
     fd \<leftarrow> c_open marker [O_RDONLY];
     if fd < 0 then ret (Exit 2)
     else do {
       (n, b) \<leftarrow> c_read fd 64;
       if n < 0 then ret (Exit 3)
       else do { _ \<leftarrow> c_close fd; ret (if victim then Blocked else Exit 0) }
     }
   }"

definition realbuild_forktree :: "string list \<Rightarrow> outcome prog" where
  "realbuild_forktree argv =
    (if length argv < 3 then ret (Exit 64)
     else do {
       let n = atoi (argv ! 2);
       let dokill = (length argv > 3 \<and> argv ! 3 = ''kill'');
       if n < 1 \<or> n > 64 then ret (Exit 65)
       else do {
         pids \<leftarrow> fork_children [0..<nat n] (\<lambda>i. forktree_child (argv ! 1) (dokill \<and> i = 0));
         (if dokill then do { _ \<leftarrow> c_call Libc ''usleep''; c_kill (hd pids) } else ret ());
         for_each pids (\<lambda>p. do { _ \<leftarrow> c_waitpid p; ret () });
         ret (Exit 0)
       }
     })"

end
