(* ===== verification/Path_Probes.thy ===== *)
theory Path_Probes
  imports Machinery_Probes
begin

text \<open>
  Probes of names: calls around the hooks (\<^verbatim>\<open>round5/unhooked\<close>, \<^verbatim>\<open>adv_syscall\<close>), the spelling of a path
  (\<^verbatim>\<open>round5/pathfidelity\<close>, \<^verbatim>\<open>round2/r2_path\<close>), directories and negative lookups (\<^verbatim>\<open>round4/r4_dir\<close>,
  \<^verbatim>\<open>round4/r4_real\<close>).

  The model has no symbolic links and takes a path as it is spelled, so \<^verbatim>\<open>lstat\<close> is \<^verbatim>\<open>stat\<close>.  What a
  directory lists, in the order of the file system, and the path the kernel reports for a descriptor
  are parameters.
\<close>

section \<open>Raw system calls on macOS\<close>

text \<open>
  A failing \<^verbatim>\<open>svc\<close> sets the carry flag and leaves the positive error number in the result register;
  \<^verbatim>\<open>raw6\<close> and \<^verbatim>\<open>sc3\<close> return the register and ignore the flag.
\<close>

definition svc_result :: "int \<Rightarrow> int prog" where
  "svc_result r = (if r < 0 then do { e \<leftarrow> c_errno; ret (int (errno_number e)) } else ret r)"

definition svc_open :: "string \<Rightarrow> string option \<Rightarrow> int prog" where
  "svc_open name path = do { r \<leftarrow> open_as Raw name path [O_RDONLY]; svc_result r }"

text \<open>The buffer, with what was in it before, and the result of the read.\<close>

definition svc_read :: "string \<Rightarrow> int \<Rightarrow> bytes \<Rightarrow> (int \<times> bytes) prog" where
  "svc_read name fd buf = do {
     (n, b) \<leftarrow> read_as Raw name fd (length buf);
     r \<leftarrow> svc_result n;
     ret (r, b @ drop (length b) buf)
   }"

text \<open>Open, read, write to the output, close; \<open>buf\<close> is what the stack buffer holds before.\<close>

definition svc_echo :: "string \<Rightarrow> string \<Rightarrow> bytes \<Rightarrow> string option \<Rightarrow> outcome prog" where
  "svc_echo opn rd buf path = do {
     fd \<leftarrow> svc_open opn path;
     if fd < 0 then ret (Exit 1)
     else do {
       (n, b) \<leftarrow> svc_read rd fd buf;
       _ \<leftarrow> (if n > 0 then write_as Raw ''write'' 1 (take (nat n) b) else ret 0);
       _ \<leftarrow> close_as Raw fd;
       ret (Exit 0)
     }
   }"

definition raw_svc :: "bytes \<Rightarrow> string list \<Rightarrow> outcome prog" where
  "raw_svc buf argv = (if length argv < 2 then ret (Exit 2) else svc_echo ''open'' ''read'' buf (arg argv 1))"

definition p_svc_openread :: "bytes \<Rightarrow> string list \<Rightarrow> outcome prog" where
  "p_svc_openread buf argv = svc_echo ''open'' ''read'' buf (arg argv 1)"

definition p_svc_openat_nocancel :: "bytes \<Rightarrow> string list \<Rightarrow> outcome prog" where
  "p_svc_openat_nocancel buf argv = svc_echo ''openat'' ''read_nocancel'' buf (arg argv 1)"

text \<open>\<^verbatim>\<open>syscall(2)\<close> of libc gives -1.\<close>

definition syscall_echo :: "outcome prog \<Rightarrow> nat \<Rightarrow> string option \<Rightarrow> outcome prog" where
  "syscall_echo failed cap path = do {
     fd \<leftarrow> open_as Raw ''open'' path [O_RDONLY];
     if fd < 0 then failed
     else do {
       (n, b) \<leftarrow> read_as Raw ''read'' fd cap;
       _ \<leftarrow> (if n > 0 then write_as Raw ''write'' 1 b else ret 0);
       _ \<leftarrow> close_as Raw fd;
       ret (Exit 0)
     }
   }"

definition p_syscall_openread :: "string list \<Rightarrow> outcome prog" where
  "p_syscall_openread argv =
     syscall_echo (do { eprintf (''open err -1'' @ nl); ret (Exit 1) }) 128 (arg argv 1)"

definition indirect_syscall :: "string list \<Rightarrow> outcome prog" where
  "indirect_syscall argv =
    (if length argv < 2 then ret (Exit 2) else syscall_echo (ret (Exit 1)) 256 (arg argv 1))"

definition unhooked_baseline :: "string list \<Rightarrow> outcome prog" where
  "unhooked_baseline argv = echo_file 128 (arg argv 1)"

section \<open>Calls on names\<close>

definition path_call :: "string \<Rightarrow> string option \<Rightarrow> (string \<Rightarrow> os \<Rightarrow> errno + (int \<times> os)) \<Rightarrow> int prog" where
  "path_call name path body =
     sys Libc name (case path of None \<Rightarrow> [] | Some p \<Rightarrow> p) (- 1) (\<lambda>_ s.
       case path of None \<Rightarrow> Inl EFAULT | Some p \<Rightarrow> body (resolve s p) s)"

definition name_exists :: "string \<Rightarrow> os \<Rightarrow> bool" where
  "name_exists q s \<longleftrightarrow> q \<in> set (os_dirs s) \<or> os_dir s q \<noteq> None"

definition lookup_call :: "string \<Rightarrow> string option \<Rightarrow> int prog" where
  "lookup_call name path = path_call name path (\<lambda>q s. if name_exists q s then Inr (0, s) else Inl ENOENT)"

definition c_chdir :: "string option \<Rightarrow> int prog" where
  "c_chdir path = path_call ''chdir'' path (\<lambda>q s.
     if q \<in> set (os_dirs s) then Inr (0, s\<lparr>os_cwd := q\<rparr>)
     else Inl (if os_dir s q = None then ENOENT else ENOTDIR))"

definition c_mkdir :: "string option \<Rightarrow> int prog" where
  "c_mkdir path = path_call ''mkdir'' path (\<lambda>q s.
     if name_exists q s then Inl EEXIST else Inr (0, s\<lparr>os_dirs := q # os_dirs s\<rparr>))"

text \<open>A directory as \<^verbatim>\<open>readdir\<close> lists it, its two dot entries included.\<close>

type_synonym listing = "os \<Rightarrow> string \<Rightarrow> string list"

definition c_rmdir :: "listing \<Rightarrow> string option \<Rightarrow> int prog" where
  "c_rmdir entries path = path_call ''rmdir'' path (\<lambda>q s.
     if q \<notin> set (os_dirs s) then Inl (if os_dir s q = None then ENOENT else ENOTDIR)
     else if \<not> set (entries s q) \<subseteq> {''.'', ''..''} then Inl ENOTEMPTY
     else Inr (0, s\<lparr>os_dirs := removeAll q (os_dirs s)\<rparr>))"

section \<open>pathfidelity\<close>

text \<open>\<^verbatim>\<open>op:path\<close>, cut at the first colon.\<close>

definition split_op :: "string \<Rightarrow> (string \<times> string) option" where
  "split_op a =
    (if CHR '':'' \<in> set a
     then Some (takeWhile (\<lambda>c. c \<noteq> CHR '':'') a, drop 1 (dropWhile (\<lambda>c. c \<noteq> CHR '':'') a))
     else None)"

definition say_op :: "string \<Rightarrow> string \<Rightarrow> int \<Rightarrow> unit prog" where
  "say_op op p r = eprintf (op @ ''('' @ p @ '')='' @ int_text r @ nl)"

definition prober_op :: "string \<Rightarrow> string \<Rightarrow> int prog" where
  "prober_op op p =
    (if op \<in> {''stat'', ''lstat'', ''access''} then lookup_call op (Some p)
     else if op = ''open''
     then do {
       fd \<leftarrow> c_open p [O_RDONLY];
       _ \<leftarrow> (if fd \<ge> 0 then c_close fd else ret 0);
       ret fd
     }
     else if op = ''chdir'' then c_chdir (Some p)
     else ret (- 1))"

definition prober_arg :: "string \<Rightarrow> unit prog" where
  "prober_arg a =
    (case split_op a of
       None \<Rightarrow> eprintf (''bad '' @ a @ nl)
     | Some (op, p) \<Rightarrow> do { r \<leftarrow> prober_op op p; say_op op p r })"

definition prober :: "string list \<Rightarrow> outcome prog" where
  "prober argv = do { for_each (drop 1 argv) prober_arg; ret (Exit 0) }"

text \<open>An argument without a colon is a store through a null pointer.\<close>

definition mutate_op :: "listing \<Rightarrow> string \<Rightarrow> string \<Rightarrow> int prog" where
  "mutate_op entries op p =
    (if op = ''unlink'' then c_unlink p
     else if op = ''mkdir'' then c_mkdir (Some p)
     else if op = ''rmdir'' then c_rmdir entries (Some p)
     else ret (- 1))"

fun mutate_args :: "listing \<Rightarrow> string list \<Rightarrow> outcome prog" where
  "mutate_args entries [] = ret (Exit 0)"
| "mutate_args entries (a # as) =
    (case split_op a of
       None \<Rightarrow> ret (Signalled 11)
     | Some (op, p) \<Rightarrow> do {
         r \<leftarrow> mutate_op entries op p;
         say_op op p r;
         mutate_args entries as
       })"

definition mutate :: "listing \<Rightarrow> string list \<Rightarrow> outcome prog" where
  "mutate entries argv = mutate_args entries (drop 1 argv)"

definition dualspell :: "string list \<Rightarrow> outcome prog" where
  "dualspell argv = do {
     r \<leftarrow> lookup_call ''stat'' (arg argv 1);
     eprintf (''pre-stat('' @ arg_text argv 1 @ '')='' @ int_text r @ nl);
     fd \<leftarrow> open_as Libc ''open'' (arg argv 1) [O_RDWR, O_CREAT];
     _ \<leftarrow> c_write fd (str_bytes (''x'' @ nl));
     _ \<leftarrow> c_lseek_set fd 0;
     _ \<leftarrow> c_read fd 8;
     _ \<leftarrow> c_close fd;
     ret (Exit 0)
   }"

definition pathfidelity_reader :: "string list \<Rightarrow> outcome prog" where
  "pathfidelity_reader argv =
    (if length argv < 2 then usage argv ('' path'' @ nl) else echo_file 64 (arg argv 1))"

section \<open>r2_path\<close>

text \<open>\<^verbatim>\<open>fcntl(fd, F_GETPATH, real)\<close>: the buffer stays empty when it fails.\<close>

definition c_getpath :: "(os \<Rightarrow> int \<Rightarrow> string) \<Rightarrow> int \<Rightarrow> string prog" where
  "c_getpath kpath fd =
     sys Libc ''fcntl'' [] [] (\<lambda>_ s. if fd_ofd s fd = None then Inl EBADF else Inr (kpath s fd, s))"

definition path_probe_one :: "(os \<Rightarrow> int \<Rightarrow> string) \<Rightarrow> string \<Rightarrow> unit prog" where
  "path_probe_one kpath a = do {
     fd \<leftarrow> c_open a [O_RDONLY];
     if fd < 0 then perror a
     else do {
       (n, b) \<leftarrow> c_read fd 64;
       real \<leftarrow> c_getpath kpath fd;
       eprintf (''OPENED arg='' @ quoted a @ '' F_GETPATH='' @ quoted real @ '' read='' @ int_text n @ nl);
       _ \<leftarrow> c_close fd;
       ret ()
     }
   }"

definition path_probe :: "(os \<Rightarrow> int \<Rightarrow> string) \<Rightarrow> string list \<Rightarrow> outcome prog" where
  "path_probe kpath argv =
    (if length argv < 2 then usage_line (''usage: probe <path>...'' @ nl)
     else do { for_each (drop 1 argv) (path_probe_one kpath); ret (Exit 0) })"

definition relprobe :: "(os \<Rightarrow> int \<Rightarrow> string) \<Rightarrow> string list \<Rightarrow> outcome prog" where
  "relprobe kpath argv = do {
     rc \<leftarrow> c_chdir (arg argv 1);
     if rc \<noteq> 0 then fail ''chdir''
     else do {
       sr \<leftarrow> lookup_call ''stat'' (arg argv 2);
       eprintf (''STAT rel='' @ quoted (arg_text argv 2) @ '' ret='' @ int_text sr @ nl);
       fd \<leftarrow> open_as Libc ''open'' (arg argv 2) [O_RDONLY];
       real \<leftarrow> (if fd \<ge> 0 then c_getpath kpath fd else ret []);
       eprintf (''OPEN rel='' @ quoted (arg_text argv 2) @ '' fd='' @ int_text fd @ '' F_GETPATH='' @ quoted real @ nl);
       _ \<leftarrow> (if fd \<ge> 0 then c_close fd else ret 0);
       ret (Exit 0)
     }
   }"

definition sprobe :: "string list \<Rightarrow> outcome prog" where
  "sprobe argv =
    (if length argv < 3 then usage_line (''usage: sprobe <stat|lstat|access> <path>'' @ nl)
     else do {
       r \<leftarrow> (if argv ! 1 \<in> {''stat'', ''lstat'', ''access''} then lookup_call (argv ! 1) (arg argv 2) else ret (- 1));
       eprintf (''OP='' @ argv ! 1 @ '' arg='' @ quoted (argv ! 2) @ '' ret='' @ int_text r @ nl);
       ret (Exit 0)
     })"

section \<open>r4_dir and r4_real\<close>

text \<open>\<^verbatim>\<open>opendir\<close> and the \<^verbatim>\<open>readdir\<close> calls up to the end: the names, or nothing when it does not open.\<close>

definition c_listdir :: "listing \<Rightarrow> string option \<Rightarrow> string list option prog" where
  "c_listdir entries path =
     sys Libc ''opendir'' (case path of None \<Rightarrow> [] | Some p \<Rightarrow> p) None (\<lambda>_ s.
       case path of
         None \<Rightarrow> Inl EFAULT
       | Some p \<Rightarrow>
           let q = resolve s p
           in if q \<in> set (os_dirs s) then Inr (Some (entries s q), s)
              else Inl (if os_dir s q = None then ENOENT else ENOTDIR))"

definition c_closedir :: "int prog" where
  "c_closedir = c_call Libc ''closedir''"

definition is_c_file :: "string \<Rightarrow> bool" where
  "is_c_file n \<longleftrightarrow> length n > 2 \<and> drop (length n - 2) n = ''.c''"

text \<open>The buffer for the names holds 4096 bytes; a longer list overruns it, here an end by SIGABRT.\<close>

definition glob_probe :: "listing \<Rightarrow> outcome prog" where
  "glob_probe entries = do {
     d \<leftarrow> c_listdir entries (Some ''srcdir'');
     case d of
       None \<Rightarrow> do { printf (''NO DIR'' @ nl); ret (Exit 1) }
     | Some ns \<Rightarrow> do {
         let found = filter is_c_file ns;
         let names = concat (map (\<lambda>n. n @ '' '') found);
         if length names \<ge> 4096 then ret (Signalled 6)
         else do {
           _ \<leftarrow> c_closedir;
           printf (''COMPILED '' @ nat_text (length found) @ '' files: '' @ names @ nl);
           ret (Exit 0)
         }
       }
   }"

definition count_init :: "string \<Rightarrow> string list \<Rightarrow> string" where
  "count_init label ns =
     label @ nat_text (length ns) @ '' saw__init__='' @ (if ''__init__.py'' \<in> set ns then ''1'' else ''0'') @ nl"

text \<open>\<^verbatim>\<open>_dd.c\<close> does not check the directory: reading from a null stream ends by SIGSEGV.\<close>

definition dd :: "listing \<Rightarrow> string list \<Rightarrow> outcome prog" where
  "dd entries argv = do {
     d \<leftarrow> c_listdir entries (arg argv 1);
     case d of
       None \<Rightarrow> ret (Signalled 11)
     | Some ns \<Rightarrow> do { printf (count_init ''entries='' ns); ret (Exit 0) }
   }"

definition ddtest :: "listing \<Rightarrow> string list \<Rightarrow> outcome prog" where
  "ddtest entries argv = do {
     d \<leftarrow> c_listdir entries (arg argv 1);
     case d of
       None \<Rightarrow> do { perror ''opendir''; ret (Exit 2) }
     | Some ns \<Rightarrow> do { _ \<leftarrow> c_closedir; printf (count_init ''readdir entries='' ns); ret (Exit 0) }
   }"

definition ddlist :: "listing \<Rightarrow> string list \<Rightarrow> outcome prog" where
  "ddlist entries argv = do {
     d \<leftarrow> c_listdir entries (arg argv 1);
     case d of
       None \<Rightarrow> ret (Exit 2)
     | Some ns \<Rightarrow> do { printf (concat (map (\<lambda>n. n @ nl) ns)); _ \<leftarrow> c_closedir; ret (Exit 0) }
   }"

text \<open>The directory is opened by descriptor here.\<close>

definition c_fdopendir :: "listing \<Rightarrow> int \<Rightarrow> string list option prog" where
  "c_fdopendir entries fd =
     sys Libc ''fdopendir'' [] None (\<lambda>_ s.
       case fd_ofd s fd of
         Some (i, d) \<Rightarrow> (case od_obj d of ODir q \<Rightarrow> Inr (Some (entries s q), s) | _ \<Rightarrow> Inl ENOTDIR)
       | None \<Rightarrow> Inl EBADF)"

definition p_fdopendir :: "listing \<Rightarrow> string list \<Rightarrow> outcome prog" where
  "p_fdopendir entries argv = do {
     fd \<leftarrow> open_as Libc ''open'' (arg argv 1) [O_RDONLY, O_DIRECTORY];
     if fd < 0 then fail ''open''
     else do {
       d \<leftarrow> c_fdopendir entries fd;
       case d of
         None \<Rightarrow> do { perror ''fdopendir''; ret (Exit 2) }
       | Some ns \<Rightarrow> do {
           let hits = filter (\<lambda>n. arg argv 2 = Some n) ns;
           printf (concat (map (\<lambda>n. ''FOUND:'' @ n @ nl) hits));
           _ \<leftarrow> c_closedir;
           ret (Exit (if hits = [] then 9 else 0))
         }
     }
   }"

definition neg_probe :: "outcome prog" where
  "neg_probe = do {
     r \<leftarrow> lookup_call ''access'' (Some ''maybe.h'');
     printf ((if r = 0 then ''PRESENT: using maybe.h config'' else ''ABSENT: using defaults'') @ nl);
     ret (Exit 0)
   }"

text \<open>The modification time of a directory is a parameter; a failed \<^verbatim>\<open>stat\<close> leaves what the buffer held.\<close>

definition misc_probe :: "listing \<Rightarrow> (string \<Rightarrow> int) \<Rightarrow> int \<Rightarrow> outcome prog" where
  "misc_probe entries mtime unset = do {
     fd \<leftarrow> c_open ''absent_open.h'' [O_RDONLY];
     printf (''open absent_open.h fd='' @ int_text fd @ nl);
     _ \<leftarrow> (if fd \<ge> 0 then c_close fd else ret 0);
     r \<leftarrow> lookup_call ''stat'' (Some ''absent_stat.h'');
     printf (''stat absent_stat.h r='' @ int_text r @ nl);
     rd \<leftarrow> lookup_call ''stat'' (Some ''watchdir'');
     let m = (if rd = 0 then mtime ''watchdir'' else if r = 0 then mtime ''absent_stat.h'' else unset);
     printf (''stat watchdir r='' @ int_text rd @ '' mtime='' @ int_text m @ nl);
     _ \<leftarrow> c_mkdir (Some ''outdir'');
     _ \<leftarrow> c_unlink ''stale.o'';
     _ \<leftarrow> c_rmdir entries (Some ''emptydir'');
     printf (''mutations done'' @ nl);
     ret (Exit 0)
   }"

definition mtime_probe :: "(string \<Rightarrow> int) \<Rightarrow> int \<Rightarrow> outcome prog" where
  "mtime_probe mtime unset = do {
     r \<leftarrow> lookup_call ''stat'' (Some ''watchdir'');
     printf (''watchdir mtime='' @ int_text (if r = 0 then mtime ''watchdir'' else unset) @ nl);
     ret (Exit 0)
   }"

definition scope_probe :: "(string \<Rightarrow> int) \<Rightarrow> int \<Rightarrow> int \<Rightarrow> outcome prog" where
  "scope_probe mtime unset unset_size = do {
     (r, st_size) \<leftarrow> stat_as Libc ''stat'' ''data.txt'';
     printf (''data.txt mtime='' @ int_text (if r = 0 then mtime ''data.txt'' else unset) @ '' size='' @
       int_text (if r = 0 then int st_size else unset_size) @ nl);
     _ \<leftarrow> c_rename ''old.o'' ''new.o'';
     ret (Exit 0)
   }"

end
