(* ===== verification/Implicit_Probes.thy ===== *)
theory Implicit_Probes
  imports Path_Probes
begin

text \<open>
  Programs whose output depends on something that is not a file (\<^verbatim>\<open>round2/r2_implicit\<close>,
  \<^verbatim>\<open>round5/determinism\<close>, the entropy programs of \<^verbatim>\<open>round3/r3_residual\<close> and \<^verbatim>\<open>round4/r4_residual\<close>) or
  on a library that the loader maps (\<^verbatim>\<open>adv_realbuild\<close>).

  What the system answers apart from files is one record: clocks, entropy, the machine, the limits.
\<close>

record ambient =
  am_arc4 :: u32
  am_arc4_buf :: bytes
  am_entropy :: bytes
  am_random :: bytes
  am_sec :: int
  am_nsec :: nat
  am_usec :: nat
  am_ncpu :: int
  am_nodename :: string
  am_release :: string
  am_abs :: u64
  am_cont :: u64
  am_rand :: "u32 \<Rightarrow> nat"
  am_gmtoff :: int
  am_zone :: string
  am_rlim_cur :: u64
  am_confstr :: string
  am_load0 :: u32
  am_avail_cpus :: int
  am_max_mem :: u64

section \<open>Formats\<close>

definition hex_digit :: "nat \<Rightarrow> char" where
  "hex_digit d = (if d < 10 then char_of (48 + d) else char_of (87 + d))"

text \<open>\<^verbatim>\<open>%02x\<close>, \<^verbatim>\<open>%08x\<close> and \<^verbatim>\<open>%0wd\<close>.\<close>

definition hex2 :: "u8 \<Rightarrow> string" where
  "hex2 b = [hex_digit (unat b div 16), hex_digit (unat b mod 16)]"

definition hex_bytes :: "bytes \<Rightarrow> string" where
  "hex_bytes bs = concat (map hex2 bs)"

definition hex8 :: "u32 \<Rightarrow> string" where
  "hex8 w = map (\<lambda>i. hex_digit (unat w div 16 ^ i mod 16)) (rev [0..<8])"

definition zero_pad :: "nat \<Rightarrow> nat \<Rightarrow> string" where
  "zero_pad w n = replicate (w - length (nat_text n)) CHR ''0'' @ nat_text n"

text \<open>A call that cannot fail.\<close>

definition c_event :: "route \<Rightarrow> string \<Rightarrow> unit prog" where
  "c_event route name = State (\<lambda>s. ((), s\<lparr>os_trace := os_trace s @ [Ev route name []]\<rparr>))"

text \<open>
  \<^verbatim>\<open>getentropy\<close> into a buffer, and \<^verbatim>\<open>fopen(path, "w")\<close>, writes, \<^verbatim>\<open>fclose\<close> without a check: with a null
  stream the program ends by SIGSEGV.
\<close>

definition fill_entropy :: "route \<Rightarrow> ambient \<Rightarrow> bytes \<Rightarrow> (int \<times> bytes) prog" where
  "fill_entropy route am buf = do {
     rc \<leftarrow> c_call route ''getentropy'';
     ret (rc, if rc = 0 then take (length buf) (am_entropy am @ buf) else buf)
   }"

definition emit_file :: "string option \<Rightarrow> string \<Rightarrow> outcome prog" where
  "emit_file path text = do {
     f \<leftarrow> open_as Libc ''fopen'' path out_flags;
     if f < 0 then ret (Signalled 11)
     else do {
       _ \<leftarrow> State (dprintf_loop ''fprintf'' f (str_bytes text));
       _ \<leftarrow> c_close f;
       ret (Exit 0)
     }
   }"

section \<open>minicc\<close>

definition minicc_emit :: "string option \<Rightarrow> string \<Rightarrow> unit prog" where
  "minicc_emit out_path text = do {
     fd \<leftarrow> open_as Libc ''open'' out_path out_flags;
     _ \<leftarrow> c_write fd (if fd \<ge> 0 then str_bytes text else []);
     _ \<leftarrow> c_close fd;
     ret ()
   }"

definition env_or_unset :: "string \<Rightarrow> string prog" where
  "env_or_unset name = do {
     e \<leftarrow> c_getenv name;
     ret (case e of None \<Rightarrow> ''(unset)'' | Some v \<Rightarrow> v)
   }"

text \<open>\<^verbatim>\<open>getcwd\<close> into 256 bytes; the buffer is empty when the name does not fit.\<close>

definition c_getcwd :: "nat \<Rightarrow> string prog" where
  "c_getcwd cap = sys Libc ''getcwd'' [] [] (\<lambda>_ s. if length (os_cwd s) < cap then Inr (os_cwd s, s) else Inl EINVAL)"

text \<open>The ambient part of the output of each mode.\<close>

definition minicc_input :: "ambient \<Rightarrow> string \<Rightarrow> string prog" where
  "minicc_input am mode =
    (if mode = ''env'' then do { e \<leftarrow> env_or_unset ''SOURCE_DATE_EPOCH''; ret ('' epoch='' @ e) }
     else if mode = ''cflags'' then do { e \<leftarrow> env_or_unset ''CFLAGS''; ret ('' cflags='' @ e) }
     else if mode = ''time''
     then do {
       c_event Libc ''clock_gettime'';
       ret ('' builtat='' @ int_text (am_sec am) @ ''.'' @ zero_pad 9 (am_nsec am))
     }
     else if mode = ''sysctl''
     then do {
       rc \<leftarrow> c_call Libc ''sysctlbyname'';
       ret ('' jobs='' @ int_text (if rc = 0 then am_ncpu am else 0))
     }
     else if mode = ''cwd'' then do { cwd \<leftarrow> c_getcwd 256; ret ('' builddir='' @ cwd) }
     else if mode = ''entropy''
     then do { (rc, r) \<leftarrow> fill_entropy Libc am [0, 0, 0, 0]; ret ('' salt='' @ hex_bytes r) }
     else if mode = ''arc4'' then do { c_event Libc ''arc4random''; ret ('' nonce='' @ hex8 (am_arc4 am)) }
     else if mode = ''uname''
     then do { c_event Libc ''uname''; ret ('' host='' @ am_nodename am @ '' rel='' @ am_release am) }
     else ret '' mode=?'')"

definition minicc_source :: "string option \<Rightarrow> string prog" where
  "minicc_source src = do {
     fd \<leftarrow> open_as Libc ''open'' src [O_RDONLY];
     if fd \<ge> 0
     then do { (n, b) \<leftarrow> c_read fd 127; _ \<leftarrow> c_close fd; ret (take 20 (c_string b)) }
     else ret []
   }"

definition minicc :: "ambient \<Rightarrow> string list \<Rightarrow> outcome prog" where
  "minicc am argv = do {
     sb \<leftarrow> minicc_source (arg argv 1);
     with_mode (arg argv 2) (\<lambda>mode. do {
       extra \<leftarrow> minicc_input am mode;
       let buf = take 511 (''src='' @ sb @ extra @ nl);
       minicc_emit (arg argv 3) buf;
       printf buf;
       ret (Exit 0)
     })
   }"

text \<open>The buffers are not initialised; \<open>r\<close> is what the second one holds before.\<close>

definition implicit_readfile :: "bytes \<Rightarrow> string list \<Rightarrow> outcome prog" where
  "implicit_readfile r argv = do {
     fd \<leftarrow> open_as Libc ''open'' (arg argv 1) [O_RDONLY];
     _ \<leftarrow> c_read fd 16;
     _ \<leftarrow> c_close fd;
     u \<leftarrow> c_open ''/dev/urandom'' [O_RDONLY];
     (n, b) \<leftarrow> c_read u 4;
     _ \<leftarrow> c_close u;
     printf (''urandom='' @ hex_bytes (take 4 (b @ drop (length b) r)) @ nl);
     ret (Exit 0)
   }"

section \<open>round5/determinism\<close>

definition det_out :: "string \<Rightarrow> string option" where
  "det_out name = Some (''/tmp/r5_determinism/'' @ name)"

definition c_arc4 :: "ambient \<Rightarrow> outcome prog" where
  "c_arc4 am = do { c_event Libc ''arc4random''; emit_file (det_out ''oc_a4.txt'') (nat_text (unat (am_arc4 am)) @ nl) }"

definition c_clock :: "ambient \<Rightarrow> outcome prog" where
  "c_clock am = do { c_event Libc ''clock_gettime''; emit_file (det_out ''oc_ck.txt'') (int_text (am_sec am) @ nl) }"

definition c_getentropy :: "ambient \<Rightarrow> bytes \<Rightarrow> outcome prog" where
  "c_getentropy am b = do {
     (rc, r) \<leftarrow> fill_entropy Libc am b;
     emit_file (det_out ''oc_ge.txt'') (hex_bytes (take 16 r))
   }"

definition c_gtod :: "ambient \<Rightarrow> outcome prog" where
  "c_gtod am = do { c_event Libc ''gettimeofday''; emit_file (det_out ''oc_gt.txt'') (int_text (am_sec am) @ nl) }"

text \<open>A failing call leaves \<open>n\<close> unset.\<close>

definition c_sysctlname :: "ambient \<Rightarrow> int \<Rightarrow> outcome prog" where
  "c_sysctlname am n = do {
     rc \<leftarrow> c_call Libc ''sysctlbyname'';
     emit_file (det_out ''oc_sc.txt'') (int_text (if rc = 0 then am_ncpu am else n) @ nl)
   }"

definition c_time :: "ambient \<Rightarrow> outcome prog" where
  "c_time am = do { c_event Libc ''time''; emit_file (det_out ''oc_ti.txt'') (int_text (am_sec am) @ nl) }"

definition p_ccrandom :: "ambient \<Rightarrow> outcome prog" where
  "p_ccrandom am = do {
     c_event Libc ''CCRandomGenerateBytes'';
     emit_file (det_out ''o_ccrandom.txt'') (hex_bytes (take 16 (am_random am)) @ nl)
   }"

definition p_secrandom :: "ambient \<Rightarrow> outcome prog" where
  "p_secrandom am = do {
     c_event Libc ''SecRandomCopyBytes'';
     emit_file (det_out ''o_secrandom.txt'') (hex_bytes (take 16 (am_random am)) @ nl)
   }"

definition p_confstr :: "ambient \<Rightarrow> outcome prog" where
  "p_confstr am = do {
     c_event Libc ''confstr'';
     emit_file (det_out ''o_confstr.txt'')
       (''n='' @ nat_text (Suc (length (am_confstr am))) @ '' path='' @ take 255 (am_confstr am) @ nl)
   }"

definition env_lines :: "string \<Rightarrow> string list \<Rightarrow> string" where
  "env_lines pre environ = concat (map (\<lambda>e. e @ nl) (filter (\<lambda>e. take 5 e = pre) environ))"

definition p_environ :: "outcome prog" where
  "p_environ = do { environ \<leftarrow> c_environ; emit_file (det_out ''o_environ.txt'') (env_lines ''HOME='' environ) }"

definition p_nsenviron :: "outcome prog" where
  "p_nsenviron = do { environ \<leftarrow> c_environ; emit_file (det_out ''o_nsenv.txt'') (env_lines ''PATH='' environ) }"

definition p_getpid :: "outcome prog" where
  "p_getpid = do { p \<leftarrow> c_getpid; emit_file (det_out ''o_getpid.txt'') (''pid='' @ nat_text p @ nl) }"

definition p_getrlimit :: "ambient \<Rightarrow> outcome prog" where
  "p_getrlimit am = do {
     c_event Libc ''getrlimit'';
     emit_file (det_out ''o_rlimit.txt'') (''cur='' @ nat_text (unat (am_rlim_cur am)) @ nl)
   }"

definition p_hostinfo :: "ambient \<Rightarrow> outcome prog" where
  "p_hostinfo am = do {
     c_event Libc ''host_info'';
     emit_file (det_out ''o_hostinfo.txt'')
       (''ncpu='' @ int_text (am_avail_cpus am) @ '' mem='' @ nat_text (unat (am_max_mem am)) @ nl)
   }"

definition p_hoststat :: "ambient \<Rightarrow> outcome prog" where
  "p_hoststat am = do {
     c_event Libc ''host_statistics'';
     emit_file (det_out ''o_hoststat.txt'') (''load0='' @ nat_text (unat (am_load0 am)) @ nl)
   }"

definition p_localtime :: "ambient \<Rightarrow> outcome prog" where
  "p_localtime am = do {
     c_event Libc ''localtime'';
     emit_file (det_out ''o_localtime.txt'') (''gmtoff='' @ int_text (am_gmtoff am) @ '' zone='' @ am_zone am @ nl)
   }"

definition p_machabs :: "ambient \<Rightarrow> outcome prog" where
  "p_machabs am = do {
     c_event Libc ''mach_absolute_time'';
     emit_file (det_out ''o_machabs.txt'') (nat_text (unat (am_abs am)) @ nl)
   }"

definition p_machcont :: "ambient \<Rightarrow> outcome prog" where
  "p_machcont am = do {
     c_event Libc ''mach_continuous_time'';
     emit_file (det_out ''o_machcont.txt'') (nat_text (unat (am_cont am)) @ nl)
   }"

text \<open>The seed is the clock cut to 32 bits.\<close>

definition p_randseed :: "ambient \<Rightarrow> outcome prog" where
  "p_randseed am = do {
     c_event Libc ''mach_absolute_time'';
     emit_file (det_out ''o_randseed.txt'') (nat_text (am_rand am (ucast (am_abs am))) @ nl)
   }"

definition p_rawgetentropy :: "ambient \<Rightarrow> bytes \<Rightarrow> outcome prog" where
  "p_rawgetentropy am b = do {
     (rc, r) \<leftarrow> fill_entropy Raw am b;
     emit_file (det_out ''o_rawge.txt'') (''r='' @ int_text rc @ '' '' @ hex_bytes (take 16 r) @ nl)
   }"

definition p_rawurandom :: "bytes \<Rightarrow> outcome prog" where
  "p_rawurandom b = do {
     fd \<leftarrow> open_as Raw ''open'' (Some ''/dev/urandom'') [O_RDONLY];
     (n, r) \<leftarrow> read_as Raw ''read'' fd 16;
     _ \<leftarrow> close_as Raw fd;
     emit_file (det_out ''o_rawuran.txt'') (hex_bytes (take 16 (r @ drop (length r) b)) @ nl)
   }"

definition p_sysconf :: "ambient \<Rightarrow> outcome prog" where
  "p_sysconf am = do {
     rc \<leftarrow> c_call Libc ''sysconf'';
     emit_file (det_out ''o_sysconf.txt'') (''ncpu='' @ int_text (if rc = 0 then am_ncpu am else - 1) @ nl)
   }"

definition determinism_smoke :: "outcome prog" where
  "determinism_smoke = do {
     h \<leftarrow> c_getenv ''HOME'';
     r \<leftarrow> emit_file (det_out ''smoke_out.txt'')
            (''HOME='' @ (case h of None \<Rightarrow> ''(null)'' | Some v \<Rightarrow> v) @ nl);
     if r = Exit 0 then do { printf (''done'' @ nl); ret (Exit 0) } else ret r
   }"

definition p_arc4 :: "ambient \<Rightarrow> outcome prog" where
  "p_arc4 am = do { c_event Libc ''arc4random''; printf (nat_text (unat (am_arc4 am)) @ nl); ret (Exit 0) }"

text \<open>The inline call returns the positive error number, so its check never fires.\<close>

definition p_getentropy :: "ambient \<Rightarrow> bytes \<Rightarrow> outcome prog" where
  "p_getentropy am b = do {
     (rc, r) \<leftarrow> fill_entropy Raw am b;
     x0 \<leftarrow> svc_result rc;
     if x0 < 0 then ret (Exit 1) else do { printf (hex_bytes (take 16 r) @ nl); ret (Exit 0) }
   }"

definition p_getentropy_libc :: "ambient \<Rightarrow> bytes \<Rightarrow> outcome prog" where
  "p_getentropy_libc am b = do {
     (rc, r) \<leftarrow> fill_entropy Libc am b;
     if rc \<noteq> 0 then ret (Exit 1) else do { printf (hex_bytes (take 16 r) @ nl); ret (Exit 0) }
   }"

section \<open>Entropy behind a library\<close>

definition plugin_emit :: "ambient \<Rightarrow> string option \<Rightarrow> unit prog" where
  "plugin_emit am outpath = do {
     c_event Libc ''arc4random'';
     c_event Libc ''arc4random_buf'';
     f \<leftarrow> open_as Libc ''fopen'' outpath out_flags;
     if f < 0 then ret ()
     else do {
       _ \<leftarrow> State (dprintf_loop ''fprintf'' f (str_bytes
              (''rand_token='' @ hex8 (am_arc4 am) @ nl @ hex_bytes (take 16 (am_arc4_buf am)) @ nl)));
       _ \<leftarrow> c_close f;
       ret ()
     }
   }"

text \<open>\<^verbatim>\<open>fgets\<close>: up to \<open>n\<close> bytes, a line at most; nothing at the end of the file or after an error.\<close>

primrec fgets_loop :: "nat \<Rightarrow> int \<Rightarrow> bytes \<Rightarrow> bytes option prog" where
  "fgets_loop 0 f acc = ret (Some acc)"
| "fgets_loop (Suc k) f acc = do {
     (n, b) \<leftarrow> read_as Libc ''fgets'' f 1;
     if n < 0 then ret None
     else if n = 0 then ret (if acc = [] then None else Some acc)
     else if b = [0x0A] then ret (Some (acc @ b))
     else fgets_loop k f (acc @ b)
   }"

definition c_fgets :: "nat \<Rightarrow> int \<Rightarrow> bytes option prog" where
  "c_fgets cap f = fgets_loop (cap - 1) f []"

definition first_line :: "string \<Rightarrow> string prog" where
  "first_line path = do {
     f \<leftarrow> c_fopen_r (Some path);
     if f < 0 then ret []
     else do {
       l \<leftarrow> c_fgets 64 f;
       _ \<leftarrow> c_close f;
       ret (case l of None \<Rightarrow> [] | Some b \<Rightarrow> c_string b)
     }
   }"

definition entropy_tool :: "ambient \<Rightarrow> string list \<Rightarrow> outcome prog" where
  "entropy_tool am argv = do {
     b \<leftarrow> first_line ''/tmp/r3_residual/res1_dylib_entropy/src.txt'';
     plugin_emit am (arg argv 1);
     printf (''compiled '' @ b);
     ret (Exit 0)
   }"

text \<open>\<^verbatim>\<open>dlopen\<close> of a library: it maps when the file is there; the text of its error is left out.\<close>

definition c_dlopen :: "string option \<Rightarrow> int prog" where
  "c_dlopen path = path_call ''dlopen'' path (\<lambda>q s. if os_dir s q = None then Inl ENOENT else Inr (0, s))"

definition with_library :: "string \<Rightarrow> int \<Rightarrow> string option \<Rightarrow> outcome prog \<Rightarrow> outcome prog" where
  "with_library what code path m = do {
     h \<leftarrow> c_dlopen path;
     if h \<noteq> 0 then do { e \<leftarrow> c_errno; eprint_errno what e; ret (Exit code) } else m
   }"

definition tool_dlopen :: "ambient \<Rightarrow> bool \<Rightarrow> string list \<Rightarrow> outcome prog" where
  "tool_dlopen am found argv =
     with_library ''dlopen: '' 1 (Some ''/tmp/r3_residual/res1_dylib_entropy/librnd.dylib'')
       (if \<not> found then do { eprintf (''dlsym fail'' @ nl); ret (Exit 1) }
        else do {
          plugin_emit am (arg argv 1);
          printf (''dlopen-plugin emitted '' @ arg_text argv 1 @ nl);
          ret (Exit 0)
        })"

definition tool_main :: "ambient \<Rightarrow> string list \<Rightarrow> outcome prog" where
  "tool_main am argv = do {
     c_event Libc ''arc4random'';
     f \<leftarrow> open_as Libc ''fopen'' (arg argv 1) out_flags;
     if f < 0 then ret (Exit 0)
     else do {
       _ \<leftarrow> State (dprintf_loop ''fprintf'' f (str_bytes (''rand='' @ hex8 (am_arc4 am) @ nl)));
       _ \<leftarrow> c_close f;
       ret (Exit 0)
     }
   }"

definition stamper :: "ambient \<Rightarrow> string list \<Rightarrow> outcome prog" where
  "stamper am argv = do {
     _ \<leftarrow> peek_file (Some ''/tmp/r3_residual/res2_time/template.txt'') 127;
     c_event Libc ''gettimeofday'';
     c_event Libc ''time'';
     f \<leftarrow> open_as Libc ''fopen'' (arg argv 1) out_flags;
     if f < 0 then ret (Exit 0)
     else do {
       _ \<leftarrow> State (dprintf_loop ''fprintf'' f (str_bytes
              (''/* generated header */'' @ nl @ ''#define BUILD_UNIX '' @ int_text (am_sec am) @ nl @
               ''#define BUILD_USEC '' @ nat_text (am_usec am) @ nl)));
       _ \<leftarrow> c_close f;
       ret (Exit 0)
     }
   }"

definition draw_entropy :: "ambient \<Rightarrow> u32 prog" where
  "draw_entropy am = do { c_event Libc ''arc4random''; ret (am_arc4 am) }"

definition bake_entropy :: "ambient \<Rightarrow> string option \<Rightarrow> outcome prog" where
  "bake_entropy am path = do {
     r \<leftarrow> draw_entropy am;
     fd \<leftarrow> open_as Libc ''open'' path out_flags;
     _ \<leftarrow> c_dprintf fd (''nondeterministic-output: '' @ nat_text (unat r) @ nl);
     _ \<leftarrow> c_close fd;
     ret (Exit 0)
   }"

definition entropy_main_link :: "ambient \<Rightarrow> string list \<Rightarrow> outcome prog" where
  "entropy_main_link am argv = bake_entropy am (arg argv 1)"

text \<open>The symbol is not checked: calling a null pointer ends by SIGSEGV.\<close>

definition entropy_main_dlopen :: "ambient \<Rightarrow> bool \<Rightarrow> string list \<Rightarrow> outcome prog" where
  "entropy_main_dlopen am found argv =
     with_library ''dlopen fail: '' 1 (Some ''/tmp/r4_residual/libentropy.dylib'')
       (if found then bake_entropy am (arg argv 1) else ret (Signalled 11))"

text \<open>Without a line the buffer holds what it held before.\<close>

definition residual_hello :: "string \<Rightarrow> outcome prog" where
  "residual_hello unset = do {
     f \<leftarrow> c_fopen_r (Some ''/tmp/r3_residual/input.txt'');
     if f < 0 then ret (Exit 0)
     else do {
       l \<leftarrow> c_fgets 64 f;
       _ \<leftarrow> c_close f;
       printf (''read='' @ (case l of None \<Rightarrow> unset | Some b \<Rightarrow> c_string b));
       ret (Exit 0)
     }
   }"

section \<open>adv_realbuild\<close>

definition dep_value :: int where
  "dep_value = 4242"

definition plugin_value :: int where
  "plugin_value = 0xC0DE"

definition dep_main :: "outcome prog" where
  "dep_main = do { printf (''dep='' @ int_text dep_value @ nl); ret (Exit 0) }"

definition dlopen_main :: "bool \<Rightarrow> outcome prog" where
  "dlopen_main found =
     with_library ''dlopen failed: '' 2 (Some ''./plugin.dylib'')
       (if \<not> found then do { eprint_errno ''dlsym failed: '' ENOENT; ret (Exit 3) }
        else do { printf (''plugin='' @ int_text plugin_value @ nl); ret (Exit 0) })"

text \<open>The library is an argument; what its function returns, if it has it, is a parameter.\<close>

definition main_dlopen :: "int option \<Rightarrow> string list \<Rightarrow> outcome prog" where
  "main_dlopen dep argv =
     with_library ''dlopen fail: '' 1 (arg argv 1)
       (do { printf (''dep_value='' @ int_text (case dep of None \<Rightarrow> - 1 | Some v \<Rightarrow> v) @ nl); ret (Exit 0) })"

end
