(* ===== verification/Fixture_Programs.thy ===== *)
theory Fixture_Programs
  imports Implicit_Probes
begin

text \<open>
  The monitored programs of the test suite: \<^verbatim>\<open>tests/fixtures/evidence_scope_tool\<close>, whose lookups have
  known results, and \<^verbatim>\<open>tests/fixtures/fs_snoop_tool\<close>, which copies a text line by line.
\<close>

section \<open>evidence_scope_tool\<close>

definition EVIDENCE_SCOPE_MISSES :: nat where
  "EVIDENCE_SCOPE_MISSES = 200"

definition absent_path :: "string \<Rightarrow> string \<Rightarrow> nat \<Rightarrow> string" where
  "absent_path dir what i = take 4095 (dir @ ''/absent-'' @ what @ ''-'' @ zero_pad 4 i @ ''.h'')"

definition unexpected :: "string \<Rightarrow> int \<Rightarrow> outcome option prog" where
  "unexpected path code = do {
     eprintf (''fixture: '' @ path @ '' unexpectedly exists'' @ nl);
     ret (Some (Exit code))
   }"

definition open_absent :: "string \<Rightarrow> nat \<Rightarrow> outcome option prog" where
  "open_absent dir i = do {
     let path = absent_path dir ''open'' i;
     fd \<leftarrow> c_open path [O_RDONLY];
     if fd \<ge> 0 then do { r \<leftarrow> unexpected path 3; _ \<leftarrow> c_close fd; ret r } else ret None
   }"

definition stat_absent :: "string \<Rightarrow> nat \<Rightarrow> outcome option prog" where
  "stat_absent dir i = do {
     let path = absent_path dir ''stat'' i;
     (rc, n) \<leftarrow> stat_as Libc ''stat'' path;
     if rc = 0 then unexpected path 4 else ret None
   }"

text \<open>A loop that an outcome ends early.\<close>

fun until_outcome :: "'a list \<Rightarrow> ('a \<Rightarrow> outcome option prog) \<Rightarrow> outcome option prog" where
  "until_outcome [] m = ret None"
| "until_outcome (x # xs) m = do {
     r \<leftarrow> m x;
     case r of None \<Rightarrow> until_outcome xs m | Some out \<Rightarrow> ret (Some out)
   }"

definition then_fail :: "string \<Rightarrow> int \<Rightarrow> outcome prog" where
  "then_fail msg code = do { perror msg; ret (Exit code) }"

definition copy_input :: "string \<Rightarrow> string \<Rightarrow> outcome prog" where
  "copy_input input output = do {
     (rc, st_size) \<leftarrow> stat_as Libc ''stat'' input;
     if rc \<noteq> 0 then then_fail ''stat input'' 5
     else do {
       fd \<leftarrow> c_open input [O_RDONLY];
       if fd < 0 then then_fail ''open input'' 6
       else do {
         (n, buf) \<leftarrow> c_read fd 256;
         if n < 0 then do { perror ''read input''; _ \<leftarrow> c_close fd; ret (Exit 7) }
         else do {
           _ \<leftarrow> c_close fd;
           f \<leftarrow> open_as Libc ''fopen'' (Some output) out_flags;
           if f < 0 then then_fail ''open output'' 8
           else do {
             _ \<leftarrow> State (dprintf_loop ''fwrite'' f buf);
             _ \<leftarrow> c_close f;
             ret (Exit 0)
           }
         }
       }
     }
   }"

definition evidence_scope_tool :: "string list \<Rightarrow> outcome prog" where
  "evidence_scope_tool argv =
    (if length argv \<noteq> 4
     then usage_line (''usage: evidence-scope-tool <input> <output> <missing-dir>'' @ nl)
     else do {
       r \<leftarrow> until_outcome [0..<EVIDENCE_SCOPE_MISSES] (open_absent (argv ! 3));
       case r of
         Some out \<Rightarrow> ret out
       | None \<Rightarrow> do {
           r \<leftarrow> until_outcome [0..<EVIDENCE_SCOPE_MISSES] (stat_absent (argv ! 3));
           case r of Some out \<Rightarrow> ret out | None \<Rightarrow> copy_input (argv ! 1) (argv ! 2)
         }
     })"

section \<open>fs_snoop_tool\<close>

text \<open>
  \<^verbatim>\<open>while (fgets(buffer, 256, in) != NULL) fputs(buffer, out);\<close>.  Each round takes a byte of the input,
  which bounds the rounds; \<^verbatim>\<open>fputs\<close> stops at a null byte.
\<close>

primrec snoop_loop :: "nat \<Rightarrow> int \<Rightarrow> int \<Rightarrow> unit prog" where
  "snoop_loop 0 fi fo = ret ()"
| "snoop_loop (Suc k) fi fo = do {
     l \<leftarrow> c_fgets 256 fi;
     case l of
       None \<Rightarrow> ret ()
     | Some b \<Rightarrow> do {
         _ \<leftarrow> State (dprintf_loop ''fputs'' fo (takeWhile (\<lambda>x. x \<noteq> 0) b));
         snoop_loop k fi fo
       }
   }"

definition snoop_copy :: "int \<Rightarrow> int \<Rightarrow> unit prog" where
  "snoop_copy fi fo = State (\<lambda>s. run_state (snoop_loop (Suc (length (unread fi s))) fi fo) s)"

definition fs_snoop_tool :: "string list \<Rightarrow> outcome prog" where
  "fs_snoop_tool argv =
    (if length argv \<noteq> 3 then usage_line (''usage: fs-snoop-tool <input> <output>'' @ nl)
     else do {
       fi \<leftarrow> c_fopen_r (arg argv 1);
       if fi < 0 then fail ''open input''
       else do {
         fo \<leftarrow> open_as Libc ''fopen'' (arg argv 2) out_flags;
         if fo < 0 then do { perror ''open output''; _ \<leftarrow> c_close fi; ret (Exit 1) }
         else do {
           snoop_copy fi fo;
           _ \<leftarrow> c_close fo;
           _ \<leftarrow> c_close fi;
           ret (Exit 0)
         }
       }
     })"

end
