(* ===== verification/Handoff_Facts.thy ===== *)
theory Handoff_Facts
  imports Probe_Facts Fixture_Programs
begin

text \<open>
  Facts on the programs that hand content over: the environment they pass on, a write to a file, and a
  launcher followed by the client it starts.
\<close>

section \<open>Environment\<close>

definition env_value :: "string list \<Rightarrow> string \<Rightarrow> string option" where
  "env_value env name = map_option (drop (Suc (length name))) (find (\<lambda>e. take (Suc (length name)) e = name @ ''='') env)"

lemma run_getenv: "run_state (c_getenv name) s = (env_value (os_environ s) name, s)"
  by (simp add: env_value_def c_getenv_def)

lemma find_env_set: "find (\<lambda>e. take (Suc (length name)) e = name @ ''='') (env_set name val env) = Some (name @ ''='' @ val)"
proof -
  have "find (names_var name) (env_set name val env) = Some (name @ ''='' @ val)"
    by (induction env) (auto simp: env_set_def names_var_def)
  then show ?thesis by (simp add: names_var_def [abs_def])
qed

lemma getenv_env_set:
  "os_environ s = env_set name val env \<Longrightarrow> run_state (c_getenv name) s = (Some val, s)"
  by (simp add: c_getenv_def find_env_set)

section \<open>Writing\<close>

text \<open>A formatted write to a file takes one call when nothing fails.\<close>

lemma dprintf_file:
  assumes "os_faults s = []" "b \<noteq> []" "fd_ofd s fd = Some (i, d)" "od_wr d" "od_obj d = OFile f"
  shows "dprintf_loop name fd b s =
    (0, s\<lparr>os_trace := os_trace s @ [Ev Libc name []],
          os_ofd := (os_ofd s)(i \<mapsto> d\<lparr>od_pos := od_pos d + length b\<rparr>),
          os_data := (os_data s)(f := overwrite (os_data s f) (od_pos d) b)\<rparr>)"
  using assms
  by (simp add: dprintf_loop.simps [of _ _ b] dprintf_loop.simps [of _ _ "[]"] write_as_def sys_def put_body_def set_ofd_def)

section \<open>A launcher and its client\<close>

text \<open>A process whose standard output is a pipe.\<close>

definition piped_stdout :: "os \<Rightarrow> nat \<Rightarrow> bool" where
  "piped_stdout s w \<longleftrightarrow> (\<exists>d r. os_ofd s 1 = Some d \<and> od_wr d \<and> od_obj d = OStream r w) \<and>
     1 < os_fresh s \<and> w < os_fresh s"

text \<open>
  Under a launcher that becomes the monitor, the client prints what the launcher left for it, and no call
  of the client names a path.
\<close>

definition hands_over :: "(programs \<Rightarrow> string list \<Rightarrow> outcome prog) \<Rightarrow> outcome prog \<Rightarrow> (bytes \<Rightarrow> bytes) \<Rightarrow> bool" where
  "hands_over launcher client out \<longleftrightarrow>
    (\<forall>s progs a marker iomon depfile prog i w.
       started s \<longrightarrow> piped_stdout s w \<longrightarrow> is_file s marker i \<longrightarrow> os_data s i \<noteq> [] \<longrightarrow> progs iomon \<noteq> None \<longrightarrow>
       (case run_state (launcher progs [a, marker, iomon, depfile, prog]) s of
          (r, t) \<Rightarrow> r = Execd iomon [iomon, ''run'', ''--depfile'', depfile, ''--'', prog] (os_environ t) \<and>
            (case run_state client t of
               (q, u) \<Rightarrow> q = Exit 0 \<and> os_pipe u w = os_pipe s w @ out (os_data s i) \<and>
                 (\<exists>evs. os_trace u = os_trace t @ evs \<and> (\<forall>e \<in> set evs. ev_path e = [])))))"

lemma take_min_length [simp]: "take (min (length xs) n) xs = take n xs" "take (min n (length xs)) xs = take n xs"
  by (simp_all add: min_def)

lemmas handoff_defs = hand_over_def c_socketpair_def c_fork_def in_child_def c_send_fd_def c_recv_fd_def c_execl_def
  exec_as_def c_environ_def c_setenv_def arg_def with_inherited_def with_received_def show_read_def call_defs slice_def
  getenv_env_set

lemma atoi_3 [simp]: "atoi (take 15 (int_text 3)) = 3"
  by code_simp

lemmas handoff_setup = hands_over_def started_def piped_stdout_def is_file_def

lemma hands_over_sockets:
  "hands_over A_launcher A_client (\<lambda>d. str_bytes ''CLIENT-GOT: '' @ take 256 d)"
  "hands_over B_launcher B_client (\<lambda>d. str_bytes ''CLIENT-GOT: '' @ take 256 d)"
  "hands_over B3_launcher B_client (\<lambda>d. str_bytes ''CLIENT-GOT: '' @ take 256 d)"
  unfolding handoff_setup
  by (auto simp: A_launcher_def A_client_def B_launcher_def B3_launcher_def B_client_def c_pipe_def handoff_defs)

lemma hands_over_files:
  "hands_over F3_launcher F3b_client (\<lambda>d. str_bytes ''R: '' @ take 256 d)"
  unfolding handoff_setup by (auto simp: F3_launcher_def F3b_client_def handoff_defs)

lemma hands_over_mapped:
  "hands_over F3_launcher F3_client (\<lambda>d. str_bytes ''CLIENT-MMAP: '' @ d)"
  "hands_over B_launcher F2_client (\<lambda>d. str_bytes ''CLIENT-MMAP: '' @ d)"
  unfolding handoff_setup
  by (auto simp: F3_launcher_def F3_client_def B_launcher_def F2_client_def show_mapped_def fstat_as_def c_mmap_def
      map_load_def write_mapped_def mapped_len_def handoff_defs)

end
