(* ===== verification/Forgery_Properties.thy ===== *)
theory Forgery_Properties
  imports Merge_Properties Probe_Properties Handoff_Facts
begin

text \<open>
  The forging client \<^verbatim>\<open>round4/r4_residual/client_s5.c\<close> against the checks of the merge: the client
  connects to a daemon, reads what it sends, and writes a report in the daemon's name itself.
\<close>

lemma s5_report_is_report_text:
  "s5_report run pid (int peer) = report_text (Some run) (int pid) peer ''/tmp/r4_residual/decoy_input.txt''"
  by (simp add: s5_report_def report_text_def int_text_def)

lemma s5_buffer_fits: "length text \<le> 1023 \<Longrightarrow> s5_buffer beyond text = str_bytes text"
  by (simp add: s5_buffer_def str_bytes_def)

lemmas s5_defs = client_s5_def s5_forge_def arg_def arg_text_def c_socket_def c_connect_def peer_stream_def c_peerpid_def
  c_dprintf_def c_getpid_def call_defs s5_buffer_fits run_getenv out_flags_def dprintf_file

text \<open>What the merge finds under a name when it walks the report directory.\<close>

definition left_report :: "(u64 \<times> u64) option \<Rightarrow> os \<Rightarrow> string \<Rightarrow> report_file" where
  "left_report ident t p = \<lparr>rf_path = p, rf_real = Some p, rf_ident = ident,
     rf_content = (case os_dir t p of Some (NFile k) \<Rightarrow> Some (map char_of_byte (os_data t k)) | _ \<Rightarrow> None)\<rparr>"

text \<open>A client of a monitored run, connected to a peer, with an output file and a name free for the report.\<close>

definition forging :: "os \<Rightarrow> string \<Rightarrow> nat \<Rightarrow> string \<Rightarrow> string \<Rightarrow> bool" where
  "forging s run peer out dir \<longleftrightarrow>
     started s \<and> os_trace s = [] \<and> os_incoming s \<noteq> [] \<and> os_peerpid s = int peer \<and>
     env_value (os_environ s) ''REPRO_MONITOR_SESSION'' = Some run \<and> length (s5_report run (os_pid s) (int peer)) \<le> 1023 \<and>
     (\<exists>j. is_file s out j) \<and> resolve s (s5_report_path dir) = s5_report_path dir \<and>
     os_dir s (s5_report_path dir) = None \<and> s5_report_path dir \<notin> set (os_dirs s)"

lemma s5_leaves_report:
  assumes "forging s run peer out dir" "mode \<noteq> ''none''"
  shows "case run_state (client_s5 beyond [a, sock, out, dir, mode]) s of (r, t) \<Rightarrow> r = Exit 0 \<and>
    rf_content (left_report ident t (s5_report_path dir)) = Some (s5_report run (os_pid s) (int peer)) \<and>
    filter (\<lambda>e. ev_path e \<noteq> []) (os_trace t) = filter (\<lambda>e. ev_path e \<noteq> [])
      [Ev Libc ''connect'' (sun_path_macos sock), Ev Libc ''open'' out,
       Ev (if mode = ''raw'' then Raw else Libc) ''open'' (s5_report_path dir)]"
proof -
  from assms(1) obtain input rest j where hyps: "os_fd s = [(0, 0), (1, 1), (2, 2)]" "os_faults s = []" "os_trace s = []"
    "os_incoming s = input # rest" "os_peerpid s = int peer"
    "env_value (os_environ s) ''REPRO_MONITOR_SESSION'' = Some run" "length (s5_report run (os_pid s) (int peer)) \<le> 1023"
    "os_dir s (resolve s out) = Some (NFile j)" "resolve s out \<notin> set (os_dirs s)"
    "resolve s (s5_report_path dir) = s5_report_path dir" "os_dir s (s5_report_path dir) = None"
    "s5_report_path dir \<notin> set (os_dirs s)"
    unfolding forging_def started_def is_file_def by (auto simp: neq_Nil_conv)
  show ?thesis
  proof (cases "mode = ''raw''")
    case True
    then show ?thesis by (simp add: s5_defs hyps left_report_def str_bytes_def comp_def)
  next
    case False
    then show ?thesis using assms(2) by (simp add: s5_defs hyps left_report_def str_bytes_def comp_def)
  qed
qed

lemma s5_names:
  assumes "forging s run peer out dir" "mode \<noteq> ''none''"
  shows "e \<in> set (os_trace (snd (run_state (client_s5 beyond [a, sock, out, dir, mode]) s))) \<and> ev_path e \<noteq> [] \<longleftrightarrow>
    e \<in> {Ev Libc ''connect'' (sun_path_macos sock), Ev Libc ''open'' out,
       Ev (if mode = ''raw'' then Raw else Libc) ''open'' (s5_report_path dir)} \<and> ev_path e \<noteq> []"
proof -
  obtain r t where rt: "run_state (client_s5 beyond [a, sock, out, dir, mode]) s = (r, t)" by (metis prod.collapse)
  let ?evs = "[Ev Libc ''connect'' (sun_path_macos sock), Ev Libc ''open'' out,
       Ev (if mode = ''raw'' then Raw else Libc) ''open'' (s5_report_path dir)]"
  have "filter (\<lambda>e. ev_path e \<noteq> []) (os_trace t) = filter (\<lambda>e. ev_path e \<noteq> []) ?evs"
    using s5_leaves_report [OF assms, where beyond = beyond and a = a and sock = sock] unfolding rt prod.case by blast
  then have "e \<in> set (filter (\<lambda>e. ev_path e \<noteq> []) (os_trace t)) \<longleftrightarrow> e \<in> set (filter (\<lambda>e. ev_path e \<noteq> []) ?evs)"
    by (rule arg_cong [where f = "\<lambda>l. e \<in> set l"])
  then show ?thesis unfolding rt snd_conv set_filter mem_Collect_eq list.set .
qed

lemma report_path_ext: "length dir \<le> 490 \<Longrightarrow> s5_report_path dir = dir @ ''/forged.io-mon-report'' \<and>
  ends_with (s5_report_path dir) BreakawayReportExt \<and> s5_report_path dir \<noteq> []"
  using ends_with_append [of "dir @ ''/forged''" BreakawayReportExt]
  by (simp add: s5_report_path_def BreakawayReportExt_def)

definition forge_demo :: os where
  "forge_demo = demo\<lparr>os_pid := 100, os_peerpid := 200, os_environ := [''REPRO_MONITOR_SESSION=r7'']\<rparr>"

lemma forge_demo_forging: "forging forge_demo ''r7'' 200 ''out'' ''/w/reports''"
proof -
  have "length (s5_report ''r7'' 100 200) \<le> 1023" by code_simp
  moreover have "s5_report_path ''/w/reports'' = ''/w/reports/forged.io-mon-report''" by code_simp
  moreover have "is_file forge_demo ''out'' 11" by (simp add: is_file_def demo_def forge_demo_def resolve_def)
  ultimately show ?thesis by (auto simp: forging_def forge_demo_def demo_def started_def env_value_def resolve_def)
qed

text \<open>
  C35. The forging client gets its report accepted when it writes it by raw system calls.  If every
  write the shims recorded comes from an intercepted call, and the file's identity is none that they
  recorded, the report that the client leaves passes as the peer's own, with the reads that the client
  chose, although a process of the monitored tree wrote it.
\<close>

theorem raw_forgery_is_trusted:
  assumes "forging s run peer out dir" "length dir \<le> 490" "sun_path_macos sock \<noteq> s5_report_path dir"
    and "is_word run" "0 < os_pid s" "os_pid s < 2 ^ 64" "0 < peer" "peer < 2 ^ 64"
    and "run_state (client_s5 beyond [a, sock, out, dir, ''raw'']) s = (r, t)"
    and "\<And>w. w \<in> set rs \<Longrightarrow> rec_observationKind w = moFileWrite \<Longrightarrow> \<exists>e \<in> set (os_trace t). ev_route e = Libc \<and> ev_path e = rec_path w"
    and "\<And>d n. ident = Some (d, n) \<Longrightarrow> u64_text d @ '':'' @ u64_text n \<notin> ba_inTreeOutputInos (breakawayAuthContext rs)"
    and "ba_runId (breakawayAuthContext rs) = run"
    and "\<exists>c \<in> set rs. rec_kind c = mrProcessStart \<and> rec_osPid c = word_of_nat (os_pid s)"
    and "\<exists>c \<in> set rs. rec_kind c = mrIpcConnect \<and> rec_osPid c = word_of_nat (os_pid s) \<and> rec_childOsPid c = word_of_nat peer"
  shows "r = Exit 0 \<and> (\<exists>p. accepted_report (monitoredStartPids rs) (breakawayAuthContext rs)
    (left_report ident t (s5_report_path dir)) = Some p \<and> rp_daemon p = word_of_nat peer \<and>
    rp_reads p = [''/tmp/r4_residual/decoy_input.txt''])"
proof -
  let ?p = "s5_report_path dir" and ?ctx = "breakawayAuthContext rs"
  have left: "r = Exit 0" "rf_content (left_report ident t ?p) = Some (s5_report run (os_pid s) (int peer))"
    using s5_leaves_report [OF assms(1), where mode = "''raw''" and beyond = beyond and a = a and sock = sock and ident = ident] unfolding assms(9) by simp_all
  have "out \<noteq> ?p" using assms(1) by (auto simp: forging_def is_file_def)
  have "?p \<notin> ba_inTreeOutputPaths ?ctx"
  proof
    assume "?p \<in> ba_inTreeOutputPaths ?ctx"
    then obtain w where w: "w \<in> set rs" "rec_observationKind w = moFileWrite" "rec_path w = ?p" "rec_path w \<noteq> []"
      by (auto simp: breakawayAuthContext_def auth_outputs)
    from assms(10) [OF w(1,2)] obtain e where "e \<in> set (os_trace t)" "ev_route e = Libc" "ev_path e = ?p" using w(3) by auto
    then show False using s5_names [OF assms(1), of "''raw''" e beyond a sock] w(3,4) \<open>out \<noteq> ?p\<close> assms(3)
      unfolding assms(9) by auto
  qed
  then have authored: "\<not> reportAuthoredInTree (left_report ident t ?p) ?ctx"
    using assms(11) by (auto simp: reportAuthoredInTree_def comparableReportPath_def left_report_def split: option.splits prod.splits)
  have "line_path ''/tmp/r4_residual/decoy_input.txt''" by code_simp
  from report_text_accepted [OF assms(4) this, of "int (os_pid s)" peer "left_report ident t ?p" rs]
  show ?thesis using left authored report_path_ext [OF assms(2)] assms(5-8,12-14)
    by (auto simp: s5_report_is_report_text left_report_def)
qed

theorem raw_forgery_is_trusted_witness:
  "\<exists>p. accepted_report (monitoredStartPids [start_rec 100, connect_rec 100 200])
      (breakawayAuthContext [start_rec 100, connect_rec 100 200])
      (left_report None (snd (run_state (client_s5 [] [''c'', ''/s'', ''out'', ''/w/reports'', ''raw'']) forge_demo))
        (s5_report_path ''/w/reports'')) = Some p \<and> rp_daemon p = word_of_nat 200 \<and>
    rp_reads p = [''/tmp/r4_residual/decoy_input.txt'']"
proof (rule conjunct2 [OF raw_forgery_is_trusted [OF forge_demo_forging, where r = "Exit 0"]])
  show "sun_path_macos ''/s'' \<noteq> s5_report_path ''/w/reports''" "is_word ''r7''" by code_simp+
  show "ba_runId (breakawayAuthContext [start_rec 100, connect_rec 100 200]) = ''r7''" by code_simp
  show "run_state (client_s5 [] [''c'', ''/s'', ''out'', ''/w/reports'', ''raw'']) forge_demo =
      (Exit 0, snd (run_state (client_s5 [] [''c'', ''/s'', ''out'', ''/w/reports'', ''raw'']) forge_demo))"
    using s5_leaves_report [OF forge_demo_forging, of "''raw''"] by (simp add: split_beta prod_eq_iff)
  show "0 < os_pid forge_demo" "os_pid forge_demo < 2 ^ 64" by (simp_all add: forge_demo_def demo_def)
  show "\<exists>c \<in> set [start_rec 100, connect_rec 100 200]. rec_kind c = mrProcessStart \<and> rec_osPid c = word_of_nat (os_pid forge_demo)"
    "\<exists>c \<in> set [start_rec 100, connect_rec 100 200]. rec_kind c = mrIpcConnect \<and> rec_osPid c = word_of_nat (os_pid forge_demo) \<and>
       rec_childOsPid c = word_of_nat 200"
    by (simp_all add: start_rec_def connect_rec_def forge_demo_def demo_def)
qed (auto simp: start_rec_def connect_rec_def)

text \<open>
  C36. The same client is caught when its report goes through the C library: if the shims record a
  write for every intercepted open of this client, the merge rejects the report, whichever processes
  are monitored and whatever else was recorded.
\<close>

theorem hooked_forgery_is_rejected:
  assumes "forging s run peer out dir" "length dir \<le> 490" "mode \<notin> {''raw'', ''none''}"
    and "run_state (client_s5 beyond [a, sock, out, dir, mode]) s = (r, t)"
    and "\<And>e. e \<in> set (os_trace t) \<Longrightarrow> ev_route e = Libc \<Longrightarrow> ev_call e = ''open'' \<Longrightarrow>
      \<exists>w \<in> set rs. rec_observationKind w = moFileWrite \<and> rec_path w = ev_path e"
  shows "r = Exit 0 \<and> rf_content (left_report ident t (s5_report_path dir)) \<noteq> None \<and>
    accepted_report monitored (breakawayAuthContext rs) (left_report ident t (s5_report_path dir)) = None"
proof -
  let ?p = "s5_report_path dir"
  have mode: "mode \<noteq> ''none''" "mode \<noteq> ''raw''" using assms(3) by simp_all
  have "Ev Libc ''open'' ?p \<in> set (os_trace t)"
    using s5_names [OF assms(1) mode(1), of "Ev Libc ''open'' ?p" beyond a sock] mode(2) report_path_ext [OF assms(2)]
    unfolding assms(4) by auto
  from assms(5) [OF this] obtain w where "w \<in> set rs" "rec_observationKind w = moFileWrite" "rec_path w = ?p" by auto
  then have "reportAuthoredInTree (left_report ident t ?p) (breakawayAuthContext rs)"
    using report_path_ext [OF assms(2)] by (intro in_tree_report [of w]) (auto simp: left_report_def)
  then show ?thesis using s5_leaves_report [OF assms(1) mode(1), where beyond = beyond and a = a and sock = sock and ident = ident]
    unfolding assms(4) by (simp add: accepted_report_def)
qed

theorem hooked_forgery_is_rejected_witness:
  "accepted_report {100} (breakawayAuthContext (map (\<lambda>p. (start_rec 100)\<lparr>rec_observationKind := moFileWrite, rec_path := p\<rparr>)
        [''out'', ''/w/reports/forged.io-mon-report'']))
      (left_report None (snd (run_state (client_s5 [] [''c'', ''/s'', ''out'', ''/w/reports'', ''libc'']) forge_demo))
        (s5_report_path ''/w/reports'')) = None"
proof -
  let ?run = "run_state (client_s5 [] [''c'', ''/s'', ''out'', ''/w/reports'', ''libc'']) forge_demo"
  have opens: "filter (\<lambda>e. ev_route e = Libc \<and> ev_call e = ''open'') (os_trace (snd ?run)) =
    [Ev Libc ''open'' ''out'', Ev Libc ''open'' ''/w/reports/forged.io-mon-report'']" by code_simp
  have "e \<in> {Ev Libc ''open'' ''out'', Ev Libc ''open'' ''/w/reports/forged.io-mon-report''}"
    if "e \<in> set (os_trace (snd ?run))" "ev_route e = Libc" "ev_call e = ''open''" for e
  proof -
    have "e \<in> set (filter (\<lambda>e. ev_route e = Libc \<and> ev_call e = ''open'') (os_trace (snd ?run)))" using that by simp
    then show ?thesis unfolding opens by simp
  qed
  then show ?thesis
    using hooked_forgery_is_rejected [OF forge_demo_forging, of "''libc''" "[]" "''c''" "''/s''" "fst ?run" "snd ?run"
        "map (\<lambda>p. (start_rec 100)\<lparr>rec_observationKind := moFileWrite, rec_path := p\<rparr>) [''out'', ''/w/reports/forged.io-mon-report'']"
        None "{100}"]
    by fastforce
qed

end
