(* ===== verification/Fixture_Facts.thy ===== *)
theory Fixture_Facts
  imports Handoff_Facts
begin

text \<open>
  Facts on the test programs: a lookup that misses, the copy of the evidence tool, and the line loop of
  the snooping tool.
\<close>

section \<open>evidence_scope_tool\<close>

text \<open>A name that leads nowhere.\<close>

definition absent :: "os \<Rightarrow> string \<Rightarrow> bool" where
  "absent s p \<longleftrightarrow> os_dir s (resolve s p) = None \<and> resolve s p \<notin> set (os_dirs s)"

lemma absent_simps [simp]:
  "absent (s\<lparr>os_trace := tr\<rparr>) p = absent s p" "absent (s\<lparr>os_errno := e\<rparr>) p = absent s p"
  by (simp_all add: absent_def)

text \<open>A lookup that misses leaves a trace and an error number.\<close>

definition missed :: "event list \<Rightarrow> os \<Rightarrow> os" where
  "missed evs s = (if evs = [] then s else s\<lparr>os_trace := os_trace s @ evs, os_errno := ENOENT\<rparr>)"

lemma missed_simps [simp]:
  "missed es (missed ds s) = missed (ds @ es) s" "absent (missed es s) p = absent s p"
  "os_faults (missed es s) = os_faults s" "os_trace (missed es s) = os_trace s @ es"
  "os_fd (missed es s) = os_fd s" "os_dir (missed es s) = os_dir s" "os_dirs (missed es s) = os_dirs s"
  "os_data (missed es s) = os_data s" "resolve (missed es s) p = resolve s p" "missed [] s = s"
  by (auto simp: missed_def)

lemma open_absent_misses:
  "os_faults s = [] \<Longrightarrow> absent s (absent_path dir ''open'' i) \<Longrightarrow>
   run_state (open_absent dir i) s = (None, missed [Ev Libc ''open'' (absent_path dir ''open'' i)] s)"
  by (simp add: open_absent_def absent_def call_defs missed_def)

lemma stat_absent_misses:
  "os_faults s = [] \<Longrightarrow> absent s (absent_path dir ''stat'' i) \<Longrightarrow>
   run_state (stat_absent dir i) s = (None, missed [Ev Libc ''stat'' (absent_path dir ''stat'' i)] s)"
  by (simp add: stat_absent_def absent_def stat_as_def stat_body_def call_defs missed_def)

lemma until_outcome_misses:
  assumes "os_faults s = []" "\<And>i. i \<in> set is \<Longrightarrow> absent s (path i)"
    and "\<And>s i. os_faults s = [] \<Longrightarrow> absent s (path i) \<Longrightarrow> run_state (m i) s = (None, missed [ev i] s)"
  shows "run_state (until_outcome is m) s = (None, missed (map ev is) s)"
  using assms by (induction "is" arbitrary: s) simp_all

text \<open>A name that can be created or rewritten and is not the given file.\<close>

definition writable_apart :: "os \<Rightarrow> string \<Rightarrow> nat \<Rightarrow> bool" where
  "writable_apart s p i \<longleftrightarrow> resolve s p \<notin> set (os_dirs s) \<and>
     (os_dir s (resolve s p) = None \<or> (\<exists>j. j \<noteq> i \<and> os_dir s (resolve s p) = Some (NFile j)))"

lemma copy_input_copies:
  assumes "started s" "is_file s input i" "writable_apart s output i"
  shows "case run_state (copy_input input output) s of (r, t) \<Rightarrow> r = Exit 0 \<and>
    os_trace t = os_trace s @ [Ev Libc ''stat'' input, Ev Libc ''open'' input, Ev Libc ''read'' [], Ev Libc ''close'' [],
      Ev Libc ''fopen'' output] @ (if os_data s i = [] then [] else [Ev Libc ''fwrite'' []]) @ [Ev Libc ''close'' []] \<and>
    (\<exists>k. os_dir t (resolve s output) = Some (NFile k) \<and> os_data t k = take 256 (os_data s i))"
  using assms unfolding started_def is_file_def writable_apart_def
  by (auto simp: copy_input_def stat_as_def stat_body_def node_size_def call_defs out_flags_def slice_def dprintf_file dprintf_loop.simps [of _ _ "[]"])

section \<open>fs_snoop_tool\<close>

text \<open>What \<^verbatim>\<open>fgets\<close> takes from the bytes ahead.\<close>

fun line_head :: "nat \<Rightarrow> bytes \<Rightarrow> bytes" where
  "line_head 0 us = []"
| "line_head (Suc k) [] = []"
| "line_head (Suc k) (x # us) = (if x = 0x0A then [x] else x # line_head k us)"

lemma line_head_prefix: "line_head k us @ drop (length (line_head k us)) us = us"
  by (induction k us rule: line_head.induct) auto

lemma line_head_Nil: "line_head k us = [] \<longleftrightarrow> k = 0 \<or> us = []"
  by (cases k; cases us) auto

text \<open>A descriptor at a place in a file, on a system with no fault to come.\<close>

definition reading :: "os \<Rightarrow> int \<Rightarrow> nat \<Rightarrow> ofd \<Rightarrow> nat \<Rightarrow> bytes \<Rightarrow> bool" where
  "reading s fd i d f us \<longleftrightarrow> os_faults s = [] \<and> fd_ofd s fd = Some (i, d) \<and> od_rd d \<and> od_obj d = OFile f \<and>
     us = drop (od_pos d) (os_data s f)"

definition advanced :: "nat \<Rightarrow> nat \<Rightarrow> ofd \<Rightarrow> event list \<Rightarrow> os \<Rightarrow> os" where
  "advanced n i d evs s = s\<lparr>os_trace := os_trace s @ evs, os_ofd := (os_ofd s)(i \<mapsto> d\<lparr>od_pos := od_pos d + n\<rparr>)\<rparr>"

lemma reading_advanced:
  "reading s fd i d f us \<Longrightarrow> reading (advanced n i d evs s) fd i (d\<lparr>od_pos := od_pos d + n\<rparr>) f (drop n us)"
  by (auto simp: reading_def advanced_def fd_ofd_def add.commute split: if_splits option.splits)

lemma advanced_twice [simp]:
  "advanced m i (d\<lparr>od_pos := od_pos d + n\<rparr>) es (advanced n i d ds s) = advanced (n + m) i d (ds @ es) s"
  by (simp add: advanced_def add.assoc)

lemma read_byte:
  "reading s fd i d f us \<Longrightarrow> run_state (read_as Libc name fd 1) s =
     ((int (length (take 1 us)), take 1 us), advanced (length (take 1 us)) i d [Ev Libc name []] s)"
  by (auto simp: reading_def advanced_def read_as_def sys_def with_len_def take_body_def slice_def set_ofd_def Let_def)

lemma fgets_reads:
  "reading s fd i d f us \<Longrightarrow> \<exists>evs. run_state (fgets_loop k fd acc) s =
     (if acc = [] \<and> us = [] \<and> k > 0 then None else Some (acc @ line_head k us),
      advanced (length (line_head k us)) i d evs s)"
proof (induction k arbitrary: s d us acc)
  case 0
  have "fd_ofd s fd = Some (i, d)" using 0 by (simp add: reading_def)
  then have "os_ofd s i = Some d" by (auto simp: fd_ofd_def split: if_splits option.splits)
  then have "advanced 0 i d [] s = s" by (simp add: advanced_def fun_upd_idem)
  then show ?case by (intro exI [of _ "[]"]) simp
next
  case (Suc k)
  note rd = read_byte [OF Suc.prems, of "''fgets''"]
  show ?case
  proof (cases us)
    case Nil
    then show ?thesis by (intro exI [of _ "[Ev Libc ''fgets'' []]"]) (simp add: rd [unfolded Nil, simplified])
  next
    case (Cons x xs)
    note rd = rd [unfolded Cons, simplified]
    show ?thesis
    proof (cases "x = 0x0A")
      case True
      then show ?thesis by (intro exI [of _ "[Ev Libc ''fgets'' []]"]) (simp add: rd Cons)
    next
      case False
      from Suc.IH [OF reading_advanced [OF Suc.prems, of 1 "[Ev Libc ''fgets'' []]"], of "acc @ [x]"]
      obtain evs where "run_state (fgets_loop k fd (acc @ [x])) (advanced 1 i d [Ev Libc ''fgets'' []] s) =
        (Some (acc @ x # line_head k xs), advanced (Suc (length (line_head k xs))) i d (Ev Libc ''fgets'' [] # evs) s)"
        using advanced_twice [where n = 1 and ds = "[Ev Libc ''fgets'' []]"] by (auto simp: Cons)
      with False show ?thesis by (intro exI [of _ "Ev Libc ''fgets'' [] # evs"]) (simp add: rd Cons)
    qed
  qed
qed

text \<open>A second descriptor at the end of another file.\<close>

definition appending :: "os \<Rightarrow> int \<Rightarrow> nat \<Rightarrow> ofd \<Rightarrow> nat \<Rightarrow> bool" where
  "appending s fd j e g \<longleftrightarrow> fd_ofd s fd = Some (j, e) \<and> od_wr e \<and> od_obj e = OFile g \<and> od_pos e = length (os_data s g)"

lemma overwrite_end: "overwrite xs (length xs) b = xs @ b"
  by (simp add: overwrite_def)

lemma appended:
  assumes "appending s fo j e g" "os_faults s = []" "b \<noteq> []"
  shows "dprintf_loop name fo b s = (0, s\<lparr>os_trace := os_trace s @ [Ev Libc name []],
      os_ofd := (os_ofd s)(j \<mapsto> e\<lparr>od_pos := od_pos e + length b\<rparr>), os_data := (os_data s)(g := os_data s g @ b)\<rparr>)"
  using assms by (simp add: appending_def dprintf_file [of s b fo j e g] overwrite_end)

lemma snoop_round:
  assumes "reading s fi i d f us" "appending s fo j e g" "i \<noteq> j" "f \<noteq> g" "us \<noteq> []" "0 \<notin> set us"
  shows "\<exists>t d' e'. run_state (snoop_loop (Suc k) fi fo) s = run_state (snoop_loop k fi fo) t \<and>
    reading t fi i d' f (drop (length (line_head 255 us)) us) \<and> appending t fo j e' g \<and>
    os_data t g = os_data s g @ line_head 255 us \<and> os_dir t = os_dir s"
proof -
  let ?b = "line_head 255 us"
  obtain evs where fg: "run_state (fgets_loop 255 fi []) s = (Some ?b, advanced (length ?b) i d evs s)"
    using fgets_reads [OF assms(1), of 255 "[]"] assms(5) by auto
  let ?s = "advanced (length ?b) i d evs s"
  have ne: "?b \<noteq> []" using assms(5) line_head_Nil [of 255 us] by simp
  have "0 \<notin> set ?b" using assms(6) line_head_prefix [of 255 us] by (metis Un_iff set_append)
  then have tw: "takeWhile (\<lambda>x. x \<noteq> 0) ?b = ?b" by (auto simp: takeWhile_eq_all_conv)
  have ap: "appending ?s fo j e g" using assms(2,3)
    by (auto simp: appending_def advanced_def fd_ofd_def split: if_splits option.splits)
  have nf: "os_faults ?s = []" using assms(1) by (simp add: reading_def advanced_def)
  let ?t = "?s\<lparr>os_trace := os_trace ?s @ [Ev Libc ''fputs'' []],
      os_ofd := (os_ofd ?s)(j \<mapsto> e\<lparr>od_pos := od_pos e + length ?b\<rparr>), os_data := (os_data ?s)(g := os_data ?s g @ ?b)\<rparr>"
  have "run_state (snoop_loop (Suc k) fi fo) s = run_state (snoop_loop k fi fo) ?t"
    by (simp add: c_fgets_def fg tw appended [OF ap nf ne])
  moreover have "reading ?t fi i (d\<lparr>od_pos := od_pos d + length ?b\<rparr>) f (drop (length ?b) us)"
    using reading_advanced [OF assms(1), of "length ?b" evs] assms(3,4)
    by (auto simp: reading_def fd_ofd_def split: if_splits option.splits)
  moreover have "appending ?t fo j (e\<lparr>od_pos := od_pos e + length ?b\<rparr>) g"
    using ap by (auto simp: appending_def fd_ofd_def split: if_splits option.splits)
  moreover have "os_data ?t g = os_data s g @ ?b" "os_dir ?t = os_dir s" by (simp_all add: advanced_def)
  ultimately show ?thesis by blast
qed

lemma snoop_loop_copies:
  assumes "reading s fi i d f us" "appending s fo j e g" "i \<noteq> j" "f \<noteq> g" "0 \<notin> set us" "length us < k"
  shows "\<exists>t. run_state (snoop_loop k fi fo) s = ((), t) \<and> os_data t g = os_data s g @ us \<and> os_dir t = os_dir s"
  using assms
proof (induction k arbitrary: s d e us)
  case (Suc k)
  show ?case
  proof (cases "us = []")
    case True
    obtain evs where "run_state (fgets_loop 255 fi []) s = (None, advanced 0 i d evs s)"
      using fgets_reads [OF Suc.prems(1), of 255 "[]"] True by (auto simp: numeral_eq_Suc)
    with True show ?thesis by (simp add: c_fgets_def advanced_def)
  next
    case False
    let ?b = "line_head 255 us"
    obtain t d' e' where step: "run_state (snoop_loop (Suc k) fi fo) s = run_state (snoop_loop k fi fo) t"
      "reading t fi i d' f (drop (length ?b) us)" "appending t fo j e' g" "os_data t g = os_data s g @ ?b" "os_dir t = os_dir s"
      using snoop_round [OF Suc.prems(1-4) False Suc.prems(5)] by blast
    have "?b \<noteq> []" using False line_head_Nil [of 255 us] by simp
    then have "length (drop (length ?b) us) < k" using Suc.prems(6) using False by (cases us; cases ?b) auto
    moreover have "0 \<notin> set (drop (length ?b) us)" using Suc.prems(5) in_set_dropD by fast
    ultimately obtain u where "run_state (snoop_loop k fi fo) t = ((), u)"
      "os_data u g = os_data t g @ drop (length ?b) us" "os_dir u = os_dir t"
      using Suc.IH [OF step(2,3) Suc.prems(3,4)] by blast
    with step line_head_prefix [of 255 us] show ?thesis by simp
  qed
qed simp

lemma snoop_tool_copies:
  assumes "started s" "is_file s input i" "writable_apart s output i" "i < os_fresh s" "0 \<notin> set (os_data s i)"
  shows "case run_state (fs_snoop_tool [a, input, output]) s of (r, t) \<Rightarrow> r = Exit 0 \<and>
    (\<exists>k. os_dir t (resolve s output) = Some (NFile k) \<and> os_data t k = os_data s i)"
proof -
  obtain s1 where in1: "run_state (c_fopen_r (Some input)) s = (3, s1)"
    and s1: "s1 = s\<lparr>os_trace := os_trace s @ [Ev Libc ''fopen'' input], os_fd := (3, os_fresh s) # os_fd s,
      os_ofd := (os_ofd s)(os_fresh s \<mapsto> \<lparr>od_obj = OFile i, od_pos = 0, od_rd = True, od_wr = False\<rparr>),
      os_fresh := Suc (os_fresh s)\<rparr>"
    using assms(1,2) unfolding started_def is_file_def by (simp add: c_fopen_r_def call_defs)
  have "\<exists>s2 e g j. run_state (open_as Libc ''fopen'' (Some output) out_flags) s1 = (4, s2) \<and>
    os_dir s2 (resolve s output) = Some (NFile g) \<and> os_data s2 g = [] \<and> os_data s2 i = os_data s i \<and> appending s2 4 j e g \<and> i \<noteq> g \<and>
    j \<noteq> os_fresh s \<and> reading s2 3 (os_fresh s) \<lparr>od_obj = OFile i, od_pos = 0, od_rd = True, od_wr = False\<rparr> i (os_data s i)"
    using assms unfolding started_def is_file_def writable_apart_def s1
    by (auto simp: call_defs out_flags_def appending_def reading_def)
  then obtain s2 e g j where out: "run_state (open_as Libc ''fopen'' (Some output) out_flags) s1 = (4, s2)"
    "os_dir s2 (resolve s output) = Some (NFile g)" "os_data s2 g = []"
    and st: "appending s2 4 j e g" "i \<noteq> g" "j \<noteq> os_fresh s"
      "reading s2 3 (os_fresh s) \<lparr>od_obj = OFile i, od_pos = 0, od_rd = True, od_wr = False\<rparr> i (os_data s i)" by blast
  have "unread 3 s2 = os_data s i" using st(4) by (auto simp: reading_def unread_def)
  then have "run_state (snoop_copy 3 4) s2 = run_state (snoop_loop (Suc (length (os_data s i))) 3 4) s2"
    by (simp add: snoop_copy_def del: snoop_loop.simps)
  then obtain u where cp: "run_state (snoop_copy 3 4) s2 = ((), u)" "os_data u g = os_data s i" "os_dir u = os_dir s2"
    using snoop_loop_copies [OF st(4,1) st(3) [symmetric] st(2) assms(5), of "Suc (length (os_data s i))"] out(3)
    by (auto simp del: snoop_loop.simps)
  obtain c1 u1 c2 u2 where cl: "run_state (c_close 4) u = (c1, u1)" "run_state (c_close 3) u1 = (c2, u2)" by (metis prod.collapse)
  have "os_data u2 = os_data u" "os_dir u2 = os_dir u"
    using cl by (auto simp: close_as_def sys_def split: list.splits fault.splits if_splits)
  with cp out(2) show ?thesis by (simp add: fs_snoop_tool_def arg_def in1 out(1) cl)
qed

end
