(* ===== verification/Program_Properties.thy ===== *)
theory Program_Properties
  imports Probe_Properties Fixture_Facts
begin

text \<open>
  What the programs of the later rounds and of the test suite do, as theorems about their models.
\<close>

section \<open>Content handed over\<close>

text \<open>A standard output that is a pipe.\<close>

definition piped_demo :: os where
  "piped_demo = demo\<lparr>os_ofd := [1 \<mapsto> \<lparr>od_obj = OStream 50 51, od_pos = 0, od_rd = False, od_wr = True\<rparr>]\<rparr>"

lemma piped_demo_facts [simp]:
  "started piped_demo" "piped_stdout piped_demo 51" "is_file piped_demo ''src'' 10" "os_data piped_demo 10 \<noteq> []"
  by (simp_all add: piped_demo_def demo_def started_def piped_stdout_def is_file_def resolve_def)

text \<open>
  C38. A launcher that reads or opens a file and then becomes the monitor leaves the content to the
  monitored client, as bytes in a socket or a pipe, as a passed descriptor, or as an inherited open
  file.  The client prints the content and ends with 0, and none of its calls names a path.
\<close>

theorem handed_over_content_is_unnamed:
  assumes "started s" "piped_stdout s w" "is_file s marker i" "os_data s i \<noteq> []" "progs iomon \<noteq> None"
    and "(launcher, client, out) \<in>
      {(A_launcher, A_client, \<lambda>d. str_bytes ''CLIENT-GOT: '' @ take 256 d),
       (B_launcher, B_client, \<lambda>d. str_bytes ''CLIENT-GOT: '' @ take 256 d),
       (B3_launcher, B_client, \<lambda>d. str_bytes ''CLIENT-GOT: '' @ take 256 d),
       (F3_launcher, F3b_client, \<lambda>d. str_bytes ''R: '' @ take 256 d),
       (F3_launcher, F3_client, \<lambda>d. str_bytes ''CLIENT-MMAP: '' @ d),
       (B_launcher, F2_client, \<lambda>d. str_bytes ''CLIENT-MMAP: '' @ d)}"
  shows "case run_state (launcher progs [a, marker, iomon, depfile, prog]) s of
    (r, t) \<Rightarrow> r = Execd iomon [iomon, ''run'', ''--depfile'', depfile, ''--'', prog] (os_environ t) \<and>
      (case run_state client t of
         (q, u) \<Rightarrow> q = Exit 0 \<and> os_pipe u w = os_pipe s w @ out (os_data s i) \<and>
           (\<exists>evs. os_trace u = os_trace t @ evs \<and> (\<forall>e \<in> set evs. ev_path e = [])))"
proof -
  have "hands_over launcher client out"
    using assms(6) by (elim insertE emptyE) (simp_all only: prod.inject hands_over_sockets hands_over_files hands_over_mapped)
  then show ?thesis unfolding hands_over_def using assms(1-5) by simp
qed

theorem handed_over_content_is_unnamed_witness:
  "case run_state (F3_launcher (\<lambda>_. Some (\<lambda>_ _. ret (Exit 0))) [''p'', ''src'', ''iomon'', ''d'', ''c'']) piped_demo of
    (r, t) \<Rightarrow> r = Execd ''iomon'' [''iomon'', ''run'', ''--depfile'', ''d'', ''--'', ''c''] (os_environ t) \<and>
      (case run_state F3_client t of
         (q, u) \<Rightarrow> q = Exit 0 \<and> os_pipe u 51 = os_pipe piped_demo 51 @ (str_bytes ''CLIENT-MMAP: '' @ os_data piped_demo 10) \<and>
           (\<exists>evs. os_trace u = os_trace t @ evs \<and> (\<forall>e \<in> set evs. ev_path e = [])))"
  by (rule handed_over_content_is_unnamed [where out = "\<lambda>d. str_bytes ''CLIENT-MMAP: '' @ d" and launcher = F3_launcher]) simp_all

section \<open>Inputs that are not files\<close>

lemma hex_digit_inj: "a < 16 \<Longrightarrow> b < 16 \<Longrightarrow> hex_digit a = hex_digit b \<longleftrightarrow> a = b"
  by (auto simp: hex_digit_def char_of_eq_iff take_bit_eq_mod split: if_splits)

lemma nibbles_inj:
  fixes n m :: nat
  shows "n < 16 ^ k \<Longrightarrow> m < 16 ^ k \<Longrightarrow> (\<And>i. i < k \<Longrightarrow> n div 16 ^ i mod 16 = m div 16 ^ i mod 16) \<Longrightarrow> n = m"
proof (induction k arbitrary: n m)
  case (Suc k)
  have "n div 16 = m div 16"
  proof (rule Suc.IH)
    show "n div 16 < 16 ^ k" "m div 16 < 16 ^ k" using Suc.prems(1,2) by (simp_all add: less_mult_imp_div_less mult.commute)
    show "n div 16 div 16 ^ i mod 16 = m div 16 div 16 ^ i mod 16" if "i < k" for i
      using Suc.prems(3) [of "Suc i"] that by (simp add: div_mult2_eq)
  qed
  moreover have "n mod 16 = m mod 16" using Suc.prems(3) [of 0] by simp
  ultimately show ?case by (metis div_mult_mod_eq)
qed simp

lemma hex8_inj: "hex8 v = hex8 w \<longleftrightarrow> v = w"
proof
  assume eq: "hex8 v = hex8 w"
  have "unat v = unat w"
  proof (rule nibbles_inj [of _ 8])
    show "unat v < 16 ^ 8" "unat w < 16 ^ 8" using unsigned_less [of v] unsigned_less [of w] by simp_all
    show "unat v div 16 ^ i mod 16 = unat w div 16 ^ i mod 16" if "i < 8" for i
    proof -
      have "\<forall>j \<in> set (rev [0..<8]). hex_digit (unat v div 16 ^ j mod 16) = hex_digit (unat w div 16 ^ j mod 16)"
        using eq by (simp only: hex8_def map_eq_conv)
      then have "hex_digit (unat v div 16 ^ i mod 16) = hex_digit (unat w div 16 ^ i mod 16)" using that by auto
      then show ?thesis by (simp add: hex_digit_inj)
    qed
  qed
  then show "v = w" by (simp add: word_unat_eq_iff)
qed simp


text \<open>What is not a file enters the value that a step returns and nothing of the state.\<close>

lemma minicc_input_state:
  "snd (run_state (minicc_input am mode) s) = snd (run_state (minicc_input am' mode) s)"
  by (simp add: minicc_input_def fill_entropy_def env_or_unset_def c_event_def split_beta)

lemma sys_trace:
  assumes "\<And>lim s v t. body lim s = Inr (v, t) \<Longrightarrow> os_trace t = os_trace s"
  shows "os_trace (snd (run_state (sys route name path bad body) s)) = os_trace s @ [Ev route name path]"
proof -
  let ?s = "s\<lparr>os_trace := os_trace s @ [Ev route name path]\<rparr>"
  obtain f u where pf: "pop_fault ?s = (f, u)" by (cases "pop_fault ?s") auto
  have "os_trace u = os_trace s @ [Ev route name path]" using pop_fault_cases [OF pf] by auto
  then show ?thesis using pf assms by (cases f) (auto simp: sys_def split: sum.splits)
qed

lemma minicc_emit_trace:
  "os_trace (snd (run_state (minicc_emit out text) s)) = os_trace s @
     [Ev Libc ''open'' (case out of None \<Rightarrow> [] | Some p \<Rightarrow> p), Ev Libc ''write'' [], Ev Libc ''close'' []]"
proof -
  have op: "os_trace (snd (run_state (open_as Libc ''open'' out out_flags) s)) = os_trace s @ [Ev Libc ''open'' (case out of None \<Rightarrow> [] | Some p \<Rightarrow> p)]" for s
    unfolding open_as_def by (rule sys_trace) (auto dest: open_body_kept simp: kept_def split: option.splits)
  have wr: "os_trace (snd (run_state (c_write fd b) s)) = os_trace s @ [Ev Libc ''write'' []]" for fd b s
    unfolding write_as_def by (rule sys_trace) (auto simp: put_body_def set_ofd_def split: option.splits if_splits prod.splits fobj.splits)
  have cl: "os_trace (snd (run_state (c_close fd) s)) = os_trace s @ [Ev Libc ''close'' []]" for fd s
    unfolding close_as_def by (rule sys_trace) (auto split: if_splits)
  show ?thesis by (simp add: minicc_emit_def split_beta op wr cl)
qed


lemma minicc_same_trace:
  "case (run_state (minicc am argv) s, run_state (minicc am' argv) s) of
     ((r, t), (r', t')) \<Rightarrow> r = r' \<and> os_trace t = os_trace t'"
  using minicc_input_state [of am _ _ am']
  by (cases "arg argv 2") (simp_all add: minicc_def with_mode_def split_beta Let_def printf_def minicc_emit_trace)

lemma hex8_length [simp]: "length (hex8 w) = 8"
  by (simp add: hex8_def)

lemma take_past [simp]:
  "length xs + m \<le> k \<Longrightarrow> take (k - min n m) xs = xs" "length xs + (m + l) \<le> k \<Longrightarrow> take (k - (min n m + l)) xs = xs"
  by simp_all

definition quiet_ambient :: ambient where
  "quiet_ambient = \<lparr>am_arc4 = 1, am_arc4_buf = [], am_entropy = [], am_random = [], am_sec = 0, am_nsec = 0, am_usec = 0,
     am_ncpu = 1, am_nodename = [], am_release = [], am_abs = 0, am_cont = 0, am_rand = \<lambda>_. 0, am_gmtoff = 0, am_zone = [],
     am_rlim_cur = 0, am_confstr = [], am_load0 = 0, am_avail_cpus = 1, am_max_mem = 0\<rparr>"

text \<open>
  C39. A value that is no file changes the output and leaves no trace: two runs of \<^verbatim>\<open>minicc\<close> that differ
  in the random number write different outputs, while on all arguments, in all states and under every
  schedule of faults the runs make the same calls and end alike.
\<close>

theorem ambient_input_leaves_no_trace:
  assumes "started s" "is_file s src i" "is_file s out j" "i \<noteq> j" "am_arc4 am \<noteq> am_arc4 am'"
  shows "(case (run_state (minicc am [a, src, ''arc4'', out]) s, run_state (minicc am' [a, src, ''arc4'', out]) s) of
      ((r, t), (r', t')) \<Rightarrow> r = Exit 0 \<and> r' = Exit 0 \<and> os_data t j \<noteq> os_data t' j) \<and>
    (\<forall>argv u. case (run_state (minicc am argv) u, run_state (minicc am' argv) u) of
      ((r, t), (r', t')) \<Rightarrow> r = r' \<and> os_trace t = os_trace t')"
proof (intro conjI allI)
  show "case (run_state (minicc am [a, src, ''arc4'', out]) s, run_state (minicc am' [a, src, ''arc4'', out]) s) of
      ((r, t), (r', t')) \<Rightarrow> r = Exit 0 \<and> r' = Exit 0 \<and> os_data t j \<noteq> os_data t' j"
    using assms unfolding started_def is_file_def
    by (simp add: minicc_def minicc_source_def with_mode_def arg_def minicc_input_def c_event_def minicc_emit_def call_defs out_flags_def
       hex8_inj str_bytes_def nl_def inj_map_eq_map inj_def)
qed (rule minicc_same_trace)

theorem ambient_input_leaves_no_trace_witness:
  "case (run_state (minicc quiet_ambient [''cc'', ''src'', ''arc4'', ''out'']) demo,
      run_state (minicc (quiet_ambient\<lparr>am_arc4 := 2\<rparr>) [''cc'', ''src'', ''arc4'', ''out'']) demo) of
    ((r, t), (r', t')) \<Rightarrow> r = Exit 0 \<and> r' = Exit 0 \<and> os_data t 11 \<noteq> os_data t' 11"
  by (rule conjunct1 [OF ambient_input_leaves_no_trace [of _ _ 10]]) (simp_all add: quiet_ambient_def)

section \<open>Raw system calls\<close>

lemma svc_echo_misses:
  assumes "started s" "piped_stdout s w" "absent s p" "\<And>d. os_ofd s 2 = Some d \<Longrightarrow> \<not> od_rd d"
    and "9 \<le> length buf"
  shows "case run_state (svc_echo opn rd buf (Some p)) s of (r, t) \<Rightarrow> r = Exit 0 \<and>
    os_pipe t w = os_pipe s w @ take 9 buf \<and> map_of (os_fd t) 2 = None"
  using assms unfolding started_def piped_stdout_def absent_def
  by (auto simp: svc_echo_def svc_open_def svc_read_def svc_result_def c_errno_def call_defs split: option.splits)

text \<open>
  C40. The probes that issue system calls by instruction take the error number of a failed open for a
  descriptor: on a name that does not exist they end with 0, having copied nine bytes of their
  uninitialised buffer (the error number of the failed read) to the output and closed the standard
  error stream.
\<close>

theorem raw_calls_miss_a_failed_open:
  assumes "started s" "piped_stdout s w" "absent s p" "\<And>d. os_ofd s 2 = Some d \<Longrightarrow> \<not> od_rd d"
    and "9 \<le> length buf" "probe \<in> {raw_svc buf, p_svc_openread buf, p_svc_openat_nocancel buf}"
  shows "case run_state (probe [a, p]) s of (r, t) \<Rightarrow> r = Exit 0 \<and>
    os_pipe t w = os_pipe s w @ take 9 buf \<and> map_of (os_fd t) 2 = None"
  using assms(6) svc_echo_misses [OF assms(1-5)]
  by (elim insertE emptyE) (simp_all add: raw_svc_def p_svc_openread_def p_svc_openat_nocancel_def arg_def)

theorem raw_calls_miss_a_failed_open_witness:
  "case run_state (raw_svc (replicate 256 7) [''p'', ''none'']) piped_demo of (r, t) \<Rightarrow> r = Exit 0 \<and>
    os_pipe t 51 = os_pipe piped_demo 51 @ take 9 (replicate 256 7) \<and> map_of (os_fd t) 2 = None"
  by (rule raw_calls_miss_a_failed_open) (simp_all add: started_def piped_stdout_def absent_def piped_demo_def demo_def resolve_def)

section \<open>The test programs\<close>

text \<open>
  The evidence tool makes exactly the lookups its tests count on: 200 opens and 200 stats that
  miss, one stat and one open of the input, one creation of the output, in this order; it ends with 0
  and the output holds the first 256 bytes of the input.
\<close>

theorem evidence_tool_has_known_lookups:
  assumes "started s" "is_file s input i" "writable_apart s output i"
    and "\<And>n. n < EVIDENCE_SCOPE_MISSES \<Longrightarrow> absent s (absent_path dir ''open'' n) \<and> absent s (absent_path dir ''stat'' n)"
  shows "case run_state (evidence_scope_tool [a, input, output, dir]) s of (r, t) \<Rightarrow> r = Exit 0 \<and>
    (\<exists>k. os_dir t (resolve s output) = Some (NFile k) \<and> os_data t k = take 256 (os_data s i)) \<and>
    filter (\<lambda>e. ev_path e \<noteq> []) (os_trace t) = filter (\<lambda>e. ev_path e \<noteq> []) (os_trace s @
      map (\<lambda>n. Ev Libc ''open'' (absent_path dir ''open'' n)) [0..<200] @
      map (\<lambda>n. Ev Libc ''stat'' (absent_path dir ''stat'' n)) [0..<200] @
      [Ev Libc ''stat'' input, Ev Libc ''open'' input, Ev Libc ''fopen'' output])"
proof -
  let ?op = "map (\<lambda>n. Ev Libc ''open'' (absent_path dir ''open'' n)) [0..<200]"
  let ?st = "map (\<lambda>n. Ev Libc ''stat'' (absent_path dir ''stat'' n)) [0..<200]"
  have faults: "os_faults s = []" using assms(1) by (simp add: started_def)
  have op: "run_state (until_outcome [0..<200] (open_absent dir)) s = (None, missed ?op s)"
    using assms(4) faults by (intro until_outcome_misses [of _ _ "absent_path dir ''open''"] open_absent_misses)
      (simp_all add: EVIDENCE_SCOPE_MISSES_def)
  have st: "run_state (until_outcome [0..<200] (stat_absent dir)) (missed ?op s) = (None, missed (?op @ ?st) s)"
    using assms(4) faults until_outcome_misses [of "missed ?op s" "[0..<200]" "absent_path dir ''stat''"
        "stat_absent dir", OF _ _ stat_absent_misses]
    by (simp add: EVIDENCE_SCOPE_MISSES_def del: upt_rec_numeral)
  have "started (missed (?op @ ?st) s)" "is_file (missed (?op @ ?st) s) input i"
    "writable_apart (missed (?op @ ?st) s) output i"
    using assms(1-3) by (simp_all add: started_def is_file_def writable_apart_def del: upt_rec_numeral)
  from copy_input_copies [OF this] show ?thesis
    by (simp add: evidence_scope_tool_def EVIDENCE_SCOPE_MISSES_def op st split_beta del: upt_rec_numeral)
qed

theorem evidence_tool_has_known_lookups_witness:
  "case run_state (evidence_scope_tool [''t'', ''src'', ''out'', ''/none'']) demo of (r, t) \<Rightarrow> r = Exit 0 \<and>
    (\<exists>k. os_dir t (resolve demo ''out'') = Some (NFile k) \<and> os_data t k = take 256 (os_data demo 10)) \<and>
    filter (\<lambda>e. ev_path e \<noteq> []) (os_trace t) = filter (\<lambda>e. ev_path e \<noteq> []) (os_trace demo @
      map (\<lambda>n. Ev Libc ''open'' (absent_path ''/none'' ''open'' n)) [0..<200] @
      map (\<lambda>n. Ev Libc ''stat'' (absent_path ''/none'' ''stat'' n)) [0..<200] @
      [Ev Libc ''stat'' ''src'', Ev Libc ''open'' ''src'', Ev Libc ''fopen'' ''out''])"
  by (rule evidence_tool_has_known_lookups)
    (simp_all add: started_def is_file_def absent_def writable_apart_def demo_def resolve_def absent_path_def del: upt_rec_numeral)

end
