(* ===== verification/Spec2Isabelle.thy ===== *)
theory Spec2Isabelle
  imports Scope_Properties Depfile_Properties Element_Properties Merge_Properties Fragment_Properties Pod_Properties
    Nested_Properties Mapping_Policy Forgery_Properties Program_Properties
begin

text \<open>
  Verification of io-mon, a monitor that records which files the processes of a build depend on.

  \<^bold>\<open>The program.\<close>  A launcher starts a command with a shim preloaded.  In every process the shim
  turns intercepted calls into records and appends them to a \<^emph>\<open>fragment\<close>, one append-only file per
  thread, or puts them into a set in shared memory, whose elements are encoded records.  When the
  command has ended the \<^emph>\<open>merge\<close> reads all fragments and the set, drops what other runs left, folds equal
  observations, looks for signs that something ran unobserved, and writes one \<^emph>\<open>depfile\<close>
  (\<^verbatim>\<open>.iomon\<close>).  A consumer reads the depfile, and may trust it only when it is complete and
  when the capture covered the events and the evidence the consumer needs.  Under \<^verbatim>\<open>research/\<close>
  the repository keeps C programs that try to read a file behind the shim's back, and the daemons that
  the merge has to trust or not.

  Paths below are relative to the repository.

  \<^bold>\<open>Theories and the code they model.\<close>

    \<^item> \<^verbatim>\<open>IoMon_Prelude\<close>: machine types, results with an error branch, lemmas on lists, words and
      little-endian bytes.  \<^verbatim>\<open>Nim_Strings\<close>: the \<^verbatim>\<open>strutils\<close> operations the sources use.
      \<^verbatim>\<open>Interfaces\<close>: the locales \<open>coverage\<close> (a scope that covers another keeps what the other
      keeps) and \<open>exact_codec\<close> (a decoder that accepts the encodings and nothing else); they are
      interpreted in \<^verbatim>\<open>Types\<close> (event interest, evidence scope) and \<^verbatim>\<open>Encode_Facts\<close>.
    \<^item> \<^verbatim>\<open>Codec\<close>: \<^verbatim>\<open>src/io_mon/codec.nim\<close>.  \<^verbatim>\<open>Types\<close>: \<^verbatim>\<open>types.nim\<close>.  \<^verbatim>\<open>Capabilities\<close>,
      \<^verbatim>\<open>Capability_Facts\<close>: \<^verbatim>\<open>capabilities.nim\<close>.  \<^verbatim>\<open>Encode\<close>, \<^verbatim>\<open>Encode_Facts\<close>: \<^verbatim>\<open>encode.nim\<close>.
      \<^verbatim>\<open>Reader\<close>, \<^verbatim>\<open>Reader_Facts\<close>: \<^verbatim>\<open>reader.nim\<close>.  \<^verbatim>\<open>Dep_Queue\<close>, \<^verbatim>\<open>Dep_Queue_Facts\<close>:
      \<^verbatim>\<open>shm/dep_queue.nim\<close> and \<^verbatim>\<open>encodeDepSetElement\<close> of \<^verbatim>\<open>writer.nim\<close>.  A definition has the name of the
      procedure it models; record fields have a prefix per type (\<open>rec_\<close> for
      \<^verbatim>\<open>MonitorRecord\<close>).
    \<^item> \<^verbatim>\<open>writer.nim\<close> is modelled in parts.  \<^verbatim>\<open>Fragment_Slot\<close>: the per-thread slot, its batch, the read-tail
      markers, the byte cap, opening, flushing, closing, forking and exiting; \<^verbatim>\<open>Kill_Diag\<close>: the
      diagnostics in a marker; \<^verbatim>\<open>Fragment_Read\<close>: reading fragments back and the wait for a sharing
      violation.  \<^verbatim>\<open>Detail_Tokens\<close>: the identity tokens of a detail; \<^verbatim>\<open>Merge_Checks\<close>: the
      completeness checks; \<^verbatim>\<open>Breakaway\<close>: trusted-daemon reports; \<^verbatim>\<open>Merge\<close>: the merge.  Facts are in
      \<^verbatim>\<open>Fragment_Facts\<close>, \<^verbatim>\<open>Fragment_Invariant\<close>, \<^verbatim>\<open>Fragment_Bounds\<close>, \<^verbatim>\<open>Merge_Check_Facts\<close>,
      \<^verbatim>\<open>Breakaway_Facts\<close>, \<^verbatim>\<open>Fold_Facts\<close> and \<^verbatim>\<open>Merge_Facts\<close>.
    \<^item> \<^verbatim>\<open>Nested_Capture\<close>, \<^verbatim>\<open>Nested_Facts\<close>: \<^verbatim>\<open>nested_capture.nim\<close>, the handoff of a run inside a run, with
      every content the directory goes through.
    \<^item> \<^verbatim>\<open>Pod_Tables\<close>: \<^verbatim>\<open>shim/linux_pod_tables.nim\<close> (the paths behind descriptors and streams, the observed
      inputs, the bit sets) with the allocator, and \<^verbatim>\<open>recordObservedNonFile\<close> of \<^verbatim>\<open>shim/linux_preload.nim\<close>.
      \<^verbatim>\<open>Pod_Map_Facts\<close>: the pointer maps are maps; \<^verbatim>\<open>Pod_Facts\<close>: ownership, and the locale \<open>path_table\<close> (a lookup
      gives the last write), interpreted for the three tables.  \<^verbatim>\<open>Mapping_Policy\<close>:
      \<^verbatim>\<open>hooks/linux_mapping_policy.nim\<close>.
    \<^item> \<^verbatim>\<open>Posix\<close>: the kernel and C library the C programs call, with the locale \<open>call_frame\<close> (what every call
      keeps, every program keeps).  The C programs under \<^verbatim>\<open>research/\<close>, one definition per \<^verbatim>\<open>main\<close> and per
      helper function, are in \<^verbatim>\<open>Linux_Probes\<close>, \<^verbatim>\<open>Ipc_Probes\<close>, \<^verbatim>\<open>Macos_Probes\<close>, \<^verbatim>\<open>Process_Probes\<close>, \<^verbatim>\<open>Handoff_Probes\<close>,
      \<^verbatim>\<open>Residual_Probes\<close>, \<^verbatim>\<open>Exit_Probes\<close>, \<^verbatim>\<open>Machinery_Probes\<close>, \<^verbatim>\<open>Path_Probes\<close> and \<^verbatim>\<open>Implicit_Probes\<close>, those of the test
      suite in \<^verbatim>\<open>Fixture_Programs\<close>.  \<^verbatim>\<open>Probe_Facts\<close>, \<^verbatim>\<open>Handoff_Facts\<close>, \<^verbatim>\<open>Fixture_Facts\<close>: running them.

  \<^bold>\<open>What is shown.\<close>

    \<^item> \<^verbatim>\<open>Depfile_Properties\<close>: the payload decoder accepts the encodings of well-formed records and nothing else;
      a depfile reads back as written; the strict and the tolerant decoder agree where they should, and a
      cut file gives its complete frames; damage and truncation are rejected; both writers write the same bytes,
      both readers return the same records; the order of the records does not matter.
    \<^item> \<^verbatim>\<open>Scope_Properties\<close>: a narrower consumer is served by a wider capture; the interest survives the
      environment; a shim that does not know the variable captures more and never less.
    \<^item> \<^verbatim>\<open>Element_Properties\<close>: the key of a set element is the identity of an observation; the record codec
      of the set; the loss marker makes the depfile incomplete.
    \<^item> \<^verbatim>\<open>Fragment_Properties\<close>: a process killed at any byte of any write leaves a fragment that holds every
      captured record or says that something was lost; a clean exit leaves every record; buffers stay in
      bounds; the waiting loop ends; the slot over its byte cap is used after it was closed, which is a defect
      of the code.
    \<^item> \<^verbatim>\<open>Merge_Properties\<close>: the merge reports no loss exactly when every child, image, peer and channel is
      accounted for; a complete depfile comes only from such a run; observations are kept; a peer counts as
      trusted only with an authentic report; earlier runs do not interfere.
    \<^item> \<^verbatim>\<open>Nested_Properties\<close>: at every call of the handoff the enclosing run has the loss marker or the whole
      evidence; a record handed over is one of the enclosing run.
    \<^item> \<^verbatim>\<open>Pod_Properties\<close>: the open-addressing map refines a finite map and its deletion ends; no table operation
      leaks an allocation or frees one twice; a lookup gives the path written last or none; and the
      set of observed inputs takes the beginning of a stored name for the name, which is a defect of the code.
    \<^item> \<^verbatim>\<open>Forgery_Properties\<close>: a report that a monitored client writes in the name of its peer is rejected when
      the write goes through the C library and trusted when it is made by system calls.
    \<^item> \<^verbatim>\<open>Probe_Properties\<close>, \<^verbatim>\<open>Program_Properties\<close>: what the C programs demonstrate, e.g. that content reaches the
      output while no intercepted call names the file, or that it depends on values that leave no call behind.

  \<^bold>\<open>What the model fixes.\<close>

    \<^item> Answers from outside are part of the state.  A \<open>capture\<close> (\<^verbatim>\<open>Fragment_Slot\<close>) has a list of
      answers for each kind of call (how much a write takes, whether an open succeeds, whether a handle is still
      the shim's); past its end every call succeeds.  \<^verbatim>\<open>Posix\<close> has a schedule of faults, one taken by each call.
      The properties quantify over them, so every error branch is covered.
    \<^item> A \<open>merge_host\<close> (\<^verbatim>\<open>Merge\<close>) has the directory listings with the content of each plain file, the
      environment, the iteration order of hash tables and the number of bytes that can be written.
    \<^item> The loops of the sources are structural recursion, or \<^verbatim>\<open>function\<close> with a measure; a read loop of a probe
      takes as fuel the number of reads that can still return data, which \<^verbatim>\<open>Posix\<close> computes from the state.
    \<^item> Positions and lengths are natural numbers, since no sequence in memory has \<^verbatim>\<open>2^63\<close> bytes; fields keep
      their width, and the conversions that overflow in the source are error values.
    \<^item> The host is a POSIX one where paths matter: the fragment directory is absolute without a trailing
      slash, and \<^verbatim>\<open>extendedPath\<close> is the identity.

  \<^bold>\<open>Not modelled.\<close>

    \<^item> The shims (\<^verbatim>\<open>src/io_mon/shim/\<close>) and \<^verbatim>\<open>hooks\<close>, apart from the tables and the mapping policy above: their
      behaviour is which functions of the process are replaced, a matter of the dynamic linker, of inline
      assembly and of templates expanded per platform.  The development starts from the records they
      hand to the writer.  The locks of the tables are not modelled: each operation is one step.
    \<^item> The shared-memory transport below \<^verbatim>\<open>dep_queue.nim\<close>: the set itself is the package
      \<^verbatim>\<open>shm_gset\<close>, not part of the repository; the attachment of a producer is a call into it.
    \<^item> The launcher and the command line (\<^verbatim>\<open>fs_snoop.nim\<close>, \<^verbatim>\<open>cmd/\<close>), shim discovery, rendering, the Endpoint Security
      backend: processes, system services, and text for people.
    \<^item> Programs of Mach ports, XPC and instruction patching: their subject is the kernel's messages and the
      program's own machine code.  Programs whose point is the interleaving of live threads or of two
      processes that answer each other, and those about symbolic links, which the file system of the
      model does not have.  Programs that print kernel identifiers or floating-point numbers.
    \<^item> Test drivers in Nim, scripts, reports.

  Left for later: the part of the launcher that computes its result from the merged depfile, the
  text of a rendered depfile, and the programs that parse attribute lists of the kernel.
\<close>

end
